(* ===== verification/Prelude.thy ===== *)
theory Prelude
  imports Main "HOL-Library.Word"
begin

text \<open>
  Shared vocabulary of the development: the widths the board code uses, the ways a call can fail
  to return (\<open>fault\<close>), sequencing of calls that may fault, byte buffers with bounds-checked
  access (\<^verbatim>\<open>memcpy\<close>, \<^verbatim>\<open>memset\<close> and pointer reads on a kernel buffer), and the
  big-endian layout of 16 and 32 bit values (the target is a big-endian MIPS:
  \<^verbatim>\<open>CONFIG_CPU_LITTLE_ENDIAN is not set\<close>).
\<close>

unbundle bit_operations_syntax

type_synonym byte = "8 word"
type_synonym u16 = "16 word"
type_synonym u32 = "32 word"

text \<open>The value of a signed 32 bit variable after an assignment: a sum that does not fit wraps, as
  the \<^verbatim>\<open>addu\<close> instruction of the processor does.\<close>

definition int32 :: "int \<Rightarrow> int" where
  "int32 x = sint (of_int x :: u32)"

lemma int32_signed_take_bit: "int32 x = signed_take_bit 31 x"
  by (simp add: int32_def sint_sbintrunc')

lemma int32_id: "- (2 ^ 31) \<le> x \<Longrightarrow> x < 2 ^ 31 \<Longrightarrow> int32 x = x"
  by (simp add: int32_signed_take_bit signed_take_bit_int_eq_self)

lemma int32_add [simp]: "int32 (int32 x + y) = int32 (x + y)" "int32 (y + int32 x) = int32 (y + x)"
  by (simp_all add: int32_def)

lemma int32_0 [simp]: "int32 0 = 0"
  by (simp add: int32_def)

section \<open>Calls that may not return\<close>

text \<open>
  \<open>OutOfBounds\<close>: an access outside the object it was computed from (undefined behaviour in C).
  \<open>Deadlock\<close>: the calling task sleeps on a semaphore that only it would release.
  \<open>Hang\<close>: a polling loop whose exit condition never holds.
  \<open>NullPointer\<close>: a dereference of \<^verbatim>\<open>NULL\<close>.
  \<open>DoubleFree\<close>: a heap block released that is not allocated.
  \<open>Reset\<close>: the code resets the board (\<^verbatim>\<open>kerSysMipsSoftReset\<close>) and the call does not return.
\<close>

datatype fault = OutOfBounds | Deadlock | Hang | NullPointer | DoubleFree | Reset

type_synonym 'a res = "fault + 'a"

definition bindR :: "'a res \<Rightarrow> ('a \<Rightarrow> 'b res) \<Rightarrow> 'b res" where
  "bindR m f = (case m of Inl e \<Rightarrow> Inl e | Inr x \<Rightarrow> f x)"

lemma bindR_simps [simp]: "bindR (Inl e) f = Inl e" "bindR (Inr x) f = f x"
  by (simp_all add: bindR_def)

lemma bindR_Inr_iff: "bindR m f = Inr y \<longleftrightarrow> (\<exists>x. m = Inr x \<and> f x = Inr y)"
  by (cases m) simp_all

lemma bindR_InrE [elim!]:
  assumes "bindR m f = Inr y"
  obtains x where "m = Inr x" "f x = Inr y"
  using assms by (auto simp: bindR_Inr_iff)

lemma bindR_assoc: "bindR (bindR m f) g = bindR m (\<lambda>x. bindR (f x) g)"
  by (cases m) simp_all

lemma bindR_cong [fundef_cong]:
  "m = m' \<Longrightarrow> (\<And>x. m' = Inr x \<Longrightarrow> f x = f' x) \<Longrightarrow> bindR m f = bindR m' f'"
  by (cases m') (simp_all add: bindR_def)

text \<open>\<open>post m P\<close>: if \<open>m\<close> does not fault, its result satisfies \<open>P\<close>. The rules follow the
  shape of a computation.\<close>

definition post :: "'a res \<Rightarrow> ('a \<Rightarrow> bool) \<Rightarrow> bool" where
  "post m P \<longleftrightarrow> (\<forall>x. m = Inr x \<longrightarrow> P x)"

lemma postD: "post m P \<Longrightarrow> m = Inr x \<Longrightarrow> P x"
  by (simp add: post_def)

lemma post_Inr: "P x \<Longrightarrow> post (Inr x) P"
  by (simp add: post_def)

lemma post_Inl: "post (Inl e) P"
  by (simp add: post_def)

lemma post_bindR: "post m Q \<Longrightarrow> (\<And>x. Q x \<Longrightarrow> post (f x) P) \<Longrightarrow> post (bindR m f) P"
  by (cases m) (auto simp: post_def)

lemma post_bind2:
  "post m (\<lambda>(a, s). Q s) \<Longrightarrow> (\<And>a s. Q s \<Longrightarrow> post (f a s) P) \<Longrightarrow> post (bindR m (\<lambda>(a, s). f a s)) P"
  by (cases m) (auto simp: post_def)

lemma post_if: "(b \<Longrightarrow> post x P) \<Longrightarrow> (\<not> b \<Longrightarrow> post y P) \<Longrightarrow> post (if b then x else y) P"
  by simp

section \<open>Byte buffers\<close>

text \<open>\<open>overlay p xs buf\<close> is \<open>buf\<close> with the bytes from index \<open>p\<close> on replaced by \<open>xs\<close>.\<close>

definition overlay :: "nat \<Rightarrow> 'a list \<Rightarrow> 'a list \<Rightarrow> 'a list" where
  "overlay p xs buf = take p buf @ xs @ drop (p + length xs) buf"

definition slice :: "nat \<Rightarrow> nat \<Rightarrow> 'a list \<Rightarrow> 'a list" where
  "slice p n buf = take n (drop p buf)"

lemma length_overlay [simp]:
  "p + length xs \<le> length buf \<Longrightarrow> length (overlay p xs buf) = length buf"
  by (simp add: overlay_def)

lemma length_slice [simp]: "p + n \<le> length buf \<Longrightarrow> length (slice p n buf) = n"
  by (simp add: slice_def)

lemma overlay_Nil [simp]: "overlay p [] buf = buf"
  by (simp add: overlay_def)

lemma slice_zero [simp]: "slice p 0 buf = []"
  by (simp add: slice_def)

lemma nth_overlay:
  assumes "p + length xs \<le> length buf" and "i < length buf"
  shows "overlay p xs buf ! i = (if p \<le> i \<and> i < p + length xs then xs ! (i - p) else buf ! i)"
  using assms by (auto simp: overlay_def nth_append min_def not_less add.commute)

lemma nth_slice: "p + n \<le> length buf \<Longrightarrow> i < n \<Longrightarrow> slice p n buf ! i = buf ! (p + i)"
  by (simp add: slice_def)

lemma slice_overlay_same:
  "p + length xs \<le> length buf \<Longrightarrow> slice p (length xs) (overlay p xs buf) = xs"
  by (simp add: slice_def overlay_def)

lemma slice_overlay_inner:
  assumes "p + length xs \<le> length buf" and "p \<le> q" and "q + n \<le> p + length xs"
  shows "slice q n (overlay p xs buf) = slice (q - p) n xs"
  by (rule nth_equalityI) (use assms in \<open>auto simp: nth_slice nth_overlay\<close>)

lemma slice_overlay_disjoint:
  assumes "p + length xs \<le> length buf" and "q + n \<le> length buf"
    and "q + n \<le> p \<or> p + length xs \<le> q"
  shows "slice q n (overlay p xs buf) = slice q n buf"
  by (rule nth_equalityI) (use assms in \<open>auto simp: nth_slice nth_overlay\<close>)

lemma overlay_overlay_same:
  assumes "p + length xs \<le> length buf" and "length ys = length xs"
  shows "overlay p ys (overlay p xs buf) = overlay p ys buf"
  by (rule nth_equalityI) (use assms in \<open>auto simp: nth_overlay\<close>)

lemma overlay_slice:
  assumes "p + n \<le> length buf" shows "overlay p (slice p n buf) buf = buf"
  by (rule nth_equalityI) (use assms in \<open>auto simp: nth_slice nth_overlay\<close>)

lemma overlay_slice_overlay:
  assumes "p + n \<le> length buf" "q + length xs \<le> n"
  shows "overlay p (overlay q xs (slice p n buf)) buf = overlay (p + q) xs buf"
  by (rule nth_equalityI) (use assms in \<open>auto simp: nth_slice nth_overlay\<close>)

lemma slice_slice:
  assumes "q + n \<le> m" and "p + m \<le> length buf"
  shows "slice q n (slice p m buf) = slice (p + q) n buf"
  by (rule nth_equalityI) (use assms in \<open>auto simp: nth_slice add.assoc\<close>)

lemma slice_append_adjacent:
  "slice p n buf @ slice (p + n) m buf = slice p (n + m) buf"
  unfolding slice_def take_add drop_drop by (simp add: add.commute)

lemma overlay_append_adjacent:
  assumes "p + length xs + length ys \<le> length buf"
  shows "overlay (p + length xs) ys (overlay p xs buf) = overlay p (xs @ ys) buf"
  by (rule nth_equalityI) (use assms in \<open>auto simp: nth_overlay nth_append\<close>)

lemma slice_split: "off + n \<le> length buf \<Longrightarrow> buf = take off buf @ slice off n buf @ drop (off + n) buf"
  unfolding slice_def by (metis append_take_drop_id drop_drop add.commute)

lemma overlay_split:
  "off + n \<le> length buf \<Longrightarrow> length ys = n \<Longrightarrow> take off buf @ ys @ drop (off + n) buf = overlay off ys buf"
  by (simp add: overlay_def)

lemma slice_all [simp]: "slice 0 (length buf) buf = buf"
  by (simp add: slice_def)

text \<open>
  Reading and writing through a pointer at index \<open>p\<close> of the buffer. A length that is negative as an
  \<^verbatim>\<open>int\<close> becomes a huge \<^verbatim>\<open>size_t\<close>; a zero length touches nothing.
\<close>

definition mem_rd :: "'a list \<Rightarrow> int \<Rightarrow> int \<Rightarrow> 'a list res" where
  "mem_rd buf p n =
     (if n = 0 then Inr []
      else if 0 \<le> p \<and> 0 < n \<and> p + n \<le> int (length buf) then Inr (slice (nat p) (nat n) buf)
      else Inl OutOfBounds)"

definition mem_wr :: "'a list \<Rightarrow> int \<Rightarrow> 'a list \<Rightarrow> 'a list res" where
  "mem_wr buf p xs =
     (if xs = [] then Inr buf
      else if 0 \<le> p \<and> p + int (length xs) \<le> int (length buf) then Inr (overlay (nat p) xs buf)
      else Inl OutOfBounds)"

definition mem_set :: "'a list \<Rightarrow> int \<Rightarrow> 'a \<Rightarrow> int \<Rightarrow> 'a list res" where
  "mem_set buf p c n = (if n < 0 then Inl OutOfBounds else mem_wr buf p (replicate (nat n) c))"

lemma mem_rd_ok [simp]:
  "p + n \<le> length buf \<Longrightarrow> mem_rd buf (int p) (int n) = Inr (slice p n buf)"
  by (auto simp: mem_rd_def)

lemma mem_wr_ok [simp]:
  "p + length xs \<le> length buf \<Longrightarrow> mem_wr buf (int p) xs = Inr (overlay p xs buf)"
  by (auto simp: mem_wr_def)

lemma mem_rd_beyond:
  "0 < n \<Longrightarrow> int (length buf) < p + n \<Longrightarrow> mem_rd buf p n = Inl OutOfBounds"
  by (simp add: mem_rd_def)

lemma mem_wr_beyond:
  "xs \<noteq> [] \<Longrightarrow> int (length buf) < p + int (length xs) \<Longrightarrow> mem_wr buf p xs = Inl OutOfBounds"
  by (simp add: mem_wr_def)

lemma mem_wr_length: "mem_wr buf p xs = Inr buf' \<Longrightarrow> length buf' = length buf"
  by (auto simp: mem_wr_def split: if_splits)

lemma mem_rd_length: "mem_rd buf p n = Inr xs \<Longrightarrow> int (length xs) = n"
  by (auto simp: mem_rd_def split: if_splits)

section \<open>Sums of sizes\<close>

text \<open>A device or a table is a list of sizes; entry \<open>k\<close> starts at the sum of the entries before it.\<close>

abbreviation sector_start :: "nat list \<Rightarrow> nat \<Rightarrow> nat" where
  "sector_start sects k \<equiv> sum_list (take k sects)"

lemma dvd_sum_list: "(\<And>n. n \<in> set ns \<Longrightarrow> d dvd n) \<Longrightarrow> d dvd sum_list (ns :: nat list)"
  by (induction ns) auto

lemma sector_start_le: "sector_start sects k \<le> sum_list sects"
  by (metis append_take_drop_id le_add1 sum_list_append)

lemma sector_start_Suc: "k < length sects \<Longrightarrow> sector_start sects (Suc k) = sector_start sects k + sects ! k"
  by (simp add: take_Suc_conv_app_nth)

lemma sector_end_le: "k < length sects \<Longrightarrow> sector_start sects k + sects ! k \<le> sum_list sects"
  using sector_start_le[of "Suc k" sects] by (simp add: sector_start_Suc)

text \<open>The size of \<open>n\<close> entries from \<open>a\<close> on.\<close>

abbreviation span :: "nat list \<Rightarrow> nat \<Rightarrow> nat \<Rightarrow> nat" where
  "span sects a n \<equiv> sum_list (take n (drop a sects))"

lemma sector_start_span: "sector_start sects (a + n) = sector_start sects a + span sects a n"
  by (simp add: take_add)

lemma span_Suc: "a < length sects \<Longrightarrow> span sects a (Suc n) = sects ! a + span sects (Suc a) n"
  by (simp add: Cons_nth_drop_Suc[symmetric])

lemma span_end_le: "sector_start sects a + span sects a n \<le> sum_list sects"
  using sector_start_le[of "a + n" sects] by (simp add: sector_start_span)

text \<open>The entry that holds a given offset.\<close>

fun sector_of :: "nat list \<Rightarrow> nat \<Rightarrow> nat" where
  "sector_of [] a = 0"
| "sector_of (n # ns) a = (if a < n then 0 else Suc (sector_of ns (a - n)))"

lemma sector_of_bounds:
  "a < sum_list sects \<Longrightarrow> sector_of sects a < length sects
     \<and> sector_start sects (sector_of sects a) \<le> a
     \<and> a < sector_start sects (sector_of sects a) + sects ! sector_of sects a"
proof (induction sects arbitrary: a)
  case (Cons n ns)
  show ?case
  proof (cases "a < n")
    case False
    hence "a - n < sum_list ns" using Cons.prems by simp
    from Cons.IH[OF this] False show ?thesis by auto
  qed simp
qed simp

lemma sector_of_unique:
  assumes "k < length sects" "sector_start sects k \<le> a" "a < sector_start sects k + sects ! k"
  shows "sector_of sects a = k"
  using assms
proof (induction sects arbitrary: a k)
  case (Cons n ns)
  show ?case
  proof (cases k)
    case (Suc j)
    have "sector_of ns (a - n) = j" by (rule Cons.IH) (use Cons.prems Suc in auto)
    thus ?thesis using Cons.prems Suc by auto
  qed (use Cons.prems in auto)
qed simp

lemma sector_start_mono: "i \<le> j \<Longrightarrow> sector_start sects i \<le> sector_start sects j"
  by (metis le_add1 le_iff_add sector_start_span)

lemma span_diff: "j \<le> nxt \<Longrightarrow> span sects j (nxt - j) = sector_start sects nxt - sector_start sects j"
  using sector_start_span[of j "nxt - j" sects] by simp

lemma sector_of_below:
  assumes "a < sector_start sects next"
  shows "sector_of sects a < next"
proof (rule ccontr)
  assume "\<not> ?thesis"
  hence "sector_start sects next \<le> sector_start sects (sector_of sects a)" by (intro sector_start_mono) simp
  moreover have "a < sum_list sects" using assms sector_start_le[of "next" sects] by linarith
  ultimately show False using sector_of_bounds[of a sects] assms by linarith
qed

section \<open>Big-endian halves and words\<close>

definition be16 :: "byte \<Rightarrow> byte \<Rightarrow> u16" where
  "be16 h l = push_bit 8 (ucast h) OR ucast l"

definition hi8 :: "u16 \<Rightarrow> byte" where
  "hi8 w = ucast (drop_bit 8 w)"

definition lo8 :: "u16 \<Rightarrow> byte" where
  "lo8 w = ucast w"

lemma hi8_be16 [simp]: "hi8 (be16 h l) = h"
  by (rule bit_word_eqI) (auto simp: hi8_def be16_def bit_simps dest: bit_imp_le_length)

lemma lo8_be16 [simp]: "lo8 (be16 h l) = l"
  by (rule bit_word_eqI) (auto simp: lo8_def be16_def bit_simps)

lemma be16_hi8_lo8 [simp]: "be16 (hi8 w) (lo8 w) = w"
  by (rule bit_word_eqI) (auto simp: hi8_def lo8_def be16_def bit_simps)

lemma be16_ones [simp]: "be16 0xFF 0xFF = 0xFFFF"
  by (simp add: be16_def)

definition be32 :: "byte list \<Rightarrow> u32" where
  "be32 bs = (case bs of [a, b, c, d] \<Rightarrow>
      push_bit 24 (ucast a) OR push_bit 16 (ucast b) OR push_bit 8 (ucast c) OR ucast d
    | _ \<Rightarrow> 0)"

definition be32_bytes :: "u32 \<Rightarrow> byte list" where
  "be32_bytes w = [ucast (drop_bit 24 w), ucast (drop_bit 16 w), ucast (drop_bit 8 w), ucast w]"

lemma length_be32_bytes [simp]: "length (be32_bytes w) = 4"
  by (simp add: be32_bytes_def)

lemma be32_be32_bytes [simp]: "be32 (be32_bytes w) = w"
proof (rule bit_word_eqI)
  fix n :: nat
  assume n: "n < LENGTH(32)"
  consider "n < 8" | "8 \<le> n \<and> n < 16" | "16 \<le> n \<and> n < 24" | "24 \<le> n" by linarith
  then show "bit (be32 (be32_bytes w)) n = bit w n"
    using n by cases (auto simp: be32_def be32_bytes_def bit_simps)
qed

end
