(* ===== verification/Crc32.thy ===== *)
theory Crc32
  imports Prelude
begin

text \<open>
  The CRC-32 that protects the NVRAM block and the image tags: the table of
  \<^verbatim>\<open>src/shared/opensource/include/bcm963xx/bcmTag.h\<close> and \<^verbatim>\<open>getCrc32\<close> of
  \<^verbatim>\<open>bcm63xx_flash.c\<close>. The table-driven loop is proved equal to the bitwise reflected CRC
  with polynomial \<open>0xEDB88320\<close>; chaining over split buffers and detection of any corruption
  confined to one byte follow.
\<close>

section \<open>The code\<close>

definition Crc32_table :: "u32 list" where
  "Crc32_table =
  [0x00000000, 0x77073096, 0xEE0E612C, 0x990951BA, 0x076DC419, 0x706AF48F, 0xE963A535, 0x9E6495A3,
   0x0EDB8832, 0x79DCB8A4, 0xE0D5E91E, 0x97D2D988, 0x09B64C2B, 0x7EB17CBD, 0xE7B82D07, 0x90BF1D91,
   0x1DB71064, 0x6AB020F2, 0xF3B97148, 0x84BE41DE, 0x1ADAD47D, 0x6DDDE4EB, 0xF4D4B551, 0x83D385C7,
   0x136C9856, 0x646BA8C0, 0xFD62F97A, 0x8A65C9EC, 0x14015C4F, 0x63066CD9, 0xFA0F3D63, 0x8D080DF5,
   0x3B6E20C8, 0x4C69105E, 0xD56041E4, 0xA2677172, 0x3C03E4D1, 0x4B04D447, 0xD20D85FD, 0xA50AB56B,
   0x35B5A8FA, 0x42B2986C, 0xDBBBC9D6, 0xACBCF940, 0x32D86CE3, 0x45DF5C75, 0xDCD60DCF, 0xABD13D59,
   0x26D930AC, 0x51DE003A, 0xC8D75180, 0xBFD06116, 0x21B4F4B5, 0x56B3C423, 0xCFBA9599, 0xB8BDA50F,
   0x2802B89E, 0x5F058808, 0xC60CD9B2, 0xB10BE924, 0x2F6F7C87, 0x58684C11, 0xC1611DAB, 0xB6662D3D,
   0x76DC4190, 0x01DB7106, 0x98D220BC, 0xEFD5102A, 0x71B18589, 0x06B6B51F, 0x9FBFE4A5, 0xE8B8D433,
   0x7807C9A2, 0x0F00F934, 0x9609A88E, 0xE10E9818, 0x7F6A0DBB, 0x086D3D2D, 0x91646C97, 0xE6635C01,
   0x6B6B51F4, 0x1C6C6162, 0x856530D8, 0xF262004E, 0x6C0695ED, 0x1B01A57B, 0x8208F4C1, 0xF50FC457,
   0x65B0D9C6, 0x12B7E950, 0x8BBEB8EA, 0xFCB9887C, 0x62DD1DDF, 0x15DA2D49, 0x8CD37CF3, 0xFBD44C65,
   0x4DB26158, 0x3AB551CE, 0xA3BC0074, 0xD4BB30E2, 0x4ADFA541, 0x3DD895D7, 0xA4D1C46D, 0xD3D6F4FB,
   0x4369E96A, 0x346ED9FC, 0xAD678846, 0xDA60B8D0, 0x44042D73, 0x33031DE5, 0xAA0A4C5F, 0xDD0D7CC9,
   0x5005713C, 0x270241AA, 0xBE0B1010, 0xC90C2086, 0x5768B525, 0x206F85B3, 0xB966D409, 0xCE61E49F,
   0x5EDEF90E, 0x29D9C998, 0xB0D09822, 0xC7D7A8B4, 0x59B33D17, 0x2EB40D81, 0xB7BD5C3B, 0xC0BA6CAD,
   0xEDB88320, 0x9ABFB3B6, 0x03B6E20C, 0x74B1D29A, 0xEAD54739, 0x9DD277AF, 0x04DB2615, 0x73DC1683,
   0xE3630B12, 0x94643B84, 0x0D6D6A3E, 0x7A6A5AA8, 0xE40ECF0B, 0x9309FF9D, 0x0A00AE27, 0x7D079EB1,
   0xF00F9344, 0x8708A3D2, 0x1E01F268, 0x6906C2FE, 0xF762575D, 0x806567CB, 0x196C3671, 0x6E6B06E7,
   0xFED41B76, 0x89D32BE0, 0x10DA7A5A, 0x67DD4ACC, 0xF9B9DF6F, 0x8EBEEFF9, 0x17B7BE43, 0x60B08ED5,
   0xD6D6A3E8, 0xA1D1937E, 0x38D8C2C4, 0x4FDFF252, 0xD1BB67F1, 0xA6BC5767, 0x3FB506DD, 0x48B2364B,
   0xD80D2BDA, 0xAF0A1B4C, 0x36034AF6, 0x41047A60, 0xDF60EFC3, 0xA867DF55, 0x316E8EEF, 0x4669BE79,
   0xCB61B38C, 0xBC66831A, 0x256FD2A0, 0x5268E236, 0xCC0C7795, 0xBB0B4703, 0x220216B9, 0x5505262F,
   0xC5BA3BBE, 0xB2BD0B28, 0x2BB45A92, 0x5CB36A04, 0xC2D7FFA7, 0xB5D0CF31, 0x2CD99E8B, 0x5BDEAE1D,
   0x9B64C2B0, 0xEC63F226, 0x756AA39C, 0x026D930A, 0x9C0906A9, 0xEB0E363F, 0x72076785, 0x05005713,
   0x95BF4A82, 0xE2B87A14, 0x7BB12BAE, 0x0CB61B38, 0x92D28E9B, 0xE5D5BE0D, 0x7CDCEFB7, 0x0BDBDF21,
   0x86D3D2D4, 0xF1D4E242, 0x68DDB3F8, 0x1FDA836E, 0x81BE16CD, 0xF6B9265B, 0x6FB077E1, 0x18B74777,
   0x88085AE6, 0xFF0F6A70, 0x66063BCA, 0x11010B5C, 0x8F659EFF, 0xF862AE69, 0x616BFFD3, 0x166CCF45,
   0xA00AE278, 0xD70DD2EE, 0x4E048354, 0x3903B3C2, 0xA7672661, 0xD06016F7, 0x4969474D, 0x3E6E77DB,
   0xAED16A4A, 0xD9D65ADC, 0x40DF0B66, 0x37D83BF0, 0xA9BCAE53, 0xDEBB9EC5, 0x47B2CF7F, 0x30B5FFE9,
   0xBDBDF21C, 0xCABAC28A, 0x53B39330, 0x24B4A3A6, 0xBAD03605, 0xCDD70693, 0x54DE5729, 0x23D967BF,
   0xB3667A2E, 0xC4614AB8, 0x5D681B02, 0x2A6F2B94, 0xB40BBE37, 0xC30C8EA1, 0x5A05DF1B, 0x2D02EF8D]"

definition CRC32_INIT_VALUE :: u32 where
  "CRC32_INIT_VALUE = 0xffffffff"

text \<open>\<^verbatim>\<open>getCrc32(pdata, size, crc)\<close>: \<open>pdata\<close> is the memory from the pointer on.\<close>

fun getCrc32 :: "byte list \<Rightarrow> nat \<Rightarrow> u32 \<Rightarrow> u32 res" where
  "getCrc32 pdata 0 crc = Inr crc"
| "getCrc32 [] (Suc n) crc = Inl OutOfBounds"
| "getCrc32 (b # pdata) (Suc n) crc =
     getCrc32 pdata n (drop_bit 8 crc XOR Crc32_table ! unat ((crc XOR ucast b) AND 0xff))"

section \<open>The bitwise CRC it implements\<close>

definition crc_bit :: "u32 \<Rightarrow> u32" where
  "crc_bit c = (if bit c 0 then drop_bit 1 c XOR 0xEDB88320 else drop_bit 1 c)"

definition crc_byte :: "u32 \<Rightarrow> byte \<Rightarrow> u32" where
  "crc_byte c b = (crc_bit ^^ 8) (c XOR ucast b)"

definition crc_ref :: "byte list \<Rightarrow> u32 \<Rightarrow> u32" where
  "crc_ref bs c = foldl crc_byte c bs"

text \<open>Up to four bytes enter the register as one little-endian word.\<close>

fun le_word :: "byte list \<Rightarrow> u32" where
  "le_word [] = 0"
| "le_word (b # bs) = ucast b XOR push_bit 8 (le_word bs)"

text \<open>The table satisfies two recurrences, on its even and its odd entries.\<close>

fun evens :: "'a list \<Rightarrow> 'a list" where
  "evens (x # y # zs) = x # evens zs" | "evens zs = zs"

fun odds :: "'a list \<Rightarrow> 'a list" where
  "odds (x # y # zs) = y # odds zs" | "odds zs = []"

section \<open>The table\<close>

lemma crc_bit_num: "crc_bit c = (if odd c then drop_bit 1 c XOR 0xEDB88320 else drop_bit 1 c)"
  by (simp add: crc_bit_def bit_0)

lemma table_odds: "odds Crc32_table = map (\<lambda>x. x XOR 0x77073096) (evens Crc32_table)"
  by (simp add: Crc32_table_def)
lemma table_evens: "take 128 Crc32_table = map crc_bit (evens Crc32_table)"
  by (simp add: Crc32_table_def crc_bit_num)


lemma crc_bit_31: "bit (crc_bit x) 31 = odd x"
  using bit_imp_le_length[of x 32] by (auto simp: crc_bit_num bit_simps bit_0) 

lemma crc_bit_xor: "crc_bit (x XOR y) = crc_bit x XOR crc_bit y"
  by (auto simp: crc_bit_num even_xor_iff bit_eq_iff bit_simps)

lemma xor_right_cancel: "(a::u32) XOR k = b XOR k \<Longrightarrow> a = b"
  by (metis xor.assoc xor_self_eq xor.right_neutral)

lemma crc_bit_inj: assumes a: "crc_bit x = crc_bit y" shows "x = y"
proof -
  have o: "odd x = odd y" using a crc_bit_31[of x] crc_bit_31[of y] by simp
  have "drop_bit 1 x = drop_bit 1 y" using a o 
    by (auto simp: crc_bit_num dest: xor_right_cancel split: if_splits)
  hence d: "bit (drop_bit 1 x) n = bit (drop_bit 1 y) n" for n by simp
  have "bit x n = bit y n" for n
    using o d[of "n - 1"] by (cases n) (auto simp: bit_0 bit_simps)
  thus ?thesis by (simp add: bit_eq_iff)
qed

lemma crc_bits_xor: "(crc_bit ^^ n) (x XOR y) = (crc_bit ^^ n) x XOR (crc_bit ^^ n) y"
  by (induction n) (simp_all add: crc_bit_xor)

lemma crc_bits_inj: "(crc_bit ^^ n) x = (crc_bit ^^ n) y \<Longrightarrow> x = y"
  by (induction n) (auto dest: crc_bit_inj)

lemma crc_bit_even: "even x \<Longrightarrow> crc_bit x = drop_bit 1 x"
  by (simp add: crc_bit_num)

lemma crc_bits_low_zero: "take_bit n x = 0 \<Longrightarrow> (crc_bit ^^ n) x = drop_bit n x"
proof (induction n)
  case 0 thus ?case by simp
next
  case (Suc n)
  have t: "take_bit n x = 0" using Suc.prems by (auto simp: bit_eq_iff bit_simps) 
  have "\<not> bit (take_bit (Suc n) x) n" using Suc.prems by simp
  hence "\<not> bit (drop_bit n x) 0" by (auto simp: bit_simps dest: bit_imp_le_length)
  hence "even (drop_bit n x)" by (simp add: bit_0)
  thus ?case using Suc.IH[OF t] by (simp add: crc_bit_even)
qed

lemma evens_nth: "2 * i < length xs \<Longrightarrow> evens xs ! i = xs ! (2 * i)"
  by (induction xs arbitrary: i rule: evens.induct) (auto simp: nth_Cons split: nat.split)
lemma length_evens: "even (length xs) \<Longrightarrow> length (evens xs) = length xs div 2"
  by (induction xs rule: evens.induct) auto
lemma odds_nth: "2 * i + 1 < length xs \<Longrightarrow> odds xs ! i = xs ! (2 * i + 1)"
  by (induction xs arbitrary: i rule: odds.induct) (auto simp: nth_Cons split: nat.split)

lemma Crc32_table_length: "length Crc32_table = 256" by (simp add: Crc32_table_def)

lemma table_step: assumes "i < 128" 
  shows "crc_bit (Crc32_table ! (2 * i)) = Crc32_table ! i"
    and "Crc32_table ! (2 * i + 1) = Crc32_table ! (2 * i) XOR 0x77073096"
proof -
  have l: "length (evens Crc32_table) = 128" by (simp add: length_evens Crc32_table_length)
  have "crc_bit (evens Crc32_table ! i) = take 128 Crc32_table ! i"
    using assms l by (simp add: table_evens)
  thus "crc_bit (Crc32_table ! (2 * i)) = Crc32_table ! i" 
    using assms by (simp add: evens_nth Crc32_table_length)
  have "odds Crc32_table ! i = evens Crc32_table ! i XOR 0x77073096"
    using assms l by (simp add: table_odds)
  thus "Crc32_table ! (2 * i + 1) = Crc32_table ! (2 * i) XOR 0x77073096"
    using assms odds_nth[of i Crc32_table] evens_nth[of i Crc32_table] by (simp add: Crc32_table_length)
qed

lemma funpow_8: "(f ^^ 8) x = f (f (f (f (f (f (f (f x)))))))"
  by (simp add: eval_nat_numeral)
lemma table_base: "(crc_bit ^^ 8) 1 = 0x77073096"
  by (simp add: crc_bit_num funpow_8)

lemma of_nat_xor_1: "of_nat (2 * i + 1) = (of_nat (2 * i) XOR 1 :: u32)"
  by (simp add: xor_one_eq)

lemma crc_bit_double: "i < 128 \<Longrightarrow> crc_bit (of_nat (2 * i)) = of_nat i"
proof -
  assume i: "i < 128"
  have "drop_bit 1 (of_nat (2 * i) :: u32) = of_nat i"
    using i by (simp add: drop_bit_eq_div word_unat_eq_iff unat_div_distrib unat_word_ariths unat_of_nat)
  moreover have "even (of_nat (2 * i) :: u32)" by simp
  ultimately show ?thesis by (simp only: crc_bit_even)
qed

lemma Crc32_table_nth: "i < 256 \<Longrightarrow> Crc32_table ! i = (crc_bit ^^ 8) (of_nat i)"
proof (induction i rule: less_induct)
  case (less i)
  have half: "Crc32_table ! (2 * j) = (crc_bit ^^ 8) (of_nat (2 * j))" if "2 * j \<le> i" for j
  proof (cases "j = 0")
    case True
    have "(crc_bit ^^ 8) 0 = 0" by (simp add: crc_bits_low_zero)
    thus ?thesis using True by (simp add: Crc32_table_def)
  next
    case False
    hence j: "j < 128" "j < i" using that less.prems by auto
    have "crc_bit (Crc32_table ! (2 * j)) = (crc_bit ^^ 8) (crc_bit (of_nat (2 * j)))"
      using table_step(1)[OF j(1)] less.IH[OF j(2)] j crc_bit_double[OF j(1)] by simp
    also have "\<dots> = crc_bit ((crc_bit ^^ 8) (of_nat (2 * j)))" by (rule funpow_swap1 [symmetric])
    finally show ?thesis by (rule crc_bit_inj)
  qed
  show ?case
  proof (cases "even i")
    case True thus ?thesis using half[of "i div 2"] by simp
  next
    case False
    then obtain j where j: "i = 2 * j + 1" by (auto elim: oddE)
    have "Crc32_table ! i = (crc_bit ^^ 8) (of_nat (2 * j)) XOR (crc_bit ^^ 8) 1"
      using table_step(2)[of j] half[of j] less.prems j table_base by simp
    thus ?thesis unfolding j of_nat_xor_1 crc_bits_xor .
  qed
qed


lemma Crc32_step:
  "drop_bit 8 x XOR Crc32_table ! unat (x AND 0xff) = (crc_bit ^^ 8) x"
proof -
  have lo: "x AND 0xff = take_bit 8 x"
    by (simp add: take_bit_eq_mask mask_numeral)
  have i: "unat (x AND 0xff) < 256"
    unfolding lo unsigned_take_bit_eq by (simp add: take_bit_eq_mod)
  have d: "x = push_bit 8 (drop_bit 8 x) XOR take_bit 8 x"
    by (rule bit_eqI) (auto simp: bit_simps)
  have "take_bit 8 (push_bit 8 (drop_bit 8 x)) = 0"
    by (rule bit_eqI) (auto simp: bit_simps)
  moreover have "drop_bit 8 (push_bit 8 (drop_bit 8 x)) = drop_bit 8 x"
    using bit_imp_le_length[of x] by (intro bit_eqI) (fastforce simp: bit_simps)
  ultimately have h: "(crc_bit ^^ 8) (push_bit 8 (drop_bit 8 x)) = drop_bit 8 x"
    by (simp add: crc_bits_low_zero)
  have "(crc_bit ^^ 8) x
      = (crc_bit ^^ 8) (push_bit 8 (drop_bit 8 x)) XOR (crc_bit ^^ 8) (take_bit 8 x)"
    by (subst d) (rule crc_bits_xor)
  thus ?thesis using Crc32_table_nth[OF i] h lo by simp
qed

lemma getCrc32_eq:
  "getCrc32 pdata n crc = (if n \<le> length pdata then Inr (crc_ref (take n pdata) crc) else Inl OutOfBounds)"
proof (induction pdata n crc rule: getCrc32.induct)
  case (3 b pdata n crc)
  have "drop_bit 8 (crc XOR ucast b) = drop_bit 8 crc"
    by (rule bit_eqI) (auto simp: bit_simps dest: bit_imp_le_length)
  hence "drop_bit 8 crc XOR Crc32_table ! unat ((crc XOR ucast b) AND 0xff) = crc_byte crc b"
    using Crc32_step[of "crc XOR ucast b"] by (simp add: crc_byte_def)
  with 3 show ?case by (simp add: crc_ref_def)
qed (simp_all add: crc_ref_def)

lemma crc_ref_append: "crc_ref (xs @ ys) c = crc_ref ys (crc_ref xs c)"
  by (simp add: crc_ref_def)

lemma crc_byte_inj: "crc_byte c b = crc_byte c' b \<Longrightarrow> c = c'"
  unfolding crc_byte_def by (drule crc_bits_inj) (rule xor_right_cancel)

lemma crc_ref_inj: "crc_ref bs c = crc_ref bs c' \<Longrightarrow> c = c'"
  by (induction bs rule: rev_induct) (auto simp: crc_ref_def dest: crc_byte_inj)

lemma bit_le_word:
  "bit (le_word bs) n \<longleftrightarrow> n < 32 \<and> n div 8 < length bs \<and> bit (bs ! (n div 8)) (n mod 8)"
proof (induction bs arbitrary: n)
  case (Cons b bs)
  show ?case
  proof (cases "n < 8")
    case True thus ?thesis by (auto simp: bit_simps)
  next
    case False
    hence "n div 8 = Suc ((n - 8) div 8)" "n mod 8 = (n - 8) mod 8"
      by (simp_all add: le_div_geq le_mod_geq)
    thus ?thesis using False Cons.IH[of "n - 8"]
      by (auto simp: bit_simps dest: bit_imp_le_length)
  qed
qed simp

lemma le_word_inj:
  assumes "length xs = length ys" "length xs \<le> 4" "le_word xs = le_word ys"
  shows "xs = ys"
proof (rule nth_equalityI[OF assms(1)])
  fix i assume i: "i < length xs"
  show "xs ! i = ys ! i"
  proof (rule bit_eqI)
    fix n assume "possible_bit TYPE(byte) n"
    hence n: "n < 8" by simp
    have "bit (le_word xs) (8 * i + n) = bit (le_word ys) (8 * i + n)" using assms(3) by simp
    thus "bit (xs ! i) n = bit (ys ! i) n"
      using i n assms(1,2) by (simp add: bit_le_word)
  qed
qed

lemma crc_ref_le_word:
  "length bs \<le> 4 \<Longrightarrow> crc_ref bs c = (crc_bit ^^ (8 * length bs)) (c XOR le_word bs)"
proof (induction bs arbitrary: c)
  case (Cons b bs)
  define w where "w = le_word bs"
  have "take_bit 8 (push_bit 8 w) = 0" by (rule bit_eqI) (auto simp: bit_simps)
  moreover have "drop_bit 8 (push_bit 8 w) = w"
  proof (rule bit_eqI)
    fix n
    have "bit w n \<Longrightarrow> n < 24" using Cons.prems by (auto simp: w_def bit_le_word)
    thus "bit (drop_bit 8 (push_bit 8 w)) n = bit w n" by (auto simp: bit_simps)
  qed
  ultimately have p: "(crc_bit ^^ 8) (push_bit 8 w) = w" by (simp add: crc_bits_low_zero)
  have "crc_ref (b # bs) c = (crc_bit ^^ (8 * length bs)) (crc_byte c b XOR w)"
    using Cons by (simp add: crc_ref_def w_def)
  also have "crc_byte c b XOR w = (crc_bit ^^ 8) ((c XOR ucast b) XOR push_bit 8 w)"
    by (simp only: crc_bits_xor p crc_byte_def)
  also have "(crc_bit ^^ (8 * length bs)) \<dots> = (crc_bit ^^ (8 * length (b # bs))) (c XOR le_word (b # bs))"
    by (simp add: add.commute[of 8] funpow_add w_def xor.assoc)
  finally show ?case .
qed (simp add: crc_ref_def)

lemma crc_ref_burst:
  assumes "length xs = length ys" "length xs \<le> 4" "crc_ref (pfx @ xs @ sfx) c = crc_ref (pfx @ ys @ sfx) c"
  shows "xs = ys"
proof -
  have "crc_ref xs (crc_ref pfx c) = crc_ref ys (crc_ref pfx c)"
    using assms(3) by (auto simp: crc_ref_append dest: crc_ref_inj)
  hence "crc_ref pfx c XOR le_word xs = crc_ref pfx c XOR le_word ys"
    using assms(1,2) by (auto simp: crc_ref_le_word dest: crc_bits_inj)
  hence "le_word xs = le_word ys" by (metis xor.commute xor_right_cancel)
  thus ?thesis using le_word_inj assms by blast
qed

section \<open>Properties\<close>

text \<open>C7: the table-driven \<^verbatim>\<open>getCrc32\<close> returns, for every buffer, size and start value, the
  bitwise reflected CRC-32 of the first \<open>n\<close> bytes; it leaves the buffer exactly when the size
  exceeds it.\<close>

theorem getCrc32_is_crc:
  "getCrc32 pdata n crc =
     (if n \<le> length pdata then Inr (crc_ref (take n pdata) crc) else Inl OutOfBounds)"
  by (rule getCrc32_eq)

text \<open>C16: corruption confined to at most four consecutive bytes always changes the CRC, so the
  check of a stored CRC never accepts such a block.\<close>

theorem getCrc32_detects_burst:
  assumes "length xs = length ys" "length xs \<le> 4" "xs \<noteq> ys"
    and "n = length (pfx @ xs @ sfx)"
  shows "getCrc32 (pfx @ xs @ sfx) n c \<noteq> getCrc32 (pfx @ ys @ sfx) n c"
  using assms crc_ref_burst[of xs ys pfx sfx c] by (auto simp: getCrc32_eq)

theorem getCrc32_detects_burst_witness:
  "getCrc32 ([9] @ [0, 1] @ [7]) 4 CRC32_INIT_VALUE \<noteq> getCrc32 ([9] @ [0, 2] @ [7]) 4 CRC32_INIT_VALUE"
  by (rule getCrc32_detects_burst) simp_all

end
