(* ===== verification/Flash_Api.thy ===== *)
theory Flash_Api
  imports Prelude
begin

text \<open>
  The flash interface of \<^verbatim>\<open>src/shared/opensource/flash/flash_api.c\<close> and
  \<^verbatim>\<open>flash_api.h\<close>: the structure of function pointers a driver provides, and the wrappers
  that go through the global pointer \<open>g_flash_info\<close>. A driver operation acts on the driver's own
  state \<open>'s\<close>. A buffer argument is the memory from the pointer on; a read returns the bytes it
  stores into the buffer.

  The locale \<open>flash_device\<close> is the contract between a driver and its clients: the device is a
  flat array of bytes (\<open>content\<close>) divided into sectors (\<open>sects\<close>, their sizes); reads see the
  array, an erase fills one sector with \<open>0xff\<close>, and a write into erased bytes stores them.
\<close>

section \<open>The driver interface\<close>

abbreviation (input) FLASH_API_OK :: int where "FLASH_API_OK \<equiv> 1"
abbreviation (input) FLASH_API_ERROR :: int where "FLASH_API_ERROR \<equiv> -1"

record 's flash_device_info =
  flash_device_id :: u16
  flash_device_name :: string
  fn_flash_sector_erase_int :: "u16 \<Rightarrow> 's \<Rightarrow> (int \<times> 's) res"
  fn_flash_read_buf :: "u16 \<Rightarrow> int \<Rightarrow> int \<Rightarrow> 's \<Rightarrow> (int \<times> byte list \<times> 's) res"
  fn_flash_write_buf :: "u16 \<Rightarrow> int \<Rightarrow> byte list \<Rightarrow> int \<Rightarrow> 's \<Rightarrow> (int \<times> 's) res"
  fn_flash_get_numsectors :: "'s \<Rightarrow> int"
  fn_flash_get_sector_size :: "u16 \<Rightarrow> 's \<Rightarrow> int res"
  fn_flash_get_memptr :: "u16 \<Rightarrow> 's \<Rightarrow> u32 res"
  fn_flash_get_blk :: "u32 \<Rightarrow> 's \<Rightarrow> int res"
  fn_flash_get_total_size :: "'s \<Rightarrow> int"
  fn_flash_get_total_memory_mapped_size :: "'s \<Rightarrow> int"

definition flash_sector_erase_int ::
  "'s flash_device_info option \<Rightarrow> u16 \<Rightarrow> 's \<Rightarrow> (int \<times> 's) res" where
  "flash_sector_erase_int g_flash_info sector s =
     (case g_flash_info of
        Some d \<Rightarrow> fn_flash_sector_erase_int d sector s
      | None \<Rightarrow> Inr (FLASH_API_ERROR, s))"

definition flash_read_buf ::
  "'s flash_device_info option \<Rightarrow> u16 \<Rightarrow> int \<Rightarrow> int \<Rightarrow> 's \<Rightarrow> (int \<times> byte list \<times> 's) res" where
  "flash_read_buf g_flash_info sector offset numbytes s =
     (case g_flash_info of
        Some d \<Rightarrow> fn_flash_read_buf d sector offset numbytes s
      | None \<Rightarrow> Inr (FLASH_API_ERROR, [], s))"

definition flash_write_buf ::
  "'s flash_device_info option \<Rightarrow> u16 \<Rightarrow> int \<Rightarrow> byte list \<Rightarrow> int \<Rightarrow> 's \<Rightarrow> (int \<times> 's) res" where
  "flash_write_buf g_flash_info sector offset buffer numbytes s =
     (case g_flash_info of
        Some d \<Rightarrow> fn_flash_write_buf d sector offset buffer numbytes s
      | None \<Rightarrow> Inr (FLASH_API_ERROR, s))"

definition flash_get_numsectors :: "'s flash_device_info option \<Rightarrow> 's \<Rightarrow> int" where
  "flash_get_numsectors g_flash_info s =
     (case g_flash_info of Some d \<Rightarrow> fn_flash_get_numsectors d s | None \<Rightarrow> FLASH_API_ERROR)"

definition flash_get_sector_size :: "'s flash_device_info option \<Rightarrow> u16 \<Rightarrow> 's \<Rightarrow> int res" where
  "flash_get_sector_size g_flash_info sector s =
     (case g_flash_info of
        Some d \<Rightarrow> fn_flash_get_sector_size d sector s | None \<Rightarrow> Inr FLASH_API_ERROR)"

definition flash_get_memptr :: "'s flash_device_info option \<Rightarrow> u16 \<Rightarrow> 's \<Rightarrow> u32 res" where
  "flash_get_memptr g_flash_info sector s =
     (case g_flash_info of Some d \<Rightarrow> fn_flash_get_memptr d sector s | None \<Rightarrow> Inr 0)"

definition flash_get_blk :: "'s flash_device_info option \<Rightarrow> u32 \<Rightarrow> 's \<Rightarrow> int res" where
  "flash_get_blk g_flash_info addr s =
     (case g_flash_info of Some d \<Rightarrow> fn_flash_get_blk d addr s | None \<Rightarrow> Inr FLASH_API_ERROR)"

definition flash_get_total_size :: "'s flash_device_info option \<Rightarrow> 's \<Rightarrow> int" where
  "flash_get_total_size g_flash_info s =
     (case g_flash_info of Some d \<Rightarrow> fn_flash_get_total_size d s | None \<Rightarrow> FLASH_API_ERROR)"

definition flash_get_total_memory_mapped_size :: "'s flash_device_info option \<Rightarrow> 's \<Rightarrow> int" where
  "flash_get_total_memory_mapped_size g_flash_info s =
     (case g_flash_info of
        Some d \<Rightarrow> fn_flash_get_total_memory_mapped_size d s | None \<Rightarrow> FLASH_API_ERROR)"

lemmas flash_api_defs =
  flash_sector_erase_int_def flash_read_buf_def flash_write_buf_def flash_get_numsectors_def
  flash_get_sector_size_def flash_get_memptr_def flash_get_blk_def flash_get_total_size_def
  flash_get_total_memory_mapped_size_def

section \<open>The contract of a device\<close>

locale flash_device =
  fixes dev :: "'s flash_device_info"
    and sects :: "nat list"
    and base :: u32
    and inv :: "'s \<Rightarrow> bool"
    and content :: "'s \<Rightarrow> byte list"
  assumes sects_wf: "sects \<noteq> []" "n \<in> set sects \<Longrightarrow> 0 < n \<and> even n" "length sects \<le> 1024"
      "sum_list sects < 2 ^ 31"
    and content_length: "inv s \<Longrightarrow> length (content s) = sum_list sects"
    and numsectors: "inv s \<Longrightarrow> fn_flash_get_numsectors dev s = int (length sects)"
    and sector_size: "\<lbrakk>inv s; k < length sects\<rbrakk> \<Longrightarrow>
        fn_flash_get_sector_size dev (of_nat k) s = Inr (int (sects ! k))"
    and memptr: "\<lbrakk>inv s; k < length sects\<rbrakk> \<Longrightarrow>
        fn_flash_get_memptr dev (of_nat k) s = Inr (base + of_nat (sector_start sects k))"
    and get_blk: "\<lbrakk>inv s; a < sum_list sects\<rbrakk> \<Longrightarrow>
        fn_flash_get_blk dev (base + of_nat a) s = Inr (int (sector_of sects a))"
    and total_size: "inv s \<Longrightarrow> fn_flash_get_total_size dev s = int (sum_list sects)"
    and read_buf: "\<lbrakk>inv s; k < length sects; sector_start sects k + off + n \<le> sum_list sects\<rbrakk> \<Longrightarrow>
        \<exists>s'. fn_flash_read_buf dev (of_nat k) (int off) (int n) s
               = Inr (FLASH_API_OK, slice (sector_start sects k + off) n (content s), s')
             \<and> inv s' \<and> content s' = content s"
    and erase: "\<lbrakk>inv s; k < length sects\<rbrakk> \<Longrightarrow>
        \<exists>s'. fn_flash_sector_erase_int dev (of_nat k) s = Inr (FLASH_API_OK, s') \<and> inv s'
             \<and> content s' = overlay (sector_start sects k) (replicate (sects ! k) 0xFF) (content s)"
    and write_buf: "\<lbrakk>inv s; k < length sects; even off; even n; n \<le> length buf;
          sector_start sects k + off + n \<le> sum_list sects;
          slice (sector_start sects k + off) n (content s) = replicate n 0xFF\<rbrakk> \<Longrightarrow>
        \<exists>s'. fn_flash_write_buf dev (of_nat k) (int off) buf (int n) s = Inr (int n, s') \<and> inv s'
             \<and> content s' = overlay (sector_start sects k + off) (take n buf) (content s)"

end
