(* ===== verification/Cfi_Flash.thy ===== *)
theory Cfi_Flash
  imports Flash_Api "HOL-Library.While_Combinator"
begin

text \<open>
  The parallel flash driver \<^verbatim>\<open>src/shared/opensource/flash/cfiflash.c\<close>. The driver's static
  variables, the globals it shares with the kernel and the chip on the external bus are the record
  \<open>cfi_state\<close>. The chip is a parameter: \<open>nor_ops\<close> holds its two bus cycles, a 16-bit
  read and a 16-bit write at a halfword address relative to \<open>FLASH_BASE\<close>; a read may change
  the chip's state, as status reads do. Sleeping and rescheduling (\<^verbatim>\<open>schedule\<close>,
  \<^verbatim>\<open>schedule_timeout\<close>, \<^verbatim>\<open>udelay\<close>) and the interrupt spin locks have no effect on
  this state and are left out; the semaphore \<^verbatim>\<open>write_sem_lock\<close> is kept, because the
  driver takes it again while it holds it.
\<close>

section \<open>State\<close>

record 'c nor_ops =
  bus_rd :: "int \<Rightarrow> 'c \<Rightarrow> u16 \<times> 'c"
  bus_wr :: "int \<Rightarrow> u16 \<Rightarrow> 'c \<Rightarrow> 'c"

datatype flash_family = FLASH_UNDEFINED | FLASH_AMD | FLASH_INTEL | FLASH_SST

datatype flash_cmd =
    FLASH_RESET | FLASH_READ_ID | FLASH_CFIQUERY | FLASH_UB | FLASH_PROG | FLASH_UBRESET
  | FLASH_SERASE | FLASH_SUSPEND | FLASH_RESUME

datatype flash_status = STATUS_READY | STATUS_TIMEOUT

abbreviation MAXSECTORS :: nat where "MAXSECTORS \<equiv> 1024"

record sector_info =
  sec_size :: int
  sec_base :: int
  sec_bank :: int

record flashinfo =
  fi_addr :: u32
  fi_areg :: int
  fi_nsect :: int
  fi_bank1start :: int
  fi_bank2start :: int
  fi_sec :: "sector_info list"

record erase_region =
  er_sector_size :: u32
  er_num_sectors :: int

record cfi_query =
  num_erase_blocks :: int
  device_size :: int
  erase_block :: "erase_region list"
  top_bottom_indicator :: int

record 'c cfi_state =
  meminfo :: flashinfo
  flashFamily :: flash_family
  totalSize :: int
  query :: cfi_query
  g_ManufId :: u16
  cfi_dev_id :: u16
  cfi_dev_name :: string
  g_FlashTopDevice :: int
  g_flash_info_set :: bool
  g_iReset :: int
  in_irq :: bool
  write_sem :: int
  signal_pending :: bool
  mpi_cs0_base :: u32
  ebi_wait :: u32
  chip :: 'c

text \<open>The values of the static variables before \<^verbatim>\<open>cfi_flash_init\<close>; \<^verbatim>\<open>g_iReset\<close> is
  \<open>1\<close> except while an image is being flashed.\<close>

definition sector0 :: sector_info where
  "sector0 = \<lparr>sec_size = 0, sec_base = 0, sec_bank = 0\<rparr>"

definition cfi_static :: "u32 \<Rightarrow> 'c \<Rightarrow> 'c cfi_state" where
  "cfi_static cs0 c =
     \<lparr>meminfo = \<lparr>fi_addr = 0, fi_areg = 0, fi_nsect = 0, fi_bank1start = 0, fi_bank2start = 0,
                 fi_sec = replicate MAXSECTORS sector0\<rparr>,
      flashFamily = FLASH_UNDEFINED, totalSize = 0,
      query = \<lparr>num_erase_blocks = 0, device_size = 0,
               erase_block = replicate 8 \<lparr>er_sector_size = 0, er_num_sectors = 0\<rparr>,
               top_bottom_indicator = 0\<rparr>,
      g_ManufId = 0, cfi_dev_id = 0xffff, cfi_dev_name = '''', g_FlashTopDevice = 1,
      g_flash_info_set = False, g_iReset = 1, in_irq = False, write_sem = 1,
      signal_pending = False, mpi_cs0_base = cs0, ebi_wait = 0, chip = c\<rparr>"

section \<open>Sector table\<close>

definition FLASH_BASE :: "'c cfi_state \<Rightarrow> u32" where
  "FLASH_BASE s = 0xA0000000 OR (mpi_cs0_base s AND 0xFFFFFF00)"

definition sec_at :: "nat \<Rightarrow> 'c cfi_state \<Rightarrow> sector_info res" where
  "sec_at k s = (if k < length (fi_sec (meminfo s)) then Inr (fi_sec (meminfo s) ! k)
                 else Inl OutOfBounds)"

definition cfi_flash_get_numsectors :: "'c cfi_state \<Rightarrow> int" where
  "cfi_flash_get_numsectors s = fi_nsect (meminfo s)"

definition cfi_flash_get_sector_size :: "u16 \<Rightarrow> 'c cfi_state \<Rightarrow> int res" where
  "cfi_flash_get_sector_size sector s = bindR (sec_at (unat sector) s) (\<lambda>x. Inr (sec_size x))"

definition cfi_flash_get_memptr :: "u16 \<Rightarrow> 'c cfi_state \<Rightarrow> u32 res" where
  "cfi_flash_get_memptr sector s =
     bindR (sec_at (unat sector) s) (\<lambda>x. Inr (FLASH_BASE s + of_int (sec_base x)))"

definition cfi_flash_get_total_size :: "'c cfi_state \<Rightarrow> int" where
  "cfi_flash_get_total_size s = totalSize s"

text \<open>The scan of \<^verbatim>\<open>cfi_flash_get_blk\<close>: \<open>i\<close> is the end of the sectors before
  \<open>blk_start\<close>.\<close>

function cfi_blk_scan :: "int \<Rightarrow> int \<Rightarrow> int \<Rightarrow> int \<Rightarrow> 'c cfi_state \<Rightarrow> (int \<times> int) res" where
  "cfi_blk_scan relative_addr last_blk blk_start i s =
     (if i < relative_addr \<and> blk_start < last_blk then
        bindR (cfi_flash_get_sector_size (of_int blk_start) s)
          (\<lambda>n. cfi_blk_scan relative_addr last_blk (blk_start + 1) (i + n) s)
      else Inr (blk_start, i))"
  by pat_completeness auto

termination
  by (relation "measure (\<lambda>(_, last_blk, blk_start, _, _). nat (last_blk - blk_start))") auto

declare cfi_blk_scan.simps [simp del]

definition cfi_flash_get_blk :: "u32 \<Rightarrow> 'c cfi_state \<Rightarrow> int res" where
  "cfi_flash_get_blk addr s =
     (let last_blk = cfi_flash_get_numsectors s;
          relative_addr = sint (addr - FLASH_BASE s) in
      bindR (cfi_blk_scan relative_addr last_blk 0 0 s)
        (\<lambda>(blk_start, i).
           if i > relative_addr then Inr (blk_start - 1)
           else if blk_start = last_blk then Inr (-1)
           else Inr blk_start))"

section \<open>Bus cycles\<close>

text \<open>The halfword address a pointer into the flash window denotes.\<close>

definition flash_half :: "u32 \<Rightarrow> 'c cfi_state \<Rightarrow> int" where
  "flash_half p s = int (unat (p - FLASH_BASE s)) div 2"

definition hw_read :: "'c nor_ops \<Rightarrow> u32 \<Rightarrow> int \<Rightarrow> 'c cfi_state \<Rightarrow> u16 \<times> 'c cfi_state" where
  "hw_read ops p i s =
     (case bus_rd ops (flash_half p s + i) (chip s) of (d, c) \<Rightarrow> (d, s\<lparr>chip := c\<rparr>))"

definition hw_write :: "'c nor_ops \<Rightarrow> u32 \<Rightarrow> int \<Rightarrow> u16 \<Rightarrow> 'c cfi_state \<Rightarrow> 'c cfi_state" where
  "hw_write ops p i d s = s\<lparr>chip := bus_wr ops (flash_half p s + i) d (chip s)\<rparr>"

text \<open>A byte read is the halfword read of its address; the bus is big-endian.\<close>

definition byte_read :: "'c nor_ops \<Rightarrow> int \<Rightarrow> 'c cfi_state \<Rightarrow> byte \<times> 'c cfi_state" where
  "byte_read ops a s =
     (case bus_rd ops (a div 2) (chip s) of
        (d, c) \<Rightarrow> (if even a then hi8 d else lo8 d, s\<lparr>chip := c\<rparr>))"

text \<open>The writes of one \<^verbatim>\<open>cfi_flash_command\<close> as pairs of an address and a value;
  \<open>flashptr\<close> and \<open>flashbase\<close> are halfword addresses. \<open>offset\<close> is even wherever it is used
  (\<^verbatim>\<open>cfi_flash_write\<close> rejects the rest), so \<^verbatim>\<open>offset/2\<close> is exact.\<close>

definition unlock_cycles :: "int \<Rightarrow> int \<Rightarrow> int \<Rightarrow> (int \<times> u16) list" where
  "unlock_cycles b a1 a2 = [(b + a1, 0xAA), (b + a2, 0x55)]"

definition cfi_command_cycles ::
  "flash_family \<Rightarrow> flash_cmd \<Rightarrow> int \<Rightarrow> int \<Rightarrow> int \<Rightarrow> u16 \<Rightarrow> (int \<times> u16) list" where
  "cfi_command_cycles fam cmd flashptr flashbase offset d =
     (case fam of
        FLASH_UNDEFINED \<Rightarrow>
          (case cmd of
             FLASH_RESET \<Rightarrow> [(flashptr, 0xF0), (flashptr, 0xFF)]
           | FLASH_READ_ID \<Rightarrow> unlock_cycles flashptr 0x5555 0x2AAA @ [(flashptr + 0x5555, 0x90)]
           | FLASH_CFIQUERY \<Rightarrow> unlock_cycles flashbase 0x5555 0x2AAA @ [(flashbase + 0x5555, 0x90)]
           | _ \<Rightarrow> [])
      | FLASH_AMD \<Rightarrow>
          (case cmd of
             FLASH_RESET \<Rightarrow> [(flashptr, 0xF0)]
           | FLASH_READ_ID \<Rightarrow> unlock_cycles flashptr 0x555 0x2AA @ [(flashptr + 0x555, 0x90)]
           | FLASH_CFIQUERY \<Rightarrow> [(flashptr + 0x55, 0x98)]
           | FLASH_UB \<Rightarrow> unlock_cycles flashptr 0x555 0x2AA @ [(flashptr + 0x555, 0x20)]
           | FLASH_PROG \<Rightarrow> [(flashptr, 0xA0), (flashptr + offset div 2, d)]
           | FLASH_UBRESET \<Rightarrow> [(flashptr, 0x90), (flashptr, 0x00)]
           | FLASH_SERASE \<Rightarrow>
               unlock_cycles flashptr 0x555 0x2AA @ [(flashptr + 0x555, 0x80)]
               @ unlock_cycles flashptr 0x555 0x2AA @ [(flashptr, 0x30)]
           | FLASH_SUSPEND \<Rightarrow> [(flashptr, 0xB0)]
           | FLASH_RESUME \<Rightarrow> [(flashptr, 0x30)])
      | FLASH_INTEL \<Rightarrow>
          (case cmd of
             FLASH_RESET \<Rightarrow> [(flashptr, 0xFF)]
           | FLASH_READ_ID \<Rightarrow> [(flashptr, 0x90)]
           | FLASH_CFIQUERY \<Rightarrow> [(flashptr, 0x98)]
           | FLASH_PROG \<Rightarrow> [(flashptr, 0x40), (flashptr + offset div 2, d)]
           | FLASH_SERASE \<Rightarrow> [(flashptr, 0x60), (flashptr, 0xD0), (flashptr, 0x20), (flashptr, 0xD0)]
           | _ \<Rightarrow> [])
      | FLASH_SST \<Rightarrow>
          (case cmd of
             FLASH_RESET \<Rightarrow> unlock_cycles flashbase 0x5555 0x2AAA @ [(flashbase + 0x5555, 0xF0)]
           | FLASH_READ_ID \<Rightarrow> unlock_cycles flashbase 0x5555 0x2AAA @ [(flashbase + 0x5555, 0x90)]
           | FLASH_CFIQUERY \<Rightarrow> unlock_cycles flashbase 0x5555 0x2AAA @ [(flashbase + 0x5555, 0x98)]
           | FLASH_PROG \<Rightarrow>
               unlock_cycles flashbase 0x5555 0x2AAA
               @ [(flashbase + 0x5555, 0xA0), (flashptr + offset div 2, d)]
           | FLASH_SERASE \<Rightarrow>
               unlock_cycles flashbase 0x5555 0x2AAA @ [(flashbase + 0x5555, 0x80)]
               @ unlock_cycles flashbase 0x5555 0x2AAA @ [(flashptr, 0x30)]
           | _ \<Rightarrow> []))"

definition issue :: "'c nor_ops \<Rightarrow> (int \<times> u16) list \<Rightarrow> 'c \<Rightarrow> 'c" where
  "issue ops cycles c = fold (\<lambda>(a, d). bus_wr ops a d) cycles c"

definition cfi_flash_command ::
  "'c nor_ops \<Rightarrow> flash_cmd \<Rightarrow> u16 \<Rightarrow> int \<Rightarrow> u16 \<Rightarrow> 'c cfi_state \<Rightarrow> 'c cfi_state res" where
  "cfi_flash_command ops cmd sector offset d s =
     bindR (cfi_flash_get_memptr sector s) (\<lambda>flashptr.
     bindR (cfi_flash_get_memptr 0 s) (\<lambda>flashbase.
       Inr (s\<lparr>chip := issue ops
                (cfi_command_cycles (flashFamily s) cmd
                   (flash_half flashptr s) (flash_half flashbase s) offset d) (chip s)\<rparr>)))"

section \<open>Polling\<close>

text \<open>The \<^verbatim>\<open>do ... while (!(d1 & 0x20))\<close> loop on a data word: \<open>None\<close> if the chip
  never answers.\<close>

definition poll_data :: "'c nor_ops \<Rightarrow> int \<Rightarrow> u16 \<Rightarrow> 'c \<Rightarrow> (u16 \<times> 'c) option" where
  "poll_data ops a data c =
     while_option (\<lambda>(d1, _). d1 \<noteq> data \<and> d1 AND 0x20 = 0) (\<lambda>(_, c). bus_rd ops a c)
       (bus_rd ops a c)"

text \<open>The loop of further reads after a set \<^verbatim>\<open>DQ5\<close>: whether one of \<open>n\<close> reads returned the
  data.\<close>

fun retry_data :: "'c nor_ops \<Rightarrow> int \<Rightarrow> u16 \<Rightarrow> nat \<Rightarrow> 'c \<Rightarrow> bool \<times> 'c" where
  "retry_data ops a data 0 c = (False, c)"
| "retry_data ops a data (Suc n) c =
     (case bus_rd ops a c of
        (d1, c') \<Rightarrow> if d1 = data then (True, c') else retry_data ops a data n c')"

definition cfi_wait_amd ::
  "'c nor_ops \<Rightarrow> int \<Rightarrow> u16 \<Rightarrow> 'c cfi_state \<Rightarrow> (flash_status \<times> 'c cfi_state) res" where
  "cfi_wait_amd ops a data s =
     (case poll_data ops a data (chip s) of
        None \<Rightarrow> Inl Hang
      | Some (d1, c1) \<Rightarrow>
          if d1 = data then Inr (STATUS_READY, s\<lparr>chip := c1\<rparr>)
          else (case bus_rd ops a c1 of (d2, c2) \<Rightarrow>
            if d2 = data then Inr (STATUS_READY, s\<lparr>chip := c2\<rparr>)
            else (case retry_data ops a data 1000 c2 of (found, c3) \<Rightarrow>
              if found then Inr (STATUS_READY, s\<lparr>chip := c3\<rparr>)
              else (case bus_rd ops a c3 of (d4, c4) \<Rightarrow>
                if d4 = data then Inr (STATUS_READY, s\<lparr>chip := c4\<rparr>)
                else bindR (cfi_flash_command ops FLASH_RESET 0 0 0 (s\<lparr>chip := c4\<rparr>))
                       (\<lambda>s'. Inr (STATUS_TIMEOUT, s'))))))"

definition cfi_wait_intel ::
  "'c nor_ops \<Rightarrow> int \<Rightarrow> 'c cfi_state \<Rightarrow> (flash_status \<times> 'c cfi_state) res" where
  "cfi_wait_intel ops p s =
     (case while_option (\<lambda>(d, _). d AND 0x80 = 0) (\<lambda>(_, c). bus_rd ops p c)
             (bus_rd ops p (bus_wr ops p 0x70 (chip s))) of
        None \<Rightarrow> Inl Hang
      | Some (_, c1) \<Rightarrow>
          (case bus_rd ops p c1 of (d2, c2) \<Rightarrow>
             bindR (cfi_flash_command ops FLASH_RESET 0 0 0 (s\<lparr>chip := bus_wr ops p 0x50 c2\<rparr>))
               (\<lambda>s'. Inr (if d2 AND 0x30 \<noteq> 0 then STATUS_TIMEOUT else STATUS_READY, s'))))"

definition cfi_flash_wait ::
  "'c nor_ops \<Rightarrow> u16 \<Rightarrow> int \<Rightarrow> u16 \<Rightarrow> 'c cfi_state \<Rightarrow> (flash_status \<times> 'c cfi_state) res" where
  "cfi_flash_wait ops sector offset data s =
     bindR (cfi_flash_get_memptr sector s) (\<lambda>flashptr.
       if flashFamily s = FLASH_AMD \<or> flashFamily s = FLASH_SST
       then cfi_wait_amd ops (flash_half flashptr s + offset div 2) data s
       else if flashFamily s = FLASH_INTEL then cfi_wait_intel ops (flash_half flashptr s) s
       else Inr (STATUS_READY, s))"

section \<open>The semaphore\<close>

text \<open>\<^verbatim>\<open>down_interruptible\<close> on a semaphore that is not free sleeps: it returns only when a
  signal is pending, without having taken the semaphore. The driver ignores its result. No other
  task is part of the model, so sleeping without a signal is for ever.\<close>

definition down_interruptible :: "'c cfi_state \<Rightarrow> 'c cfi_state res" where
  "down_interruptible s =
     (if write_sem s > 0 then Inr (s\<lparr>write_sem := write_sem s - 1\<rparr>)
      else if signal_pending s then Inr s
      else Inl Deadlock)"

definition sem_enter :: "'c cfi_state \<Rightarrow> 'c cfi_state res" where
  "sem_enter s = (if in_irq s then Inr s else down_interruptible s)"

definition sem_leave :: "'c cfi_state \<Rightarrow> 'c cfi_state" where
  "sem_leave s = (if in_irq s then s else s\<lparr>write_sem := write_sem s + 1\<rparr>)"

section \<open>Erase\<close>

fun cfi_erase_tries ::
  "'c nor_ops \<Rightarrow> u16 \<Rightarrow> nat \<Rightarrow> 'c cfi_state \<Rightarrow> 'c cfi_state res" where
  "cfi_erase_tries ops sector 0 s = Inr s"
| "cfi_erase_tries ops sector (Suc n) s =
     bindR (cfi_flash_command ops FLASH_SERASE sector 0 0 s) (\<lambda>s1.
     bindR (if g_iReset s1 \<noteq> 0
            then bindR (cfi_flash_command ops FLASH_SUSPEND sector 0 0 s1)
                   (\<lambda>s'. cfi_flash_command ops FLASH_RESUME sector 0 0 s')
            else Inr s1) (\<lambda>s2.
     bindR (cfi_flash_wait ops sector 0 0xffff s2) (\<lambda>(st, s3).
       if st = STATUS_READY then Inr s3 else cfi_erase_tries ops sector n s3)))"

definition cfi_flash_sector_erase_int ::
  "'c nor_ops \<Rightarrow> u16 \<Rightarrow> 'c cfi_state \<Rightarrow> (int \<times> 'c cfi_state) res" where
  "cfi_flash_sector_erase_int ops sector s =
     bindR (sem_enter s) (\<lambda>s1.
     bindR (cfi_erase_tries ops sector 3 s1) (\<lambda>s2.
       Inr (FLASH_API_OK, sem_leave s2)))"

section \<open>Read\<close>

fun read_bytes :: "'c nor_ops \<Rightarrow> int \<Rightarrow> nat \<Rightarrow> 'c cfi_state \<Rightarrow> byte list \<times> 'c cfi_state" where
  "read_bytes ops a 0 s = ([], s)"
| "read_bytes ops a (Suc n) s =
     (case byte_read ops a s of (b, s1) \<Rightarrow>
      case read_bytes ops (a + 1) n s1 of (bs, s2) \<Rightarrow> (b # bs, s2))"

text \<open>\<^verbatim>\<open>while (numbytes)\<close> with a negative count runs through the whole address space.\<close>

definition cfi_flash_read_buf ::
  "'c nor_ops \<Rightarrow> u16 \<Rightarrow> int \<Rightarrow> int \<Rightarrow> 'c cfi_state \<Rightarrow> (int \<times> byte list \<times> 'c cfi_state) res" where
  "cfi_flash_read_buf ops sector offset numbytes s =
     bindR (sem_enter s) (\<lambda>s1.
     bindR (cfi_flash_get_memptr sector s1) (\<lambda>fwp.
       if numbytes < 0 then Inl OutOfBounds
       else (case read_bytes ops (int (unat (fwp - FLASH_BASE s1)) + offset) (nat numbytes) s1 of
               (bs, s2) \<Rightarrow> Inr (FLASH_API_OK, bs, sem_leave s2))))"

section \<open>Write\<close>

text \<open>The programming loop of \<^verbatim>\<open>cfi_flash_write\<close>. \<open>src\<close> is the memory from the source
  pointer on; the loop returns the pointer it stopped at. The value \<^verbatim>\<open>*src\<close> passed along with
  the suspend and resume commands is not used by them and is \<open>0\<close> here.\<close>

function cfi_write_loop ::
  "'c nor_ops \<Rightarrow> u16 \<Rightarrow> int \<Rightarrow> byte list \<Rightarrow> int \<Rightarrow> 'c cfi_state
     \<Rightarrow> (byte list \<times> 'c cfi_state) res" where
  "cfi_write_loop ops sector offset src nbytes s =
     (if nbytes > 0 then
        (case src of
           b0 # b1 # src' \<Rightarrow>
             bindR (cfi_flash_command ops FLASH_PROG sector offset (be16 b0 b1) s) (\<lambda>s1.
             bindR (cfi_flash_wait ops sector offset (be16 b0 b1) s1) (\<lambda>(st, s2).
               if st \<noteq> STATUS_READY then Inr (src, s2)
               else
                 bindR (if g_iReset s2 \<noteq> 0 \<and> (nbytes - 2) mod 8192 = 0
                        then bindR (cfi_flash_command ops FLASH_SUSPEND sector (offset + 2) 0 s2)
                               (\<lambda>s'. cfi_flash_command ops FLASH_RESUME sector (offset + 2) 0 s')
                        else Inr s2) (\<lambda>s3.
                   cfi_write_loop ops sector (offset + 2) src' (nbytes - 2) s3)))
         | _ \<Rightarrow> Inl OutOfBounds)
      else Inr (src, s))"
  by pat_completeness auto

termination
  by (relation "measure (\<lambda>(_, _, _, _, nbytes, _). nat nbytes)") auto

declare cfi_write_loop.simps [simp del]

definition cfi_flash_write ::
  "'c nor_ops \<Rightarrow> u16 \<Rightarrow> int \<Rightarrow> byte list \<Rightarrow> int \<Rightarrow> 'c cfi_state \<Rightarrow> (int \<times> 'c cfi_state) res" where
  "cfi_flash_write ops sector offset buf nbytes s =
     (if odd nbytes \<or> odd offset then Inr (FLASH_API_ERROR, s)
      else
        bindR (cfi_flash_command ops FLASH_UB 0 0 0 s) (\<lambda>s1.
        bindR (cfi_write_loop ops sector offset buf nbytes s1) (\<lambda>(src, s2).
        bindR (cfi_flash_command ops FLASH_UBRESET 0 0 0 s2) (\<lambda>s3.
          Inr (int (length buf) - int (length src), s3)))))"

text \<open>\<^verbatim>\<open>memcmp\<close> of the flash window with the buffer, up to the first difference; \<open>True\<close>
  when they are equal. A negative count is a huge unsigned one.\<close>

fun flash_memcmp ::
  "'c nor_ops \<Rightarrow> int \<Rightarrow> byte list \<Rightarrow> nat \<Rightarrow> 'c cfi_state \<Rightarrow> (bool \<times> 'c cfi_state) res" where
  "flash_memcmp ops a buf 0 s = Inr (True, s)"
| "flash_memcmp ops a [] (Suc n) s = Inl OutOfBounds"
| "flash_memcmp ops a (x # buf) (Suc n) s =
     (case byte_read ops a s of (b, s1) \<Rightarrow>
        if b = x then flash_memcmp ops (a + 1) buf n s1 else Inr (False, s1))"

text \<open>The three attempts of \<^verbatim>\<open>cfi_flash_write_buf\<close>. The erase before another attempt goes
  through \<open>g_flash_info\<close>, which is this driver once \<^verbatim>\<open>flash_init\<close> has succeeded.\<close>

fun cfi_write_tries ::
  "'c nor_ops \<Rightarrow> u16 \<Rightarrow> int \<Rightarrow> int \<Rightarrow> byte list \<Rightarrow> int \<Rightarrow> nat \<Rightarrow> int \<Rightarrow> 'c cfi_state
     \<Rightarrow> (int \<times> 'c cfi_state) res" where
  "cfi_write_tries ops sector offset p buf numbytes 0 ret s = Inr (ret, s)"
| "cfi_write_tries ops sector offset p buf numbytes (Suc n) ret s =
     bindR (cfi_flash_write ops sector offset buf numbytes s) (\<lambda>(ret1, s1).
     bindR (if numbytes < 0 then Inl OutOfBounds
            else flash_memcmp ops p buf (nat numbytes) s1) (\<lambda>(same, s2).
       if same then Inr (ret1, s2)
       else
         bindR (if g_flash_info_set s2 then cfi_flash_sector_erase_int ops sector s2
                else Inr (FLASH_API_ERROR, s2)) (\<lambda>(_, s3).
           cfi_write_tries ops sector offset p buf numbytes n FLASH_API_ERROR s3)))"

definition cfi_flash_write_buf ::
  "'c nor_ops \<Rightarrow> u16 \<Rightarrow> int \<Rightarrow> byte list \<Rightarrow> int \<Rightarrow> 'c cfi_state \<Rightarrow> (int \<times> 'c cfi_state) res" where
  "cfi_flash_write_buf ops sector offset buf numbytes s =
     bindR (sem_enter s) (\<lambda>s1.
     bindR (cfi_flash_get_memptr sector s1) (\<lambda>fwp.
     bindR (cfi_write_tries ops sector offset (int (unat (fwp - FLASH_BASE s1)) + offset)
              buf numbytes 3 FLASH_API_ERROR s1) (\<lambda>(ret, s2).
       Inr (ret, sem_leave s2))))"

text \<open>\<^verbatim>\<open>flash_cfi_dev\<close>: the structure of function pointers the driver hands to
  \<^verbatim>\<open>flash_init\<close>.\<close>

definition flash_cfi_dev :: "'c nor_ops \<Rightarrow> 'c cfi_state \<Rightarrow> 'c cfi_state flash_device_info" where
  "flash_cfi_dev ops s =
     \<lparr>flash_device_id = cfi_dev_id s,
      flash_device_name = cfi_dev_name s,
      fn_flash_sector_erase_int = cfi_flash_sector_erase_int ops,
      fn_flash_read_buf = cfi_flash_read_buf ops,
      fn_flash_write_buf = cfi_flash_write_buf ops,
      fn_flash_get_numsectors = cfi_flash_get_numsectors,
      fn_flash_get_sector_size = cfi_flash_get_sector_size,
      fn_flash_get_memptr = cfi_flash_get_memptr,
      fn_flash_get_blk = cfi_flash_get_blk,
      fn_flash_get_total_size = cfi_flash_get_total_size,
      fn_flash_get_total_memory_mapped_size = cfi_flash_get_total_size\<rparr>"

end
