(* ===== verification/Cfi_Init.thy ===== *)
theory Cfi_Init
  imports Cfi_Flash
begin

text \<open>
  Detection of the flash part: \<^verbatim>\<open>cfi_flash_get_device_id\<close>, \<^verbatim>\<open>cfi_flash_get_cfi\<close>,
  \<^verbatim>\<open>cfi_flash_init\<close> of \<^verbatim>\<open>cfiflash.c\<close> and \<^verbatim>\<open>flash_init\<close> of
  \<^verbatim>\<open>flash_api.c\<close>. Every access outside a fixed array of the driver (\<^verbatim>\<open>erase_block[8]\<close>,
  \<^verbatim>\<open>sec[MAXSECTORS]\<close>) is the fault \<open>OutOfBounds\<close>. The lemmas show that the sector table built
  from any geometry is contiguous, whatever the chip answered, and exactly which geometries
  overrun the table.
\<close>

section \<open>Device identifiers and tables\<close>

abbreviation (input) MANUFACTURER_ID_SPANSION :: u16 where "MANUFACTURER_ID_SPANSION \<equiv> 0x01"
abbreviation (input) MANUFACTURER_ID_AMD :: u16 where "MANUFACTURER_ID_AMD \<equiv> 0x01"
abbreviation (input) MANUFACTURER_ID_MXIC :: u16 where "MANUFACTURER_ID_MXIC \<equiv> 0xC2"
abbreviation (input) MANUFACTURER_ID_SST :: u16 where "MANUFACTURER_ID_SST \<equiv> 0x00"
abbreviation (input) MANUFACTURER_ID_INTEL :: u16 where "MANUFACTURER_ID_INTEL \<equiv> 0x00"

abbreviation (input) ID_AM29DL800T :: u16 where "ID_AM29DL800T \<equiv> 0x224A"
abbreviation (input) ID_AM29DL800B :: u16 where "ID_AM29DL800B \<equiv> 0x22CB"
abbreviation (input) ID_AM29LV800T :: u16 where "ID_AM29LV800T \<equiv> 0x22DA"
abbreviation (input) ID_AM29LV800B :: u16 where "ID_AM29LV800B \<equiv> 0x225B"
abbreviation (input) ID_AM29LV400B :: u16 where "ID_AM29LV400B \<equiv> 0x22BA"
abbreviation (input) ID_AM29LV200BT :: u16 where "ID_AM29LV200BT \<equiv> 0x223B"
abbreviation (input) ID_AM29LV160B :: u16 where "ID_AM29LV160B \<equiv> 0x2249"
abbreviation (input) ID_AM29LV160T :: u16 where "ID_AM29LV160T \<equiv> 0x22C4"
abbreviation (input) ID_AM29LV320T :: u16 where "ID_AM29LV320T \<equiv> 0x22F6"
abbreviation (input) ID_MX29LV320AT :: u16 where "ID_MX29LV320AT \<equiv> 0x22A7"
abbreviation (input) ID_AM29LV320B :: u16 where "ID_AM29LV320B \<equiv> 0x22F9"
abbreviation (input) ID_MX29LV320AB :: u16 where "ID_MX29LV320AB \<equiv> 0x22A8"
abbreviation (input) ID_S29GL064AT :: u16 where "ID_S29GL064AT \<equiv> 0x2201"
abbreviation (input) ID_S29GL064AB :: u16 where "ID_S29GL064AB \<equiv> 0x2200"
abbreviation (input) ID_MX29LV640DB :: u16 where "ID_MX29LV640DB \<equiv> 0x22CB"
abbreviation (input) ID_MX29LV640DT :: u16 where "ID_MX29LV640DT \<equiv> 0x22C9"
abbreviation (input) ID_COMMON_DEVICE_ID_227E :: u16 where "ID_COMMON_DEVICE_ID_227E \<equiv> 0x227E"
abbreviation (input) ID_COMMON_DEVICE_ID_2200 :: u16 where "ID_COMMON_DEVICE_ID_2200 \<equiv> 0x2200"
abbreviation (input) ID_COMMON_DEVICE_ID_2201 :: u16 where "ID_COMMON_DEVICE_ID_2201 \<equiv> 0x2201"
abbreviation (input) ID_MX29LV128DB :: u16 where "ID_MX29LV128DB \<equiv> 0x227A"
abbreviation (input) ID_MX29LV128DT :: u16 where "ID_MX29LV128DT \<equiv> 0x227E"
abbreviation (input) ID_S29GL128N :: u16 where "ID_S29GL128N \<equiv> 0x2201"
abbreviation (input) ID_AM29LV320MB :: u16 where "ID_AM29LV320MB \<equiv> 0x2200"
abbreviation (input) ID_AM29LV320MT :: u16 where "ID_AM29LV320MT \<equiv> 0x2201"
abbreviation (input) ID_AM29LV320DB :: u16 where "ID_AM29LV320DB \<equiv> 0x22F9"
abbreviation (input) ID_AM29LV320DT :: u16 where "ID_AM29LV320DT \<equiv> 0x22F6"
abbreviation (input) ID_MX29LV320M :: u16 where "ID_MX29LV320M \<equiv> 0x2200"
abbreviation (input) ID_MX29LV640FT :: u16 where "ID_MX29LV640FT \<equiv> 0x22ED"
abbreviation (input) ID_SST39VF200A :: u16 where "ID_SST39VF200A \<equiv> 0x2789"
abbreviation (input) ID_SST39VF400A :: u16 where "ID_SST39VF400A \<equiv> 0x2780"
abbreviation (input) ID_SST39VF800A :: u16 where "ID_SST39VF800A \<equiv> 0x2781"
abbreviation (input) ID_SST39VF1601 :: u16 where "ID_SST39VF1601 \<equiv> 0x234B"
abbreviation (input) ID_SST39VF3201 :: u16 where "ID_SST39VF3201 \<equiv> 0x235B"
abbreviation (input) ID_I28F160C3T :: u16 where "ID_I28F160C3T \<equiv> 0x88C2"
abbreviation (input) ID_I28F160C3B :: u16 where "ID_I28F160C3B \<equiv> 0x88C3"
abbreviation (input) ID_I28F320C3T :: u16 where "ID_I28F320C3T \<equiv> 0x88C4"
abbreviation (input) ID_I28F320C3B :: u16 where "ID_I28F320C3B \<equiv> 0x88C5"
abbreviation (input) ID_I28F640J3 :: u16 where "ID_I28F640J3 \<equiv> 0x8916"

definition CFI_FLASH_DEVICES :: "(u16 \<times> string \<times> u16) list" where
  "CFI_FLASH_DEVICES =
   [(ID_MX29LV128DT, ''MX29LV128DT'', MANUFACTURER_ID_MXIC),
    (ID_MX29LV128DB, ''MX29LV128DB'', MANUFACTURER_ID_MXIC),
    (ID_S29GL128N, ''S29GL128N'', MANUFACTURER_ID_SPANSION),
    (ID_AM29DL800T, ''AM29DL800T'', MANUFACTURER_ID_AMD),
    (ID_AM29LV800T, ''AM29LV800T'', MANUFACTURER_ID_AMD),
    (ID_AM29LV800B, ''AM29LV800B'', MANUFACTURER_ID_AMD),
    (ID_AM29LV400B, ''AM29LV400B'', MANUFACTURER_ID_AMD),
    (ID_AM29LV200BT, ''AM29LV200BT'', MANUFACTURER_ID_AMD),
    (ID_AM29LV160B, ''AM29LV160B'', MANUFACTURER_ID_AMD),
    (ID_AM29LV160T, ''AM29LV160T'', MANUFACTURER_ID_AMD),
    (ID_AM29LV320T, ''AM29LV320T'', MANUFACTURER_ID_AMD),
    (ID_MX29LV320AT, ''MX29LV320AT'', MANUFACTURER_ID_MXIC),
    (ID_AM29LV320B, ''AM29LV320B'', MANUFACTURER_ID_AMD),
    (ID_MX29LV320AB, ''MX29LV320AB'', MANUFACTURER_ID_MXIC),
    (ID_AM29LV320MB, ''AM29LV320MB'', MANUFACTURER_ID_AMD),
    (ID_AM29LV320MT, ''AM29LV320MT'', MANUFACTURER_ID_AMD),
    (ID_MX29LV320M, ''MX29LV320M'', MANUFACTURER_ID_MXIC),
    (ID_MX29LV640DB, ''MX29LV640DB'', MANUFACTURER_ID_MXIC),
    (ID_MX29LV640DT, ''MX29LV640DT'', MANUFACTURER_ID_MXIC),
    (ID_MX29LV640FT, ''MX29LV640FT'', MANUFACTURER_ID_MXIC),
    (ID_SST39VF200A, ''SST39VF200A'', MANUFACTURER_ID_SST),
    (ID_SST39VF400A, ''SST39VF400A'', MANUFACTURER_ID_SST),
    (ID_SST39VF800A, ''SST39VF800A'', MANUFACTURER_ID_SST),
    (ID_SST39VF1601, ''SST39VF1601'', MANUFACTURER_ID_SST),
    (ID_SST39VF3201, ''SST39VF3201'', MANUFACTURER_ID_SST),
    (ID_I28F160C3T, ''I28F160C3T'', MANUFACTURER_ID_INTEL),
    (ID_I28F160C3B, ''I28F160C3B'', MANUFACTURER_ID_INTEL),
    (ID_I28F320C3T, ''I28F320C3T'', MANUFACTURER_ID_INTEL),
    (ID_I28F320C3B, ''I28F320C3B'', MANUFACTURER_ID_INTEL),
    (ID_I28F640J3, ''I28F640J3'', MANUFACTURER_ID_INTEL)]"

definition cfi_data_struct_29W160 :: "u16 list" where
  "cfi_data_struct_29W160 =
   [0x0020, 0x0049, 0xffff, 0xffff, 0xffff, 0xffff, 0xffff, 0xffff,
    0xffff, 0xffff, 0xffff, 0xffff, 0xffff, 0xffff, 0xffff, 0xffff,
    0x0051, 0x0052, 0x0059, 0x0002, 0x0000, 0x0040, 0x0000, 0x0000,
    0x0000, 0x0000, 0x0000, 0x0027, 0x0036, 0x0000, 0x0000, 0x0004,
    0x0000, 0x000a, 0x0000, 0x0004, 0x0000, 0x0003, 0x0000, 0x0015,
    0x0002, 0x0000, 0x0000, 0x0000, 0x0004, 0x0000, 0x0000, 0x0040,
    0x0000, 0x0001, 0x0000, 0x0020, 0x0000, 0x0000, 0x0000, 0x0080,
    0x0000, 0x001e, 0x0000, 0x0000, 0x0001, 0xffff, 0xffff, 0xffff,
    0x0050, 0x0052, 0x0049, 0x0031, 0x0030, 0x0000, 0x0002, 0x0001,
    0x0001, 0x0004, 0x0000, 0x0000, 0x0000, 0xffff, 0xffff, 0x0002,
    0xffff, 0xffff, 0xffff, 0xffff, 0xffff, 0xffff, 0xffff, 0xffff,
    0xffff, 0xffff, 0xffff, 0xffff, 0xffff, 0xffff, 0xffff, 0xffff,
    0xffff, 0x0888, 0x252b, 0x8c84, 0x7dbc, 0xffff, 0xffff, 0xffff,
    0xffff, 0xffff, 0xffff, 0xffff, 0xffff, 0xffff, 0xffff, 0xffff,
    0xffff, 0xffff, 0xffff, 0xffff, 0xffff, 0xffff, 0xffff, 0xffff,
    0xffff, 0xffff, 0xffff, 0xffff, 0xffff, 0xffff, 0xffff, 0xffff]"

definition cfi_data_struct_29W200 :: "u16 list" where
  "cfi_data_struct_29W200 =
   [0x0020, 0x0049, 0xffff, 0xffff, 0xffff, 0xffff, 0xffff, 0xffff,
    0xffff, 0xffff, 0xffff, 0xffff, 0xffff, 0xffff, 0xffff, 0xffff,
    0x0051, 0x0052, 0x0059, 0x0002, 0x0000, 0x0040, 0x0000, 0x0000,
    0x0000, 0x0000, 0x0000, 0x0027, 0x0036, 0x0000, 0x0000, 0x0004,
    0x0000, 0x000a, 0x0000, 0x0004, 0x0000, 0x0003, 0x0000, 0x0015,
    0x0002, 0x0000, 0x0000, 0x0000, 0x0004, 0x0000, 0x0000, 0x0040,
    0x0000, 0x0001, 0x0000, 0x0020, 0x0000, 0x0000, 0x0000, 0x0080,
    0x0000, 0x0002, 0x0000, 0x0000, 0x0001, 0xffff, 0xffff, 0xffff,
    0x0050, 0x0052, 0x0049, 0x0031, 0x0030, 0x0000, 0x0002, 0x0001,
    0x0001, 0x0004, 0x0000, 0x0000, 0x0000, 0xffff, 0xffff, 0x0002,
    0xffff, 0xffff, 0xffff, 0xffff, 0xffff, 0xffff, 0xffff, 0xffff,
    0xffff, 0xffff, 0xffff, 0xffff, 0xffff, 0xffff, 0xffff, 0xffff,
    0xffff, 0x0888, 0x252b, 0x8c84, 0x7dbc, 0xffff, 0xffff, 0xffff,
    0xffff, 0xffff, 0xffff, 0xffff, 0xffff, 0xffff, 0xffff, 0xffff,
    0xffff, 0xffff, 0xffff, 0xffff, 0xffff, 0xffff, 0xffff, 0xffff,
    0xffff, 0xffff, 0xffff, 0xffff, 0xffff, 0xffff, 0xffff, 0xffff]"

definition cfi_data_struct_26LV800B :: "u16 list" where
  "cfi_data_struct_26LV800B =
   [0x0020, 0x0049, 0xffff, 0xffff, 0xffff, 0xffff, 0xffff, 0xffff,
    0xffff, 0xffff, 0xffff, 0xffff, 0xffff, 0xffff, 0xffff, 0xffff,
    0x0051, 0x0052, 0x0059, 0x0002, 0x0000, 0x0040, 0x0000, 0x0000,
    0x0000, 0x0000, 0x0000, 0x0027, 0x0036, 0x0000, 0x0000, 0x0004,
    0x0000, 0x000a, 0x0000, 0x0004, 0x0000, 0x0003, 0x0000, 0x0015,
    0x0002, 0x0000, 0x0000, 0x0000, 0x0004, 0x0000, 0x0000, 0x0040,
    0x0000, 0x0001, 0x0000, 0x0020, 0x0000, 0x0000, 0x0000, 0x0080,
    0x0000, 0x000e, 0x0000, 0x0000, 0x0001, 0xffff, 0xffff, 0xffff,
    0x0050, 0x0052, 0x0049, 0x0031, 0x0030, 0x0000, 0x0002, 0x0001,
    0x0001, 0x0004, 0x0000, 0x0000, 0x0000, 0xffff, 0xffff, 0x0002,
    0xffff, 0xffff, 0xffff, 0xffff, 0xffff, 0xffff, 0xffff, 0xffff,
    0xffff, 0xffff, 0xffff, 0xffff, 0xffff, 0xffff, 0xffff, 0xffff,
    0xffff, 0x0888, 0x252b, 0x8c84, 0x7dbc, 0xffff, 0xffff, 0xffff,
    0xffff, 0xffff, 0xffff, 0xffff, 0xffff, 0xffff, 0xffff, 0xffff,
    0xffff, 0xffff, 0xffff, 0xffff, 0xffff, 0xffff, 0xffff, 0xffff,
    0xffff, 0xffff, 0xffff, 0xffff, 0xffff, 0xffff, 0xffff, 0xffff]"

text \<open>The two switches on the device id.\<close>

definition device_family :: "u16 \<Rightarrow> flash_family option" where
  "device_family device_id =
    (if device_id \<in> set [ID_I28F160C3B, ID_I28F320C3B, ID_I28F160C3T, ID_I28F320C3T, ID_I28F640J3]
     then Some FLASH_INTEL
     else if device_id \<in> set [ID_MX29LV640DB, ID_AM29LV800B, ID_AM29LV400B, ID_AM29LV160B, ID_AM29LV320B,
       ID_MX29LV320AB, ID_MX29LV128DB, ID_COMMON_DEVICE_ID_2200, ID_AM29DL800T,
       ID_AM29LV800T, ID_AM29LV160T, ID_AM29LV320T, ID_MX29LV320AT, ID_MX29LV128DT,
       ID_COMMON_DEVICE_ID_2201, ID_AM29LV200BT, ID_MX29LV640DT, ID_MX29LV640FT]
     then Some FLASH_AMD
     else if device_id \<in> set [ID_SST39VF200A, ID_SST39VF400A, ID_SST39VF800A, ID_SST39VF1601, ID_SST39VF3201]
     then Some FLASH_SST
     else None)"

definition flip_geometry :: "u16 \<Rightarrow> int \<Rightarrow> bool" where
  "flip_geometry device_id indicator =
    (if device_id \<in> set [ID_MX29LV640DB, ID_AM29LV800B, ID_AM29LV160B, ID_AM29LV320B, ID_MX29LV320AB,
       ID_MX29LV128DB, ID_AM29LV320MB, ID_I28F160C3B, ID_I28F320C3B, ID_I28F640J3,
       ID_I28F160C3T, ID_I28F320C3T, ID_SST39VF3201, ID_SST39VF200A, ID_SST39VF400A,
       ID_SST39VF800A]
     then False
     else if device_id \<in> set [ID_AM29DL800T, ID_AM29LV800T, ID_AM29LV160T, ID_AM29LV320T, ID_MX29LV320AT,
       ID_MX29LV128DT, ID_AM29LV320MT, ID_AM29LV200BT, ID_SST39VF1601, ID_AM29LV400B,
       ID_MX29LV640FT, ID_MX29LV640DT]
     then True
     else indicator = 3)"

section \<open>Queries\<close>

definition cfi_flash_get_device_id ::
  "'c nor_ops \<Rightarrow> 'c cfi_state \<Rightarrow> (u16 \<times> 'c cfi_state) res" where
  "cfi_flash_get_device_id ops s =
     bindR (cfi_flash_get_memptr 0 s) (\<lambda>fwp.
     bindR (cfi_flash_command ops FLASH_READ_ID 0 0 0 s) (\<lambda>s1.
       case hw_read ops fwp 0 s1 of (manuf, s2) \<Rightarrow>
       case hw_read ops fwp 1 s2 of (id1, s3) \<Rightarrow>
       case (if id1 = ID_COMMON_DEVICE_ID_227E
             then (case hw_read ops fwp 0xe s3 of (_, s4) \<Rightarrow>
                   case hw_read ops fwp 0xf s4 of (id2, s5) \<Rightarrow>
                     (if id2 \<noteq> ID_COMMON_DEVICE_ID_2200 \<and> id2 \<noteq> ID_COMMON_DEVICE_ID_2201
                      then ID_MX29LV128DT else id2, s5))
             else (id1, s3)) of (answer, s6) \<Rightarrow>
       bindR (cfi_flash_command ops FLASH_RESET 0 0 0 (s6\<lparr>g_ManufId := manuf\<rparr>)) (\<lambda>s7.
         Inr (answer, s7))))"

text \<open>One read through \<open>fwp\<close>: the flash window, or one of the built-in tables.\<close>

definition fwp_read ::
  "'c nor_ops \<Rightarrow> u16 list option \<Rightarrow> u32 \<Rightarrow> nat \<Rightarrow> 'c cfi_state \<Rightarrow> (u16 \<times> 'c cfi_state) res" where
  "fwp_read ops cfi_struct fwp i s =
     (case cfi_struct of
        None \<Rightarrow> Inr (hw_read ops fwp (int i) s)
      | Some xs \<Rightarrow> if i < length xs then Inr (xs ! i, s) else Inl OutOfBounds)"

text \<open>The loop over the erase regions; \<open>n\<close> is the number of regions left. The region structure has
  eight entries.\<close>

fun read_regions ::
  "'c nor_ops \<Rightarrow> u16 list option \<Rightarrow> u32 \<Rightarrow> nat \<Rightarrow> nat \<Rightarrow> 'c cfi_state \<Rightarrow> 'c cfi_state res" where
  "read_regions ops cfi_struct fwp i 0 s = Inr s"
| "read_regions ops cfi_struct fwp i (Suc n) s =
     (if i < length (erase_block (query s)) then
        bindR (fwp_read ops cfi_struct fwp (0x2D + 4 * i) s) (\<lambda>(lo, s1).
        bindR (fwp_read ops cfi_struct fwp (0x2E + 4 * i) s1) (\<lambda>(hi, s2).
        bindR (fwp_read ops cfi_struct fwp (0x30 + 4 * i) s2) (\<lambda>(szhi, s3).
        bindR (fwp_read ops cfi_struct fwp (0x2F + 4 * i) s3) (\<lambda>(szlo, s4).
          read_regions ops cfi_struct fwp (Suc i) n
            (s4\<lparr>query := (query s4)\<lparr>erase_block := (erase_block (query s4))[i :=
                \<lparr>er_sector_size = 256 * (256 * ucast szhi + ucast szlo),
                 er_num_sectors = int (unat lo) + 256 * int (unat hi) + 1\<rparr>]\<rparr>\<rparr>)))))
      else Inl OutOfBounds)"

text \<open>\<^verbatim>\<open>cfi_flash_get_cfi\<close>. The three comparisons with \<^verbatim>\<open>QRY\<close> are joined by
  \<^verbatim>\<open>&&\<close> and evaluated in order. The device size is \<^verbatim>\<open>1 << temp\<close>, a shift by the low five bits
  on this processor.\<close>

definition cfi_flash_get_cfi ::
  "'c nor_ops \<Rightarrow> u16 list option \<Rightarrow> flash_family \<Rightarrow> 'c cfi_state \<Rightarrow> (int \<times> 'c cfi_state) res" where
  "cfi_flash_get_cfi ops cfi_struct fam s =
     bindR (cfi_flash_command ops FLASH_CFIQUERY 0 0 0 s) (\<lambda>s1.
     bindR (cfi_flash_get_memptr 0 s1) (\<lambda>fwp.
     let s2 = s1\<lparr>query := (query s1)\<lparr>erase_block :=
                   replicate 8 \<lparr>er_sector_size = 0, er_num_sectors = 0\<rparr>\<rparr>\<rparr> in
     bindR (fwp_read ops cfi_struct fwp 0x10 s2) (\<lambda>(q, s3).
     bindR (if q = 0x51 then Inr (True, s3)
            else bindR (fwp_read ops cfi_struct fwp 0x11 s3) (\<lambda>(r, s').
                 if r = 0x52 then Inr (True, s')
                 else bindR (fwp_read ops cfi_struct fwp 0x12 s') (\<lambda>(y, s'').
                      Inr (y = 0x59, s'')))) (\<lambda>(isQry, s4).
     if \<not> isQry
     then bindR (cfi_flash_command ops FLASH_RESET 0 0 0 s4) (\<lambda>s5. Inr (FLASH_API_ERROR, s5))
     else
       bindR (fwp_read ops cfi_struct fwp 0x27 s4) (\<lambda>(temp, s5).
       bindR (fwp_read ops cfi_struct fwp 0x2C s5) (\<lambda>(nb, s6).
       let blocks = (if fam = FLASH_SST then 1 else int (unat nb)) in
       bindR (read_regions ops cfi_struct fwp 0 (nat blocks)
                (s6\<lparr>query := (query s6)\<lparr>
                     device_size := sint (push_bit (unat temp mod 32) (1 :: u32)),
                     num_erase_blocks := blocks\<rparr>\<rparr>)) (\<lambda>s7.
       bindR (fwp_read ops cfi_struct fwp 0x4F s7) (\<lambda>(tb, s8).
       bindR (cfi_flash_command ops FLASH_RESET 0 0 0
                (s8\<lparr>query := (query s8)\<lparr>top_bottom_indicator := int (unat tb)\<rparr>\<rparr>)) (\<lambda>s9.
         Inr (FLASH_API_OK, s9))))))))))"

section \<open>The sector table\<close>

text \<open>The inner loop: \<open>n\<close> sectors of one region. The state is the index and the base address of the
  next sector and the table. \<^verbatim>\<open>basecount\<close> is a 32 bit \<^verbatim>\<open>int\<close>, and nothing bounds the sizes a chip
  reports: the sum may wrap.\<close>

fun fill_region ::
  "nat \<Rightarrow> int \<Rightarrow> nat \<times> int \<times> sector_info list \<Rightarrow> (nat \<times> int \<times> sector_info list) res" where
  "fill_region 0 sz (count, basecount, sec) = Inr (count, basecount, sec)"
| "fill_region (Suc n) sz (count, basecount, sec) =
     (if count < length sec then
        fill_region n sz
          (Suc count, int32 (basecount + sz),
           sec[count := (sec ! count)\<lparr>sec_size := sz, sec_base := basecount\<rparr>])
      else Inl OutOfBounds)"

text \<open>The outer loop over the regions in the order of the geometry; it stops at the device size.\<close>

fun fill_sectors ::
  "erase_region list \<Rightarrow> int \<Rightarrow> nat \<times> int \<times> sector_info list
     \<Rightarrow> (nat \<times> int \<times> sector_info list) res" where
  "fill_sectors [] dsize st = Inr st"
| "fill_sectors (r # rs) dsize (count, basecount, sec) =
     (if basecount < dsize then
        bindR (fill_region (nat (er_num_sectors r)) (sint (er_sector_size r)) (count, basecount, sec))
          (\<lambda>st. fill_sectors rs dsize st)
      else Inr (count, basecount, sec))"

definition geometry_regions :: "cfi_query \<Rightarrow> bool \<Rightarrow> erase_region list" where
  "geometry_regions q flip =
     (let rs = take (nat (num_erase_blocks q)) (erase_block q) in if flip then rev rs else rs)"

text \<open>The search for eight trailing 8K sectors starts at \<^verbatim>\<open>count-8\<close>, outside the table for a
  part with fewer sectors.\<close>

definition top_device_check :: "nat \<Rightarrow> sector_info list \<Rightarrow> int \<Rightarrow> int res" where
  "top_device_check count sec topdev =
     (if count < 8 then Inl OutOfBounds
      else Inr (if \<forall>x \<in> set (take 8 (drop (count - 8) sec)). sec_size x = 8 * 1024
                then topdev else 0))"

text \<open>\<^verbatim>\<open>cfi_flash_init\<close> in its three phases: the query, with the built-in tables for parts that
  do not answer it; the sector table, the device name and the remaining settings; and the whole.\<close>

definition cfi_query_device ::
  "'c nor_ops \<Rightarrow> u16 \<Rightarrow> flash_family \<Rightarrow> 'c cfi_state \<Rightarrow> (bool \<times> 'c cfi_state) res" where
  "cfi_query_device ops device_id fam s =
     bindR (cfi_flash_get_cfi ops None fam s) (\<lambda>(r, s1).
       if r \<noteq> -1 then Inr (True, s1)
       else if device_id \<in> {ID_AM29LV160T, ID_AM29LV160B}
       then bindR (cfi_flash_get_cfi ops (Some cfi_data_struct_29W160) fam s1)
              (\<lambda>(_, s2). Inr (True, s2))
       else if device_id = ID_AM29LV200BT
       then bindR (cfi_flash_get_cfi ops (Some cfi_data_struct_29W200) fam s1)
              (\<lambda>(_, s2). Inr (True, s2))
       else if device_id = ID_AM29LV800B
       then bindR (cfi_flash_get_cfi ops (Some cfi_data_struct_26LV800B) fam s1)
              (\<lambda>(_, s2). Inr (True, s2\<lparr>cfi_dev_name := ''MX26LV800B''\<rparr>))
       else Inr (False, s1))"

definition cfi_build_table :: "u16 \<Rightarrow> 'c cfi_state \<Rightarrow> (int \<times> 'c cfi_state) res" where
  "cfi_build_table device_id s =
     bindR (fill_sectors
              (geometry_regions (query s)
                 (flip_geometry device_id (top_bottom_indicator (query s))))
              (device_size (query s)) (0, 0, fi_sec (meminfo s)))
       (\<lambda>(count, basecount, sec).
         if count = 0 then Inl OutOfBounds
         else
           bindR (top_device_check count sec (g_FlashTopDevice s)) (\<lambda>topdev.
             Inr (FLASH_API_OK,
               s\<lparr>meminfo := (meminfo s)\<lparr>fi_nsect := int count, fi_sec := sec\<rparr>,
                 totalSize := int32 (sec_base (sec ! (count - 1)) + sec_size (sec ! (count - 1))),
                 cfi_dev_name :=
                   (if cfi_dev_name s = [] then
                      (case find (\<lambda>(i, _, m). m = g_ManufId s \<and> i = device_id)
                              CFI_FLASH_DEVICES of
                         Some (_, name, _) \<Rightarrow> name | None \<Rightarrow> [])
                    else cfi_dev_name s),
                 ebi_wait :=
                   (if device_id = ID_AM29LV320MB \<or> device_id = ID_AM29LV320MT
                    then ebi_wait s OR 0x00000006 else ebi_wait s),
                 g_FlashTopDevice := topdev\<rparr>)))"

definition cfi_flash_init :: "'c nor_ops \<Rightarrow> 'c cfi_state \<Rightarrow> (int \<times> 'c cfi_state) res" where
  "cfi_flash_init ops s =
    (if fi_sec (meminfo s) = [] then Inl OutOfBounds else
     let mi = (meminfo s)\<lparr>fi_addr := 0, fi_areg := 0, fi_nsect := 1, fi_bank1start := 0,
                fi_bank2start := 0,
                fi_sec := (fi_sec (meminfo s))[0 := \<lparr>sec_size = 8192, sec_base = 0, sec_bank = 1\<rparr>]\<rparr> in
     bindR (cfi_flash_command ops FLASH_RESET 0 0 0 (s\<lparr>meminfo := mi\<rparr>)) (\<lambda>s1.
     bindR (cfi_flash_get_device_id ops s1) (\<lambda>(device_id, s2).
     let s3 = s2\<lparr>cfi_dev_id := device_id, cfi_dev_name := []\<rparr> in
     case device_family device_id of
       None \<Rightarrow> Inr (FLASH_API_ERROR, s3)
     | Some fam \<Rightarrow>
       bindR (cfi_query_device ops device_id fam (s3\<lparr>flashFamily := fam\<rparr>)) (\<lambda>(known, s4).
         if \<not> known then Inr (FLASH_API_ERROR, s4) else cfi_build_table device_id s4))))"

text \<open>\<^verbatim>\<open>flash_init\<close>; the serial flash driver is commented out in the source.\<close>

definition flash_init :: "'c nor_ops \<Rightarrow> 'c cfi_state \<Rightarrow> (int \<times> 'c cfi_state) res" where
  "flash_init ops s =
     bindR (cfi_flash_init ops s) (\<lambda>(ret, s1).
       Inr (ret, if ret = FLASH_API_OK then s1\<lparr>g_flash_info_set := True\<rparr> else s1))"

definition JudgeFlashIsTopDevice8K :: "'c cfi_state \<Rightarrow> int" where
  "JudgeFlashIsTopDevice8K s = g_FlashTopDevice s"

end
