(* ===== verification/Nor_Chip.thy ===== *)
theory Nor_Chip
  imports Cfi_Flash
begin

text \<open>
  The flash chip as the driver relies on it: the locale \<open>nor_chip\<close>. The chip itself is not part of
  the repository; it is a parameter of the driver's model, and this locale names the documented
  behaviour the driver's correctness rests on. A simulated chip that satisfies the laws is in
  \<^verbatim>\<open>Sim_Chip\<close>.
\<close>

section \<open>Halfwords and bytes\<close>

lemma and_ones16: "(d :: u16) AND 0xFFFF = d"
proof -
  have "(0xFFFF :: u16) = - 1" by simp
  thus ?thesis by (simp only: and.right_neutral)
qed

definition half_bytes :: "u16 list \<Rightarrow> byte list" where
  "half_bytes hs = concat (map (\<lambda>d. [hi8 d, lo8 d]) hs)"

lemma half_bytes_simps [simp]:
  "half_bytes [] = []" "half_bytes (h # hs) = hi8 h # lo8 h # half_bytes hs"
  by (simp_all add: half_bytes_def)

lemma half_bytes_append [simp]: "half_bytes (hs @ hs') = half_bytes hs @ half_bytes hs'"
  by (simp add: half_bytes_def)

lemma length_half_bytes [simp]: "length (half_bytes hs) = 2 * length hs"
  by (induction hs) auto

lemma half_bytes_take_drop:
  "half_bytes (take i hs) = take (2 * i) (half_bytes hs)"
  "half_bytes (drop i hs) = drop (2 * i) (half_bytes hs)"
  by (induction hs arbitrary: i) (auto simp: take_Cons drop_Cons split: nat.split)

lemma half_bytes_overlay:
  "half_bytes (overlay i ws hs) = overlay (2 * i) (half_bytes ws) (half_bytes hs)"
  by (simp add: overlay_def half_bytes_take_drop)

lemma list_update_overlay: "i < length hs \<Longrightarrow> hs[i := w] = overlay i [w] hs"
  by (simp add: overlay_def upd_conv_take_nth_drop)

lemma half_bytes_update:
  "i < length hs \<Longrightarrow> half_bytes (hs[i := be16 a b]) = overlay (2 * i) [a, b] (half_bytes hs)"
  by (simp add: list_update_overlay half_bytes_overlay)

lemma half_bytes_nth:
  "a < 2 * length hs \<Longrightarrow>
     half_bytes hs ! a = (if even a then hi8 (hs ! (a div 2)) else lo8 (hs ! (a div 2)))"
proof (induction hs arbitrary: a)
  case (Cons h hs)
  show ?case
  proof (cases "a < 2")
    case True thus ?thesis by (cases a) auto
  next
    case False
    then obtain b where "a = b + 2" by (metis add.commute le_Suc_ex not_less)
    thus ?thesis using Cons by simp
  qed
qed simp

lemma half_bytes_replicate [simp]:
  "half_bytes (replicate n 0xFFFF) = replicate (2 * n) 0xFF"
  by (induction n) (auto simp: hi8_def lo8_def)

section \<open>The chip\<close>

text \<open>\<open>polls ops a d n c c'\<close>: reading address \<open>a\<close> returns \<open>n\<close> status words, different from \<open>d\<close>
  and with the time-out bit \<^verbatim>\<open>DQ5\<close> clear, and then \<open>d\<close>.\<close>

fun polls :: "'c nor_ops \<Rightarrow> int \<Rightarrow> u16 \<Rightarrow> nat \<Rightarrow> 'c \<Rightarrow> 'c \<Rightarrow> bool" where
  "polls ops a d 0 c c' \<longleftrightarrow> bus_rd ops a c = (d, c')"
| "polls ops a d (Suc n) c c' \<longleftrightarrow>
     (case bus_rd ops a c of (x, c1) \<Rightarrow> x \<noteq> d \<and> x AND 0x20 = 0 \<and> polls ops a d n c1 c')"

text \<open>
  The laws of a chip with the AMD command set, as its data book gives them. \<open>sectors\<close> are the sector
  sizes in bytes and \<open>cells\<close> is the array. In \<open>idle\<close> state reads return the array. The three-cycle
  unlock sequence enters \<open>bypass\<close> state, in which \<open>0xA0\<close> followed by a word programs it (bits only
  go from one to zero) and \<open>0x90\<close>, \<open>0x00\<close> returns to \<open>idle\<close>; other commands are ignored there.
  The six-cycle sequence starts erasing the sector addressed by its last cycle; an erase may be
  suspended and resumed. While an operation runs, reads return status. The unlock addresses are
  decoded on the low address lines only, so they may be given relative to any sector.
\<close>

locale nor_chip =
  fixes ops :: "'c nor_ops"
    and sectors :: "nat list"
    and cells :: "'c \<Rightarrow> u16 list"
    and idle :: "'c \<Rightarrow> bool"
    and bypass :: "'c \<Rightarrow> bool"
    and erasing :: "nat \<Rightarrow> 'c \<Rightarrow> bool"
  assumes geometry: "sectors \<noteq> []" "n \<in> set sectors \<Longrightarrow> 0 < n \<and> 4096 dvd n"
      "length sectors \<le> MAXSECTORS" "sum_list sectors < 2 ^ 31"
    and cells_length: "2 * length (cells c) = sum_list sectors"
    and read_array:
      "\<lbrakk>idle c; i < length (cells c)\<rbrakk> \<Longrightarrow> bus_rd ops (int i) c = (cells c ! i, c)"
    and unlock_bypass:
      "idle c \<Longrightarrow> bypass (bus_wr ops 0x555 0x20 (bus_wr ops 0x2AA 0x55 (bus_wr ops 0x555 0xAA c)))
         \<and> cells (bus_wr ops 0x555 0x20 (bus_wr ops 0x2AA 0x55 (bus_wr ops 0x555 0xAA c))) = cells c"
    and program_word:
      "\<lbrakk>bypass c; i < length (cells c); d AND cells c ! i = d; p < length (cells c)\<rbrakk> \<Longrightarrow>
         \<exists>n c'. polls ops (int i) d n (bus_wr ops (int i) d (bus_wr ops (int p) 0xA0 c)) c'
            \<and> bypass c' \<and> cells c' = (cells c)[i := d]"
    and bypass_other:
      "\<lbrakk>bypass c; p < length (cells c); d \<in> {0xB0, 0x30}\<rbrakk> \<Longrightarrow>
         bypass (bus_wr ops (int p) d c) \<and> cells (bus_wr ops (int p) d c) = cells c"
    and bypass_reset:
      "bypass c \<Longrightarrow> idle (bus_wr ops 0 0x00 (bus_wr ops 0 0x90 c))
         \<and> cells (bus_wr ops 0 0x00 (bus_wr ops 0 0x90 c)) = cells c"
    and erase_start:
      "\<lbrakk>idle c; k < length sectors; q = int (sector_start sectors k div 2)\<rbrakk> \<Longrightarrow>
         erasing k (fold (\<lambda>(a, d). bus_wr ops a d)
           [(q + 0x555, 0xAA), (q + 0x2AA, 0x55), (q + 0x555, 0x80),
            (q + 0x555, 0xAA), (q + 0x2AA, 0x55), (q, 0x30)] c)
         \<and> cells (fold (\<lambda>(a, d). bus_wr ops a d)
           [(q + 0x555, 0xAA), (q + 0x2AA, 0x55), (q + 0x555, 0x80),
            (q + 0x555, 0xAA), (q + 0x2AA, 0x55), (q, 0x30)] c) = cells c"
    and erase_suspend:
      "\<lbrakk>erasing k c; q = int (sector_start sectors k div 2)\<rbrakk> \<Longrightarrow>
         erasing k (bus_wr ops q 0x30 (bus_wr ops q 0xB0 c))
         \<and> cells (bus_wr ops q 0x30 (bus_wr ops q 0xB0 c)) = cells c"
    and erase_done:
      "\<lbrakk>erasing k c; k < length sectors\<rbrakk> \<Longrightarrow>
         \<exists>n c'. polls ops (int (sector_start sectors k div 2)) 0xFFFF n c c' \<and> idle c'
            \<and> cells c' = overlay (sector_start sectors k div 2)
                 (replicate (sectors ! k div 2) 0xFFFF) (cells c)"

end
