(* ===== verification/Cfi_Correct.thy ===== *)
theory Cfi_Correct
  imports Nor_Chip
begin

text \<open>
  Correctness of the CFI driver. On a chip that satisfies \<open>nor_chip\<close>, with a sector table that
  matches the chip (\<open>cfi_wf\<close>) and a free semaphore, the operations of \<^verbatim>\<open>cfiflash.c\<close>
  satisfy the contract \<open>flash_device\<close>: this is the sublocale at the end.
\<close>

section \<open>Tables, addresses and polling\<close>

lemma poll_data_polls: "polls ops a d n c c' \<Longrightarrow> poll_data ops a d c = Some (d, c')"
proof (induction n arbitrary: c)
  case 0 thus ?case by (simp add: poll_data_def while_option_unfold)
next
  case (Suc n)
  obtain x c1 where x: "bus_rd ops a c = (x, c1)" by fastforce
  hence "poll_data ops a d c = poll_data ops a d c1"
    using Suc.prems unfolding poll_data_def by (subst while_option_unfold) simp
  thus ?case using Suc x by simp
qed

section \<open>Sector table\<close>

definition flash_content :: "('c \<Rightarrow> u16 list) \<Rightarrow> 'c cfi_state \<Rightarrow> byte list" where
  "flash_content cells s = half_bytes (cells (chip s))"


definition cfi_wf :: "nat list \<Rightarrow> 'c cfi_state \<Rightarrow> bool" where
  "cfi_wf sects s \<longleftrightarrow>
     flashFamily s = FLASH_AMD \<and> fi_nsect (meminfo s) = int (length sects)
     \<and> length (fi_sec (meminfo s)) = MAXSECTORS \<and> length sects \<le> MAXSECTORS
     \<and> sects \<noteq> [] \<and> sum_list sects < 2 ^ 31
     \<and> (\<forall>k < length sects. sec_size (fi_sec (meminfo s) ! k) = int (sects ! k)
                       \<and> sec_base (fi_sec (meminfo s) ! k) = int (sector_start sects k))
     \<and> totalSize s = int (sum_list sects)"

lemma cfi_wf_chip [simp]: "cfi_wf sects (s\<lparr>chip := c\<rparr>) = cfi_wf sects s"
  by (simp add: cfi_wf_def)

lemma cfi_wf_sem [simp]: "cfi_wf sects (s\<lparr>write_sem := c\<rparr>) = cfi_wf sects s"
  by (simp add: cfi_wf_def)

lemma FLASH_BASE_upd [simp]:
  "FLASH_BASE (s\<lparr>chip := c\<rparr>) = FLASH_BASE s" "FLASH_BASE (s\<lparr>write_sem := n\<rparr>) = FLASH_BASE s"
  by (simp_all add: FLASH_BASE_def)

lemma unat_of_sector: "k < MAXSECTORS \<Longrightarrow> unat (of_nat k :: u16) = k"
  by (simp add: unat_of_nat)

lemma cfi_memptr:
  assumes "cfi_wf sects s" "k < length sects"
  shows "cfi_flash_get_memptr (of_nat k) s = Inr (FLASH_BASE s + of_nat (sector_start sects k))"
  using assms by (auto simp: cfi_wf_def cfi_flash_get_memptr_def sec_at_def unat_of_sector)

lemma unat_offset: "n < 2 ^ 31 \<Longrightarrow> unat (b + of_nat n - b :: u32) = n"
  by (simp add: unat_of_nat)

lemma cfi_flash_half:
  assumes "cfi_wf sects s"
  shows "flash_half (FLASH_BASE s + of_nat (sector_start sects k)) s = int (sector_start sects k div 2)"
proof -
  have "sector_start sects k < 2 ^ 31" 
    using assms sector_start_le[of k sects] by (simp add: cfi_wf_def)
  thus ?thesis unfolding flash_half_def by (simp only: unat_offset zdiv_int of_nat_numeral)
qed

lemma cfi_command:
  assumes "cfi_wf sects s" "k < length sects"
  shows "cfi_flash_command ops cmd (of_nat k) offset d s =
     Inr (s\<lparr>chip := issue ops (cfi_command_cycles FLASH_AMD cmd
            (int (sector_start sects k div 2)) 0 offset d) (chip s)\<rparr>)"
proof -
  have "0 < length sects" using assms by auto
  hence "cfi_flash_get_memptr 0 s = Inr (FLASH_BASE s + of_nat (sector_start sects 0))"
    using cfi_memptr[OF assms(1), of 0] by simp
  thus ?thesis
    using assms cfi_memptr[OF assms] cfi_flash_half[OF assms(1), of k] cfi_flash_half[OF assms(1), of 0]
    by (simp add: cfi_flash_command_def cfi_wf_def)
qed

lemma cfi_wait:
  assumes "cfi_wf sects s" "k < length sects"
    and "polls ops (int (sector_start sects k div 2) + offset div 2) d n (chip s) c'"
  shows "cfi_flash_wait ops (of_nat k) offset d s = Inr (STATUS_READY, s\<lparr>chip := c'\<rparr>)"
  using assms(1) poll_data_polls[OF assms(3)]
  by (simp add: cfi_flash_wait_def cfi_memptr[OF assms(1,2)] cfi_flash_half[OF assms(1)]
      cfi_wait_amd_def cfi_wf_def)


lemma cfi_sector_size:
  assumes "cfi_wf sects s" "k < length sects"
  shows "cfi_flash_get_sector_size (of_nat k) s = Inr (int (sects ! k))"
  using assms by (auto simp: cfi_wf_def cfi_flash_get_sector_size_def sec_at_def unat_of_sector)

lemma cfi_blk_scan_ok:
  assumes "cfi_wf sects s" "a < sum_list sects" "k \<le> length sects"
  shows "\<exists>j. cfi_blk_scan (int a) (int (length sects)) (int k) (int (sector_start sects k)) s
               = Inr (int j, int (sector_start sects j))
           \<and> k \<le> j \<and> j \<le> length sects \<and> a \<le> sector_start sects j
           \<and> (k < j \<longrightarrow> sector_start sects (j - 1) < a)"
  using assms(3)
proof (induction "length sects - k" arbitrary: k)
  case 0
  hence "k = length sects" by simp
  thus ?case using assms(2) by (subst cfi_blk_scan.simps) (auto intro!: exI[of _ "length sects"])
next
  case (Suc n)
  hence k: "k < length sects" by simp
  show ?case
  proof (cases "sector_start sects k < a")
    case False
    thus ?thesis using k by (subst cfi_blk_scan.simps) (auto intro!: exI[of _ k])
  next
    case True
    have "n = length sects - Suc k" "Suc k \<le> length sects" using Suc.hyps(2) k by auto
    then obtain j where j: "cfi_blk_scan (int a) (int (length sects)) (int (Suc k))
          (int (sector_start sects (Suc k))) s = Inr (int j, int (sector_start sects j))"
      "Suc k \<le> j" "j \<le> length sects" "a \<le> sector_start sects j"
      "Suc k < j \<longrightarrow> sector_start sects (j - 1) < a"
      using Suc.hyps(1) by blast
    have "cfi_blk_scan (int a) (int (length sects)) (int k) (int (sector_start sects k)) s
        = Inr (int j, int (sector_start sects j))"
      using True k j(1) cfi_sector_size[OF assms(1) k]
      by (subst cfi_blk_scan.simps) (simp add: sector_start_Suc add.commute)
    moreover have "sector_start sects (j - 1) < a" using j(2,5) True by (cases "j = Suc k") auto
    ultimately show ?thesis using j(2-4) by auto
  qed
qed

lemma cfi_get_blk:
  assumes "cfi_wf sects s" "a < sum_list sects" "\<And>n. n \<in> set sects \<Longrightarrow> 0 < n"
  shows "cfi_flash_get_blk (FLASH_BASE s + of_nat a) s = Inr (int (sector_of sects a))"
proof -
  have a: "a < 2 ^ 31" using assms(1,2) by (simp add: cfi_wf_def)
  hence r: "sint (of_nat a :: u32) = int a"
    by (simp add: sint_uint signed_take_bit_int_eq_self unsigned_of_nat take_bit_nat_eq_self)
  obtain j where j: "cfi_blk_scan (int a) (int (length sects)) 0 0 s = Inr (int j, int (sector_start sects j))"
    "j \<le> length sects" "a \<le> sector_start sects j" "0 < j \<longrightarrow> sector_start sects (j - 1) < a"
    using cfi_blk_scan_ok[OF assms(1,2), of 0] by auto
  have n: "cfi_flash_get_numsectors s = int (length sects)"
    using assms(1) by (simp add: cfi_flash_get_numsectors_def cfi_wf_def)
  show ?thesis
  proof (cases "a < sector_start sects j")
    case True
    then obtain i where i: "j = Suc i" by (cases j) auto
    hence "sector_of sects a = i"
      using j(2,4) True by (intro sector_of_unique) (auto simp: sector_start_Suc)
    thus ?thesis using True i j(1) by (simp add: cfi_flash_get_blk_def r n)
  next
    case False
    hence e: "a = sector_start sects j" using j(3) by simp
    hence l: "j < length sects" using assms(2) j(2) by (metis le_neq_implies_less nat_neq_iff take_all order_refl)
    hence "sector_of sects a = j"
      using e assms(3)[OF nth_mem[OF l]] by (intro sector_of_unique) auto
    thus ?thesis using l j(1) r n by (simp add: cfi_flash_get_blk_def e[symmetric])
  qed
qed

definition cfi_inv :: "nat list \<Rightarrow> ('c \<Rightarrow> bool) \<Rightarrow> u32 \<Rightarrow> 'c cfi_state \<Rightarrow> bool" where
  "cfi_inv sects idle base s \<longleftrightarrow>
     cfi_wf sects s \<and> idle (chip s) \<and> (in_irq s \<or> 0 < write_sem s) \<and> FLASH_BASE s = base"

lemma cfi_inv_chip: "cfi_inv sects idle base s \<Longrightarrow> idle c \<Longrightarrow> cfi_inv sects idle base (s\<lparr>chip := c\<rparr>)"
  by (simp add: cfi_inv_def)

lemma sem_enter_ok: "in_irq s \<or> 0 < write_sem s \<Longrightarrow>
   sem_enter s = Inr (if in_irq s then s else s\<lparr>write_sem := write_sem s - 1\<rparr>)"
  by (auto simp: sem_enter_def down_interruptible_def)

lemma sem_leave_ok:
  "sem_leave ((if in_irq s then s else s\<lparr>write_sem := write_sem s - 1\<rparr>)\<lparr>chip := c\<rparr>) = s\<lparr>chip := c\<rparr>"
  by (simp add: sem_leave_def)

section \<open>The operations on a chip that obeys its data book\<close>

context nor_chip begin

lemma sector_start_even: "even (sector_start sectors k)"
proof -
  have "even n" if "n \<in> set (take k sectors)" for n
    using geometry(2)[of n] in_set_takeD[OF that] by (auto elim: dvd_trans[rotated])
  thus ?thesis by (rule dvd_sum_list)
qed

lemma sector_size_even: "k < length sectors \<Longrightarrow> even (sectors ! k)"
  using geometry(2) by (meson dvd_trans even_numeral nth_mem)

lemma sector_start_double: "2 * (sector_start sectors k div 2) = sector_start sectors k"
  using sector_start_even by simp

lemma length_content: "length (flash_content cells s) = sum_list sectors"
  by (simp add: flash_content_def cells_length)

lemma byte_read_idle:
  assumes "idle (chip s)" "a < sum_list sectors"
  shows "byte_read ops (int a) s = (flash_content cells s ! a, s)"
proof -
  have "a div 2 < length (cells (chip s))" using assms(2) cells_length[of "chip s"] by linarith
  hence "bus_rd ops (int a div 2) (chip s) = (cells (chip s) ! (a div 2), chip s)"
    using read_array[OF assms(1), of "a div 2"] by (simp add: zdiv_int)
  moreover have "a < 2 * length (cells (chip s))" using assms(2) cells_length by simp
  ultimately show ?thesis
    by (simp add: byte_read_def flash_content_def half_bytes_nth)
qed

lemma read_bytes_idle:
  assumes "idle (chip s)" "a + n \<le> sum_list sectors"
  shows "read_bytes ops (int a) n s = (slice a n (flash_content cells s), s)"
  using assms(2)
proof (induction n arbitrary: a)
  case (Suc n)
  have "slice a (Suc n) (flash_content cells s) = flash_content cells s ! a # slice (Suc a) n (flash_content cells s)"
    using Suc.prems by (simp add: slice_def Cons_nth_drop_Suc[symmetric] length_content)
  thus ?case using Suc.IH[of "Suc a"] Suc.prems byte_read_idle[OF assms(1), of a] by (simp add: add.commute)
qed simp

lemma memcmp_idle:
  assumes "idle (chip s)" "a + n \<le> sum_list sectors" "n \<le> length buf"
  shows "flash_memcmp ops (int a) buf n s = Inr (slice a n (flash_content cells s) = take n buf, s)"
  using assms(2,3)
proof (induction n arbitrary: a buf)
  case (Suc n)
  obtain x xs where buf: "buf = x # xs" using Suc.prems(2) by (cases buf) auto
  have "slice a (Suc n) (flash_content cells s) = flash_content cells s ! a # slice (Suc a) n (flash_content cells s)"
    using Suc.prems by (simp add: slice_def Cons_nth_drop_Suc[symmetric] length_content)
  thus ?case
    using Suc.IH[of "Suc a" xs] Suc.prems buf byte_read_idle[OF assms(1), of a] by (simp add: add.commute)
qed simp

lemma cfi_write_loop_0 [simp]: "cfi_write_loop ops k off src 0 s = Inr (src, s)"
  by (subst cfi_write_loop.simps) simp

lemma erased_cell:
  assumes "2 * i + 2 \<le> p + n" "p \<le> 2 * i" "p + n \<le> sum_list sectors"
    and "slice p n (flash_content cells s) = replicate n 0xFF"
  shows "cells (chip s) ! i = 0xFFFF"
proof -
  have b: "flash_content cells s ! a = 0xFF" if "p \<le> a" "a < p + n" for a
    using nth_slice[of p n "flash_content cells s" "a - p"] that assms(3,4) by (simp add: length_content)
  have "i < length (cells (chip s))" using assms(1,3) cells_length[of "chip s"] by simp
  hence "hi8 (cells (chip s) ! i) = 0xFF" "lo8 (cells (chip s) ! i) = 0xFF"
    using b[of "2 * i"] b[of "2 * i + 1"] assms(1,2)
      half_bytes_nth[of "2 * i" "cells (chip s)"] half_bytes_nth[of "2 * i + 1" "cells (chip s)"]
    by (auto simp: flash_content_def)
  thus ?thesis using be16_hi8_lo8[of "cells (chip s) ! i"] by simp
qed

lemma suspend_in_bypass:
  assumes "cfi_wf sectors s" "k < length sectors" "bypass (chip s)"
  shows "\<exists>c. (if b then bindR (cfi_flash_command ops FLASH_SUSPEND (of_nat k) off 0 s)
                        (\<lambda>s'. cfi_flash_command ops FLASH_RESUME (of_nat k) off 0 s')
              else Inr s) = Inr (s\<lparr>chip := c\<rparr>)
           \<and> bypass c \<and> cells c = cells (chip s)"
proof (cases b)
  case False thus ?thesis using assms by (intro exI[of _ "chip s"]) simp
next
  case True
  let ?p = "sector_start sectors k div 2"
  have "sector_start sectors k < sum_list sectors"
    using sector_end_le[OF assms(2)] geometry(2)[OF nth_mem[OF assms(2)]] by linarith
  hence p: "?p < length (cells c)" for c using cells_length[of c] by linarith
  let ?c = "bus_wr ops (int ?p) 0x30 (bus_wr ops (int ?p) 0xB0 (chip s))"
  have "bypass ?c \<and> cells ?c = cells (chip s)"
    using bypass_other[OF assms(3) p, of "0xB0"] bypass_other[OF _ p, of "bus_wr ops (int ?p) 0xB0 (chip s)" "0x30"]
    by auto
  thus ?thesis using True assms(1,2) by (auto simp: cfi_command cfi_command_cycles_def issue_def)
qed

lemma prog_step:
  assumes "cfi_wf sectors s" "k < length sectors" "bypass (chip s)" "even off"
    and "sector_start sectors k + off + 2 \<le> sum_list sectors"
    and "cells (chip s) ! ((sector_start sectors k + off) div 2) = 0xFFFF"
  shows "\<exists>s1 c. cfi_flash_command ops FLASH_PROG (of_nat k) (int off) (be16 b0 b1) s = Inr s1
           \<and> cfi_flash_wait ops (of_nat k) (int off) (be16 b0 b1) s1 = Inr (STATUS_READY, s\<lparr>chip := c\<rparr>)
           \<and> bypass c
           \<and> half_bytes (cells c) = overlay (sector_start sectors k + off) [b0, b1] (flash_content cells s)"
proof -
  let ?p = "sector_start sectors k div 2" and ?d = "be16 b0 b1" and ?cs = "cells (chip s)"
  let ?i = "?p + off div 2"
  have i: "2 * ?i = sector_start sectors k + off" "(sector_start sectors k + off) div 2 = ?i"
    using sector_start_double[of k] assms(4) by auto
  have lt: "?i < length ?cs" "?p < length ?cs"
    using i assms(5) cells_length[of "chip s"] by auto
  let ?c1 = "bus_wr ops (int ?i) ?d (bus_wr ops (int ?p) 0xA0 (chip s))"
  obtain n c where c: "polls ops (int ?i) ?d n ?c1 c" "bypass c" "cells c = ?cs[?i := ?d]"
    using program_word[OF assms(3) lt(1) _ lt(2), of ?d] assms(6) i(2) by (auto simp: and_ones16)
  have "cfi_flash_command ops FLASH_PROG (of_nat k) (int off) ?d s = Inr (s\<lparr>chip := ?c1\<rparr>)"
    using cfi_command[OF assms(1,2)] by (simp add: cfi_command_cycles_def issue_def zdiv_int)
  moreover have "cfi_flash_wait ops (of_nat k) (int off) ?d (s\<lparr>chip := ?c1\<rparr>) = Inr (STATUS_READY, s\<lparr>chip := c\<rparr>)"
    using cfi_wait[of sectors "s\<lparr>chip := ?c1\<rparr>" k ops "int off" ?d n c] c(1) assms(1,2) by (simp add: zdiv_int)
  moreover have "half_bytes (cells c) = overlay (sector_start sectors k + off) [b0, b1] (flash_content cells s)"
    using half_bytes_update[OF lt(1), of b0 b1] i(1) c(3) by (simp add: flash_content_def)
  ultimately show ?thesis using c(2) by blast
qed

lemma erased_tail:
  assumes "p + (n + m) \<le> length buf" "slice p (n + m) buf = replicate (n + m) x"
  shows "slice (p + n) m buf = replicate m x"
proof -
  have "slice (p + n) m buf = slice n m (slice p (n + m) buf)"
    using assms(1) by (subst slice_slice) auto
  thus ?thesis by (simp add: assms(2)) (simp add: slice_def)
qed

lemma write_loop_ok:
  assumes "cfi_wf sectors s" "k < length sectors" "bypass (chip s)"
    and "even off" "2 * m \<le> length src" "sector_start sectors k + off + 2 * m \<le> sum_list sectors"
    and "slice (sector_start sectors k + off) (2 * m) (flash_content cells s) = replicate (2 * m) 0xFF"
  shows "\<exists>c'. cfi_write_loop ops (of_nat k) (int off) src (int (2 * m)) s
              = Inr (drop (2 * m) src, s\<lparr>chip := c'\<rparr>) \<and> bypass c'
            \<and> half_bytes (cells c')
              = overlay (sector_start sectors k + off) (take (2 * m) src) (flash_content cells s)"
  using assms
proof (induction m arbitrary: s off src)
  case 0 thus ?case by (intro exI[of _ "chip s"]) (simp add: flash_content_def)
next
  case (Suc m)
  let ?a = "sector_start sectors k + off"
  obtain b0 b1 src' where src: "src = b0 # b1 # src'"
    using Suc.prems(5) by (cases src; cases "tl src") auto
  have "cells (chip s) ! (?a div 2) = 0xFFFF"
    by (rule erased_cell[of _ ?a "2 * Suc m"]) (use Suc.prems sector_start_even in auto)
  then obtain s1 c1 where c1:
    "cfi_flash_command ops FLASH_PROG (of_nat k) (int off) (be16 b0 b1) s = Inr s1"
    "cfi_flash_wait ops (of_nat k) (int off) (be16 b0 b1) s1 = Inr (STATUS_READY, s\<lparr>chip := c1\<rparr>)"
    "bypass c1" "half_bytes (cells c1) = overlay ?a [b0, b1] (flash_content cells s)"
    using prog_step[OF Suc.prems(1-4), of b0 b1] Suc.prems(6) by auto
  obtain c2 where c2: "bypass c2" "cells c2 = cells c1"
    "(if g_iReset (s\<lparr>chip := c1\<rparr>) \<noteq> 0 \<and> (int (2 * Suc m) - 2) mod 8192 = 0
      then bindR (cfi_flash_command ops FLASH_SUSPEND (of_nat k) (int off + 2) 0 (s\<lparr>chip := c1\<rparr>))
             (\<lambda>s'. cfi_flash_command ops FLASH_RESUME (of_nat k) (int off + 2) 0 s')
      else Inr (s\<lparr>chip := c1\<rparr>)) = Inr (s\<lparr>chip := c2\<rparr>)"
    using suspend_in_bypass[of "s\<lparr>chip := c1\<rparr>" k
        "g_iReset (s\<lparr>chip := c1\<rparr>) \<noteq> 0 \<and> (int (2 * Suc m) - 2) mod 8192 = 0" "int off + 2"]
      Suc.prems(1,2) c1(3) by auto
  have fc: "flash_content cells (s\<lparr>chip := c2\<rparr>) = overlay ?a [b0, b1] (flash_content cells s)"
    using c1(4) c2(2) by (simp add: flash_content_def)
  have "slice (?a + 2) (2 * m) (flash_content cells s) = replicate (2 * m) 0xFF"
    by (rule erased_tail) (use Suc.prems(6,7) in \<open>auto simp: length_content\<close>)
  hence er: "slice (?a + 2) (2 * m) (flash_content cells (s\<lparr>chip := c2\<rparr>)) = replicate (2 * m) 0xFF"
    unfolding fc using Suc.prems(6) by (subst slice_overlay_disjoint) (auto simp: length_content)
  obtain c' where c': "cfi_write_loop ops (of_nat k) (int (off + 2)) src' (int (2 * m)) (s\<lparr>chip := c2\<rparr>)
      = Inr (drop (2 * m) src', s\<lparr>chip := c'\<rparr>)" "bypass c'"
    "half_bytes (cells c') = overlay (?a + 2) (take (2 * m) src') (flash_content cells (s\<lparr>chip := c2\<rparr>))"
    using Suc.IH[of "s\<lparr>chip := c2\<rparr>" "off + 2" src'] Suc.prems c2(1) src er by (auto simp: add.assoc)
  have "half_bytes (cells c') = overlay ?a (take (2 * Suc m) src) (flash_content cells s)"
    using c'(3) fc overlay_append_adjacent[of ?a "[b0, b1]" "take (2 * m) src'" "flash_content cells s"]
      Suc.prems(5,6) src by (simp add: length_content)
  moreover have "cfi_write_loop ops (of_nat k) (int off) src (int (2 * Suc m)) s
      = Inr (drop (2 * Suc m) src, s\<lparr>chip := c'\<rparr>)"
    using c1(1,2) c2(3) c'(1) by (subst cfi_write_loop.simps) (simp add: src add.commute)
  ultimately show ?case using c'(2) by blast
qed

lemma write_ok:
  assumes "cfi_wf sectors s" "k < length sectors" "idle (chip s)" "even off" "even n"
    and "n \<le> length buf" "sector_start sectors k + off + n \<le> sum_list sectors"
    and "slice (sector_start sectors k + off) n (flash_content cells s) = replicate n 0xFF"
  shows "\<exists>c'. cfi_flash_write ops (of_nat k) (int off) buf (int n) s = Inr (int n, s\<lparr>chip := c'\<rparr>)
            \<and> idle c'
            \<and> half_bytes (cells c')
              = overlay (sector_start sectors k + off) (take n buf) (flash_content cells s)"
proof -
  obtain m where n: "n = 2 * m" using assms(5) by (auto elim: evenE)
  let ?c1 = "bus_wr ops 0x555 0x20 (bus_wr ops 0x2AA 0x55 (bus_wr ops 0x555 0xAA (chip s)))"
  let ?s1 = "s\<lparr>chip := ?c1\<rparr>"
  have c1: "bypass ?c1" "cells ?c1 = cells (chip s)" using unlock_bypass[OF assms(3)] by auto
  have z: "0 < length sectors" using assms(2) by auto
  have cmd: "cfi_flash_command ops FLASH_UB 0 0 0 s = Inr ?s1"
    using cfi_command[OF assms(1) z, of ops FLASH_UB 0 0]
    by (simp add: cfi_command_cycles_def unlock_cycles_def issue_def)
  have "cfi_wf sectors ?s1" "bypass (chip ?s1)" using assms(1) c1(1) by simp_all
  moreover have fc: "flash_content cells ?s1 = flash_content cells s" 
    using c1(2) by (simp add: flash_content_def)
  ultimately obtain c2 where c2:
    "cfi_write_loop ops (of_nat k) (int off) buf (int (2 * m)) ?s1 = Inr (drop (2 * m) buf, s\<lparr>chip := c2\<rparr>)"
    "bypass c2"
    "half_bytes (cells c2) = overlay (sector_start sectors k + off) (take (2 * m) buf) (flash_content cells s)"
    using write_loop_ok[of ?s1 k off m buf] assms(2,4,6,7,8) n by auto
  let ?c3 = "bus_wr ops 0 0x00 (bus_wr ops 0 0x90 c2)"
  have "cfi_flash_command ops FLASH_UBRESET 0 0 0 (s\<lparr>chip := c2\<rparr>) = Inr (s\<lparr>chip := ?c3\<rparr>)"
    using cfi_command[of sectors "s\<lparr>chip := c2\<rparr>" 0 ops FLASH_UBRESET 0 0] assms(1) z
    by (simp add: cfi_command_cycles_def issue_def)
  hence "cfi_flash_write ops (of_nat k) (int off) buf (int n) s = Inr (int n, s\<lparr>chip := ?c3\<rparr>)"
    using cmd c2(1) assms(4,6) by (simp add: cfi_flash_write_def n)
  thus ?thesis using bypass_reset[OF c2(2)] c2(3) n by auto
qed

lemma write_tries_ok:
  assumes "cfi_wf sectors s" "k < length sectors" "idle (chip s)" "even off" "even n"
    and "n \<le> length buf" "sector_start sectors k + off + n \<le> sum_list sectors"
    and "slice (sector_start sectors k + off) n (flash_content cells s) = replicate n 0xFF"
  shows "\<exists>c'. cfi_write_tries ops (of_nat k) (int off) (int (sector_start sectors k + off)) buf (int n) (Suc t) ret s
              = Inr (int n, s\<lparr>chip := c'\<rparr>)
            \<and> idle c'
            \<and> half_bytes (cells c')
              = overlay (sector_start sectors k + off) (take n buf) (flash_content cells s)"
proof -
  obtain c where c: "cfi_flash_write ops (of_nat k) (int off) buf (int n) s = Inr (int n, s\<lparr>chip := c\<rparr>)"
    "idle c" "half_bytes (cells c) = overlay (sector_start sectors k + off) (take n buf) (flash_content cells s)"
    using write_ok[OF assms] by blast
  have "slice (sector_start sectors k + off) n (flash_content cells (s\<lparr>chip := c\<rparr>)) = take n buf"
    using slice_overlay_same[of "sector_start sectors k + off" "take n buf" "flash_content cells s"] assms(6,7)
    by (simp add: flash_content_def[of _ "s\<lparr>chip := c\<rparr>"] c(3) length_content)
  hence "flash_memcmp ops (int (sector_start sectors k + off)) buf n (s\<lparr>chip := c\<rparr>) = Inr (True, s\<lparr>chip := c\<rparr>)"
    using memcmp_idle[of "s\<lparr>chip := c\<rparr>" "sector_start sectors k + off" n buf] c(2) assms(6,7) by simp
  thus ?thesis using c by auto
qed

lemma erase_ok:
  assumes "cfi_wf sectors s" "k < length sectors" "idle (chip s)"
  shows "\<exists>c'. cfi_erase_tries ops (of_nat k) (Suc t) s = Inr (s\<lparr>chip := c'\<rparr>) \<and> idle c'
            \<and> half_bytes (cells c')
              = overlay (sector_start sectors k) (replicate (sectors ! k) 0xFF) (flash_content cells s)"
proof -
  let ?p = "int (sector_start sectors k div 2)"
  let ?c1 = "issue ops (cfi_command_cycles FLASH_AMD FLASH_SERASE ?p 0 0 0) (chip s)"
  have c1: "erasing k ?c1" "cells ?c1 = cells (chip s)"
    using erase_start[OF assms(3,2) refl] by (simp_all add: issue_def cfi_command_cycles_def unlock_cycles_def)
  define c2 where "c2 = (if g_iReset s \<noteq> 0 then bus_wr ops ?p 0x30 (bus_wr ops ?p 0xB0 ?c1) else ?c1)"
  have c2: "erasing k c2" "cells c2 = cells (chip s)"
    using c1 erase_suspend[OF c1(1) refl] by (auto simp: c2_def)
  obtain n c' where c': "polls ops ?p 0xFFFF n c2 c'" "idle c'"
    "cells c' = overlay (sector_start sectors k div 2) (replicate (sectors ! k div 2) 0xFFFF) (cells (chip s))"
    using erase_done[OF c2(1) assms(2)] c2(2) by auto
  have "cfi_flash_wait ops (of_nat k) 0 0xFFFF (s\<lparr>chip := c2\<rparr>) = Inr (STATUS_READY, s\<lparr>chip := c'\<rparr>)"
    using cfi_wait[of sectors "s\<lparr>chip := c2\<rparr>" k ops 0 "0xFFFF" n c'] c'(1) assms(1,2) by simp
  hence "cfi_erase_tries ops (of_nat k) (Suc t) s = Inr (s\<lparr>chip := c'\<rparr>)"
    using cfi_command[OF assms(1,2), of ops FLASH_SERASE 0 0]
      cfi_command[of sectors "s\<lparr>chip := ?c1\<rparr>" k ops FLASH_SUSPEND 0 0]
      cfi_command[of sectors "s\<lparr>chip := bus_wr ops ?p 0xB0 ?c1\<rparr>" k ops FLASH_RESUME 0 0] assms(1,2)
    by (auto simp: c2_def issue_def cfi_command_cycles_def split: if_splits)
  moreover have "half_bytes (cells c')
      = overlay (sector_start sectors k) (replicate (sectors ! k) 0xFF) (flash_content cells s)"
    using c'(3) sector_size_even[OF assms(2)]
    by (simp add: half_bytes_overlay flash_content_def sector_start_double)
  ultimately show ?thesis using c'(2) by blast
qed

lemma uint_start: "uint (of_nat (sector_start sectors k) :: u32) = int (sector_start sectors k)"
proof -
  have "sector_start sectors k < 2 ^ 31" using sector_start_le[of k sectors] geometry(4) by linarith
  thus ?thesis by (simp add: unsigned_of_nat take_bit_nat_eq_self)
qed

lemma read_buf_ok:
  assumes "cfi_inv sectors idle base s" "k < length sectors" "sector_start sectors k + off + n \<le> sum_list sectors"
  shows "cfi_flash_read_buf ops (of_nat k) (int off) (int n) s
           = Inr (FLASH_API_OK, slice (sector_start sectors k + off) n (flash_content cells s), s)"
proof -
  let ?s1 = "if in_irq s then s else s\<lparr>write_sem := write_sem s - 1\<rparr>"
  have s1: "cfi_wf sectors ?s1" "idle (chip ?s1)" "flash_content cells ?s1 = flash_content cells s"
    "FLASH_BASE ?s1 = FLASH_BASE s"
    using assms(1) by (auto simp: cfi_inv_def flash_content_def)
  have l: "sem_leave ?s1 = s" by (simp add: sem_leave_def)
  show ?thesis
    using assms(1) read_bytes_idle[OF s1(2) assms(3)] cfi_memptr[OF s1(1) assms(2)] s1(3,4) l
    by (simp add: cfi_flash_read_buf_def sem_enter_ok cfi_inv_def uint_start)
qed

lemma erase_int_ok:
  assumes "cfi_inv sectors idle base s" "k < length sectors"
  shows "\<exists>s'. cfi_flash_sector_erase_int ops (of_nat k) s = Inr (FLASH_API_OK, s')
            \<and> cfi_inv sectors idle base s' \<and> flash_content cells s'
              = overlay (sector_start sectors k) (replicate (sectors ! k) 0xFF) (flash_content cells s)"
proof -
  let ?s1 = "if in_irq s then s else s\<lparr>write_sem := write_sem s - 1\<rparr>"
  have s1: "cfi_wf sectors ?s1" "idle (chip ?s1)" "flash_content cells ?s1 = flash_content cells s"
    using assms(1) by (auto simp: cfi_inv_def flash_content_def)
  obtain c where c: "cfi_erase_tries ops (of_nat k) (Suc 2) ?s1 = Inr (?s1\<lparr>chip := c\<rparr>)" "idle c"
     "half_bytes (cells c) = overlay (sector_start sectors k) (replicate (sectors ! k) 0xFF) (flash_content cells s)"
    using erase_ok[OF s1(1) assms(2) s1(2), of 2] s1(3) by auto
  have "cfi_flash_sector_erase_int ops (of_nat k) s = Inr (FLASH_API_OK, s\<lparr>chip := c\<rparr>)"
    using assms(1) c(1) sem_leave_ok[of c s]
    by (simp add: cfi_flash_sector_erase_int_def sem_enter_ok cfi_inv_def numeral_3_eq_3 numeral_2_eq_2
        del: cfi_erase_tries.simps)
  thus ?thesis using c(2,3) cfi_inv_chip[OF assms(1) c(2)] by (auto simp: flash_content_def)
qed

lemma write_buf_ok:
  assumes "cfi_inv sectors idle base s" "k < length sectors" "even off" "even n"
    and "n \<le> length buf" "sector_start sectors k + off + n \<le> sum_list sectors"
    and "slice (sector_start sectors k + off) n (flash_content cells s) = replicate n 0xFF"
  shows "\<exists>s'. cfi_flash_write_buf ops (of_nat k) (int off) buf (int n) s = Inr (int n, s')
            \<and> cfi_inv sectors idle base s' \<and> flash_content cells s'
              = overlay (sector_start sectors k + off) (take n buf) (flash_content cells s)"
proof -
  let ?s1 = "if in_irq s then s else s\<lparr>write_sem := write_sem s - 1\<rparr>"
  have s1: "cfi_wf sectors ?s1" "idle (chip ?s1)" "flash_content cells ?s1 = flash_content cells s"
    "FLASH_BASE ?s1 = FLASH_BASE s"
    using assms(1) by (auto simp: cfi_inv_def flash_content_def)
  obtain c where c: "cfi_write_tries ops (of_nat k) (int off) (int (sector_start sectors k + off)) buf (int n)
        (Suc 2) FLASH_API_ERROR ?s1 = Inr (int n, ?s1\<lparr>chip := c\<rparr>)" "idle c"
     "half_bytes (cells c) = overlay (sector_start sectors k + off) (take n buf) (flash_content cells s)"
    using write_tries_ok[OF s1(1) assms(2) s1(2) assms(3-6), of 2] s1(3) assms(7) by auto
  have "cfi_flash_write_buf ops (of_nat k) (int off) buf (int n) s = Inr (int n, s\<lparr>chip := c\<rparr>)"
    using assms(1) c(1) sem_leave_ok[of c s] cfi_memptr[OF s1(1) assms(2)] s1(4)
    by (simp add: cfi_flash_write_buf_def sem_enter_ok cfi_inv_def numeral_3_eq_3 numeral_2_eq_2 uint_start
        del: cfi_write_tries.simps)
  thus ?thesis using c(2,3) cfi_inv_chip[OF assms(1) c(2)] by (auto simp: flash_content_def)
qed

lemma write_buf_unaligned:
  assumes "cfi_inv sectors idle base s" "\<not> in_irq s" "write_sem s = 1" "\<not> signal_pending s"
    and "g_flash_info_set s" "k < length sectors" "odd off \<or> odd n" "n \<le> length buf"
    and "sector_start sectors k + off + n \<le> sum_list sectors"
    and "slice (sector_start sectors k + off) n (flash_content cells s) \<noteq> take n buf"
  shows "cfi_flash_write_buf ops (of_nat k) (int off) buf (int n) s = Inl Deadlock"
proof -
  let ?s1 = "s\<lparr>write_sem := 0\<rparr>"
  have s1: "cfi_wf sectors ?s1" "idle (chip ?s1)" "flash_content cells ?s1 = flash_content cells s"
    using assms(1) by (auto simp: cfi_inv_def flash_content_def)
  have w: "cfi_flash_write ops (of_nat k) (int off) buf (int n) ?s1 = Inr (FLASH_API_ERROR, ?s1)"
    using assms(7) by (auto simp: cfi_flash_write_def)
  have m: "flash_memcmp ops (int (sector_start sectors k + off)) buf n ?s1 = Inr (False, ?s1)"
    using memcmp_idle[OF s1(2) assms(9,8)] s1(3) assms(10) by simp
  have e: "cfi_flash_sector_erase_int ops (of_nat k) ?s1 = Inl Deadlock"
    using assms(2,4) by (simp add: cfi_flash_sector_erase_int_def sem_enter_def down_interruptible_def)
  have "cfi_write_tries ops (of_nat k) (int off) (int (sector_start sectors k + off)) buf (int n) (Suc t)
      FLASH_API_ERROR ?s1 = Inl Deadlock" for t
    using w m e assms(5) by simp
  thus ?thesis
    using assms(2,3) cfi_memptr[OF s1(1) assms(6)] 
    by (simp add: cfi_flash_write_buf_def sem_enter_def down_interruptible_def uint_start numeral_3_eq_3 numeral_2_eq_2
        del: cfi_write_tries.simps)
qed

lemma read_buf_interrupted:
  assumes "cfi_wf sectors s" "idle (chip s)" "\<not> in_irq s" "write_sem s = 0" "signal_pending s"
    and "k < length sectors" "sector_start sectors k + off + n \<le> sum_list sectors"
  shows "cfi_flash_read_buf ops (of_nat k) (int off) (int n) s
           = Inr (FLASH_API_OK, slice (sector_start sectors k + off) n (flash_content cells s), s\<lparr>write_sem := 1\<rparr>)"
  using assms read_bytes_idle[OF assms(2,7)] cfi_memptr[OF assms(1,6)]
  by (simp add: cfi_flash_read_buf_def sem_enter_def sem_leave_def down_interruptible_def uint_start)

end

section \<open>The driver is a flash device\<close>

locale cfi_board = nor_chip ops sectors cells idle bypass erasing
  for ops :: "'c nor_ops" and sectors cells idle bypass erasing +
  fixes base :: u32
    and s0 :: "'c cfi_state"

sublocale cfi_board \<subseteq> flash_device "flash_cfi_dev ops s0" sectors base "cfi_inv sectors idle base" "flash_content cells"
proof
  show "sectors \<noteq> []" by (rule geometry)
  show "n \<in> set sectors \<Longrightarrow> 0 < n \<and> even n" for n
    using geometry(2) by (meson dvd_trans even_numeral)
next
  show "length sectors \<le> 1024" by (rule geometry)
next
  show "sum_list sectors < 2 ^ 31" by (rule geometry)
next
  show "length (flash_content cells s) = sum_list sectors" for s by (rule length_content)
next
  show "cfi_inv sectors idle base s \<Longrightarrow>
     fn_flash_get_numsectors (flash_cfi_dev ops s0) s = int (length sectors)" for s
    by (simp add: flash_cfi_dev_def cfi_flash_get_numsectors_def cfi_inv_def cfi_wf_def)
next
  show "cfi_inv sectors idle base s \<Longrightarrow> k < length sectors \<Longrightarrow>
     fn_flash_get_sector_size (flash_cfi_dev ops s0) (word_of_nat k) s = Inr (int (sectors ! k))" for s k
    by (simp add: flash_cfi_dev_def cfi_sector_size cfi_inv_def)
next
  show "cfi_inv sectors idle base s \<Longrightarrow> k < length sectors \<Longrightarrow>
     fn_flash_get_memptr (flash_cfi_dev ops s0) (word_of_nat k) s = Inr (base + of_nat (sector_start sectors k))" for s k
    by (auto simp: flash_cfi_dev_def cfi_memptr cfi_inv_def)
next
  show "cfi_inv sectors idle base s \<Longrightarrow> a < sum_list sectors \<Longrightarrow>
     fn_flash_get_blk (flash_cfi_dev ops s0) (base + word_of_nat a) s = Inr (int (sector_of sectors a))" for s a
    using cfi_get_blk[of sectors s a] geometry(2) by (auto simp: flash_cfi_dev_def cfi_inv_def)
next
  show "cfi_inv sectors idle base s \<Longrightarrow>
     fn_flash_get_total_size (flash_cfi_dev ops s0) s = int (sum_list sectors)" for s
    by (simp add: flash_cfi_dev_def cfi_flash_get_total_size_def cfi_inv_def cfi_wf_def)
next
  fix s k off n
  assume a: "cfi_inv sectors idle base s" "k < length sectors" "sector_start sectors k + off + n \<le> sum_list sectors"
  show "\<exists>s'. fn_flash_read_buf (flash_cfi_dev ops s0) (word_of_nat k) (int off) (int n) s =
            Inr (1, slice (sector_start sectors k + off) n (flash_content cells s), s')
          \<and> cfi_inv sectors idle base s' \<and> flash_content cells s' = flash_content cells s"
    using read_buf_ok[OF a] a(1) by (auto simp: flash_cfi_dev_def)
next
  fix s k
  assume a: "cfi_inv sectors idle base s" "k < length sectors" 
  show "\<exists>s'. fn_flash_sector_erase_int (flash_cfi_dev ops s0) (word_of_nat k) s = Inr (1, s') \<and>
            cfi_inv sectors idle base s' \<and>
            flash_content cells s' = overlay (sector_start sectors k) (replicate (sectors ! k) 255) (flash_content cells s)"
    using erase_int_ok[OF a] by (auto simp: flash_cfi_dev_def)
next
  fix s k off n and buf :: "byte list"
  assume a: "cfi_inv sectors idle base s" "k < length sectors" "even off" "even n" "n \<le> length buf"
    "sector_start sectors k + off + n \<le> sum_list sectors"
    "slice (sector_start sectors k + off) n (flash_content cells s) = replicate n 255"
  show "\<exists>s'. fn_flash_write_buf (flash_cfi_dev ops s0) (word_of_nat k) (int off) buf (int n) s = Inr (int n, s') \<and>
            cfi_inv sectors idle base s' \<and>
            flash_content cells s' = overlay (sector_start sectors k + off) (take n buf) (flash_content cells s)"
    using write_buf_ok[OF a] by (auto simp: flash_cfi_dev_def)
qed

context cfi_board begin

lemma cfi_device:
  "flash_device (flash_cfi_dev ops s0) sectors base (cfi_inv sectors idle base) (flash_content cells)"
  by unfold_locales

end

end
