(* ===== verification/Sim_Chip.thy ===== *)
theory Sim_Chip
  imports Cfi_Correct
begin

text \<open>
  A simulated chip with the AMD command set, for any sector geometry, busy time and identification
  tables. It satisfies the laws of \<open>nor_chip\<close>, so the driver's contract is not vacuous, and it serves
  as the concrete chip of the witnesses.
\<close>

section \<open>The simulator\<close>

datatype sim_mode =
    ReadArray | Unlock1 | Unlock2 | Autoselect | CfiTable
  | EraseSetup | EraseUnlock1 | EraseUnlock2 | Erasing nat nat | EraseSuspended nat nat
  | Bypass | BypassProgram | BypassExit | Programming nat u16 nat

record sim_cfg =
  sim_sectors :: "nat list"
  sim_busy :: nat
  sim_ids :: "u16 list"
  sim_cfi :: "u16 list"

record sim_chip =
  sim_mode :: sim_mode
  sim_mem :: "u16 list"

definition sim_size :: "sim_cfg \<Rightarrow> nat" where
  "sim_size cfg = sum_list (sim_sectors cfg) div 2"

definition table_at :: "u16 list \<Rightarrow> int \<Rightarrow> u16" where
  "table_at xs a = (if 0 \<le> a \<and> nat a < length xs then xs ! nat a else 0xFFFF)"

definition sim_rd :: "sim_cfg \<Rightarrow> int \<Rightarrow> sim_chip \<Rightarrow> u16 \<times> sim_chip" where
  "sim_rd cfg a c =
     (case sim_mode c of
        Autoselect \<Rightarrow> (table_at (sim_ids cfg) a, c)
      | CfiTable \<Rightarrow> (table_at (sim_cfi cfg) a, c)
      | Programming i d (Suc n) \<Rightarrow> (NOT d AND 0x80, c\<lparr>sim_mode := Programming i d n\<rparr>)
      | Programming i d 0 \<Rightarrow>
          (let m = (sim_mem c)[i := sim_mem c ! i AND d] in
           (table_at m a, c\<lparr>sim_mode := Bypass, sim_mem := m\<rparr>))
      | Erasing k (Suc n) \<Rightarrow> (0x08, c\<lparr>sim_mode := Erasing k n\<rparr>)
      | Erasing k 0 \<Rightarrow>
          (let m = overlay (sector_start (sim_sectors cfg) k div 2)
                     (replicate (sim_sectors cfg ! k div 2) 0xFFFF) (sim_mem c) in
           (table_at m a, c\<lparr>sim_mode := ReadArray, sim_mem := m\<rparr>))
      | _ \<Rightarrow> (table_at (sim_mem c) a, c))"

definition sim_next :: "sim_cfg \<Rightarrow> int \<Rightarrow> u16 \<Rightarrow> sim_mode \<Rightarrow> sim_mode" where
  "sim_next cfg a d m =
     (let low = a mod 0x800 in
      case m of
        ReadArray \<Rightarrow> if low = 0x555 \<and> d = 0xAA then Unlock1
                     else if low = 0x55 \<and> d = 0x98 then CfiTable else ReadArray
      | Unlock1 \<Rightarrow> if low = 0x2AA \<and> d = 0x55 then Unlock2 else ReadArray
      | Unlock2 \<Rightarrow> if low = 0x555 \<and> d = 0x20 then Bypass
                   else if low = 0x555 \<and> d = 0x80 then EraseSetup
                   else if low = 0x555 \<and> d = 0x90 then Autoselect else ReadArray
      | Autoselect \<Rightarrow> if d = 0xF0 then ReadArray else Autoselect
      | CfiTable \<Rightarrow> if d = 0xF0 then ReadArray else CfiTable
      | EraseSetup \<Rightarrow> if low = 0x555 \<and> d = 0xAA then EraseUnlock1 else ReadArray
      | EraseUnlock1 \<Rightarrow> if low = 0x2AA \<and> d = 0x55 then EraseUnlock2 else ReadArray
      | EraseUnlock2 \<Rightarrow> if d = 0x30 then Erasing (sector_of (sim_sectors cfg) (nat (2 * a))) (sim_busy cfg)
                        else ReadArray
      | Erasing k n \<Rightarrow> if d = 0xB0 then EraseSuspended k n else Erasing k n
      | EraseSuspended k n \<Rightarrow> if d = 0x30 then Erasing k n else EraseSuspended k n
      | Bypass \<Rightarrow> if d = 0xA0 then BypassProgram else if d = 0x90 then BypassExit else Bypass
      | BypassProgram \<Rightarrow> Programming (nat a) d (sim_busy cfg)
      | BypassExit \<Rightarrow> if d = 0x00 then ReadArray else Bypass
      | Programming i w n \<Rightarrow> Programming i w n)"

definition sim_wr :: "sim_cfg \<Rightarrow> int \<Rightarrow> u16 \<Rightarrow> sim_chip \<Rightarrow> sim_chip" where
  "sim_wr cfg a d c = c\<lparr>sim_mode := sim_next cfg a d (sim_mode c)\<rparr>"

definition sim_ops :: "sim_cfg \<Rightarrow> sim_chip nor_ops" where
  "sim_ops cfg = \<lparr>bus_rd = sim_rd cfg, bus_wr = sim_wr cfg\<rparr>"

text \<open>The array, of the chip's size whatever the state.\<close>

definition sim_cells :: "sim_cfg \<Rightarrow> sim_chip \<Rightarrow> u16 list" where
  "sim_cells cfg c = take (sim_size cfg) (sim_mem c @ replicate (sim_size cfg) 0xFFFF)"

definition sim_in :: "sim_cfg \<Rightarrow> sim_mode \<Rightarrow> sim_chip \<Rightarrow> bool" where
  "sim_in cfg m c \<longleftrightarrow> sim_mode c = m \<and> length (sim_mem c) = sim_size cfg"

definition sim_erasing :: "sim_cfg \<Rightarrow> nat \<Rightarrow> sim_chip \<Rightarrow> bool" where
  "sim_erasing cfg k c \<longleftrightarrow> sim_in cfg (Erasing k (sim_busy cfg)) c"

definition sim_geometry :: "nat list \<Rightarrow> bool" where
  "sim_geometry ns \<longleftrightarrow> ns \<noteq> [] \<and> (\<forall>n \<in> set ns. 0 < n \<and> 4096 dvd n)
     \<and> length ns \<le> MAXSECTORS \<and> sum_list ns < 2 ^ 31"

section \<open>It obeys the laws\<close>

lemma sim_cells_in: "sim_in cfg m c \<Longrightarrow> sim_cells cfg c = sim_mem c"
  by (simp add: sim_in_def sim_cells_def)

lemma sim_geometry_dvd:
  assumes "sim_geometry ns"
  shows "4096 dvd sector_start ns k" "4096 dvd sum_list ns"
    using assms by (auto simp: sim_geometry_def dest!: in_set_takeD intro!: dvd_sum_list)

lemma even_4096: "4096 dvd n \<Longrightarrow> even (n :: nat)"
  by (rule dvd_trans[of 2 4096]) simp_all

lemmas sim_geometry_even = sim_geometry_dvd[THEN even_4096]

lemma polls_programming:
  assumes "length (sim_mem c) = sim_size cfg" "i < sim_size cfg" "sim_mem c ! i AND d = d"
  shows "polls (sim_ops cfg) (int i) d n (c\<lparr>sim_mode := Programming i d n\<rparr>)
           (c\<lparr>sim_mode := Bypass, sim_mem := (sim_mem c)[i := d]\<rparr>)"
proof (induction n)
  case 0 thus ?case using assms by (simp add: sim_ops_def sim_rd_def table_at_def)
next
  case (Suc n)
  have "NOT d AND 0x80 \<noteq> d"
  proof
    assume "NOT d AND 0x80 = d"
    hence "bit (NOT d AND 0x80) 7 = bit d 7" by simp
    thus False by (simp add: bit_simps)
  qed
  moreover have "(NOT d AND 0x80) AND 0x20 = (0 :: u16)"
    by (simp add: and.assoc)
  ultimately show ?case using Suc by (simp add: sim_ops_def sim_rd_def)
qed

lemma polls_erasing:
  assumes "length (sim_mem c) = sim_size cfg" "k < length (sim_sectors cfg)" "sim_geometry (sim_sectors cfg)"
  shows "polls (sim_ops cfg) (int (sector_start (sim_sectors cfg) k div 2)) 0xFFFF n
           (c\<lparr>sim_mode := Erasing k n\<rparr>)
           (c\<lparr>sim_mode := ReadArray, sim_mem := overlay (sector_start (sim_sectors cfg) k div 2)
                     (replicate (sim_sectors cfg ! k div 2) 0xFFFF) (sim_mem c)\<rparr>)"
proof (induction n)
  case 0
  let ?p = "sector_start (sim_sectors cfg) k div 2" and ?n = "sim_sectors cfg ! k div 2"
  have e: "even (sector_start (sim_sectors cfg) k)"
    by (rule sim_geometry_even(1)[OF assms(3)])
  have g: "0 < sim_sectors cfg ! k" "4096 dvd sim_sectors cfg ! k"
    using assms(2,3) by (auto simp: sim_geometry_def)
  have l: "?p + ?n \<le> length (sim_mem c)" "0 < ?n"
    using sector_end_le[OF assms(2)] e g assms(1) by (auto simp: sim_size_def dvd_def)
  thus ?case using nth_overlay[of ?p "replicate ?n 0xFFFF" "sim_mem c" ?p]
    by (simp add: sim_ops_def sim_rd_def table_at_def Let_def)
next
  case (Suc n) thus ?case by (simp add: sim_ops_def sim_rd_def)
qed

lemma mod_800:
  assumes "(p :: int) mod 0x800 = 0"
  shows "(p + 0x555) mod 0x800 = 0x555" "(p + 0x2AA) mod 0x800 = 0x2AA"
  using mod_add_left_eq[of p "0x800" "0x555"] mod_add_left_eq[of p "0x800" "0x2AA"] assms by simp_all

lemma sim_nor_chip:
  assumes "sim_geometry (sim_sectors cfg)"
  shows "nor_chip (sim_ops cfg) (sim_sectors cfg) (sim_cells cfg) (sim_in cfg ReadArray)
           (sim_in cfg Bypass) (sim_erasing cfg)"
proof
  have ev: "even (sum_list (sim_sectors cfg))"
    by (rule sim_geometry_even(2)[OF assms])
  show "2 * length (sim_cells cfg c) = sum_list (sim_sectors cfg)" for c
    using ev by (auto simp: sim_cells_def sim_size_def min_def)
  show "sim_sectors cfg \<noteq> []" "n \<in> set (sim_sectors cfg) \<Longrightarrow> 0 < n \<and> 4096 dvd n"
    "length (sim_sectors cfg) \<le> MAXSECTORS" "sum_list (sim_sectors cfg) < 2 ^ 31" for n
    using assms by (auto simp: sim_geometry_def)
next
  fix c i assume "sim_in cfg ReadArray c" "i < length (sim_cells cfg c)"
  thus "bus_rd (sim_ops cfg) (int i) c = (sim_cells cfg c ! i, c)"
    by (simp add: sim_cells_in) (simp add: sim_in_def sim_ops_def sim_rd_def table_at_def)
next
  fix c assume "sim_in cfg ReadArray c"
  thus "sim_in cfg Bypass (bus_wr (sim_ops cfg) 0x555 0x20 (bus_wr (sim_ops cfg) 0x2AA 0x55 (bus_wr (sim_ops cfg) 0x555 0xAA c)))
     \<and> sim_cells cfg (bus_wr (sim_ops cfg) 0x555 0x20 (bus_wr (sim_ops cfg) 0x2AA 0x55 (bus_wr (sim_ops cfg) 0x555 0xAA c))) = sim_cells cfg c"
    by (simp add: sim_in_def sim_ops_def sim_wr_def sim_next_def sim_cells_def)
next
  fix c i d p
  assume a: "sim_in cfg Bypass c" "i < length (sim_cells cfg c)" "d AND sim_cells cfg c ! i = d"
    "p < length (sim_cells cfg c)"
  have m: "length (sim_mem c) = sim_size cfg" "sim_cells cfg c = sim_mem c"
    using a(1) by (simp_all add: sim_in_def sim_cells_in)
  have "bus_wr (sim_ops cfg) (int i) d (bus_wr (sim_ops cfg) (int p) 0xA0 c)
     = c\<lparr>sim_mode := Programming i d (sim_busy cfg)\<rparr>"
    using a(1) by (simp add: sim_in_def sim_ops_def sim_wr_def sim_next_def)
  with polls_programming[of c cfg i d "sim_busy cfg"] a m
  show "\<exists>n c'. polls (sim_ops cfg) (int i) d n (bus_wr (sim_ops cfg) (int i) d (bus_wr (sim_ops cfg) (int p) 0xA0 c)) c'
     \<and> sim_in cfg Bypass c' \<and> sim_cells cfg c' = (sim_cells cfg c)[i := d]"
    by (intro exI[of _ "sim_busy cfg"] exI[of _ "c\<lparr>sim_mode := Bypass, sim_mem := (sim_mem c)[i := d]\<rparr>"])
      (auto simp: and.commute sim_in_def sim_cells_def)
next
  fix c p and d :: u16
  assume "sim_in cfg Bypass c" "p < length (sim_cells cfg c)" "d \<in> {0xB0, 0x30}"
  thus "sim_in cfg Bypass (bus_wr (sim_ops cfg) (int p) d c) \<and> sim_cells cfg (bus_wr (sim_ops cfg) (int p) d c) = sim_cells cfg c"
    by (auto simp: sim_in_def sim_ops_def sim_wr_def sim_next_def sim_cells_def)
next
  fix c assume "sim_in cfg Bypass c"
  thus "sim_in cfg ReadArray (bus_wr (sim_ops cfg) 0 0 (bus_wr (sim_ops cfg) 0 0x90 c))
     \<and> sim_cells cfg (bus_wr (sim_ops cfg) 0 0 (bus_wr (sim_ops cfg) 0 0x90 c)) = sim_cells cfg c"
    by (simp add: sim_in_def sim_ops_def sim_wr_def sim_next_def sim_cells_def)
next
  fix c k q
  assume a: "sim_in cfg ReadArray c" "k < length (sim_sectors cfg)" "q = int (sector_start (sim_sectors cfg) k div 2)"
  obtain j where j: "sector_start (sim_sectors cfg) k = 4096 * j"
    using sim_geometry_dvd(1)[OF assms] by (auto simp: dvd_def)
  hence q: "q = 2048 * int j" using a(3) by simp
  have q0: "q mod 0x800 = 0" by (simp add: q)
  have q2: "nat (2 * q) = sector_start (sim_sectors cfg) k" by (simp add: q j nat_mult_distrib)
  have "0 < sim_sectors cfg ! k" using a(2) assms by (simp add: sim_geometry_def)
  hence s: "sector_of (sim_sectors cfg) (nat (2 * q)) = k"
    unfolding q2 using a(2) by (intro sector_of_unique) auto
  show "sim_erasing cfg k (fold (\<lambda>(a, d). bus_wr (sim_ops cfg) a d)
       [(q + 0x555, 0xAA), (q + 0x2AA, 0x55), (q + 0x555, 0x80), (q + 0x555, 0xAA), (q + 0x2AA, 0x55), (q, 0x30)] c)
    \<and> sim_cells cfg (fold (\<lambda>(a, d). bus_wr (sim_ops cfg) a d)
       [(q + 0x555, 0xAA), (q + 0x2AA, 0x55), (q + 0x555, 0x80), (q + 0x555, 0xAA), (q + 0x2AA, 0x55), (q, 0x30)] c) = sim_cells cfg c"
    using a(1) by (simp add: sim_erasing_def sim_in_def sim_ops_def sim_wr_def sim_next_def sim_cells_def mod_800[OF q0] s)
next
  fix k c q
  assume "sim_erasing cfg k c"
  thus "sim_erasing cfg k (bus_wr (sim_ops cfg) q 0x30 (bus_wr (sim_ops cfg) q 0xB0 c))
     \<and> sim_cells cfg (bus_wr (sim_ops cfg) q 0x30 (bus_wr (sim_ops cfg) q 0xB0 c)) = sim_cells cfg c"
    by (simp add: sim_erasing_def sim_in_def sim_ops_def sim_wr_def sim_next_def sim_cells_def)
next
  fix k c
  assume a: "sim_erasing cfg k c" "k < length (sim_sectors cfg)"
  let ?m = "overlay (sector_start (sim_sectors cfg) k div 2) (replicate (sim_sectors cfg ! k div 2) 0xFFFF) (sim_mem c)"
  have "sector_start (sim_sectors cfg) k div 2 + sim_sectors cfg ! k div 2 \<le> sim_size cfg"
    using sector_end_le[OF a(2)] by (simp add: sim_size_def)
  moreover have "c\<lparr>sim_mode := Erasing k (sim_busy cfg)\<rparr> = c" using a(1) by (simp add: sim_erasing_def sim_in_def)
  ultimately show "\<exists>n c'. polls (sim_ops cfg) (int (sector_start (sim_sectors cfg) k div 2)) 0xFFFF n c c'
    \<and> sim_in cfg ReadArray c' \<and> sim_cells cfg c'
      = overlay (sector_start (sim_sectors cfg) k div 2) (replicate (sim_sectors cfg ! k div 2) 0xFFFF) (sim_cells cfg c)"
    using polls_erasing[of c cfg k "sim_busy cfg"] a assms
    by (intro exI[of _ "sim_busy cfg"] exI[of _ "c\<lparr>sim_mode := ReadArray, sim_mem := ?m\<rparr>"])
      (auto simp: sim_erasing_def sim_in_def sim_cells_def)
qed

end
