(* ===== verification/Cfi_Init_Correct.thy ===== *)
theory Cfi_Init_Correct
  imports Cfi_Init Sim_Chip
begin

text \<open>
  What \<^verbatim>\<open>cfi_flash_init\<close> establishes, for any chip: the sector table it builds is contiguous and
  within the array, and for an AMD part it is the table the driver's correctness assumes.
\<close>

section \<open>The sector table\<close>

definition table_ok :: "nat \<times> int \<times> sector_info list \<Rightarrow> bool" where
  "table_ok = (\<lambda>(count, basecount, sec).
     count \<le> length sec
     \<and> (\<forall>k < count. sec_base (sec ! k) = int32 (sum_list (take k (map sec_size sec))))
     \<and> basecount = int32 (sum_list (take count (map sec_size sec))))"

lemma table_ok_step:
  assumes "table_ok (count, b, sec)" "count < length sec"
  shows "table_ok (Suc count, int32 (b + sz), sec[count := (sec ! count)\<lparr>sec_size := sz, sec_base := b\<rparr>])"
proof -
  let ?x = "(sec ! count)\<lparr>sec_size := sz, sec_base := b\<rparr>"
  have t: "take k (map sec_size (sec[count := ?x])) = take k (map sec_size sec)" if "k \<le> count" for k
    using that by (simp add: map_update)
  moreover have "take (Suc count) (map sec_size (sec[count := ?x])) = take count (map sec_size sec) @ [sz]"
    using assms(2) t[of count] by (simp add: take_Suc_conv_app_nth)
  ultimately show ?thesis using assms by (auto simp: table_ok_def less_Suc_eq)
qed

lemma fill_region_ok:
  "table_ok (count, b, sec) \<Longrightarrow> fill_region n sz (count, b, sec) = Inr (c', b', sec') \<Longrightarrow>
     table_ok (c', b', sec') \<and> length sec' = length sec \<and> c' = count + n"
proof (induction n arbitrary: count b sec)
  case (Suc n)
  from Suc.prems(2) have "count < length sec" by (auto split: if_splits)
  thus ?case using Suc.IH[OF table_ok_step[OF Suc.prems(1), of sz]] Suc.prems(2) by auto
qed auto

lemma fill_region_overrun:
  "fill_region n sz (count, b, sec) = Inl OutOfBounds \<longleftrightarrow> length sec < count + n \<and> 0 < n"
  by (induction n arbitrary: count b sec) auto

lemma fill_region_run:
  assumes "count + n \<le> length sec" "b = int32 b"
  shows "\<exists>sec'. fill_region n sz (count, b, sec) = Inr (count + n, int32 (b + int n * sz), sec')
     \<and> length sec' = length sec
     \<and> map sec_size (take (count + n) sec') = map sec_size (take count sec) @ replicate n sz"
  using assms
proof (induction n arbitrary: count b sec)
  case (Suc n)
  let ?sec = "sec[count := (sec ! count)\<lparr>sec_size := sz, sec_base := b\<rparr>]"
  have "map sec_size (take (Suc count) ?sec) = map sec_size (take count sec) @ [sz]"
    using Suc.prems by (simp add: take_Suc_conv_app_nth)
  with Suc.IH[of "Suc count" ?sec "int32 (b + sz)"] Suc.prems(1) int32_add(1)[of "b + sz" 0] show ?case
    by (auto simp: algebra_simps replicate_append_same[symmetric])
qed simp

lemma fill_sectors_ok:
  "table_ok st \<Longrightarrow> fill_sectors rs d st = Inr st' \<Longrightarrow>
     table_ok st' \<and> length (snd (snd st')) = length (snd (snd st))"
proof (induction rs d st rule: fill_sectors.induct)
  case (2 r rs d count b sec)
  show ?case
  proof (cases "b < d")
    case True
    then obtain c1 b1 sec1 where
      f: "fill_region (nat (er_num_sectors r)) (sint (er_sector_size r)) (count, b, sec) = Inr (c1, b1, sec1)"
      and g: "fill_sectors rs d (c1, b1, sec1) = Inr st'"
      using "2.prems"(2) by auto
    from fill_region_ok[OF "2.prems"(1) f] "2.IH"[OF True] f g show ?thesis by auto
  qed (use "2.prems" in auto)
qed auto

section \<open>What the probing leaves alone\<close>

definition frame :: "'c cfi_state \<Rightarrow> 'c cfi_state \<Rightarrow> bool" where
  "frame s s' \<longleftrightarrow> meminfo s' = meminfo s \<and> flashFamily s' = flashFamily s"

lemma frame_refl: "frame s s" by (simp add: frame_def)

lemma command_post: "frame s0 s \<Longrightarrow> post (cfi_flash_command ops cmd k off d s) (frame s0)"
  by (auto simp: post_def frame_def cfi_flash_command_def)
lemma fwp_post: "frame s0 s \<Longrightarrow> post (fwp_read ops x p i s) (\<lambda>(d, s'). frame s0 s')"
  by (auto simp: post_def frame_def fwp_read_def hw_read_def split: option.splits if_splits prod.splits)
lemma memptr_post: "post (cfi_flash_get_memptr k s) (\<lambda>_. True)" by (simp add: post_def)
lemma frame_query: "frame s0 s \<Longrightarrow> frame s0 (s\<lparr>query := q\<rparr>)" by (simp add: frame_def)

lemma regions_post: "frame s0 s \<Longrightarrow> post (read_regions ops x p i n s) (frame s0)"
proof (induction n arbitrary: i s)
  case (Suc n)
  show ?case unfolding read_regions.simps
    by (intro post_if post_Inl post_bind2[OF fwp_post] Suc.IH frame_query) (auto simp: Suc.prems)
qed (auto intro: post_Inr)

lemma get_cfi_post:
  assumes "frame s0 s" shows "post (cfi_flash_get_cfi ops x fam s) (\<lambda>(r, s'). frame s0 s')"
proof -
  have q: "post (if q = 0x51 then Inr (True, s3)
            else bindR (fwp_read ops x fwp 0x11 s3) (\<lambda>(r, s').
                 if r = 0x52 then Inr (True, s')
                 else bindR (fwp_read ops x fwp 0x12 s') (\<lambda>(y, s'').
                      Inr (y = 0x59, s'')))) (\<lambda>(r, s'). frame s0 s')" if "frame s0 s3" for q fwp s3
    using that by (intro post_if post_bind2[OF fwp_post] post_Inr) auto
  show ?thesis unfolding cfi_flash_get_cfi_def Let_def
    by (intro post_bindR[OF command_post] post_bindR[OF memptr_post] post_bind2[OF q] post_bind2[OF fwp_post]
        post_bindR[OF regions_post] post_if post_Inr frame_query) (auto simp: assms)
qed

lemma device_id_post:
  assumes "frame s0 s" shows "post (cfi_flash_get_device_id ops s) (\<lambda>(r, s'). frame s0 s')"
  using assms by (auto simp: post_def cfi_flash_get_device_id_def hw_read_def frame_def
      cfi_flash_command_def split: prod.splits if_splits)

lemma query_device_post:
  assumes "frame s0 s" shows "post (cfi_query_device ops dev fam s) (\<lambda>(k, s'). frame s0 s')"
proof -
  have n: "frame s0 s' \<Longrightarrow> frame s0 (s'\<lparr>cfi_dev_name := n\<rparr>)" for s' :: "'a cfi_state" and n
    by (simp add: frame_def)
  show ?thesis unfolding cfi_query_device_def
    by (intro post_bind2[OF get_cfi_post] post_if post_Inr) (auto simp: assms n)
qed

lemma build_table_ok:
  assumes "cfi_build_table dev s = Inr (r, s')"
  shows "table_ok (nat (fi_nsect (meminfo s')), totalSize s', fi_sec (meminfo s'))
    \<and> 8 \<le> fi_nsect (meminfo s') \<and> length (fi_sec (meminfo s')) = length (fi_sec (meminfo s))
    \<and> flashFamily s' = flashFamily s"
proof -
  obtain count b sec topdev where f: "fill_sectors
        (geometry_regions (query s) (flip_geometry dev (top_bottom_indicator (query s))))
        (device_size (query s)) (0, 0, fi_sec (meminfo s)) = Inr (count, b, sec)"
    and c: "count \<noteq> 0" "top_device_check count sec (g_FlashTopDevice s) = Inr topdev"
    and s': "fi_nsect (meminfo s') = int count" "fi_sec (meminfo s') = sec" "flashFamily s' = flashFamily s"
      "totalSize s' = int32 (sec_base (sec ! (count - 1)) + sec_size (sec ! (count - 1)))"
    using assms unfolding cfi_build_table_def by (auto split: if_splits)
  have "table_ok (0, 0, fi_sec (meminfo s))" by (simp add: table_ok_def)
  from fill_sectors_ok[OF this f] have t: "table_ok (count, b, sec)" "length sec = length (fi_sec (meminfo s))"
    by auto
  have "totalSize s' = b"
  proof -
    obtain k where k: "count = Suc k" using c(1) by (cases count) auto
    hence "k < length sec" using t(1) by (simp add: table_ok_def)
    thus ?thesis using t(1) k s'(4) by (auto simp: table_ok_def take_Suc_conv_app_nth)
  qed
  moreover have "8 \<le> count" using c(2) by (auto simp: top_device_check_def split: if_splits)
  ultimately show ?thesis using t s' by simp
qed

lemma device_family_defined: "device_family dev = Some fam \<Longrightarrow> fam \<noteq> FLASH_UNDEFINED"
  by (auto simp: device_family_def split: if_splits)

lemma cfi_flash_init_post:
  "post (cfi_flash_init ops s) (\<lambda>(r, s'). r = FLASH_API_OK \<longrightarrow>
     table_ok (nat (fi_nsect (meminfo s')), totalSize s', fi_sec (meminfo s'))
    \<and> 8 \<le> fi_nsect (meminfo s') \<and> length (fi_sec (meminfo s')) = length (fi_sec (meminfo s))
    \<and> flashFamily s' \<noteq> FLASH_UNDEFINED)"
proof -
  define s0 where "s0 = s\<lparr>meminfo := (meminfo s)\<lparr>fi_addr := 0, fi_areg := 0, fi_nsect := 1, fi_bank1start := 0,
      fi_bank2start := 0, fi_sec := (fi_sec (meminfo s))[0 := \<lparr>sec_size = 8192, sec_base = 0, sec_bank = 1\<rparr>]\<rparr>\<rparr>"
  have l: "length (fi_sec (meminfo s0)) = length (fi_sec (meminfo s))" by (simp add: s0_def)
  have f: "frame (s0\<lparr>flashFamily := fam\<rparr>) (s2\<lparr>cfi_dev_id := i, cfi_dev_name := n, flashFamily := fam\<rparr>)"
    if "frame s0 s2" for s2 fam i n using that by (simp add: frame_def)
  have b: "post (cfi_build_table dev s4) (\<lambda>(r, s'). r = FLASH_API_OK \<longrightarrow>
       table_ok (nat (fi_nsect (meminfo s')), totalSize s', fi_sec (meminfo s'))
      \<and> 8 \<le> fi_nsect (meminfo s') \<and> length (fi_sec (meminfo s')) = length (fi_sec (meminfo s))
      \<and> flashFamily s' \<noteq> FLASH_UNDEFINED)"
    if "frame (s0\<lparr>flashFamily := fam\<rparr>) s4" "device_family dev = Some fam" for dev fam s4
    using that l device_family_defined[OF that(2)] unfolding post_def
    by (auto simp: frame_def dest: build_table_ok)
  show ?thesis
    unfolding cfi_flash_init_def Let_def s0_def[symmetric]
    apply (rule post_if, rule post_Inl)
    apply (rule post_bindR[OF command_post[OF frame_refl]])
    apply (rule post_bind2[OF device_id_post], assumption)
    apply (simp split: option.split)
    apply (intro conjI impI allI post_Inr post_bind2[OF query_device_post[OF f]] post_if)
    apply (auto intro!: b)
    done
qed

lemma prefix_sum_le:
  fixes xs :: "int list"
  assumes "\<forall>x \<in> set xs. 0 \<le> x" shows "0 \<le> sum_list (take k xs)" "sum_list (take k xs) \<le> sum_list xs"
proof -
  have "sum_list xs = sum_list (take k xs) + sum_list (drop k xs)"
    by (simp flip: sum_list_append)
  moreover have "0 \<le> sum_list (take k xs)" "0 \<le> sum_list (drop k xs)"
    using assms by (auto intro!: sum_list_nonneg dest: in_set_takeD in_set_dropD)
  ultimately show "0 \<le> sum_list (take k xs)" "sum_list (take k xs) \<le> sum_list xs" by simp_all
qed

text \<open>Sizes that are not negative and add up to less than 2 GB: no sum wraps.\<close>

lemma int32_prefix_sum:
  fixes xs :: "int list"
  assumes "\<forall>x \<in> set xs. 0 \<le> x" "sum_list xs < 2 ^ 31"
  shows "int32 (sum_list (take k xs)) = sum_list (take k xs)"
  using prefix_sum_le[OF assms(1), of k] assms(2) by (intro int32_id) auto

lemma table_ok_wf:
  assumes "table_ok (n, t, fi_sec (meminfo s))" "n = nat (fi_nsect (meminfo s))" "0 < n"
    and "length (fi_sec (meminfo s)) = MAXSECTORS" "flashFamily s = FLASH_AMD" "totalSize s = t"
    and "sum_list (map sec_size (take n (fi_sec (meminfo s)))) < 2 ^ 31"
    and "\<And>k. k < n \<Longrightarrow> 0 \<le> sec_size (fi_sec (meminfo s) ! k)"
  shows "cfi_wf (map (nat \<circ> sec_size) (take n (fi_sec (meminfo s)))) s"
proof -
  let ?sec = "fi_sec (meminfo s)" and ?sects = "map (nat \<circ> sec_size) (take n (fi_sec (meminfo s)))"
  have n: "n \<le> length ?sec" using assms(1) by (simp add: table_ok_def)
  have s: "int (sum_list (take k ?sects)) = sum_list (take k (map sec_size ?sec))" if "k \<le> n" for k
    using that
  proof (induction k)
    case (Suc k)
    thus ?case using n assms(8)[of k] by (simp add: take_Suc_conv_app_nth)
  qed simp
  have "\<forall>x \<in> set (take n (map sec_size ?sec)). 0 \<le> x"
    using assms(8) n by (auto simp: in_set_conv_nth take_map)
  hence w: "int32 (sum_list (take k (map sec_size ?sec))) = sum_list (take k (map sec_size ?sec))"
    if "k \<le> n" for k
    using int32_prefix_sum[of "take n (map sec_size ?sec)" k] assms(7) that by (simp add: take_map min_def)
  have t: "int (sum_list ?sects) = t" using s[of n] w[of n] assms(1) n by (simp add: table_ok_def)
  have "int (sum_list ?sects) < 2 ^ 31" using s[of n] assms(7) by (simp add: take_map)
  hence "sum_list ?sects < 2 ^ 31"
    by (simp only: of_nat_less_iff[where 'a = int, symmetric] of_nat_power of_nat_numeral)
  thus ?thesis using t assms n s w by (auto simp: cfi_wf_def table_ok_def take_map)
qed

lemma flip_geometry_known:
  "device_family dev = Some fam \<Longrightarrow> flip_geometry dev t = flip_geometry dev t'"
proof -
  assume "device_family dev = Some fam"
  hence "flip_geometry dev t = flip_geometry dev 0" for t
    unfolding device_family_def flip_geometry_def by (auto split: if_splits)
  thus ?thesis by metis
qed

end
