(* ===== verification/Bring_Up.thy ===== *)
theory Bring_Up
  imports Cfi_Init_Correct
begin

text \<open>
  Bring-up on a concrete part: the simulated chip configured as an 8 MB bottom-boot part (eight
  8 KB sectors and 127 of 64 KB, the identifiers of the MX29LV640DB). \<^verbatim>\<open>flash_init\<close> detects
  it, builds its sector table and leaves the driver in the state its contract assumes. The chip
  and the driver on it are the interpretations of the locales, and the concrete board of the
  witnesses.
\<close>

section \<open>The part\<close>

definition mx640_cfi :: "u16 list" where
  "mx640_cfi =
   [0x00C2, 0x22CB, 0x0000, 0x0000, 0x0000, 0x0000, 0x0000, 0x0000,
    0x0000, 0x0000, 0x0000, 0x0000, 0x0000, 0x0000, 0x0000, 0x0000,
    0x0051, 0x0052, 0x0059, 0x0000, 0x0000, 0x0000, 0x0000, 0x0000,
    0x0000, 0x0000, 0x0000, 0x0000, 0x0000, 0x0000, 0x0000, 0x0000,
    0x0000, 0x0000, 0x0000, 0x0000, 0x0000, 0x0000, 0x0000, 0x0017,
    0x0000, 0x0000, 0x0000, 0x0000, 0x0002, 0x0007, 0x0000, 0x0020,
    0x0000, 0x007E, 0x0000, 0x0000, 0x0001, 0x0000, 0x0000, 0x0000,
    0x0000, 0x0000, 0x0000, 0x0000, 0x0000, 0x0000, 0x0000, 0x0000,
    0x0000, 0x0000, 0x0000, 0x0000, 0x0000, 0x0000, 0x0000, 0x0000,
    0x0000, 0x0000, 0x0000, 0x0000, 0x0000, 0x0000, 0x0000, 0x0002]"

definition mx640_sectors :: "nat list" where
  "mx640_sectors = replicate 8 8192 @ replicate 127 65536"

definition mx640 :: sim_cfg where
  "mx640 = \<lparr>sim_sectors = mx640_sectors, sim_busy = 3, sim_ids = [0x00C2, 0x22CB], sim_cfi = mx640_cfi\<rparr>"

definition mx640_chip :: sim_chip where
  "mx640_chip = \<lparr>sim_mode = ReadArray, sim_mem = replicate (sim_size mx640) 0xFFFF\<rparr>"

definition mx640_query :: cfi_query where
  "mx640_query = \<lparr>num_erase_blocks = 2, device_size = 2 ^ 23,
     erase_block = [\<lparr>er_sector_size = 8192, er_num_sectors = 8\<rparr>, \<lparr>er_sector_size = 65536, er_num_sectors = 127\<rparr>]
        @ replicate 6 \<lparr>er_sector_size = 0, er_num_sectors = 0\<rparr>,
     top_bottom_indicator = 2\<rparr>"

section \<open>Probing it\<close>

definition at0 :: "'c cfi_state \<Rightarrow> bool" where
  "at0 s \<longleftrightarrow> fi_sec (meminfo s) \<noteq> [] \<and> sec_base (fi_sec (meminfo s) ! 0) = 0"

lemma mx640_sim: "sim_ops mx640 = \<lparr>bus_rd = sim_rd mx640, bus_wr = sim_wr mx640\<rparr>" "sim_sectors mx640 = mx640_sectors"
  "sim_ids mx640 = [0x00C2, 0x22CB]" "sim_cfi mx640 = mx640_cfi" "sim_busy mx640 = 3"
  by (simp_all add: sim_ops_def mx640_def)

lemma mx640_geometry: "sim_geometry mx640_sectors"
  by (auto simp: sim_geometry_def mx640_sectors_def sum_list_replicate)

lemma mx640_reads: 
  "table_at mx640_cfi 0x10 = 0x51" "table_at mx640_cfi 0x27 = 0x17" "table_at mx640_cfi 0x2C = 2"
  "table_at mx640_cfi 0x2D = 7" "table_at mx640_cfi 0x2E = 0" "table_at mx640_cfi 0x2F = 0x20" "table_at mx640_cfi 0x30 = 0"
  "table_at mx640_cfi 0x31 = 0x7E" "table_at mx640_cfi 0x32 = 0" "table_at mx640_cfi 0x33 = 0" "table_at mx640_cfi 0x34 = 1"
  "table_at mx640_cfi 0x4F = 2"
  by (simp_all add: table_at_def mx640_cfi_def)

lemma mx640_family: "device_family 0x22CB = Some FLASH_AMD" "flip_geometry 0x22CB t = False"
  by (simp_all add: device_family_def flip_geometry_def)

lemma at0_memptr: "at0 s \<Longrightarrow> cfi_flash_get_memptr 0 s = Inr (FLASH_BASE s)"
  by (simp add: at0_def cfi_flash_get_memptr_def sec_at_def)

lemma at0_half: "flash_half (FLASH_BASE s) s = 0" by (simp add: flash_half_def)

lemma at0_command: "at0 s \<Longrightarrow> cfi_flash_command ops cmd 0 off d s =
   Inr (s\<lparr>chip := issue ops (cfi_command_cycles (flashFamily s) cmd 0 0 off d) (chip s)\<rparr>)"
  by (simp add: cfi_flash_command_def at0_memptr at0_half)

lemma at0_read: "hw_read ops (FLASH_BASE s) i s = (case bus_rd ops i (chip s) of (d, c) \<Rightarrow> (d, s\<lparr>chip := c\<rparr>))"
  by (simp add: hw_read_def at0_half)

lemma at0_upd [simp]: "at0 (s\<lparr>chip := c\<rparr>) = at0 s" "at0 (s\<lparr>query := q\<rparr>) = at0 s" "at0 (s\<lparr>g_ManufId := m\<rparr>) = at0 s"
   "at0 (s\<lparr>cfi_dev_id := i\<rparr>) = at0 s"  "at0 (s\<lparr>cfi_dev_name := n\<rparr>) = at0 s" "at0 (s\<lparr>flashFamily := f\<rparr>) = at0 s"
  by (simp_all add: at0_def)
lemma FLASH_BASE_upd2 [simp]: "FLASH_BASE (s\<lparr>query := q\<rparr>) = FLASH_BASE s" "FLASH_BASE (s\<lparr>g_ManufId := m\<rparr>) = FLASH_BASE s"
   "FLASH_BASE (s\<lparr>cfi_dev_id := i\<rparr>) = FLASH_BASE s"  "FLASH_BASE (s\<lparr>cfi_dev_name := n\<rparr>) = FLASH_BASE s" "FLASH_BASE (s\<lparr>flashFamily := f\<rparr>) = FLASH_BASE s"
  by (simp_all add: FLASH_BASE_def)

lemma flash_half_upd [simp]: "flash_half p (s\<lparr>chip := c\<rparr>) = flash_half p s" "flash_half p (s\<lparr>query := q\<rparr>) = flash_half p s" "flash_half p (s\<lparr>g_ManufId := m\<rparr>) = flash_half p s"
  by (simp_all add: flash_half_def)

lemma chip_same: "chip s = c \<Longrightarrow> s\<lparr>chip := c\<rparr> = s" by auto

lemma mx640_device_id:
  assumes "at0 s" "chip s = mx640_chip" "flashFamily s = FLASH_UNDEFINED"
  shows "cfi_flash_get_device_id (sim_ops mx640) s = Inr (0x22CB, s\<lparr>g_ManufId := 0xC2\<rparr>)"
proof -
  have "s\<lparr>g_ManufId := 0xC2, chip := mx640_chip\<rparr> = s\<lparr>g_ManufId := 0xC2\<rparr>"
    by (rule chip_same) (simp add: assms)
  thus ?thesis using assms by (simp add: cfi_flash_get_device_id_def at0_memptr at0_command hw_read_def at0_half
      cfi_command_cycles_def unlock_cycles_def issue_def sim_wr_def sim_next_def sim_rd_def mx640_sim table_at_def mx640_chip_def)
qed

lemma cfi_mode_read:
  assumes "sim_mode (chip s) = CfiTable" "b = FLASH_BASE s"
  shows "fwp_read (sim_ops mx640) None b i s = Inr (table_at mx640_cfi (int i), s)"
  using assms by (simp add: fwp_read_def hw_read_def at0_half sim_rd_def mx640_sim chip_same)

lemma replicate_8_update: "(replicate 8 x)[0 := a, Suc 0 := b] = [a, b] @ replicate 6 x"
  by (simp add: numeral_eq_Suc)

lemma regions_step:
  assumes "sim_mode (chip s) = CfiTable" "b = FLASH_BASE s" "i < length (erase_block (query s))"
  shows "read_regions (sim_ops mx640) None b i (Suc n) s
     = read_regions (sim_ops mx640) None b (Suc i) n
         (s\<lparr>query := (query s)\<lparr>erase_block := (erase_block (query s))[i :=
            \<lparr>er_sector_size = 256 * (256 * ucast (table_at mx640_cfi (int (0x30 + 4 * i)))
                 + ucast (table_at mx640_cfi (int (0x2F + 4 * i)))),
             er_num_sectors = int (unat (table_at mx640_cfi (int (0x2D + 4 * i))))
                 + 256 * int (unat (table_at mx640_cfi (int (0x2E + 4 * i)))) + 1\<rparr>]\<rparr>\<rparr>)"
  using assms(3) by (simp only: read_regions.simps cfi_mode_read[OF assms(1,2)] if_True bindR_simps prod.case)

lemma mx640_regions:
  assumes "sim_mode (chip s) = CfiTable" "length (erase_block (query s)) = 8"
  shows "read_regions (sim_ops mx640) None (FLASH_BASE s) 0 2 s
     = Inr (s\<lparr>query := (query s)\<lparr>erase_block := (erase_block (query s))[0 := \<lparr>er_sector_size = 8192, er_num_sectors = 8\<rparr>,
          Suc 0 := \<lparr>er_sector_size = 65536, er_num_sectors = 127\<rparr>]\<rparr>\<rparr>)"
proof -
  have "read_regions (sim_ops mx640) None (FLASH_BASE s) 0 2 s = read_regions (sim_ops mx640) None (FLASH_BASE s) 1 1
      (s\<lparr>query := (query s)\<lparr>erase_block := (erase_block (query s))[0 := \<lparr>er_sector_size = 8192, er_num_sectors = 8\<rparr>]\<rparr>\<rparr>)"
    using assms regions_step[of s "FLASH_BASE s" 0 1] by (simp add: mx640_reads numeral_2_eq_2[symmetric] del: read_regions.simps)
  also have "\<dots> = read_regions (sim_ops mx640) None (FLASH_BASE s) 2 0
      (s\<lparr>query := (query s)\<lparr>erase_block := (erase_block (query s))[0 := \<lparr>er_sector_size = 8192, er_num_sectors = 8\<rparr>,
          Suc 0 := \<lparr>er_sector_size = 65536, er_num_sectors = 127\<rparr>]\<rparr>\<rparr>)"
    using regions_step[of "s\<lparr>query := (query s)\<lparr>erase_block := (erase_block (query s))[0 := \<lparr>er_sector_size = 8192, er_num_sectors = 8\<rparr>]\<rparr>\<rparr>"
        "FLASH_BASE s" 1 0] assms by (simp add: mx640_reads numeral_2_eq_2[symmetric] del: read_regions.simps)
  finally show ?thesis by simp
qed

lemma mx640_get_cfi:
  assumes "at0 s" "chip s = mx640_chip" "flashFamily s = FLASH_AMD"
  shows "cfi_flash_get_cfi (sim_ops mx640) None FLASH_AMD s = Inr (FLASH_API_OK, s\<lparr>query := mx640_query\<rparr>)"
proof -
  define c1 where "c1 = issue (sim_ops mx640) (cfi_command_cycles FLASH_AMD FLASH_CFIQUERY 0 0 0 0) (chip s)"
  have m: "sim_mode c1 = CfiTable" and r: "issue (sim_ops mx640) (cfi_command_cycles FLASH_AMD FLASH_RESET 0 0 0 0) c1 = chip s"
    by (simp_all add: c1_def assms(2) mx640_chip_def issue_def cfi_command_cycles_def mx640_sim sim_wr_def sim_next_def)
  have rg: "read_regions (sim_ops mx640) None (FLASH_BASE s) 0 2 (s'\<lparr>query := q\<rparr>)
     = Inr (s'\<lparr>query := q\<lparr>erase_block := (erase_block q)[0 := \<lparr>er_sector_size = 8192, er_num_sectors = 8\<rparr>,
          Suc 0 := \<lparr>er_sector_size = 65536, er_num_sectors = 127\<rparr>]\<rparr>\<rparr>)"
    if "sim_mode (chip s') = CfiTable" "FLASH_BASE s' = FLASH_BASE s" "length (erase_block q) = 8" for s' q
    using mx640_regions[of "s'\<lparr>query := q\<rparr>"] that by simp
  have "s\<lparr>chip := chip s, query := q\<rparr> = s\<lparr>query := q\<rparr>" for q by simp
  thus ?thesis
    using assms(1,3) m
    apply (simp add: cfi_flash_get_cfi_def at0_command at0_memptr Let_def cfi_mode_read rg mx640_reads c1_def[symmetric] r replicate_8_update
      )
    apply (simp add: mx640_query_def r)
    done
qed


lemma mx640_table:
  assumes "query s = mx640_query" "length (fi_sec (meminfo s)) = MAXSECTORS" "flashFamily s = FLASH_AMD"
  shows "\<exists>s'. cfi_build_table 0x22CB s = Inr (FLASH_API_OK, s') \<and> cfi_wf mx640_sectors s'
     \<and> chip s' = chip s \<and> write_sem s' = write_sem s \<and> in_irq s' = in_irq s \<and> mpi_cs0_base s' = mpi_cs0_base s
     \<and> signal_pending s' = signal_pending s"
proof -
  let ?sec = "fi_sec (meminfo s)"
  obtain sec1 where s1: "fill_region 8 8192 (0, 0, ?sec) = Inr (8, 65536, sec1)" "length sec1 = MAXSECTORS"
      "map sec_size (take 8 sec1) = replicate 8 8192"
    using fill_region_run[of 0 8 ?sec 0 8192] assms(2) by (auto simp: int32_id)
  obtain sec2 where s2: "fill_region 127 65536 (8, 65536, sec1) = Inr (135, 8388608, sec2)" "length sec2 = MAXSECTORS"
      "map sec_size (take 135 sec2) = map sec_size (take 8 sec1) @ replicate 127 65536"
    using fill_region_run[of 8 127 sec1 65536 65536] s1(2) by (auto simp: int32_id)
  have g: "geometry_regions mx640_query False = [\<lparr>er_sector_size = 8192, er_num_sectors = 8\<rparr>,
        \<lparr>er_sector_size = 65536, er_num_sectors = 127\<rparr>]"
    by (simp add: geometry_regions_def mx640_query_def numeral_2_eq_2)
  have f: "fill_sectors (geometry_regions mx640_query False) (device_size mx640_query) (0, 0, ?sec)
      = Inr (135, 8388608, sec2)"
    unfolding g using s1(1) s2(1) by (simp add: mx640_query_def)
  have tc: "\<exists>t. top_device_check 135 sec2 x = Inr t" for x by (simp add: top_device_check_def)
  obtain s' where s': "cfi_build_table 0x22CB s = Inr (FLASH_API_OK, s')"
      "fi_sec (meminfo s') = sec2" "fi_nsect (meminfo s') = 135" "flashFamily s' = FLASH_AMD"
      "chip s' = chip s \<and> write_sem s' = write_sem s \<and> in_irq s' = in_irq s \<and> mpi_cs0_base s' = mpi_cs0_base s
       \<and> signal_pending s' = signal_pending s"
    using tc[of "g_FlashTopDevice s"] f assms by (auto simp: cfi_build_table_def mx640_family)
  note b = build_table_ok[OF s'(1)]
  have sz: "map sec_size (take 135 sec2) = replicate 8 8192 @ replicate 127 65536" using s1(3) s2(3) by simp
  hence eq: "map (nat \<circ> sec_size) (take 135 sec2) = mx640_sectors"
    unfolding mx640_sectors_def map_map[symmetric] by simp
  have "0 \<le> sec_size (sec2 ! k)" if "k < 135" for k
  proof -
    have "sec_size (sec2 ! k) \<in> set (map sec_size (take 135 sec2))"
      using that s2(2) nth_mem[of k "map sec_size (take 135 sec2)"] by simp
    thus ?thesis unfolding sz by auto
  qed
  moreover have "sum_list (map sec_size (take 135 sec2)) < 2 ^ 31"
    unfolding sz by (simp add: sum_list_replicate)
  ultimately have "cfi_wf mx640_sectors s'"
    unfolding eq[symmetric] s'(2)[symmetric]
    by (intro table_ok_wf[of _ "totalSize s'"]) (use b s'(2,3,4) s2(2) in simp_all)
  thus ?thesis using s' by blast
qed

lemma g_flash_info_set_upd [simp]:
  "cfi_wf sects (s\<lparr>g_flash_info_set := b\<rparr>) = cfi_wf sects s"
  "FLASH_BASE (s\<lparr>g_flash_info_set := b\<rparr>) = FLASH_BASE s"
  by (simp_all add: cfi_wf_def FLASH_BASE_def)

lemma mx640_cfi_init:
  "\<exists>s'. cfi_flash_init (sim_ops mx640) (cfi_static cs0 mx640_chip) = Inr (FLASH_API_OK, s')
     \<and> cfi_wf mx640_sectors s' \<and> chip s' = mx640_chip \<and> write_sem s' = 1 \<and> mpi_cs0_base s' = cs0
     \<and> \<not> in_irq s' \<and> \<not> signal_pending s'"
proof -
  define s1 where "s1 = (cfi_static cs0 mx640_chip)\<lparr>meminfo := (meminfo (cfi_static cs0 mx640_chip))
      \<lparr>fi_addr := 0, fi_areg := 0, fi_nsect := 1, fi_bank1start := 0, fi_bank2start := 0,
        fi_sec := (fi_sec (meminfo (cfi_static cs0 mx640_chip)))
          [0 := \<lparr>sec_size = 8192, sec_base = 0, sec_bank = 1\<rparr>]\<rparr>\<rparr>"
  have s1: "at0 s1" "chip s1 = mx640_chip" "flashFamily s1 = FLASH_UNDEFINED"
     "length (fi_sec (meminfo s1)) = MAXSECTORS" "write_sem s1 = 1" "mpi_cs0_base s1 = cs0"
     "\<not> in_irq s1" "\<not> signal_pending s1"
    by (simp_all add: s1_def cfi_static_def at0_def)
  have c: "cfi_flash_command (sim_ops mx640) FLASH_RESET 0 0 0 s1 = Inr s1"
    using s1(1-3) by (simp add: at0_command issue_def cfi_command_cycles_def mx640_sim mx640_chip_def
        sim_wr_def sim_next_def chip_same)
  define s3 where "s3 = s1\<lparr>g_ManufId := 0xC2, cfi_dev_id := 0x22CB, cfi_dev_name := [], flashFamily := FLASH_AMD\<rparr>"
  have q: "cfi_query_device (sim_ops mx640) 0x22CB FLASH_AMD s3 = Inr (True, s3\<lparr>query := mx640_query\<rparr>)"
    using mx640_get_cfi[of s3] s1 by (simp add: cfi_query_device_def s3_def)
  obtain s' where s': "cfi_build_table 0x22CB (s3\<lparr>query := mx640_query\<rparr>) = Inr (FLASH_API_OK, s')"
      "cfi_wf mx640_sectors s'" "chip s' = mx640_chip" "write_sem s' = 1" "mpi_cs0_base s' = cs0"
      "\<not> in_irq s'" "\<not> signal_pending s'"
    using mx640_table[of "s3\<lparr>query := mx640_query\<rparr>"] s1 by (auto simp: s3_def)
  have "cfi_flash_init (sim_ops mx640) (cfi_static cs0 mx640_chip) = Inr (FLASH_API_OK, s')"
    using c mx640_device_id[OF s1(1-3)] q s'(1) mx640_family(1)
    unfolding cfi_flash_init_def Let_def s1_def[symmetric]
    by (simp add: s3_def) (simp add: cfi_static_def)
  thus ?thesis using s' by blast
qed

lemma mx640_init:
  "\<exists>s'. flash_init (sim_ops mx640) (cfi_static cs0 mx640_chip) = Inr (FLASH_API_OK, s')
     \<and> cfi_inv mx640_sectors (sim_in mx640 ReadArray) (FLASH_BASE (cfi_static cs0 mx640_chip)) s'
     \<and> chip s' = mx640_chip \<and> write_sem s' = 1 \<and> \<not> in_irq s' \<and> \<not> signal_pending s' \<and> g_flash_info_set s'"
proof -
  obtain s' where s': "cfi_flash_init (sim_ops mx640) (cfi_static cs0 mx640_chip) = Inr (FLASH_API_OK, s')"
     "cfi_wf mx640_sectors s'" "chip s' = mx640_chip" "write_sem s' = 1" "mpi_cs0_base s' = cs0"
     "\<not> in_irq s'" "\<not> signal_pending s'"
    using mx640_cfi_init by blast
  hence "flash_init (sim_ops mx640) (cfi_static cs0 mx640_chip)
      = Inr (FLASH_API_OK, s'\<lparr>g_flash_info_set := True\<rparr>)"
    by (simp add: flash_init_def)
  moreover have "FLASH_BASE s' = FLASH_BASE (cfi_static cs0 mx640_chip)"
    using s'(5) by (simp add: FLASH_BASE_def cfi_static_def)
  moreover have "sim_in mx640 ReadArray mx640_chip" by (simp add: sim_in_def mx640_chip_def)
  ultimately show ?thesis using s'
    by (intro exI[of _ "s'\<lparr>g_flash_info_set := True\<rparr>"]) (simp add: cfi_inv_def)
qed

section \<open>The driver on this part\<close>

lemma mx640_nor_chip:
  "nor_chip (sim_ops mx640) mx640_sectors (sim_cells mx640) (sim_in mx640 ReadArray)
     (sim_in mx640 Bypass) (sim_erasing mx640)"
  using sim_nor_chip[of mx640] mx640_geometry by (simp add: mx640_sim(2))

interpretation mx640_part: nor_chip "sim_ops mx640" mx640_sectors "sim_cells mx640"
  "sim_in mx640 ReadArray" "sim_in mx640 Bypass" "sim_erasing mx640"
  by (rule mx640_nor_chip)

text \<open>The board: the boot chip select at its reset value, and the state after a successful
  \<^verbatim>\<open>flash_init\<close>.\<close>

definition mx640_boot :: "sim_chip cfi_state" where
  "mx640_boot = cfi_static 0x1FC00000 mx640_chip"

definition mx640_ready :: "sim_chip cfi_state" where
  "mx640_ready = (case flash_init (sim_ops mx640) mx640_boot of Inr (_, s) \<Rightarrow> s | _ \<Rightarrow> mx640_boot)"

lemma mx640_ready_inv:
  "cfi_inv mx640_sectors (sim_in mx640 ReadArray) 0xBFC00000 mx640_ready"
  "chip mx640_ready = mx640_chip" "write_sem mx640_ready = 1" "\<not> in_irq mx640_ready"
  "\<not> signal_pending mx640_ready" "g_flash_info_set mx640_ready"
proof -
  have b: "FLASH_BASE mx640_boot = 0xBFC00000" by (simp add: mx640_boot_def FLASH_BASE_def cfi_static_def)
  obtain s' where s': "flash_init (sim_ops mx640) mx640_boot = Inr (FLASH_API_OK, s')"
    "cfi_inv mx640_sectors (sim_in mx640 ReadArray) 0xBFC00000 s'" "chip s' = mx640_chip"
    "write_sem s' = 1" "\<not> in_irq s'" "\<not> signal_pending s'" "g_flash_info_set s'"
    using mx640_init[of "0x1FC00000"] b by (auto simp: mx640_boot_def)
  hence "mx640_ready = s'" by (simp add: mx640_ready_def)
  thus "cfi_inv mx640_sectors (sim_in mx640 ReadArray) 0xBFC00000 mx640_ready"
    "chip mx640_ready = mx640_chip" "write_sem mx640_ready = 1" "\<not> in_irq mx640_ready"
    "\<not> signal_pending mx640_ready" "g_flash_info_set mx640_ready"
    using s' by simp_all
qed

lemma mx640_sizes: "sum_list mx640_sectors = 8388608" "length mx640_sectors = 135" "sim_size mx640 = 4194304"
  by (simp_all add: mx640_sectors_def sum_list_replicate sim_size_def mx640_sim(2))

lemma mx640_content: "flash_content (sim_cells mx640) mx640_ready = replicate 8388608 0xFF"
  by (simp add: flash_content_def mx640_ready_inv(2) mx640_chip_def sim_cells_def mx640_sizes)

interpretation mx640_dev: cfi_board "sim_ops mx640" mx640_sectors "sim_cells mx640"
  "sim_in mx640 ReadArray" "sim_in mx640 Bypass" "sim_erasing mx640" "0xBFC00000" mx640_ready
  by unfold_locales

lemma mx640_flash_device:
  "flash_device (flash_cfi_dev (sim_ops mx640) mx640_ready) mx640_sectors 0xBFC00000
     (cfi_inv mx640_sectors (sim_in mx640 ReadArray) 0xBFC00000) (flash_content (sim_cells mx640))"
  by (rule mx640_dev.flash_device_axioms)

section \<open>Properties\<close>

text \<open>C1: on every chip with the AMD command set the CFI driver refines the flash device contract:
  its reads, erases, writes, sector queries and address translation act on the flat array as the
  contract says, whether or not the suspend and resume commands are interleaved
  (\<^verbatim>\<open>g_iReset\<close>).\<close>

theorem cfi_refines_flash_device:
  assumes "nor_chip ops sectors cells idle bypass erasing"
  shows "flash_device (flash_cfi_dev ops s0) sectors base (cfi_inv sectors idle base)
           (flash_content cells)"
proof -
  have "cfi_board ops sectors cells idle bypass erasing"
    using assms by (simp add: cfi_board_def)
  thus ?thesis by (rule cfi_board.cfi_device)
qed

theorem cfi_refines_flash_device_witness:
  "flash_device (flash_cfi_dev (sim_ops mx640) mx640_ready) mx640_sectors 0xBFC00000
     (cfi_inv mx640_sectors (sim_in mx640 ReadArray) 0xBFC00000) (flash_content (sim_cells mx640))
   \<and> cfi_inv mx640_sectors (sim_in mx640 ReadArray) 0xBFC00000 mx640_ready"
  using cfi_refines_flash_device[OF mx640_nor_chip, of mx640_ready "0xBFC00000"] mx640_ready_inv(1) by blast

text \<open>C15: whatever the chip answers, if \<^verbatim>\<open>cfi_flash_init\<close> reports success the sector table has at
  least eight sectors and lies within the array, the base of each sector is the 32 bit sum of the
  sizes of the sectors before it, and the total size is the 32 bit sum of all of them. If no size is
  negative and they add up to less than 2 GB, no sum wraps: the table is contiguous from offset
  \<open>0\<close> up to the total size, which is the sum of the sizes.\<close>

theorem cfi_flash_init_table:
  assumes "cfi_flash_init ops s = Inr (FLASH_API_OK, s')"
    and "n = nat (fi_nsect (meminfo s'))" and "sizes = map sec_size (take n (fi_sec (meminfo s')))"
  shows "8 \<le> n \<and> n \<le> length (fi_sec (meminfo s))
    \<and> length (fi_sec (meminfo s')) = length (fi_sec (meminfo s))
    \<and> (\<forall>k < n. sec_base (fi_sec (meminfo s') ! k) = int32 (sum_list (take k sizes)))
    \<and> totalSize s' = int32 (sum_list sizes)
    \<and> ((\<forall>x \<in> set sizes. 0 \<le> x) \<and> sum_list sizes < 2 ^ 31 \<longrightarrow>
        (\<forall>k < n. sec_base (fi_sec (meminfo s') ! k) = sum_list (take k sizes)
               \<and> sec_base (fi_sec (meminfo s') ! k) + sizes ! k \<le> totalSize s')
        \<and> totalSize s' = sum_list sizes)"
proof -
  have t: "table_ok (n, totalSize s', fi_sec (meminfo s'))" "8 \<le> n"
      "length (fi_sec (meminfo s')) = length (fi_sec (meminfo s))"
    using postD[OF cfi_flash_init_post assms(1)] assms(2) by auto
  hence b: "\<forall>k < n. sec_base (fi_sec (meminfo s') ! k) = int32 (sum_list (take k sizes))"
      "totalSize s' = int32 (sum_list sizes)" "length sizes = n"
    by (auto simp: table_ok_def assms(3) take_map)
  have e: "(\<forall>k < n. sec_base (fi_sec (meminfo s') ! k) = sum_list (take k sizes)
               \<and> sec_base (fi_sec (meminfo s') ! k) + sizes ! k \<le> totalSize s')
        \<and> totalSize s' = sum_list sizes"
    if a: "\<forall>x \<in> set sizes. 0 \<le> x" "sum_list sizes < 2 ^ 31"
  proof -
    have "sum_list (take k sizes) + sizes ! k \<le> sum_list sizes" if "k < n" for k
      using prefix_sum_le(2)[OF a(1), of "Suc k"] that b(3) by (simp add: take_Suc_conv_app_nth)
    thus ?thesis using b int32_prefix_sum[OF a] int32_prefix_sum[OF a, of n] by simp
  qed
  from t have "n \<le> length (fi_sec (meminfo s))" by (simp add: table_ok_def)
  with t(2,3) b(1,2) e show ?thesis by blast
qed

theorem cfi_flash_init_table_witness:
  "\<exists>s'. cfi_flash_init (sim_ops mx640) mx640_boot = Inr (FLASH_API_OK, s')
     \<and> 8 \<le> nat (fi_nsect (meminfo s')) \<and> totalSize s' = 8388608
     \<and> (\<forall>k < 135. sec_base (fi_sec (meminfo s') ! k) = sum_list (take k (map int mx640_sectors)))"
proof -
  obtain s' where s': "cfi_flash_init (sim_ops mx640) mx640_boot = Inr (FLASH_API_OK, s')"
      "cfi_wf mx640_sectors s'"
    using mx640_cfi_init[of "0x1FC00000"] by (auto simp: mx640_boot_def)
  have n: "fi_nsect (meminfo s') = 135"
    and z: "map sec_size (take 135 (fi_sec (meminfo s'))) = map int mx640_sectors"
    using s'(2) by (auto simp: cfi_wf_def mx640_sizes intro!: nth_equalityI)
  have "sum_list (map int mx640_sectors) = 8388608"
    by (simp add: mx640_sectors_def sum_list_replicate)
  thus ?thesis using cfi_flash_init_table[OF s'(1) refl refl] s'(1) by (auto simp: n z)
qed

text \<open>C29: a write with an odd offset or an odd length that is not already in the flash never
  returns in process context: the driver programs nothing, finds the difference, and calls the
  erase operation, which waits for the semaphore the write still holds.\<close>

theorem cfi_write_unaligned_deadlock:
  assumes "nor_chip ops sectors cells idle bypass erasing"
    and "cfi_inv sectors idle base s" "\<not> in_irq s" "write_sem s = 1" "\<not> signal_pending s"
    and "g_flash_info_set s" "k < length sectors" "odd off \<or> odd n" "n \<le> length buf"
    and "sector_start sectors k + off + n \<le> sum_list sectors"
    and "slice (sector_start sectors k + off) n (flash_content cells s) \<noteq> take n buf"
  shows "cfi_flash_write_buf ops (of_nat k) (int off) buf (int n) s = Inl Deadlock"
  by (rule nor_chip.write_buf_unaligned[OF assms])

theorem cfi_write_unaligned_deadlock_witness:
  "cfi_flash_write_buf (sim_ops mx640) (of_nat 0) (int 0) [0] (int 1) mx640_ready = Inl Deadlock"
  by (rule cfi_write_unaligned_deadlock[OF mx640_nor_chip mx640_ready_inv(1)])
    (simp_all add: mx640_ready_inv mx640_sizes mx640_content slice_def)

text \<open>C30: a reader interrupted by a signal while another task holds the semaphore reads the flash
  regardless and then releases the semaphore it never acquired, leaving it free.\<close>

theorem cfi_read_interrupted:
  assumes "nor_chip ops sectors cells idle bypass erasing"
    and "cfi_wf sectors s" "idle (chip s)" "\<not> in_irq s" "write_sem s = 0" "signal_pending s"
    and "k < length sectors" "sector_start sectors k + off + n \<le> sum_list sectors"
  shows "cfi_flash_read_buf ops (of_nat k) (int off) (int n) s
           = Inr (FLASH_API_OK, slice (sector_start sectors k + off) n (flash_content cells s),
                  s\<lparr>write_sem := 1\<rparr>)"
  by (rule nor_chip.read_buf_interrupted[OF assms])

theorem cfi_read_interrupted_witness:
  "cfi_flash_read_buf (sim_ops mx640) (of_nat 0) (int 0) (int 2)
     (mx640_ready\<lparr>write_sem := 0, signal_pending := True\<rparr>)
   = Inr (FLASH_API_OK, [0xFF, 0xFF], mx640_ready\<lparr>write_sem := 0, signal_pending := True, write_sem := 1\<rparr>)"
proof -
  let ?s = "mx640_ready\<lparr>write_sem := 0, signal_pending := True\<rparr>"
  have "cfi_wf mx640_sectors ?s" "sim_in mx640 ReadArray (chip ?s)"
    using mx640_ready_inv(1) by (simp_all add: cfi_inv_def cfi_wf_def)
  moreover have "slice 0 2 (flash_content (sim_cells mx640) ?s) = [0xFF, 0xFF]"
    using mx640_content by (simp add: flash_content_def slice_def numeral_2_eq_2)
  ultimately show ?thesis
    using cfi_read_interrupted[OF mx640_nor_chip, of ?s 0 0 2] mx640_ready_inv(4) by (simp add: mx640_sizes)
qed

text \<open>The boot-block indicator read from the chip never decides the sector order: every part
  the driver supports is in one of the two fixed lists, so the query branch is unreachable.\<close>

theorem cfi_geometry_ignores_query:
  assumes "device_family dev = Some fam"
  shows "flip_geometry dev t = flip_geometry dev t'"
  by (rule flip_geometry_known[OF assms])

theorem cfi_geometry_ignores_query_witness:
  "flip_geometry ID_S29GL064AT 2 = flip_geometry ID_S29GL064AT 3"
  by (rule cfi_geometry_ignores_query[of _ FLASH_AMD]) (simp add: device_family_def)

end
