(* ===== verification/Board_Parms.thy ===== *)
theory Board_Parms
  imports Prelude
begin

text \<open>
  The board parameters of \<^verbatim>\<open>src/shared/opensource/boardparms/bcm963xx/boardparms.c\<close> for the
  BCM96358 family (the \<^verbatim>\<open>CONFIG_BCM96358\<close> section): the parameter structures, the table
  of boards and the access functions. An access function is a function of the global pointer
  \<^verbatim>\<open>g_pCurrentBp\<close> and returns its result code with the value it stores through its argument.
  A C string in an array is a list of bytes with a zero byte.
\<close>

section \<open>Constants\<close>

text \<open>Result codes.\<close>

abbreviation (input) BP_SUCCESS :: int where "BP_SUCCESS \<equiv> 0"
abbreviation (input) BP_BOARD_ID_NOT_FOUND :: int where "BP_BOARD_ID_NOT_FOUND \<equiv> 1"
abbreviation (input) BP_VALUE_NOT_DEFINED :: int where "BP_VALUE_NOT_DEFINED \<equiv> 2"
abbreviation (input) BP_BOARD_ID_NOT_SET :: int where "BP_BOARD_ID_NOT_SET \<equiv> 3"

text \<open>Values of the tables. A GPIO is its number, with a bit for active low pins and one for pins of the
  serial shift register.\<close>

abbreviation (input) BP_MEMORY_16MB_1_CHIP :: u16 where "BP_MEMORY_16MB_1_CHIP \<equiv> 1"
abbreviation (input) BP_MEMORY_32MB_1_CHIP :: u16 where "BP_MEMORY_32MB_1_CHIP \<equiv> 2"
abbreviation (input) BP_MEMORY_64MB_1_CHIP :: u16 where "BP_MEMORY_64MB_1_CHIP \<equiv> 6"
abbreviation (input) BP_PSI_DEFAULT_SIZE :: u16 where "BP_PSI_DEFAULT_SIZE \<equiv> 64"
abbreviation (input) BP_ENET_CONFIG_MDIO :: u16 where "BP_ENET_CONFIG_MDIO \<equiv> 0"
abbreviation (input) BP_ENET_CONFIG_MDIO_PSEUDO_PHY :: u16 where "BP_ENET_CONFIG_MDIO_PSEUDO_PHY \<equiv> 2"
abbreviation (input) BP_ENET_CONFIG_SMI :: u16 where "BP_ENET_CONFIG_SMI \<equiv> 7"
abbreviation (input) BP_ENET_REVERSE_MII :: u16 where "BP_ENET_REVERSE_MII \<equiv> 1"
abbreviation (input) BP_EXT_INTR_3 :: u16 where "BP_EXT_INTR_3 \<equiv> 3"
abbreviation (input) BP_CS_1 :: u16 where "BP_CS_1 \<equiv> 1"
abbreviation (input) BP_NOT_DEFINED :: u16 where "BP_NOT_DEFINED \<equiv> 0xFFFF"
abbreviation (input) BP_HW_DEFINED :: u16 where "BP_HW_DEFINED \<equiv> 0xFFF0"
abbreviation (input) BP_UNEQUIPPED :: u16 where "BP_UNEQUIPPED \<equiv> 0xFFF1"
abbreviation (input) BP_WLAN_ANT_MAIN :: u16 where "BP_WLAN_ANT_MAIN \<equiv> 0"
abbreviation (input) GPIO_SERIAL_MODE_MASK :: u16 where "GPIO_SERIAL_MODE_MASK \<equiv> 1"
abbreviation (input) GPIO_LED_MODE_MMASK :: u16 where "GPIO_LED_MODE_MMASK \<equiv> 2"
abbreviation (input) GPIO_GET_PCB_VER_MASK :: u16 where "GPIO_GET_PCB_VER_MASK \<equiv> 4"
abbreviation (input) GPIO_GET_BOARD_VER_MASK :: u16 where "GPIO_GET_BOARD_VER_MASK \<equiv> 8"
abbreviation (input) BP_GPIO_NUM_MASK :: u16 where "BP_GPIO_NUM_MASK \<equiv> 0xFF"
abbreviation (input) BP_ACTIVE_LOW :: u16 where "BP_ACTIVE_LOW \<equiv> 0x8000"
abbreviation (input) BP_GPIO_SERIAL :: u16 where "BP_GPIO_SERIAL \<equiv> 0x4000"
abbreviation (input) BP_ENET_NO_PHY :: byte where "BP_ENET_NO_PHY \<equiv> 0"
abbreviation (input) BP_ENET_INTERNAL_PHY :: byte where "BP_ENET_INTERNAL_PHY \<equiv> 1"
abbreviation (input) BP_ENET_EXTERNAL_SWITCH :: byte where "BP_ENET_EXTERNAL_SWITCH \<equiv> 3"
abbreviation (input) BP_VOIP_NO_DSP :: byte where "BP_VOIP_NO_DSP \<equiv> 0"
abbreviation (input) BP_VOIP_DSP :: byte where "BP_VOIP_DSP \<equiv> 1"
abbreviation (input) BP_BOARD_ID_LEN :: int where "BP_BOARD_ID_LEN \<equiv> 16"
abbreviation (input) BP_GPIO_AH :: "u16 \<Rightarrow> u16" where "BP_GPIO_AH n \<equiv> n"
abbreviation (input) BP_GPIO_AL :: "u16 \<Rightarrow> u16" where "BP_GPIO_AL n \<equiv> n OR BP_ACTIVE_LOW"
abbreviation (input) BP_SERIAL_GPIO_AH :: "u16 \<Rightarrow> u16" where "BP_SERIAL_GPIO_AH n \<equiv> n OR BP_GPIO_SERIAL"
abbreviation (input) BP_SERIAL_GPIO_AL :: "u16 \<Rightarrow> u16" where
  "BP_SERIAL_GPIO_AL n \<equiv> n OR BP_GPIO_SERIAL OR BP_ACTIVE_LOW"

section \<open>Structures\<close>

datatype SLIC_TYPE = Silicon_Labs_3210 | Silicon_Labs_3215 | Legerity_88221 | Slic_Not_Defined

datatype DAA_TYPE = DAA_CIRCUIT | Silicon_Labs_3050 | Legerity_88010 | DAA_Not_Defined

record ETHERNET_MAC_INFO =
  ucPhyType :: byte
  ucPhyAddress :: byte
  usGpioPhySpiSck :: u16
  usGpioPhySpiSs :: u16
  usGpioPhySpiMosi :: u16
  usGpioPhySpiMiso :: u16
  usGpioPhyReset :: u16
  numSwitchPorts :: u16
  usConfigType :: u16
  usReverseMii :: u16

record LSW_PORT_LED_GPIO =
  usGpioLedLan1LinkUp :: u16
  usGpioLedLan1LinkDown :: u16
  usGpioLedLan2LinkUp :: u16
  usGpioLedLan2LinkDown :: u16
  usGpioLedLan3LinkUp :: u16
  usGpioLedLan3LinkDown :: u16
  usGpioLedLan4LinkUp :: u16
  usGpioLedLan4LinkDown :: u16

record VOIP_DSP_INFO =
  ucDspType :: byte
  ucDspAddress :: byte
  usExtIntrVoip :: u16
  usGpioPotsReset :: u16
  usGpioVoipReset :: u16
  usGpioVoipIntr :: u16
  usGpioLedVoip :: u16
  usGpioLedPSTN :: u16
  usGpioLedLine0 :: u16
  usGpioLedLine1 :: u16
  usCsVoip :: u16
  usGpioRelayCtl :: u16
  usGpioRingDetc :: u16
  usGpioLoopDetc :: u16
  slicType :: SLIC_TYPE
  daaType :: DAA_TYPE

record PCB_VERSION =
  usPcbVer_Low :: u16
  usPcbVer_High :: u16

record BOARD_VERSION =
  usBoardVer_Low :: u16
  usBoardVer_Mid :: u16
  usBoardVer_High :: u16
  usReserve :: u16

record BOARD_PARAMETERS =
  szBoardId :: "byte list"
  EnetMacInfos :: "ETHERNET_MAC_INFO list"
  VoIPDspInfo :: "VOIP_DSP_INFO list"
  usSdramSize :: u16
  usPsiSize :: u16
  usGpioRj11InnerPair :: u16
  usGpioRj11OuterPair :: u16
  usGpioPressAndHoldReset :: u16
  usGpioRestoreDefCfg :: u16
  usGpioDiagnoseEthPort :: u16
  LswPortLedGpios :: LSW_PORT_LED_GPIO
  usGpioLedMessage :: u16
  usGpioHspaEnable :: u16
  usGpioUartRts :: u16
  usGpioUartCts :: u16
  usGpioLedAdsl :: u16
  usGpioLedAdslFail :: u16
  usGpioLedWireless :: u16
  usGpioLedWirelessFail :: u16
  usGpioLedUsb :: u16
  usGpioLedHpna :: u16
  usGpioLedWanData :: u16
  usGpioLedWanDataFail :: u16
  usGpioLedHspa :: u16
  usGpioLedHspaFail :: u16
  usGpioLedInternet :: u16
  usGpioLedInternetFail :: u16
  usGpioLedPpp :: u16
  usGpioLedPppFail :: u16
  usGpioLedBlPowerOn :: u16
  usGpioLedBlResetCfg :: u16
  usGpioLedBlStop :: u16
  usExtIntrAdslDyingGasp :: u16
  usExtIntrHpna :: u16
  usCsHpna :: u16
  usAntInUseWireless :: u16
  usGpioSesBtnWireless :: u16
  usExtIntrSesBtnWireless :: u16
  usGpioLedSesWireless :: u16
  usCsHpi :: u16
  usVcopeResetGpio :: u16
  usVcopeRelayGpio :: u16
  usVcopeBoardRev :: u16
  usCMTThead :: u16
  usHardwareCfg :: u16
  stPcbVersion :: PCB_VERSION
  stBoardVersion :: BOARD_VERSION
  usWirelessFlags :: u16
text \<open>A character array initialised by a string literal.\<close>

definition char_array :: "nat \<Rightarrow> string \<Rightarrow> byte list" where
  "char_array n s = map of_char s @ replicate (n - length s) 0"

section \<open>The boards\<close>

definition g_hw96358gw_a :: BOARD_PARAMETERS where
  "g_hw96358gw_a =
     \<lparr>szBoardId = char_array 16 ''HW6358GW_A'',
      EnetMacInfos = [\<lparr>ucPhyType = BP_ENET_INTERNAL_PHY, ucPhyAddress = 1, usGpioPhySpiSck = BP_NOT_DEFINED,
         usGpioPhySpiSs = BP_NOT_DEFINED, usGpioPhySpiMosi = BP_NOT_DEFINED,
         usGpioPhySpiMiso = BP_NOT_DEFINED, usGpioPhyReset = BP_NOT_DEFINED, numSwitchPorts = 1,
         usConfigType = BP_ENET_CONFIG_MDIO, usReverseMii = BP_NOT_DEFINED\<rparr>,
        \<lparr>ucPhyType = BP_ENET_EXTERNAL_SWITCH, ucPhyAddress = 0, usGpioPhySpiSck = BP_NOT_DEFINED,
         usGpioPhySpiSs = BP_NOT_DEFINED, usGpioPhySpiMosi = BP_NOT_DEFINED,
         usGpioPhySpiMiso = BP_NOT_DEFINED, usGpioPhyReset = BP_NOT_DEFINED, numSwitchPorts = 3,
         usConfigType = BP_ENET_CONFIG_MDIO_PSEUDO_PHY, usReverseMii = BP_ENET_REVERSE_MII\<rparr>],
      VoIPDspInfo = [\<lparr>ucDspType = BP_VOIP_NO_DSP, ucDspAddress = 0, usExtIntrVoip = 0, usGpioPotsReset = 0,
         usGpioVoipReset = 0, usGpioVoipIntr = 0, usGpioLedVoip = 0, usGpioLedPSTN = 0,
         usGpioLedLine0 = 0, usGpioLedLine1 = 0, usCsVoip = 0, usGpioRelayCtl = 0,
         usGpioRingDetc = 0, usGpioLoopDetc = 0, slicType = Silicon_Labs_3210,
         daaType = DAA_CIRCUIT\<rparr>,
        \<lparr>ucDspType = BP_VOIP_NO_DSP, ucDspAddress = 0, usExtIntrVoip = 0, usGpioPotsReset = 0,
         usGpioVoipReset = 0, usGpioVoipIntr = 0, usGpioLedVoip = 0, usGpioLedPSTN = 0,
         usGpioLedLine0 = 0, usGpioLedLine1 = 0, usCsVoip = 0, usGpioRelayCtl = 0,
         usGpioRingDetc = 0, usGpioLoopDetc = 0, slicType = Silicon_Labs_3210,
         daaType = DAA_CIRCUIT\<rparr>],
      usSdramSize = BP_MEMORY_32MB_1_CHIP, usPsiSize = BP_PSI_DEFAULT_SIZE,
      usGpioRj11InnerPair = BP_NOT_DEFINED, usGpioRj11OuterPair = BP_NOT_DEFINED,
      usGpioPressAndHoldReset = BP_NOT_DEFINED, usGpioRestoreDefCfg = BP_NOT_DEFINED,
      usGpioDiagnoseEthPort = BP_NOT_DEFINED,
      LswPortLedGpios = \<lparr>usGpioLedLan1LinkUp = BP_NOT_DEFINED, usGpioLedLan1LinkDown = BP_NOT_DEFINED,
         usGpioLedLan2LinkUp = BP_NOT_DEFINED, usGpioLedLan2LinkDown = BP_NOT_DEFINED,
         usGpioLedLan3LinkUp = BP_NOT_DEFINED, usGpioLedLan3LinkDown = BP_NOT_DEFINED,
         usGpioLedLan4LinkUp = BP_NOT_DEFINED, usGpioLedLan4LinkDown = BP_NOT_DEFINED\<rparr>,
      usGpioLedMessage = BP_NOT_DEFINED, usGpioHspaEnable = BP_NOT_DEFINED,
      usGpioUartRts = BP_NOT_DEFINED, usGpioUartCts = BP_NOT_DEFINED,
      usGpioLedAdsl = BP_NOT_DEFINED, usGpioLedAdslFail = BP_NOT_DEFINED,
      usGpioLedWireless = BP_NOT_DEFINED, usGpioLedWirelessFail = BP_NOT_DEFINED,
      usGpioLedUsb = BP_NOT_DEFINED, usGpioLedHpna = BP_NOT_DEFINED,
      usGpioLedWanData = BP_GPIO_AH 2, usGpioLedWanDataFail = BP_NOT_DEFINED,
      usGpioLedHspa = BP_NOT_DEFINED, usGpioLedHspaFail = BP_NOT_DEFINED,
      usGpioLedInternet = BP_NOT_DEFINED, usGpioLedInternetFail = BP_NOT_DEFINED,
      usGpioLedPpp = BP_NOT_DEFINED, usGpioLedPppFail = BP_SERIAL_GPIO_AH 2,
      usGpioLedBlPowerOn = BP_SERIAL_GPIO_AH 0, usGpioLedBlResetCfg = BP_NOT_DEFINED,
      usGpioLedBlStop = BP_SERIAL_GPIO_AH 1, usExtIntrAdslDyingGasp = BP_HW_DEFINED,
      usExtIntrHpna = BP_NOT_DEFINED, usCsHpna = BP_NOT_DEFINED,
      usAntInUseWireless = BP_WLAN_ANT_MAIN, usGpioSesBtnWireless = BP_GPIO_AL 37,
      usExtIntrSesBtnWireless = BP_EXT_INTR_3, usGpioLedSesWireless = BP_GPIO_AL 11,
      usCsHpi = BP_CS_1, usVcopeResetGpio = BP_GPIO_AL 9, usVcopeRelayGpio = BP_GPIO_AL 10,
      usVcopeBoardRev = 3, usCMTThead = 0, usHardwareCfg = GPIO_SERIAL_MODE_MASK,
      stPcbVersion = \<lparr>usPcbVer_Low = BP_NOT_DEFINED, usPcbVer_High = BP_NOT_DEFINED\<rparr>,
      stBoardVersion = \<lparr>usBoardVer_Low = BP_NOT_DEFINED, usBoardVer_Mid = BP_NOT_DEFINED,
         usBoardVer_High = BP_NOT_DEFINED, usReserve = BP_NOT_DEFINED\<rparr>,
      usWirelessFlags = BP_NOT_DEFINED\<rparr>"

definition g_huawei96358gw_b :: BOARD_PARAMETERS where
  "g_huawei96358gw_b =
     \<lparr>szBoardId = char_array 16 ''HW6358GW_B'',
      EnetMacInfos = [\<lparr>ucPhyType = BP_ENET_NO_PHY, ucPhyAddress = 0, usGpioPhySpiSck = 0, usGpioPhySpiSs = 0,
         usGpioPhySpiMosi = 0, usGpioPhySpiMiso = 0, usGpioPhyReset = 0, numSwitchPorts = 0,
         usConfigType = 0, usReverseMii = 0\<rparr>,
        \<lparr>ucPhyType = BP_ENET_EXTERNAL_SWITCH, ucPhyAddress = 0, usGpioPhySpiSck = BP_NOT_DEFINED,
         usGpioPhySpiSs = BP_NOT_DEFINED, usGpioPhySpiMosi = BP_NOT_DEFINED,
         usGpioPhySpiMiso = BP_NOT_DEFINED, usGpioPhyReset = BP_NOT_DEFINED, numSwitchPorts = 4,
         usConfigType = BP_ENET_CONFIG_MDIO_PSEUDO_PHY, usReverseMii = BP_ENET_REVERSE_MII\<rparr>],
      VoIPDspInfo = [\<lparr>ucDspType = BP_VOIP_NO_DSP, ucDspAddress = 0, usExtIntrVoip = 0, usGpioPotsReset = 0,
         usGpioVoipReset = 0, usGpioVoipIntr = 0, usGpioLedVoip = 0, usGpioLedPSTN = 0,
         usGpioLedLine0 = 0, usGpioLedLine1 = 0, usCsVoip = 0, usGpioRelayCtl = 0,
         usGpioRingDetc = 0, usGpioLoopDetc = 0, slicType = Silicon_Labs_3210,
         daaType = DAA_CIRCUIT\<rparr>,
        \<lparr>ucDspType = BP_VOIP_NO_DSP, ucDspAddress = 0, usExtIntrVoip = 0, usGpioPotsReset = 0,
         usGpioVoipReset = 0, usGpioVoipIntr = 0, usGpioLedVoip = 0, usGpioLedPSTN = 0,
         usGpioLedLine0 = 0, usGpioLedLine1 = 0, usCsVoip = 0, usGpioRelayCtl = 0,
         usGpioRingDetc = 0, usGpioLoopDetc = 0, slicType = Silicon_Labs_3210,
         daaType = DAA_CIRCUIT\<rparr>],
      usSdramSize = BP_MEMORY_32MB_1_CHIP, usPsiSize = BP_PSI_DEFAULT_SIZE,
      usGpioRj11InnerPair = BP_NOT_DEFINED, usGpioRj11OuterPair = BP_NOT_DEFINED,
      usGpioPressAndHoldReset = BP_GPIO_AL 37, usGpioRestoreDefCfg = BP_NOT_DEFINED,
      usGpioDiagnoseEthPort = BP_NOT_DEFINED,
      LswPortLedGpios = \<lparr>usGpioLedLan1LinkUp = BP_NOT_DEFINED, usGpioLedLan1LinkDown = BP_NOT_DEFINED,
         usGpioLedLan2LinkUp = BP_NOT_DEFINED, usGpioLedLan2LinkDown = BP_NOT_DEFINED,
         usGpioLedLan3LinkUp = BP_NOT_DEFINED, usGpioLedLan3LinkDown = BP_NOT_DEFINED,
         usGpioLedLan4LinkUp = BP_NOT_DEFINED, usGpioLedLan4LinkDown = BP_NOT_DEFINED\<rparr>,
      usGpioLedMessage = BP_NOT_DEFINED, usGpioHspaEnable = BP_NOT_DEFINED,
      usGpioUartRts = BP_NOT_DEFINED, usGpioUartCts = BP_NOT_DEFINED,
      usGpioLedAdsl = BP_NOT_DEFINED, usGpioLedAdslFail = BP_NOT_DEFINED,
      usGpioLedWireless = BP_NOT_DEFINED, usGpioLedWirelessFail = BP_NOT_DEFINED,
      usGpioLedUsb = BP_NOT_DEFINED, usGpioLedHpna = BP_NOT_DEFINED,
      usGpioLedWanData = BP_GPIO_AL 32, usGpioLedWanDataFail = BP_NOT_DEFINED,
      usGpioLedHspa = BP_NOT_DEFINED, usGpioLedHspaFail = BP_NOT_DEFINED,
      usGpioLedInternet = BP_NOT_DEFINED, usGpioLedInternetFail = BP_NOT_DEFINED,
      usGpioLedPpp = BP_NOT_DEFINED, usGpioLedPppFail = BP_NOT_DEFINED,
      usGpioLedBlPowerOn = BP_NOT_DEFINED, usGpioLedBlResetCfg = BP_NOT_DEFINED,
      usGpioLedBlStop = BP_NOT_DEFINED, usExtIntrAdslDyingGasp = BP_HW_DEFINED,
      usExtIntrHpna = BP_NOT_DEFINED, usCsHpna = BP_NOT_DEFINED,
      usAntInUseWireless = BP_WLAN_ANT_MAIN, usGpioSesBtnWireless = BP_NOT_DEFINED,
      usExtIntrSesBtnWireless = BP_EXT_INTR_3, usGpioLedSesWireless = BP_NOT_DEFINED,
      usCsHpi = BP_CS_1, usVcopeResetGpio = BP_GPIO_AL 9, usVcopeRelayGpio = BP_NOT_DEFINED,
      usVcopeBoardRev = 3, usCMTThead = 0,
      usHardwareCfg = GPIO_GET_PCB_VER_MASK OR GPIO_GET_BOARD_VER_MASK,
      stPcbVersion = \<lparr>usPcbVer_Low = BP_GPIO_AL 10, usPcbVer_High = BP_GPIO_AL 11\<rparr>,
      stBoardVersion = \<lparr>usBoardVer_Low = BP_GPIO_AL 6, usBoardVer_Mid = BP_GPIO_AL 7,
         usBoardVer_High = BP_GPIO_AL 8, usReserve = BP_NOT_DEFINED\<rparr>,
      usWirelessFlags = BP_NOT_DEFINED\<rparr>"

definition g_huawei96358gw_HG550 :: BOARD_PARAMETERS where
  "g_huawei96358gw_HG550 =
     \<lparr>szBoardId = char_array 16 ''HW550'',
      EnetMacInfos = [\<lparr>ucPhyType = BP_ENET_NO_PHY, ucPhyAddress = 0, usGpioPhySpiSck = 0, usGpioPhySpiSs = 0,
         usGpioPhySpiMosi = 0, usGpioPhySpiMiso = 0, usGpioPhyReset = 0, numSwitchPorts = 0,
         usConfigType = 0, usReverseMii = 0\<rparr>,
        \<lparr>ucPhyType = BP_ENET_EXTERNAL_SWITCH, ucPhyAddress = 0, usGpioPhySpiSck = BP_NOT_DEFINED,
         usGpioPhySpiSs = BP_NOT_DEFINED, usGpioPhySpiMosi = BP_NOT_DEFINED,
         usGpioPhySpiMiso = BP_NOT_DEFINED, usGpioPhyReset = BP_NOT_DEFINED, numSwitchPorts = 4,
         usConfigType = BP_ENET_CONFIG_MDIO_PSEUDO_PHY, usReverseMii = BP_ENET_REVERSE_MII\<rparr>],
      VoIPDspInfo = [\<lparr>ucDspType = BP_VOIP_DSP, ucDspAddress = 0, usExtIntrVoip = 0,
         usGpioPotsReset = BP_NOT_DEFINED, usGpioVoipReset = 0, usGpioVoipIntr = 0,
         usGpioLedVoip = BP_GPIO_AL 23, usGpioLedPSTN = BP_GPIO_AL 4,
         usGpioLedLine0 = BP_GPIO_AL 25, usGpioLedLine1 = BP_GPIO_AL 26, usCsVoip = 0,
         usGpioRelayCtl = BP_GPIO_AH 14, usGpioRingDetc = BP_GPIO_AH 15,
         usGpioLoopDetc = BP_GPIO_AL 16, slicType = Silicon_Labs_3210, daaType = DAA_Not_Defined\<rparr>,
        \<lparr>ucDspType = BP_VOIP_NO_DSP, ucDspAddress = 0, usExtIntrVoip = 0, usGpioPotsReset = 0,
         usGpioVoipReset = 0, usGpioVoipIntr = 0, usGpioLedVoip = 0, usGpioLedPSTN = 0,
         usGpioLedLine0 = 0, usGpioLedLine1 = 0, usCsVoip = 0, usGpioRelayCtl = 0,
         usGpioRingDetc = 0, usGpioLoopDetc = 0, slicType = Silicon_Labs_3210,
         daaType = DAA_CIRCUIT\<rparr>],
      usSdramSize = BP_MEMORY_32MB_1_CHIP, usPsiSize = BP_PSI_DEFAULT_SIZE,
      usGpioRj11InnerPair = BP_NOT_DEFINED, usGpioRj11OuterPair = BP_NOT_DEFINED,
      usGpioPressAndHoldReset = BP_GPIO_AL 37, usGpioRestoreDefCfg = BP_NOT_DEFINED,
      usGpioDiagnoseEthPort = BP_NOT_DEFINED,
      LswPortLedGpios = \<lparr>usGpioLedLan1LinkUp = BP_NOT_DEFINED, usGpioLedLan1LinkDown = BP_NOT_DEFINED,
         usGpioLedLan2LinkUp = BP_NOT_DEFINED, usGpioLedLan2LinkDown = BP_NOT_DEFINED,
         usGpioLedLan3LinkUp = BP_NOT_DEFINED, usGpioLedLan3LinkDown = BP_NOT_DEFINED,
         usGpioLedLan4LinkUp = BP_NOT_DEFINED, usGpioLedLan4LinkDown = BP_NOT_DEFINED\<rparr>,
      usGpioLedMessage = BP_NOT_DEFINED, usGpioHspaEnable = BP_NOT_DEFINED,
      usGpioUartRts = BP_NOT_DEFINED, usGpioUartCts = BP_NOT_DEFINED, usGpioLedAdsl = BP_GPIO_AL 22,
      usGpioLedAdslFail = BP_NOT_DEFINED, usGpioLedWireless = BP_NOT_DEFINED,
      usGpioLedWirelessFail = BP_NOT_DEFINED, usGpioLedUsb = BP_NOT_DEFINED,
      usGpioLedHpna = BP_NOT_DEFINED, usGpioLedWanData = BP_GPIO_AL 34,
      usGpioLedWanDataFail = BP_NOT_DEFINED, usGpioLedHspa = BP_NOT_DEFINED,
      usGpioLedHspaFail = BP_NOT_DEFINED, usGpioLedInternet = BP_NOT_DEFINED,
      usGpioLedInternetFail = BP_NOT_DEFINED, usGpioLedPpp = BP_NOT_DEFINED,
      usGpioLedPppFail = BP_NOT_DEFINED, usGpioLedBlPowerOn = BP_NOT_DEFINED,
      usGpioLedBlResetCfg = BP_NOT_DEFINED, usGpioLedBlStop = BP_NOT_DEFINED,
      usExtIntrAdslDyingGasp = BP_HW_DEFINED, usExtIntrHpna = BP_NOT_DEFINED,
      usCsHpna = BP_NOT_DEFINED, usAntInUseWireless = BP_WLAN_ANT_MAIN,
      usGpioSesBtnWireless = BP_NOT_DEFINED, usExtIntrSesBtnWireless = BP_EXT_INTR_3,
      usGpioLedSesWireless = BP_NOT_DEFINED, usCsHpi = BP_NOT_DEFINED,
      usVcopeResetGpio = BP_NOT_DEFINED, usVcopeRelayGpio = BP_NOT_DEFINED,
      usVcopeBoardRev = BP_NOT_DEFINED, usCMTThead = 1,
      usHardwareCfg = GPIO_GET_PCB_VER_MASK OR GPIO_GET_BOARD_VER_MASK,
      stPcbVersion = \<lparr>usPcbVer_Low = BP_GPIO_AL 10, usPcbVer_High = BP_GPIO_AL 11\<rparr>,
      stBoardVersion = \<lparr>usBoardVer_Low = BP_GPIO_AL 6, usBoardVer_Mid = BP_GPIO_AL 7,
         usBoardVer_High = BP_GPIO_AL 8, usReserve = BP_NOT_DEFINED\<rparr>,
      usWirelessFlags = BP_NOT_DEFINED\<rparr>"

definition g_huawei96358gw_HG550_FXO :: BOARD_PARAMETERS where
  "g_huawei96358gw_HG550_FXO =
     \<lparr>szBoardId = char_array 16 ''HW550_FXO'',
      EnetMacInfos = [\<lparr>ucPhyType = BP_ENET_NO_PHY, ucPhyAddress = 0, usGpioPhySpiSck = 0, usGpioPhySpiSs = 0,
         usGpioPhySpiMosi = 0, usGpioPhySpiMiso = 0, usGpioPhyReset = 0, numSwitchPorts = 0,
         usConfigType = 0, usReverseMii = 0\<rparr>,
        \<lparr>ucPhyType = BP_ENET_EXTERNAL_SWITCH, ucPhyAddress = 32, usGpioPhySpiSck = BP_NOT_DEFINED,
         usGpioPhySpiSs = BP_NOT_DEFINED, usGpioPhySpiMosi = BP_NOT_DEFINED,
         usGpioPhySpiMiso = BP_NOT_DEFINED, usGpioPhyReset = BP_NOT_DEFINED, numSwitchPorts = 4,
         usConfigType = BP_ENET_CONFIG_SMI, usReverseMii = BP_ENET_REVERSE_MII\<rparr>],
      VoIPDspInfo = [\<lparr>ucDspType = BP_VOIP_DSP, ucDspAddress = 0, usExtIntrVoip = 0,
         usGpioPotsReset = BP_NOT_DEFINED, usGpioVoipReset = 0, usGpioVoipIntr = 0,
         usGpioLedVoip = BP_GPIO_AL 23, usGpioLedPSTN = BP_GPIO_AL 4,
         usGpioLedLine0 = BP_GPIO_AL 25, usGpioLedLine1 = BP_GPIO_AL 26, usCsVoip = 0,
         usGpioRelayCtl = BP_GPIO_AH 14, usGpioRingDetc = BP_GPIO_AH 35,
         usGpioLoopDetc = BP_GPIO_AH 36, slicType = Silicon_Labs_3215, daaType = DAA_CIRCUIT\<rparr>,
        \<lparr>ucDspType = BP_VOIP_NO_DSP, ucDspAddress = 0, usExtIntrVoip = 0, usGpioPotsReset = 0,
         usGpioVoipReset = 0, usGpioVoipIntr = 0, usGpioLedVoip = 0, usGpioLedPSTN = 0,
         usGpioLedLine0 = 0, usGpioLedLine1 = 0, usCsVoip = 0, usGpioRelayCtl = 0,
         usGpioRingDetc = 0, usGpioLoopDetc = 0, slicType = Silicon_Labs_3210,
         daaType = DAA_CIRCUIT\<rparr>],
      usSdramSize = BP_MEMORY_32MB_1_CHIP, usPsiSize = BP_PSI_DEFAULT_SIZE,
      usGpioRj11InnerPair = BP_NOT_DEFINED, usGpioRj11OuterPair = BP_NOT_DEFINED,
      usGpioPressAndHoldReset = BP_GPIO_AL 37, usGpioRestoreDefCfg = BP_NOT_DEFINED,
      usGpioDiagnoseEthPort = BP_NOT_DEFINED,
      LswPortLedGpios = \<lparr>usGpioLedLan1LinkUp = BP_NOT_DEFINED, usGpioLedLan1LinkDown = BP_NOT_DEFINED,
         usGpioLedLan2LinkUp = BP_NOT_DEFINED, usGpioLedLan2LinkDown = BP_NOT_DEFINED,
         usGpioLedLan3LinkUp = BP_NOT_DEFINED, usGpioLedLan3LinkDown = BP_NOT_DEFINED,
         usGpioLedLan4LinkUp = BP_NOT_DEFINED, usGpioLedLan4LinkDown = BP_NOT_DEFINED\<rparr>,
      usGpioLedMessage = BP_NOT_DEFINED, usGpioHspaEnable = BP_NOT_DEFINED,
      usGpioUartRts = BP_NOT_DEFINED, usGpioUartCts = BP_NOT_DEFINED, usGpioLedAdsl = BP_GPIO_AL 22,
      usGpioLedAdslFail = BP_NOT_DEFINED, usGpioLedWireless = BP_GPIO_AL 9,
      usGpioLedWirelessFail = BP_NOT_DEFINED, usGpioLedUsb = BP_NOT_DEFINED,
      usGpioLedHpna = BP_NOT_DEFINED, usGpioLedWanData = BP_GPIO_AL 34,
      usGpioLedWanDataFail = BP_NOT_DEFINED, usGpioLedHspa = BP_NOT_DEFINED,
      usGpioLedHspaFail = BP_NOT_DEFINED, usGpioLedInternet = BP_NOT_DEFINED,
      usGpioLedInternetFail = BP_NOT_DEFINED, usGpioLedPpp = BP_NOT_DEFINED,
      usGpioLedPppFail = BP_NOT_DEFINED, usGpioLedBlPowerOn = BP_NOT_DEFINED,
      usGpioLedBlResetCfg = BP_NOT_DEFINED, usGpioLedBlStop = BP_NOT_DEFINED,
      usExtIntrAdslDyingGasp = BP_HW_DEFINED, usExtIntrHpna = BP_NOT_DEFINED,
      usCsHpna = BP_NOT_DEFINED, usAntInUseWireless = BP_WLAN_ANT_MAIN,
      usGpioSesBtnWireless = BP_NOT_DEFINED, usExtIntrSesBtnWireless = BP_EXT_INTR_3,
      usGpioLedSesWireless = BP_NOT_DEFINED, usCsHpi = BP_NOT_DEFINED,
      usVcopeResetGpio = BP_NOT_DEFINED, usVcopeRelayGpio = BP_NOT_DEFINED,
      usVcopeBoardRev = BP_NOT_DEFINED, usCMTThead = 1,
      usHardwareCfg = GPIO_GET_PCB_VER_MASK OR GPIO_GET_BOARD_VER_MASK OR GPIO_LED_MODE_MMASK,
      stPcbVersion = \<lparr>usPcbVer_Low = BP_GPIO_AL 10, usPcbVer_High = BP_GPIO_AL 11\<rparr>,
      stBoardVersion = \<lparr>usBoardVer_Low = BP_GPIO_AL 6, usBoardVer_Mid = BP_GPIO_AL 7,
         usBoardVer_High = BP_GPIO_AL 8, usReserve = BP_NOT_DEFINED\<rparr>,
      usWirelessFlags = BP_NOT_DEFINED\<rparr>"

definition g_huawei96358gw_HG553 :: BOARD_PARAMETERS where
  "g_huawei96358gw_HG553 =
     \<lparr>szBoardId = char_array 16 ''HW553'',
      EnetMacInfos = [\<lparr>ucPhyType = BP_ENET_NO_PHY, ucPhyAddress = 0, usGpioPhySpiSck = 0, usGpioPhySpiSs = 0,
         usGpioPhySpiMosi = 0, usGpioPhySpiMiso = 0, usGpioPhyReset = 0, numSwitchPorts = 0,
         usConfigType = 0, usReverseMii = 0\<rparr>,
        \<lparr>ucPhyType = BP_ENET_EXTERNAL_SWITCH, ucPhyAddress = 0, usGpioPhySpiSck = BP_NOT_DEFINED,
         usGpioPhySpiSs = BP_NOT_DEFINED, usGpioPhySpiMosi = BP_NOT_DEFINED,
         usGpioPhySpiMiso = BP_NOT_DEFINED, usGpioPhyReset = BP_NOT_DEFINED, numSwitchPorts = 4,
         usConfigType = BP_ENET_CONFIG_MDIO_PSEUDO_PHY, usReverseMii = BP_ENET_REVERSE_MII\<rparr>],
      VoIPDspInfo = [\<lparr>ucDspType = BP_VOIP_DSP, ucDspAddress = 0, usExtIntrVoip = 0,
         usGpioPotsReset = BP_NOT_DEFINED, usGpioVoipReset = 0, usGpioVoipIntr = 0,
         usGpioLedVoip = BP_NOT_DEFINED, usGpioLedPSTN = BP_NOT_DEFINED,
         usGpioLedLine0 = BP_NOT_DEFINED, usGpioLedLine1 = BP_NOT_DEFINED, usCsVoip = 0,
         usGpioRelayCtl = BP_NOT_DEFINED, usGpioRingDetc = BP_NOT_DEFINED,
         usGpioLoopDetc = BP_NOT_DEFINED, slicType = Legerity_88221, daaType = DAA_Not_Defined\<rparr>,
        \<lparr>ucDspType = BP_VOIP_NO_DSP, ucDspAddress = 0, usExtIntrVoip = 0, usGpioPotsReset = 0,
         usGpioVoipReset = 0, usGpioVoipIntr = 0, usGpioLedVoip = 0, usGpioLedPSTN = 0,
         usGpioLedLine0 = 0, usGpioLedLine1 = 0, usCsVoip = 0, usGpioRelayCtl = 0,
         usGpioRingDetc = 0, usGpioLoopDetc = 0, slicType = Silicon_Labs_3210,
         daaType = DAA_CIRCUIT\<rparr>],
      usSdramSize = BP_MEMORY_64MB_1_CHIP, usPsiSize = BP_PSI_DEFAULT_SIZE,
      usGpioRj11InnerPair = BP_NOT_DEFINED, usGpioRj11OuterPair = BP_NOT_DEFINED,
      usGpioPressAndHoldReset = BP_GPIO_AL 37, usGpioRestoreDefCfg = BP_NOT_DEFINED,
      usGpioDiagnoseEthPort = BP_NOT_DEFINED,
      LswPortLedGpios = \<lparr>usGpioLedLan1LinkUp = BP_NOT_DEFINED, usGpioLedLan1LinkDown = BP_NOT_DEFINED,
         usGpioLedLan2LinkUp = BP_NOT_DEFINED, usGpioLedLan2LinkDown = BP_NOT_DEFINED,
         usGpioLedLan3LinkUp = BP_NOT_DEFINED, usGpioLedLan3LinkDown = BP_NOT_DEFINED,
         usGpioLedLan4LinkUp = BP_NOT_DEFINED, usGpioLedLan4LinkDown = BP_NOT_DEFINED\<rparr>,
      usGpioLedMessage = BP_NOT_DEFINED, usGpioHspaEnable = BP_NOT_DEFINED,
      usGpioUartRts = BP_NOT_DEFINED, usGpioUartCts = BP_NOT_DEFINED, usGpioLedAdsl = BP_GPIO_AL 23,
      usGpioLedAdslFail = BP_GPIO_AL 22, usGpioLedWireless = BP_GPIO_AL 9,
      usGpioLedWirelessFail = BP_GPIO_AL 25, usGpioLedUsb = BP_NOT_DEFINED,
      usGpioLedHpna = BP_NOT_DEFINED, usGpioLedWanData = BP_NOT_DEFINED,
      usGpioLedWanDataFail = BP_NOT_DEFINED, usGpioLedHspa = BP_GPIO_AL 13,
      usGpioLedHspaFail = BP_GPIO_AL 12, usGpioLedInternet = BP_GPIO_AL 35,
      usGpioLedInternetFail = BP_GPIO_AL 34, usGpioLedPpp = BP_NOT_DEFINED,
      usGpioLedPppFail = BP_NOT_DEFINED, usGpioLedBlPowerOn = BP_GPIO_AL 4,
      usGpioLedBlResetCfg = BP_NOT_DEFINED, usGpioLedBlStop = BP_GPIO_AL 5,
      usExtIntrAdslDyingGasp = BP_NOT_DEFINED, usExtIntrHpna = BP_NOT_DEFINED,
      usCsHpna = BP_NOT_DEFINED, usAntInUseWireless = BP_WLAN_ANT_MAIN,
      usGpioSesBtnWireless = BP_GPIO_AL 9, usExtIntrSesBtnWireless = BP_EXT_INTR_3,
      usGpioLedSesWireless = BP_NOT_DEFINED, usCsHpi = BP_NOT_DEFINED,
      usVcopeResetGpio = BP_NOT_DEFINED, usVcopeRelayGpio = BP_NOT_DEFINED,
      usVcopeBoardRev = BP_NOT_DEFINED, usCMTThead = 1,
      usHardwareCfg = GPIO_GET_BOARD_VER_MASK OR GPIO_LED_MODE_MMASK,
      stPcbVersion = \<lparr>usPcbVer_Low = BP_NOT_DEFINED, usPcbVer_High = BP_NOT_DEFINED\<rparr>,
      stBoardVersion = \<lparr>usBoardVer_Low = BP_GPIO_AL 7, usBoardVer_Mid = BP_NOT_DEFINED,
         usBoardVer_High = BP_NOT_DEFINED, usReserve = BP_NOT_DEFINED\<rparr>,
      usWirelessFlags = BP_NOT_DEFINED\<rparr>"

definition g_huawei96358gw_HG556 :: BOARD_PARAMETERS where
  "g_huawei96358gw_HG556 =
     \<lparr>szBoardId = char_array 16 ''HW556'',
      EnetMacInfos = [\<lparr>ucPhyType = BP_ENET_NO_PHY, ucPhyAddress = 0, usGpioPhySpiSck = 0, usGpioPhySpiSs = 0,
         usGpioPhySpiMosi = 0, usGpioPhySpiMiso = 0, usGpioPhyReset = 0, numSwitchPorts = 0,
         usConfigType = 0, usReverseMii = 0\<rparr>,
        \<lparr>ucPhyType = BP_ENET_EXTERNAL_SWITCH, ucPhyAddress = 0, usGpioPhySpiSck = BP_NOT_DEFINED,
         usGpioPhySpiSs = BP_NOT_DEFINED, usGpioPhySpiMosi = BP_NOT_DEFINED,
         usGpioPhySpiMiso = BP_NOT_DEFINED, usGpioPhyReset = BP_NOT_DEFINED, numSwitchPorts = 4,
         usConfigType = BP_ENET_CONFIG_MDIO_PSEUDO_PHY, usReverseMii = BP_ENET_REVERSE_MII\<rparr>],
      VoIPDspInfo = [\<lparr>ucDspType = BP_VOIP_DSP, ucDspAddress = 0, usExtIntrVoip = 0,
         usGpioPotsReset = BP_GPIO_AH 25, usGpioVoipReset = 0, usGpioVoipIntr = 0,
         usGpioLedVoip = BP_NOT_DEFINED, usGpioLedPSTN = BP_NOT_DEFINED,
         usGpioLedLine0 = BP_NOT_DEFINED, usGpioLedLine1 = BP_NOT_DEFINED, usCsVoip = 0,
         usGpioRelayCtl = BP_GPIO_AH 14, usGpioRingDetc = BP_NOT_DEFINED,
         usGpioLoopDetc = BP_NOT_DEFINED, slicType = Legerity_88221, daaType = Silicon_Labs_3050\<rparr>,
        \<lparr>ucDspType = BP_VOIP_NO_DSP, ucDspAddress = 0, usExtIntrVoip = 0, usGpioPotsReset = 0,
         usGpioVoipReset = 0, usGpioVoipIntr = 0, usGpioLedVoip = 0, usGpioLedPSTN = 0,
         usGpioLedLine0 = 0, usGpioLedLine1 = 0, usCsVoip = 0, usGpioRelayCtl = 0,
         usGpioRingDetc = 0, usGpioLoopDetc = 0, slicType = Silicon_Labs_3210,
         daaType = DAA_CIRCUIT\<rparr>],
      usSdramSize = BP_MEMORY_64MB_1_CHIP, usPsiSize = BP_PSI_DEFAULT_SIZE,
      usGpioRj11InnerPair = BP_NOT_DEFINED, usGpioRj11OuterPair = BP_NOT_DEFINED,
      usGpioPressAndHoldReset = BP_GPIO_AL 10, usGpioRestoreDefCfg = BP_GPIO_AL 11,
      usGpioDiagnoseEthPort = BP_GPIO_AL 8,
      LswPortLedGpios = \<lparr>usGpioLedLan1LinkUp = BP_GPIO_AL 12, usGpioLedLan1LinkDown = BP_GPIO_AL 13,
         usGpioLedLan2LinkUp = BP_GPIO_AL 15, usGpioLedLan2LinkDown = BP_GPIO_AL 22,
         usGpioLedLan3LinkUp = BP_GPIO_AL 23, usGpioLedLan3LinkDown = BP_GPIO_AL 26,
         usGpioLedLan4LinkUp = BP_GPIO_AL 27, usGpioLedLan4LinkDown = BP_GPIO_AL 28\<rparr>,
      usGpioLedMessage = BP_GPIO_AL 0, usGpioHspaEnable = BP_GPIO_AL 29,
      usGpioUartRts = BP_NOT_DEFINED, usGpioUartCts = BP_NOT_DEFINED, usGpioLedAdsl = BP_GPIO_AL 2,
      usGpioLedAdslFail = BP_NOT_DEFINED, usGpioLedWireless = BP_GPIO_AL 9,
      usGpioLedWirelessFail = BP_NOT_DEFINED, usGpioLedUsb = BP_NOT_DEFINED,
      usGpioLedHpna = BP_NOT_DEFINED, usGpioLedWanData = BP_NOT_DEFINED,
      usGpioLedWanDataFail = BP_NOT_DEFINED, usGpioLedHspa = BP_GPIO_AL 1,
      usGpioLedHspaFail = BP_NOT_DEFINED, usGpioLedInternet = BP_NOT_DEFINED,
      usGpioLedInternetFail = BP_NOT_DEFINED, usGpioLedPpp = BP_NOT_DEFINED,
      usGpioLedPppFail = BP_NOT_DEFINED, usGpioLedBlPowerOn = BP_GPIO_AL 3,
      usGpioLedBlResetCfg = BP_NOT_DEFINED, usGpioLedBlStop = BP_NOT_DEFINED,
      usExtIntrAdslDyingGasp = BP_NOT_DEFINED, usExtIntrHpna = BP_NOT_DEFINED,
      usCsHpna = BP_NOT_DEFINED, usAntInUseWireless = BP_WLAN_ANT_MAIN,
      usGpioSesBtnWireless = BP_GPIO_AL 9, usExtIntrSesBtnWireless = BP_EXT_INTR_3,
      usGpioLedSesWireless = BP_NOT_DEFINED, usCsHpi = BP_NOT_DEFINED,
      usVcopeResetGpio = BP_NOT_DEFINED, usVcopeRelayGpio = BP_NOT_DEFINED,
      usVcopeBoardRev = BP_NOT_DEFINED, usCMTThead = 1, usHardwareCfg = GPIO_GET_BOARD_VER_MASK,
      stPcbVersion = \<lparr>usPcbVer_Low = BP_NOT_DEFINED, usPcbVer_High = BP_NOT_DEFINED\<rparr>,
      stBoardVersion = \<lparr>usBoardVer_Low = BP_GPIO_AL 4, usBoardVer_Mid = BP_GPIO_AL 5,
         usBoardVer_High = BP_NOT_DEFINED, usReserve = BP_NOT_DEFINED\<rparr>,
      usWirelessFlags = BP_NOT_DEFINED\<rparr>"

definition g_huawei96358gw_HG556iso :: BOARD_PARAMETERS where
  "g_huawei96358gw_HG556iso =
     \<lparr>szBoardId = char_array 16 ''HW556aV2'',
      EnetMacInfos = [\<lparr>ucPhyType = BP_ENET_NO_PHY, ucPhyAddress = 0, usGpioPhySpiSck = 0, usGpioPhySpiSs = 0,
         usGpioPhySpiMosi = 0, usGpioPhySpiMiso = 0, usGpioPhyReset = 0, numSwitchPorts = 0,
         usConfigType = 0, usReverseMii = 0\<rparr>,
        \<lparr>ucPhyType = BP_ENET_EXTERNAL_SWITCH, ucPhyAddress = 0, usGpioPhySpiSck = BP_NOT_DEFINED,
         usGpioPhySpiSs = BP_NOT_DEFINED, usGpioPhySpiMosi = BP_NOT_DEFINED,
         usGpioPhySpiMiso = BP_NOT_DEFINED, usGpioPhyReset = BP_NOT_DEFINED, numSwitchPorts = 4,
         usConfigType = BP_ENET_CONFIG_MDIO_PSEUDO_PHY, usReverseMii = BP_ENET_REVERSE_MII\<rparr>],
      VoIPDspInfo = [\<lparr>ucDspType = BP_VOIP_DSP, ucDspAddress = 0, usExtIntrVoip = 0,
         usGpioPotsReset = BP_GPIO_AH 25, usGpioVoipReset = 0, usGpioVoipIntr = 0,
         usGpioLedVoip = BP_NOT_DEFINED, usGpioLedPSTN = BP_NOT_DEFINED,
         usGpioLedLine0 = BP_NOT_DEFINED, usGpioLedLine1 = BP_NOT_DEFINED, usCsVoip = 0,
         usGpioRelayCtl = BP_NOT_DEFINED, usGpioRingDetc = BP_NOT_DEFINED,
         usGpioLoopDetc = BP_NOT_DEFINED, slicType = Legerity_88221, daaType = Silicon_Labs_3050\<rparr>,
        \<lparr>ucDspType = BP_VOIP_NO_DSP, ucDspAddress = 0, usExtIntrVoip = 0, usGpioPotsReset = 0,
         usGpioVoipReset = 0, usGpioVoipIntr = 0, usGpioLedVoip = 0, usGpioLedPSTN = 0,
         usGpioLedLine0 = 0, usGpioLedLine1 = 0, usCsVoip = 0, usGpioRelayCtl = 0,
         usGpioRingDetc = 0, usGpioLoopDetc = 0, slicType = Silicon_Labs_3210,
         daaType = DAA_CIRCUIT\<rparr>],
      usSdramSize = BP_MEMORY_64MB_1_CHIP, usPsiSize = BP_PSI_DEFAULT_SIZE,
      usGpioRj11InnerPair = BP_NOT_DEFINED, usGpioRj11OuterPair = BP_NOT_DEFINED,
      usGpioPressAndHoldReset = BP_GPIO_AL 10, usGpioRestoreDefCfg = BP_GPIO_AL 11,
      usGpioDiagnoseEthPort = BP_GPIO_AL 36,
      LswPortLedGpios = \<lparr>usGpioLedLan1LinkUp = BP_GPIO_AL 0, usGpioLedLan1LinkDown = BP_GPIO_AL 13,
         usGpioLedLan2LinkUp = BP_GPIO_AL 1, usGpioLedLan2LinkDown = BP_GPIO_AL 22,
         usGpioLedLan3LinkUp = BP_GPIO_AL 23, usGpioLedLan3LinkDown = BP_GPIO_AL 26,
         usGpioLedLan4LinkUp = BP_GPIO_AL 27, usGpioLedLan4LinkDown = BP_GPIO_AL 28\<rparr>,
      usGpioLedMessage = BP_GPIO_AL 12, usGpioHspaEnable = BP_NOT_DEFINED,
      usGpioUartRts = BP_NOT_DEFINED, usGpioUartCts = BP_NOT_DEFINED, usGpioLedAdsl = BP_GPIO_AL 2,
      usGpioLedAdslFail = BP_NOT_DEFINED, usGpioLedWireless = BP_GPIO_AL 9,
      usGpioLedWirelessFail = BP_NOT_DEFINED, usGpioLedUsb = BP_NOT_DEFINED,
      usGpioLedHpna = BP_NOT_DEFINED, usGpioLedWanData = BP_NOT_DEFINED,
      usGpioLedWanDataFail = BP_NOT_DEFINED, usGpioLedHspa = BP_GPIO_AL 15,
      usGpioLedHspaFail = BP_NOT_DEFINED, usGpioLedInternet = BP_NOT_DEFINED,
      usGpioLedInternetFail = BP_NOT_DEFINED, usGpioLedPpp = BP_NOT_DEFINED,
      usGpioLedPppFail = BP_NOT_DEFINED, usGpioLedBlPowerOn = BP_GPIO_AL 3,
      usGpioLedBlResetCfg = BP_NOT_DEFINED, usGpioLedBlStop = BP_NOT_DEFINED,
      usExtIntrAdslDyingGasp = BP_NOT_DEFINED, usExtIntrHpna = BP_NOT_DEFINED,
      usCsHpna = BP_NOT_DEFINED, usAntInUseWireless = BP_WLAN_ANT_MAIN,
      usGpioSesBtnWireless = BP_GPIO_AL 9, usExtIntrSesBtnWireless = BP_EXT_INTR_3,
      usGpioLedSesWireless = BP_NOT_DEFINED, usCsHpi = BP_NOT_DEFINED,
      usVcopeResetGpio = BP_NOT_DEFINED, usVcopeRelayGpio = BP_NOT_DEFINED,
      usVcopeBoardRev = BP_NOT_DEFINED, usCMTThead = 1, usHardwareCfg = GPIO_GET_BOARD_VER_MASK,
      stPcbVersion = \<lparr>usPcbVer_Low = BP_NOT_DEFINED, usPcbVer_High = BP_NOT_DEFINED\<rparr>,
      stBoardVersion = \<lparr>usBoardVer_Low = BP_GPIO_AL 4, usBoardVer_Mid = BP_GPIO_AL 5,
         usBoardVer_High = BP_NOT_DEFINED, usReserve = BP_NOT_DEFINED\<rparr>,
      usWirelessFlags = BP_NOT_DEFINED\<rparr>"

definition g_bcm96358vw :: BOARD_PARAMETERS where
  "g_bcm96358vw =
     \<lparr>szBoardId = char_array 16 ''96358VW'',
      EnetMacInfos = [\<lparr>ucPhyType = BP_ENET_INTERNAL_PHY, ucPhyAddress = 1, usGpioPhySpiSck = BP_NOT_DEFINED,
         usGpioPhySpiSs = BP_NOT_DEFINED, usGpioPhySpiMosi = BP_NOT_DEFINED,
         usGpioPhySpiMiso = BP_NOT_DEFINED, usGpioPhyReset = BP_NOT_DEFINED, numSwitchPorts = 1,
         usConfigType = BP_ENET_CONFIG_MDIO, usReverseMii = BP_NOT_DEFINED\<rparr>,
        \<lparr>ucPhyType = BP_ENET_EXTERNAL_SWITCH, ucPhyAddress = 0, usGpioPhySpiSck = BP_NOT_DEFINED,
         usGpioPhySpiSs = BP_NOT_DEFINED, usGpioPhySpiMosi = BP_NOT_DEFINED,
         usGpioPhySpiMiso = BP_NOT_DEFINED, usGpioPhyReset = BP_NOT_DEFINED, numSwitchPorts = 3,
         usConfigType = BP_ENET_CONFIG_MDIO_PSEUDO_PHY, usReverseMii = BP_ENET_REVERSE_MII\<rparr>],
      VoIPDspInfo = [\<lparr>ucDspType = BP_VOIP_DSP, ucDspAddress = 0, usExtIntrVoip = 0,
         usGpioPotsReset = BP_NOT_DEFINED, usGpioVoipReset = 0, usGpioVoipIntr = 0,
         usGpioLedVoip = BP_GPIO_AL 23, usGpioLedPSTN = BP_GPIO_AL 4,
         usGpioLedLine0 = BP_GPIO_AL 25, usGpioLedLine1 = BP_GPIO_AL 26, usCsVoip = BP_GPIO_AH 14,
         usGpioRelayCtl = BP_GPIO_AH 15, usGpioRingDetc = BP_GPIO_AL 16, usGpioLoopDetc = 2,
         slicType = Slic_Not_Defined, daaType = DAA_CIRCUIT\<rparr>,
        \<lparr>ucDspType = BP_VOIP_NO_DSP, ucDspAddress = 0, usExtIntrVoip = 0, usGpioPotsReset = 0,
         usGpioVoipReset = 0, usGpioVoipIntr = 0, usGpioLedVoip = 0, usGpioLedPSTN = 0,
         usGpioLedLine0 = 0, usGpioLedLine1 = 0, usCsVoip = 0, usGpioRelayCtl = 0,
         usGpioRingDetc = 0, usGpioLoopDetc = 0, slicType = Silicon_Labs_3210,
         daaType = DAA_CIRCUIT\<rparr>],
      usSdramSize = BP_MEMORY_32MB_1_CHIP, usPsiSize = BP_PSI_DEFAULT_SIZE,
      usGpioRj11InnerPair = BP_NOT_DEFINED, usGpioRj11OuterPair = BP_NOT_DEFINED,
      usGpioPressAndHoldReset = BP_NOT_DEFINED, usGpioRestoreDefCfg = BP_NOT_DEFINED,
      usGpioDiagnoseEthPort = BP_NOT_DEFINED,
      LswPortLedGpios = \<lparr>usGpioLedLan1LinkUp = BP_NOT_DEFINED, usGpioLedLan1LinkDown = BP_NOT_DEFINED,
         usGpioLedLan2LinkUp = BP_NOT_DEFINED, usGpioLedLan2LinkDown = BP_NOT_DEFINED,
         usGpioLedLan3LinkUp = BP_NOT_DEFINED, usGpioLedLan3LinkDown = BP_NOT_DEFINED,
         usGpioLedLan4LinkUp = BP_NOT_DEFINED, usGpioLedLan4LinkDown = BP_NOT_DEFINED\<rparr>,
      usGpioLedMessage = BP_NOT_DEFINED, usGpioHspaEnable = BP_NOT_DEFINED,
      usGpioUartRts = BP_NOT_DEFINED, usGpioUartCts = BP_NOT_DEFINED,
      usGpioLedAdsl = BP_NOT_DEFINED, usGpioLedAdslFail = BP_GPIO_AL 15,
      usGpioLedWireless = BP_NOT_DEFINED, usGpioLedWirelessFail = BP_NOT_DEFINED,
      usGpioLedUsb = BP_GPIO_AL 3, usGpioLedHpna = BP_NOT_DEFINED, usGpioLedWanData = BP_GPIO_AL 22,
      usGpioLedWanDataFail = BP_NOT_DEFINED, usGpioLedHspa = BP_NOT_DEFINED,
      usGpioLedHspaFail = BP_NOT_DEFINED, usGpioLedInternet = BP_NOT_DEFINED,
      usGpioLedInternetFail = BP_NOT_DEFINED, usGpioLedPpp = BP_GPIO_AL 22,
      usGpioLedPppFail = BP_GPIO_AL 23, usGpioLedBlPowerOn = BP_GPIO_AL 4,
      usGpioLedBlResetCfg = BP_GPIO_AL 22, usGpioLedBlStop = BP_GPIO_AL 5,
      usExtIntrAdslDyingGasp = BP_HW_DEFINED, usExtIntrHpna = BP_NOT_DEFINED,
      usCsHpna = BP_NOT_DEFINED, usAntInUseWireless = BP_WLAN_ANT_MAIN,
      usGpioSesBtnWireless = BP_GPIO_AL 37, usExtIntrSesBtnWireless = BP_EXT_INTR_3,
      usGpioLedSesWireless = BP_SERIAL_GPIO_AL 7, usCsHpi = BP_NOT_DEFINED,
      usVcopeResetGpio = BP_NOT_DEFINED, usVcopeRelayGpio = BP_NOT_DEFINED,
      usVcopeBoardRev = BP_NOT_DEFINED, usCMTThead = 1, usHardwareCfg = 0,
      stPcbVersion = \<lparr>usPcbVer_Low = BP_NOT_DEFINED, usPcbVer_High = BP_NOT_DEFINED\<rparr>,
      stBoardVersion = \<lparr>usBoardVer_Low = BP_NOT_DEFINED, usBoardVer_Mid = BP_NOT_DEFINED,
         usBoardVer_High = BP_NOT_DEFINED, usReserve = BP_NOT_DEFINED\<rparr>,
      usWirelessFlags = BP_NOT_DEFINED\<rparr>"

definition g_bcm96358vw16 :: BOARD_PARAMETERS where
  "g_bcm96358vw16 =
     \<lparr>szBoardId = char_array 16 ''96358VW-16'',
      EnetMacInfos = [\<lparr>ucPhyType = BP_ENET_INTERNAL_PHY, ucPhyAddress = 1, usGpioPhySpiSck = BP_NOT_DEFINED,
         usGpioPhySpiSs = BP_NOT_DEFINED, usGpioPhySpiMosi = BP_NOT_DEFINED,
         usGpioPhySpiMiso = BP_NOT_DEFINED, usGpioPhyReset = BP_NOT_DEFINED, numSwitchPorts = 1,
         usConfigType = BP_ENET_CONFIG_MDIO, usReverseMii = BP_NOT_DEFINED\<rparr>,
        \<lparr>ucPhyType = BP_ENET_EXTERNAL_SWITCH, ucPhyAddress = 0, usGpioPhySpiSck = BP_NOT_DEFINED,
         usGpioPhySpiSs = BP_NOT_DEFINED, usGpioPhySpiMosi = BP_NOT_DEFINED,
         usGpioPhySpiMiso = BP_NOT_DEFINED, usGpioPhyReset = BP_NOT_DEFINED, numSwitchPorts = 3,
         usConfigType = BP_ENET_CONFIG_MDIO_PSEUDO_PHY, usReverseMii = BP_ENET_REVERSE_MII\<rparr>],
      VoIPDspInfo = [\<lparr>ucDspType = BP_VOIP_NO_DSP, ucDspAddress = 0, usExtIntrVoip = 0, usGpioPotsReset = 0,
         usGpioVoipReset = 0, usGpioVoipIntr = 0, usGpioLedVoip = 0, usGpioLedPSTN = 0,
         usGpioLedLine0 = 0, usGpioLedLine1 = 0, usCsVoip = 0, usGpioRelayCtl = 0,
         usGpioRingDetc = 0, usGpioLoopDetc = 0, slicType = Silicon_Labs_3210,
         daaType = DAA_CIRCUIT\<rparr>,
        \<lparr>ucDspType = BP_VOIP_NO_DSP, ucDspAddress = 0, usExtIntrVoip = 0, usGpioPotsReset = 0,
         usGpioVoipReset = 0, usGpioVoipIntr = 0, usGpioLedVoip = 0, usGpioLedPSTN = 0,
         usGpioLedLine0 = 0, usGpioLedLine1 = 0, usCsVoip = 0, usGpioRelayCtl = 0,
         usGpioRingDetc = 0, usGpioLoopDetc = 0, slicType = Silicon_Labs_3210,
         daaType = DAA_CIRCUIT\<rparr>],
      usSdramSize = BP_MEMORY_16MB_1_CHIP, usPsiSize = BP_PSI_DEFAULT_SIZE,
      usGpioRj11InnerPair = BP_NOT_DEFINED, usGpioRj11OuterPair = BP_NOT_DEFINED,
      usGpioPressAndHoldReset = BP_NOT_DEFINED, usGpioRestoreDefCfg = BP_NOT_DEFINED,
      usGpioDiagnoseEthPort = BP_NOT_DEFINED,
      LswPortLedGpios = \<lparr>usGpioLedLan1LinkUp = BP_NOT_DEFINED, usGpioLedLan1LinkDown = BP_NOT_DEFINED,
         usGpioLedLan2LinkUp = BP_NOT_DEFINED, usGpioLedLan2LinkDown = BP_NOT_DEFINED,
         usGpioLedLan3LinkUp = BP_NOT_DEFINED, usGpioLedLan3LinkDown = BP_NOT_DEFINED,
         usGpioLedLan4LinkUp = BP_NOT_DEFINED, usGpioLedLan4LinkDown = BP_NOT_DEFINED\<rparr>,
      usGpioLedMessage = BP_NOT_DEFINED, usGpioHspaEnable = BP_NOT_DEFINED,
      usGpioUartRts = BP_NOT_DEFINED, usGpioUartCts = BP_NOT_DEFINED,
      usGpioLedAdsl = BP_NOT_DEFINED, usGpioLedAdslFail = BP_GPIO_AL 15,
      usGpioLedWireless = BP_NOT_DEFINED, usGpioLedWirelessFail = BP_NOT_DEFINED,
      usGpioLedUsb = BP_NOT_DEFINED, usGpioLedHpna = BP_NOT_DEFINED,
      usGpioLedWanData = BP_GPIO_AL 22, usGpioLedWanDataFail = BP_NOT_DEFINED,
      usGpioLedHspa = BP_NOT_DEFINED, usGpioLedHspaFail = BP_NOT_DEFINED,
      usGpioLedInternet = BP_NOT_DEFINED, usGpioLedInternetFail = BP_NOT_DEFINED,
      usGpioLedPpp = BP_GPIO_AL 22, usGpioLedPppFail = BP_GPIO_AL 23,
      usGpioLedBlPowerOn = BP_GPIO_AL 4, usGpioLedBlResetCfg = BP_GPIO_AL 22,
      usGpioLedBlStop = BP_GPIO_AL 5, usExtIntrAdslDyingGasp = BP_HW_DEFINED,
      usExtIntrHpna = BP_NOT_DEFINED, usCsHpna = BP_NOT_DEFINED,
      usAntInUseWireless = BP_WLAN_ANT_MAIN, usGpioSesBtnWireless = BP_NOT_DEFINED,
      usExtIntrSesBtnWireless = BP_EXT_INTR_3, usGpioLedSesWireless = BP_SERIAL_GPIO_AL 7,
      usCsHpi = BP_NOT_DEFINED, usVcopeResetGpio = BP_NOT_DEFINED,
      usVcopeRelayGpio = BP_NOT_DEFINED, usVcopeBoardRev = BP_NOT_DEFINED, usCMTThead = 1,
      usHardwareCfg = 0,
      stPcbVersion = \<lparr>usPcbVer_Low = BP_NOT_DEFINED, usPcbVer_High = BP_NOT_DEFINED\<rparr>,
      stBoardVersion = \<lparr>usBoardVer_Low = BP_NOT_DEFINED, usBoardVer_Mid = BP_NOT_DEFINED,
         usBoardVer_High = BP_NOT_DEFINED, usReserve = BP_NOT_DEFINED\<rparr>,
      usWirelessFlags = BP_NOT_DEFINED\<rparr>"

definition g_bcm96358gw :: BOARD_PARAMETERS where
  "g_bcm96358gw =
     \<lparr>szBoardId = char_array 16 ''96358GW'',
      EnetMacInfos = [\<lparr>ucPhyType = BP_ENET_INTERNAL_PHY, ucPhyAddress = 1, usGpioPhySpiSck = BP_NOT_DEFINED,
         usGpioPhySpiSs = BP_NOT_DEFINED, usGpioPhySpiMosi = BP_NOT_DEFINED,
         usGpioPhySpiMiso = BP_NOT_DEFINED, usGpioPhyReset = BP_NOT_DEFINED, numSwitchPorts = 1,
         usConfigType = BP_ENET_CONFIG_MDIO, usReverseMii = BP_NOT_DEFINED\<rparr>,
        \<lparr>ucPhyType = BP_ENET_EXTERNAL_SWITCH, ucPhyAddress = 0, usGpioPhySpiSck = BP_NOT_DEFINED,
         usGpioPhySpiSs = BP_NOT_DEFINED, usGpioPhySpiMosi = BP_NOT_DEFINED,
         usGpioPhySpiMiso = BP_NOT_DEFINED, usGpioPhyReset = BP_NOT_DEFINED, numSwitchPorts = 3,
         usConfigType = BP_ENET_CONFIG_MDIO_PSEUDO_PHY, usReverseMii = BP_ENET_REVERSE_MII\<rparr>],
      VoIPDspInfo = [\<lparr>ucDspType = BP_VOIP_NO_DSP, ucDspAddress = 0, usExtIntrVoip = 0, usGpioPotsReset = 0,
         usGpioVoipReset = 0, usGpioVoipIntr = 0, usGpioLedVoip = 0, usGpioLedPSTN = 0,
         usGpioLedLine0 = 0, usGpioLedLine1 = 0, usCsVoip = 0, usGpioRelayCtl = 0,
         usGpioRingDetc = 0, usGpioLoopDetc = 0, slicType = Silicon_Labs_3210,
         daaType = DAA_CIRCUIT\<rparr>,
        \<lparr>ucDspType = BP_VOIP_NO_DSP, ucDspAddress = 0, usExtIntrVoip = 0, usGpioPotsReset = 0,
         usGpioVoipReset = 0, usGpioVoipIntr = 0, usGpioLedVoip = 0, usGpioLedPSTN = 0,
         usGpioLedLine0 = 0, usGpioLedLine1 = 0, usCsVoip = 0, usGpioRelayCtl = 0,
         usGpioRingDetc = 0, usGpioLoopDetc = 0, slicType = Silicon_Labs_3210,
         daaType = DAA_CIRCUIT\<rparr>],
      usSdramSize = BP_MEMORY_32MB_1_CHIP, usPsiSize = BP_PSI_DEFAULT_SIZE,
      usGpioRj11InnerPair = BP_NOT_DEFINED, usGpioRj11OuterPair = BP_NOT_DEFINED,
      usGpioPressAndHoldReset = BP_NOT_DEFINED, usGpioRestoreDefCfg = BP_NOT_DEFINED,
      usGpioDiagnoseEthPort = BP_NOT_DEFINED,
      LswPortLedGpios = \<lparr>usGpioLedLan1LinkUp = BP_NOT_DEFINED, usGpioLedLan1LinkDown = BP_NOT_DEFINED,
         usGpioLedLan2LinkUp = BP_NOT_DEFINED, usGpioLedLan2LinkDown = BP_NOT_DEFINED,
         usGpioLedLan3LinkUp = BP_NOT_DEFINED, usGpioLedLan3LinkDown = BP_NOT_DEFINED,
         usGpioLedLan4LinkUp = BP_NOT_DEFINED, usGpioLedLan4LinkDown = BP_NOT_DEFINED\<rparr>,
      usGpioLedMessage = BP_NOT_DEFINED, usGpioHspaEnable = BP_NOT_DEFINED,
      usGpioUartRts = BP_NOT_DEFINED, usGpioUartCts = BP_NOT_DEFINED,
      usGpioLedAdsl = BP_NOT_DEFINED, usGpioLedAdslFail = BP_GPIO_AL 15,
      usGpioLedWireless = BP_NOT_DEFINED, usGpioLedWirelessFail = BP_NOT_DEFINED,
      usGpioLedUsb = BP_NOT_DEFINED, usGpioLedHpna = BP_NOT_DEFINED,
      usGpioLedWanData = BP_GPIO_AL 22, usGpioLedWanDataFail = BP_NOT_DEFINED,
      usGpioLedHspa = BP_NOT_DEFINED, usGpioLedHspaFail = BP_NOT_DEFINED,
      usGpioLedInternet = BP_NOT_DEFINED, usGpioLedInternetFail = BP_NOT_DEFINED,
      usGpioLedPpp = BP_GPIO_AL 22, usGpioLedPppFail = BP_GPIO_AL 23,
      usGpioLedBlPowerOn = BP_GPIO_AL 4, usGpioLedBlResetCfg = BP_GPIO_AL 22,
      usGpioLedBlStop = BP_GPIO_AL 5, usExtIntrAdslDyingGasp = BP_HW_DEFINED,
      usExtIntrHpna = BP_NOT_DEFINED, usCsHpna = BP_NOT_DEFINED,
      usAntInUseWireless = BP_WLAN_ANT_MAIN, usGpioSesBtnWireless = BP_GPIO_AL 37,
      usExtIntrSesBtnWireless = BP_EXT_INTR_3, usGpioLedSesWireless = BP_SERIAL_GPIO_AL 7,
      usCsHpi = BP_NOT_DEFINED, usVcopeResetGpio = BP_NOT_DEFINED,
      usVcopeRelayGpio = BP_NOT_DEFINED, usVcopeBoardRev = BP_NOT_DEFINED, usCMTThead = 0,
      usHardwareCfg = 0,
      stPcbVersion = \<lparr>usPcbVer_Low = BP_NOT_DEFINED, usPcbVer_High = BP_NOT_DEFINED\<rparr>,
      stBoardVersion = \<lparr>usBoardVer_Low = BP_NOT_DEFINED, usBoardVer_Mid = BP_NOT_DEFINED,
         usBoardVer_High = BP_NOT_DEFINED, usReserve = BP_NOT_DEFINED\<rparr>,
      usWirelessFlags = BP_NOT_DEFINED\<rparr>"

definition g_bcm96358gw16 :: BOARD_PARAMETERS where
  "g_bcm96358gw16 =
     \<lparr>szBoardId = char_array 16 ''96358GW-16'',
      EnetMacInfos = [\<lparr>ucPhyType = BP_ENET_INTERNAL_PHY, ucPhyAddress = 1, usGpioPhySpiSck = BP_NOT_DEFINED,
         usGpioPhySpiSs = BP_NOT_DEFINED, usGpioPhySpiMosi = BP_NOT_DEFINED,
         usGpioPhySpiMiso = BP_NOT_DEFINED, usGpioPhyReset = BP_NOT_DEFINED, numSwitchPorts = 1,
         usConfigType = BP_ENET_CONFIG_MDIO, usReverseMii = BP_NOT_DEFINED\<rparr>,
        \<lparr>ucPhyType = BP_ENET_EXTERNAL_SWITCH, ucPhyAddress = 0, usGpioPhySpiSck = BP_NOT_DEFINED,
         usGpioPhySpiSs = BP_NOT_DEFINED, usGpioPhySpiMosi = BP_NOT_DEFINED,
         usGpioPhySpiMiso = BP_NOT_DEFINED, usGpioPhyReset = BP_NOT_DEFINED, numSwitchPorts = 3,
         usConfigType = BP_ENET_CONFIG_MDIO_PSEUDO_PHY, usReverseMii = BP_ENET_REVERSE_MII\<rparr>],
      VoIPDspInfo = [\<lparr>ucDspType = BP_VOIP_NO_DSP, ucDspAddress = 0, usExtIntrVoip = 0, usGpioPotsReset = 0,
         usGpioVoipReset = 0, usGpioVoipIntr = 0, usGpioLedVoip = 0, usGpioLedPSTN = 0,
         usGpioLedLine0 = 0, usGpioLedLine1 = 0, usCsVoip = 0, usGpioRelayCtl = 0,
         usGpioRingDetc = 0, usGpioLoopDetc = 0, slicType = Silicon_Labs_3210,
         daaType = DAA_CIRCUIT\<rparr>,
        \<lparr>ucDspType = BP_VOIP_NO_DSP, ucDspAddress = 0, usExtIntrVoip = 0, usGpioPotsReset = 0,
         usGpioVoipReset = 0, usGpioVoipIntr = 0, usGpioLedVoip = 0, usGpioLedPSTN = 0,
         usGpioLedLine0 = 0, usGpioLedLine1 = 0, usCsVoip = 0, usGpioRelayCtl = 0,
         usGpioRingDetc = 0, usGpioLoopDetc = 0, slicType = Silicon_Labs_3210,
         daaType = DAA_CIRCUIT\<rparr>],
      usSdramSize = BP_MEMORY_16MB_1_CHIP, usPsiSize = BP_PSI_DEFAULT_SIZE,
      usGpioRj11InnerPair = BP_NOT_DEFINED, usGpioRj11OuterPair = BP_NOT_DEFINED,
      usGpioPressAndHoldReset = BP_NOT_DEFINED, usGpioRestoreDefCfg = BP_NOT_DEFINED,
      usGpioDiagnoseEthPort = BP_NOT_DEFINED,
      LswPortLedGpios = \<lparr>usGpioLedLan1LinkUp = BP_NOT_DEFINED, usGpioLedLan1LinkDown = BP_NOT_DEFINED,
         usGpioLedLan2LinkUp = BP_NOT_DEFINED, usGpioLedLan2LinkDown = BP_NOT_DEFINED,
         usGpioLedLan3LinkUp = BP_NOT_DEFINED, usGpioLedLan3LinkDown = BP_NOT_DEFINED,
         usGpioLedLan4LinkUp = BP_NOT_DEFINED, usGpioLedLan4LinkDown = BP_NOT_DEFINED\<rparr>,
      usGpioLedMessage = BP_NOT_DEFINED, usGpioHspaEnable = BP_NOT_DEFINED,
      usGpioUartRts = BP_NOT_DEFINED, usGpioUartCts = BP_NOT_DEFINED,
      usGpioLedAdsl = BP_NOT_DEFINED, usGpioLedAdslFail = BP_GPIO_AL 15,
      usGpioLedWireless = BP_NOT_DEFINED, usGpioLedWirelessFail = BP_NOT_DEFINED,
      usGpioLedUsb = BP_NOT_DEFINED, usGpioLedHpna = BP_NOT_DEFINED,
      usGpioLedWanData = BP_GPIO_AL 22, usGpioLedWanDataFail = BP_NOT_DEFINED,
      usGpioLedHspa = BP_NOT_DEFINED, usGpioLedHspaFail = BP_NOT_DEFINED,
      usGpioLedInternet = BP_NOT_DEFINED, usGpioLedInternetFail = BP_NOT_DEFINED,
      usGpioLedPpp = BP_GPIO_AL 22, usGpioLedPppFail = BP_GPIO_AL 23,
      usGpioLedBlPowerOn = BP_GPIO_AL 4, usGpioLedBlResetCfg = BP_GPIO_AL 22,
      usGpioLedBlStop = BP_GPIO_AL 5, usExtIntrAdslDyingGasp = BP_HW_DEFINED,
      usExtIntrHpna = BP_NOT_DEFINED, usCsHpna = BP_NOT_DEFINED,
      usAntInUseWireless = BP_WLAN_ANT_MAIN, usGpioSesBtnWireless = BP_GPIO_AL 37,
      usExtIntrSesBtnWireless = BP_EXT_INTR_3, usGpioLedSesWireless = BP_SERIAL_GPIO_AL 7,
      usCsHpi = BP_NOT_DEFINED, usVcopeResetGpio = BP_NOT_DEFINED,
      usVcopeRelayGpio = BP_NOT_DEFINED, usVcopeBoardRev = BP_NOT_DEFINED, usCMTThead = 0,
      usHardwareCfg = 0,
      stPcbVersion = \<lparr>usPcbVer_Low = BP_NOT_DEFINED, usPcbVer_High = BP_NOT_DEFINED\<rparr>,
      stBoardVersion = \<lparr>usBoardVer_Low = BP_NOT_DEFINED, usBoardVer_Mid = BP_NOT_DEFINED,
         usBoardVer_High = BP_NOT_DEFINED, usReserve = BP_NOT_DEFINED\<rparr>,
      usWirelessFlags = BP_NOT_DEFINED\<rparr>"

definition g_bcm96358m :: BOARD_PARAMETERS where
  "g_bcm96358m =
     \<lparr>szBoardId = char_array 16 ''96358M'',
      EnetMacInfos = [\<lparr>ucPhyType = BP_ENET_INTERNAL_PHY, ucPhyAddress = 1, usGpioPhySpiSck = BP_NOT_DEFINED,
         usGpioPhySpiSs = BP_NOT_DEFINED, usGpioPhySpiMosi = BP_NOT_DEFINED,
         usGpioPhySpiMiso = BP_NOT_DEFINED, usGpioPhyReset = BP_NOT_DEFINED, numSwitchPorts = 1,
         usConfigType = BP_ENET_CONFIG_MDIO, usReverseMii = BP_NOT_DEFINED\<rparr>,
        \<lparr>ucPhyType = BP_ENET_EXTERNAL_SWITCH, ucPhyAddress = 0, usGpioPhySpiSck = BP_NOT_DEFINED,
         usGpioPhySpiSs = BP_NOT_DEFINED, usGpioPhySpiMosi = BP_NOT_DEFINED,
         usGpioPhySpiMiso = BP_NOT_DEFINED, usGpioPhyReset = BP_NOT_DEFINED, numSwitchPorts = 3,
         usConfigType = BP_ENET_CONFIG_MDIO_PSEUDO_PHY, usReverseMii = BP_ENET_REVERSE_MII\<rparr>],
      VoIPDspInfo = [\<lparr>ucDspType = BP_VOIP_NO_DSP, ucDspAddress = 0, usExtIntrVoip = 0, usGpioPotsReset = 0,
         usGpioVoipReset = 0, usGpioVoipIntr = 0, usGpioLedVoip = 0, usGpioLedPSTN = 0,
         usGpioLedLine0 = 0, usGpioLedLine1 = 0, usCsVoip = 0, usGpioRelayCtl = 0,
         usGpioRingDetc = 0, usGpioLoopDetc = 0, slicType = Silicon_Labs_3210,
         daaType = DAA_CIRCUIT\<rparr>,
        \<lparr>ucDspType = BP_VOIP_NO_DSP, ucDspAddress = 0, usExtIntrVoip = 0, usGpioPotsReset = 0,
         usGpioVoipReset = 0, usGpioVoipIntr = 0, usGpioLedVoip = 0, usGpioLedPSTN = 0,
         usGpioLedLine0 = 0, usGpioLedLine1 = 0, usCsVoip = 0, usGpioRelayCtl = 0,
         usGpioRingDetc = 0, usGpioLoopDetc = 0, slicType = Silicon_Labs_3210,
         daaType = DAA_CIRCUIT\<rparr>],
      usSdramSize = BP_MEMORY_32MB_1_CHIP, usPsiSize = BP_PSI_DEFAULT_SIZE,
      usGpioRj11InnerPair = BP_NOT_DEFINED, usGpioRj11OuterPair = BP_NOT_DEFINED,
      usGpioPressAndHoldReset = BP_NOT_DEFINED, usGpioRestoreDefCfg = BP_NOT_DEFINED,
      usGpioDiagnoseEthPort = BP_NOT_DEFINED,
      LswPortLedGpios = \<lparr>usGpioLedLan1LinkUp = BP_NOT_DEFINED, usGpioLedLan1LinkDown = BP_NOT_DEFINED,
         usGpioLedLan2LinkUp = BP_NOT_DEFINED, usGpioLedLan2LinkDown = BP_NOT_DEFINED,
         usGpioLedLan3LinkUp = BP_NOT_DEFINED, usGpioLedLan3LinkDown = BP_NOT_DEFINED,
         usGpioLedLan4LinkUp = BP_NOT_DEFINED, usGpioLedLan4LinkDown = BP_NOT_DEFINED\<rparr>,
      usGpioLedMessage = BP_NOT_DEFINED, usGpioHspaEnable = BP_NOT_DEFINED,
      usGpioUartRts = BP_NOT_DEFINED, usGpioUartCts = BP_NOT_DEFINED,
      usGpioLedAdsl = BP_SERIAL_GPIO_AL 3, usGpioLedAdslFail = BP_NOT_DEFINED,
      usGpioLedWireless = BP_NOT_DEFINED, usGpioLedWirelessFail = BP_NOT_DEFINED,
      usGpioLedUsb = BP_NOT_DEFINED, usGpioLedHpna = BP_NOT_DEFINED,
      usGpioLedWanData = BP_GPIO_AH 2, usGpioLedWanDataFail = BP_NOT_DEFINED,
      usGpioLedHspa = BP_NOT_DEFINED, usGpioLedHspaFail = BP_NOT_DEFINED,
      usGpioLedInternet = BP_NOT_DEFINED, usGpioLedInternetFail = BP_NOT_DEFINED,
      usGpioLedPpp = BP_GPIO_AH 2, usGpioLedPppFail = BP_SERIAL_GPIO_AL 3,
      usGpioLedBlPowerOn = BP_SERIAL_GPIO_AL 0, usGpioLedBlResetCfg = BP_SERIAL_GPIO_AL 2,
      usGpioLedBlStop = BP_SERIAL_GPIO_AL 1, usExtIntrAdslDyingGasp = BP_HW_DEFINED,
      usExtIntrHpna = BP_NOT_DEFINED, usCsHpna = BP_NOT_DEFINED,
      usAntInUseWireless = BP_WLAN_ANT_MAIN, usGpioSesBtnWireless = BP_GPIO_AL 37,
      usExtIntrSesBtnWireless = BP_EXT_INTR_3, usGpioLedSesWireless = BP_GPIO_AL 11,
      usCsHpi = BP_CS_1, usVcopeResetGpio = BP_GPIO_AL 9, usVcopeRelayGpio = BP_GPIO_AL 10,
      usVcopeBoardRev = 3, usCMTThead = 0, usHardwareCfg = GPIO_SERIAL_MODE_MASK,
      stPcbVersion = \<lparr>usPcbVer_Low = BP_NOT_DEFINED, usPcbVer_High = BP_NOT_DEFINED\<rparr>,
      stBoardVersion = \<lparr>usBoardVer_Low = BP_NOT_DEFINED, usBoardVer_Mid = BP_NOT_DEFINED,
         usBoardVer_High = BP_NOT_DEFINED, usReserve = BP_NOT_DEFINED\<rparr>,
      usWirelessFlags = BP_NOT_DEFINED\<rparr>"

definition g_BoardParms :: "BOARD_PARAMETERS list" where
  "g_BoardParms =
     [g_hw96358gw_a,
      g_huawei96358gw_b,
      g_huawei96358gw_HG550,
      g_huawei96358gw_HG550_FXO,
      g_huawei96358gw_HG553,
      g_huawei96358gw_HG556,
      g_huawei96358gw_HG556iso,
      g_bcm96358vw,
      g_bcm96358vw16,
      g_bcm96358gw,
      g_bcm96358gw16,
      g_bcm96358m]"

section \<open>Selecting a board\<close>

text \<open>Characters are signed on the target. A string without a terminator is read past its end.\<close>

fun bpstrcmp :: "byte list \<Rightarrow> byte list \<Rightarrow> int res" where
  "bpstrcmp (d # dest) (s # src) =
     (if s \<noteq> 0 \<and> d \<noteq> 0
      then if sint d < sint s then Inr (-1)
           else if sint d > sint s then Inr 1
           else bpstrcmp dest src
      else if d \<noteq> 0 \<and> s = 0 then Inr 1
      else if d = 0 \<and> s \<noteq> 0 then Inr (-1)
      else Inr 0)"
| "bpstrcmp _ _ = Inl OutOfBounds"

fun find_board :: "byte list \<Rightarrow> BOARD_PARAMETERS list \<Rightarrow> BOARD_PARAMETERS option res" where
  "find_board pszBoardId [] = Inr None"
| "find_board pszBoardId (bp # ppBp) =
     bindR (bpstrcmp (szBoardId bp) pszBoardId) (\<lambda>r.
       if r = 0 then Inr (Some bp) else find_board pszBoardId ppBp)"

definition BpSetBoardId ::
  "byte list \<Rightarrow> BOARD_PARAMETERS option \<Rightarrow> (int \<times> BOARD_PARAMETERS option) res" where
  "BpSetBoardId pszBoardId g_pCurrentBp =
     bindR (find_board pszBoardId g_BoardParms) (\<lambda>r.
       case r of
         Some bp \<Rightarrow> Inr (BP_SUCCESS, Some bp)
       | None \<Rightarrow> Inr (BP_BOARD_ID_NOT_FOUND, g_pCurrentBp))"

abbreviation (input) HG55VDFA :: byte where "HG55VDFA \<equiv> 0"

definition BpSetBoardIdByHardwareType :: "byte \<Rightarrow> int \<times> BOARD_PARAMETERS option" where
  "BpSetBoardIdByHardwareType ucHardwareType =
     (BP_SUCCESS,
      Some (if HG55VDFA = ucHardwareType then g_huawei96358gw_HG556 else g_huawei96358gw_HG556iso))"

definition c_string :: "byte list \<Rightarrow> byte list res" where
  "c_string s = (if 0 \<in> set s then Inr (takeWhile (\<lambda>c. c \<noteq> 0) s) else Inl OutOfBounds)"

fun copy_board_ids ::
  "BOARD_PARAMETERS list \<Rightarrow> int \<Rightarrow> int \<Rightarrow> byte list \<Rightarrow> int \<Rightarrow> (int \<times> byte list) res" where
  "copy_board_ids [] i pos pszBoardIds nBoardIdsSize = Inr (i, pszBoardIds)"
| "copy_board_ids (bp # ppBp) i pos pszBoardIds nBoardIdsSize =
     (if nBoardIdsSize = 0 then Inr (i, pszBoardIds)
      else bindR (c_string (szBoardId bp)) (\<lambda>src.
           bindR (mem_wr pszBoardIds pos (src @ [0])) (\<lambda>pszBoardIds'.
             copy_board_ids ppBp (i + 1) (pos + BP_BOARD_ID_LEN) pszBoardIds' (nBoardIdsSize - 1))))"

definition BpGetBoardIds :: "byte list \<Rightarrow> int \<Rightarrow> (int \<times> byte list) res" where
  "BpGetBoardIds pszBoardIds nBoardIdsSize = copy_board_ids g_BoardParms 0 0 pszBoardIds nBoardIdsSize"

section \<open>Ethernet, DSP and sizes\<close>

definition BpGetVoipDspConfig :: "byte \<Rightarrow> BOARD_PARAMETERS option \<Rightarrow> VOIP_DSP_INFO option" where
  "BpGetVoipDspConfig dspNum g_pCurrentBp =
     (case g_pCurrentBp of
        Some bp \<Rightarrow> find (\<lambda>d. ucDspType d \<noteq> BP_VOIP_NO_DSP \<and> ucDspAddress d = dspNum) (VoIPDspInfo bp)
      | None \<Rightarrow> None)"

text \<open>Entry \<open>i\<close> of the caller's array; without a board only its PHY type is stored.\<close>

definition enet_entry ::
  "BOARD_PARAMETERS option \<Rightarrow> nat \<Rightarrow> ETHERNET_MAC_INFO \<Rightarrow> ETHERNET_MAC_INFO" where
  "enet_entry g_pCurrentBp i e =
     (case g_pCurrentBp of
        Some bp \<Rightarrow> if i < 2 then EnetMacInfos bp ! i else e\<lparr>ucPhyType := BP_ENET_NO_PHY\<rparr>
      | None \<Rightarrow> e\<lparr>ucPhyType := BP_ENET_NO_PHY\<rparr>)"

definition BpGetEthernetMacInfo ::
  "ETHERNET_MAC_INFO list \<Rightarrow> int \<Rightarrow> BOARD_PARAMETERS option \<Rightarrow> (int \<times> ETHERNET_MAC_INFO list) res" where
  "BpGetEthernetMacInfo pEnetInfos nNumEnetInfos g_pCurrentBp =
     (if nNumEnetInfos > int (length pEnetInfos) then Inl OutOfBounds
      else Inr (if g_pCurrentBp = None then BP_BOARD_ID_NOT_SET else BP_SUCCESS,
                map (\<lambda>(i, e). if int i < nNumEnetInfos then enet_entry g_pCurrentBp i e else e)
                    (enumerate 0 pEnetInfos)))"

text \<open>The two sizes are returned even when the table holds \<^verbatim>\<open>BP_NOT_DEFINED\<close>.\<close>

definition bp_size :: "(BOARD_PARAMETERS \<Rightarrow> u16) \<Rightarrow> BOARD_PARAMETERS option \<Rightarrow> int \<times> u32" where
  "bp_size f g_pCurrentBp =
     (case g_pCurrentBp of
        Some bp \<Rightarrow> (BP_SUCCESS, ucast (f bp))
      | None \<Rightarrow> (BP_BOARD_ID_NOT_SET, ucast BP_NOT_DEFINED))"

definition BpGetSdramSize :: "BOARD_PARAMETERS option \<Rightarrow> int \<times> u32" where
  "BpGetSdramSize g_pCurrentBp = bp_size usSdramSize g_pCurrentBp"

definition BpGetPsiSize :: "BOARD_PARAMETERS option \<Rightarrow> int \<times> u32" where
  "BpGetPsiSize g_pCurrentBp = bp_size usPsiSize g_pCurrentBp"

section \<open>Pins\<close>

definition bp_code :: "u16 \<Rightarrow> int" where
  "bp_code v = (if v \<noteq> BP_NOT_DEFINED then BP_SUCCESS else BP_VALUE_NOT_DEFINED)"

text \<open>The bodies the access functions share: the code and the value for one field of the board
  (\<open>bp_value\<close>), as a 32 bit value (\<open>bp_value32\<close>), and for a field of a DSP (\<open>dsp_value\<close>).\<close>

definition bp_value :: "(BOARD_PARAMETERS \<Rightarrow> u16) \<Rightarrow> BOARD_PARAMETERS option \<Rightarrow> int \<times> u16" where
  "bp_value f g_pCurrentBp =
     (case g_pCurrentBp of
        Some bp \<Rightarrow> (bp_code (f bp), f bp)
      | None \<Rightarrow> (BP_BOARD_ID_NOT_SET, BP_NOT_DEFINED))"

definition bp_value32 :: "(BOARD_PARAMETERS \<Rightarrow> u16) \<Rightarrow> BOARD_PARAMETERS option \<Rightarrow> int \<times> u32" where
  "bp_value32 f g_pCurrentBp = (case bp_value f g_pCurrentBp of (r, v) \<Rightarrow> (r, ucast v))"

definition dsp_value ::
  "(VOIP_DSP_INFO \<Rightarrow> u16) \<Rightarrow> byte \<Rightarrow> BOARD_PARAMETERS option \<Rightarrow> int \<times> u16" where
  "dsp_value f dspNum g_pCurrentBp =
     (if g_pCurrentBp = None then (BP_BOARD_ID_NOT_SET, BP_NOT_DEFINED)
      else case BpGetVoipDspConfig dspNum g_pCurrentBp of
             Some d \<Rightarrow> (bp_code (f d), f d)
           | None \<Rightarrow> (BP_BOARD_ID_NOT_FOUND, BP_NOT_DEFINED))"

definition BpGetRj11InnerOuterPairGpios :: "BOARD_PARAMETERS option \<Rightarrow> int \<times> u16 \<times> u16" where
  "BpGetRj11InnerOuterPairGpios g_pCurrentBp =
     (case g_pCurrentBp of
        Some bp \<Rightarrow>
          (if usGpioRj11InnerPair bp \<noteq> BP_NOT_DEFINED \<and> usGpioRj11OuterPair bp \<noteq> BP_NOT_DEFINED
           then BP_SUCCESS else BP_VALUE_NOT_DEFINED,
           usGpioRj11InnerPair bp, usGpioRj11OuterPair bp)
      | None \<Rightarrow> (BP_BOARD_ID_NOT_SET, BP_NOT_DEFINED, BP_NOT_DEFINED))"

definition BpGetRtsCtsUartGpios :: "BOARD_PARAMETERS option \<Rightarrow> int \<times> u16 \<times> u16" where
  "BpGetRtsCtsUartGpios g_pCurrentBp =
     (case g_pCurrentBp of
        Some bp \<Rightarrow>
          (if usGpioUartRts bp \<noteq> BP_NOT_DEFINED \<and> usGpioUartCts bp \<noteq> BP_NOT_DEFINED
           then BP_SUCCESS else BP_VALUE_NOT_DEFINED,
           usGpioUartRts bp, usGpioUartCts bp)
      | None \<Rightarrow> (BP_BOARD_ID_NOT_SET, BP_NOT_DEFINED, BP_NOT_DEFINED))"

definition BpGetPressAndHoldResetGpio :: "BOARD_PARAMETERS option \<Rightarrow> int \<times> u16" where
  "BpGetPressAndHoldResetGpio g_pCurrentBp = bp_value usGpioPressAndHoldReset g_pCurrentBp"

definition BpGetRestoreDefCfgGpio :: "BOARD_PARAMETERS option \<Rightarrow> int \<times> u16" where
  "BpGetRestoreDefCfgGpio g_pCurrentBp = bp_value usGpioRestoreDefCfg g_pCurrentBp"

definition BpGetDiagnoseEthPortGpio :: "BOARD_PARAMETERS option \<Rightarrow> int \<times> u16" where
  "BpGetDiagnoseEthPortGpio g_pCurrentBp = bp_value usGpioDiagnoseEthPort g_pCurrentBp"

definition BpGetLan1LinkUpLedGpio :: "BOARD_PARAMETERS option \<Rightarrow> int \<times> u16" where
  "BpGetLan1LinkUpLedGpio g_pCurrentBp = bp_value (\<lambda>bp. usGpioLedLan1LinkUp (LswPortLedGpios bp)) g_pCurrentBp"

definition BpGetLan1LinkDownLedGpio :: "BOARD_PARAMETERS option \<Rightarrow> int \<times> u16" where
  "BpGetLan1LinkDownLedGpio g_pCurrentBp = bp_value (\<lambda>bp. usGpioLedLan1LinkDown (LswPortLedGpios bp)) g_pCurrentBp"

definition BpGetLan2LinkUpLedGpio :: "BOARD_PARAMETERS option \<Rightarrow> int \<times> u16" where
  "BpGetLan2LinkUpLedGpio g_pCurrentBp = bp_value (\<lambda>bp. usGpioLedLan2LinkUp (LswPortLedGpios bp)) g_pCurrentBp"

definition BpGetLan2LinkDownLedGpio :: "BOARD_PARAMETERS option \<Rightarrow> int \<times> u16" where
  "BpGetLan2LinkDownLedGpio g_pCurrentBp = bp_value (\<lambda>bp. usGpioLedLan2LinkDown (LswPortLedGpios bp)) g_pCurrentBp"

definition BpGetLan3LinkUpLedGpio :: "BOARD_PARAMETERS option \<Rightarrow> int \<times> u16" where
  "BpGetLan3LinkUpLedGpio g_pCurrentBp = bp_value (\<lambda>bp. usGpioLedLan3LinkUp (LswPortLedGpios bp)) g_pCurrentBp"

definition BpGetLan3LinkDownLedGpio :: "BOARD_PARAMETERS option \<Rightarrow> int \<times> u16" where
  "BpGetLan3LinkDownLedGpio g_pCurrentBp = bp_value (\<lambda>bp. usGpioLedLan3LinkDown (LswPortLedGpios bp)) g_pCurrentBp"

definition BpGetLan4LinkUpLedGpio :: "BOARD_PARAMETERS option \<Rightarrow> int \<times> u16" where
  "BpGetLan4LinkUpLedGpio g_pCurrentBp = bp_value (\<lambda>bp. usGpioLedLan4LinkUp (LswPortLedGpios bp)) g_pCurrentBp"

definition BpGetLan4LinkDownLedGpio :: "BOARD_PARAMETERS option \<Rightarrow> int \<times> u16" where
  "BpGetLan4LinkDownLedGpio g_pCurrentBp = bp_value (\<lambda>bp. usGpioLedLan4LinkDown (LswPortLedGpios bp)) g_pCurrentBp"

definition BpGetMessageLedGpio :: "BOARD_PARAMETERS option \<Rightarrow> int \<times> u16" where
  "BpGetMessageLedGpio g_pCurrentBp = bp_value usGpioLedMessage g_pCurrentBp"

definition BpGetHspaEnableGpio :: "BOARD_PARAMETERS option \<Rightarrow> int \<times> u16" where
  "BpGetHspaEnableGpio g_pCurrentBp = bp_value usGpioHspaEnable g_pCurrentBp"

definition BpGetAdslLedGpio :: "BOARD_PARAMETERS option \<Rightarrow> int \<times> u16" where
  "BpGetAdslLedGpio g_pCurrentBp = bp_value usGpioLedAdsl g_pCurrentBp"

definition BpGetAdslFailLedGpio :: "BOARD_PARAMETERS option \<Rightarrow> int \<times> u16" where
  "BpGetAdslFailLedGpio g_pCurrentBp = bp_value usGpioLedAdslFail g_pCurrentBp"

definition BpGetWirelessLedGpio :: "BOARD_PARAMETERS option \<Rightarrow> int \<times> u16" where
  "BpGetWirelessLedGpio g_pCurrentBp = bp_value usGpioLedWireless g_pCurrentBp"

definition BpGetWirelessFailLedGpio :: "BOARD_PARAMETERS option \<Rightarrow> int \<times> u16" where
  "BpGetWirelessFailLedGpio g_pCurrentBp = bp_value usGpioLedWirelessFail g_pCurrentBp"

definition BpGetWirelessAntInUse :: "BOARD_PARAMETERS option \<Rightarrow> int \<times> u16" where
  "BpGetWirelessAntInUse g_pCurrentBp = bp_value usAntInUseWireless g_pCurrentBp"

definition BpGetWirelessFlags :: "BOARD_PARAMETERS option \<Rightarrow> int \<times> u16" where
  "BpGetWirelessFlags g_pCurrentBp = bp_value usWirelessFlags g_pCurrentBp"

definition BpGetWirelessSesBtnGpio :: "BOARD_PARAMETERS option \<Rightarrow> int \<times> u16" where
  "BpGetWirelessSesBtnGpio g_pCurrentBp = bp_value usGpioSesBtnWireless g_pCurrentBp"

definition BpGetWirelessSesExtIntr :: "BOARD_PARAMETERS option \<Rightarrow> int \<times> u16" where
  "BpGetWirelessSesExtIntr g_pCurrentBp = bp_value usExtIntrSesBtnWireless g_pCurrentBp"

definition BpGetWirelessSesLedGpio :: "BOARD_PARAMETERS option \<Rightarrow> int \<times> u16" where
  "BpGetWirelessSesLedGpio g_pCurrentBp = bp_value usGpioLedSesWireless g_pCurrentBp"

definition BpGetUsbLedGpio :: "BOARD_PARAMETERS option \<Rightarrow> int \<times> u16" where
  "BpGetUsbLedGpio g_pCurrentBp = bp_value usGpioLedUsb g_pCurrentBp"

definition BpGetHpnaLedGpio :: "BOARD_PARAMETERS option \<Rightarrow> int \<times> u16" where
  "BpGetHpnaLedGpio g_pCurrentBp = bp_value usGpioLedHpna g_pCurrentBp"

definition BpGetWanDataFailLedGpio :: "BOARD_PARAMETERS option \<Rightarrow> int \<times> u16" where
  "BpGetWanDataFailLedGpio g_pCurrentBp = bp_value usGpioLedWanDataFail g_pCurrentBp"

definition BpGetWanDataLedGpio :: "BOARD_PARAMETERS option \<Rightarrow> int \<times> u16" where
  "BpGetWanDataLedGpio g_pCurrentBp = bp_value usGpioLedWanData g_pCurrentBp"

definition BpGetHspaLedGpio :: "BOARD_PARAMETERS option \<Rightarrow> int \<times> u16" where
  "BpGetHspaLedGpio g_pCurrentBp = bp_value usGpioLedHspa g_pCurrentBp"

definition BpGetHspaFailLedGpio :: "BOARD_PARAMETERS option \<Rightarrow> int \<times> u16" where
  "BpGetHspaFailLedGpio g_pCurrentBp = bp_value usGpioLedHspaFail g_pCurrentBp"

definition BpGetInternetLedGpio :: "BOARD_PARAMETERS option \<Rightarrow> int \<times> u16" where
  "BpGetInternetLedGpio g_pCurrentBp = bp_value usGpioLedInternet g_pCurrentBp"

definition BpGetInternetFailLedGpio :: "BOARD_PARAMETERS option \<Rightarrow> int \<times> u16" where
  "BpGetInternetFailLedGpio g_pCurrentBp = bp_value usGpioLedInternetFail g_pCurrentBp"

definition BpGetPppLedGpio :: "BOARD_PARAMETERS option \<Rightarrow> int \<times> u16" where
  "BpGetPppLedGpio g_pCurrentBp = bp_value usGpioLedPpp g_pCurrentBp"

definition BpGetPppFailLedGpio :: "BOARD_PARAMETERS option \<Rightarrow> int \<times> u16" where
  "BpGetPppFailLedGpio g_pCurrentBp = bp_value usGpioLedPppFail g_pCurrentBp"

definition BpGetBootloaderPowerOnLedGpio :: "BOARD_PARAMETERS option \<Rightarrow> int \<times> u16" where
  "BpGetBootloaderPowerOnLedGpio g_pCurrentBp = bp_value usGpioLedBlPowerOn g_pCurrentBp"

definition BpGetBootloaderResetCfgLedGpio :: "BOARD_PARAMETERS option \<Rightarrow> int \<times> u16" where
  "BpGetBootloaderResetCfgLedGpio g_pCurrentBp = bp_value usGpioLedBlResetCfg g_pCurrentBp"

definition BpGetBootloaderStopLedGpio :: "BOARD_PARAMETERS option \<Rightarrow> int \<times> u16" where
  "BpGetBootloaderStopLedGpio g_pCurrentBp = bp_value usGpioLedBlStop g_pCurrentBp"

definition BpGetAdslDyingGaspExtIntr :: "BOARD_PARAMETERS option \<Rightarrow> int \<times> u32" where
  "BpGetAdslDyingGaspExtIntr g_pCurrentBp = bp_value32 usExtIntrAdslDyingGasp g_pCurrentBp"

definition BpGetHpnaExtIntr :: "BOARD_PARAMETERS option \<Rightarrow> int \<times> u32" where
  "BpGetHpnaExtIntr g_pCurrentBp = bp_value32 usExtIntrHpna g_pCurrentBp"

definition BpGetHpnaChipSelect :: "BOARD_PARAMETERS option \<Rightarrow> int \<times> u32" where
  "BpGetHpnaChipSelect g_pCurrentBp = bp_value32 usCsHpna g_pCurrentBp"

definition BpGetCMTThread :: "BOARD_PARAMETERS option \<Rightarrow> int \<times> u32" where
  "BpGetCMTThread g_pCurrentBp = bp_value32 usCMTThead g_pCurrentBp"

definition BpGetPotsResetGpio :: "BOARD_PARAMETERS option \<Rightarrow> int \<times> u16" where
  "BpGetPotsResetGpio g_pCurrentBp = bp_value (\<lambda>bp. usGpioPotsReset (VoIPDspInfo bp ! 0)) g_pCurrentBp"

text \<open>Pins of a DSP. \<^verbatim>\<open>BpGetVoipResetGpio\<close> also tests for \<^verbatim>\<open>BP_UNEQUIPPED\<close>, which the
  first test already accepts.\<close>

definition BpGetVoipResetGpio :: "byte \<Rightarrow> BOARD_PARAMETERS option \<Rightarrow> int \<times> u16" where
  "BpGetVoipResetGpio dspNum g_pCurrentBp = dsp_value usGpioVoipReset dspNum g_pCurrentBp"

definition BpGetVoipIntrGpio :: "byte \<Rightarrow> BOARD_PARAMETERS option \<Rightarrow> int \<times> u16" where
  "BpGetVoipIntrGpio dspNum g_pCurrentBp = dsp_value usGpioVoipIntr dspNum g_pCurrentBp"

definition BpGetVoipExtIntr :: "byte \<Rightarrow> BOARD_PARAMETERS option \<Rightarrow> int \<times> u32" where
  "BpGetVoipExtIntr dspNum g_pCurrentBp =
     (case dsp_value usExtIntrVoip dspNum g_pCurrentBp of (r, v) \<Rightarrow> (r, ucast v))"

definition BpGetVoipChipSelect :: "byte \<Rightarrow> BOARD_PARAMETERS option \<Rightarrow> int \<times> u32" where
  "BpGetVoipChipSelect dspNum g_pCurrentBp =
     (case dsp_value usCsVoip dspNum g_pCurrentBp of (r, v) \<Rightarrow> (r, ucast v))"

definition BpGetVoipLedGpio :: "BOARD_PARAMETERS option \<Rightarrow> int \<times> u16" where
  "BpGetVoipLedGpio g_pCurrentBp = dsp_value usGpioLedVoip 0 g_pCurrentBp"

definition BpGetTelLine0LedGpio :: "BOARD_PARAMETERS option \<Rightarrow> int \<times> u16" where
  "BpGetTelLine0LedGpio g_pCurrentBp = dsp_value usGpioLedLine0 0 g_pCurrentBp"

definition BpGetTelLine1LedGpio :: "BOARD_PARAMETERS option \<Rightarrow> int \<times> u16" where
  "BpGetTelLine1LedGpio g_pCurrentBp = dsp_value usGpioLedLine1 0 g_pCurrentBp"

definition BpGetPstnLedGpio :: "BOARD_PARAMETERS option \<Rightarrow> int \<times> u16" where
  "BpGetPstnLedGpio g_pCurrentBp = dsp_value usGpioLedPSTN 0 g_pCurrentBp"

text \<open>The three FXO pins leave the caller's variable as it was when no board is set, and store
  \<^verbatim>\<open>0xFF\<close> when the board has no DSP.\<close>

definition fxo_value ::
  "(VOIP_DSP_INFO \<Rightarrow> u16) \<Rightarrow> u16 \<Rightarrow> BOARD_PARAMETERS option \<Rightarrow> int \<times> u16" where
  "fxo_value f pusValue g_pCurrentBp =
     (if g_pCurrentBp = None then (BP_BOARD_ID_NOT_SET, pusValue)
      else case BpGetVoipDspConfig 0 g_pCurrentBp of
             Some d \<Rightarrow> (bp_code (f d), f d)
           | None \<Rightarrow> (BP_VALUE_NOT_DEFINED, 0xFF))"

definition BpGetFxoRelayCtlGpio :: "u16 \<Rightarrow> BOARD_PARAMETERS option \<Rightarrow> int \<times> u16" where
  "BpGetFxoRelayCtlGpio pusValue g_pCurrentBp = fxo_value usGpioRelayCtl pusValue g_pCurrentBp"

definition BpGetFxoRingDetcGpio :: "u16 \<Rightarrow> BOARD_PARAMETERS option \<Rightarrow> int \<times> u16" where
  "BpGetFxoRingDetcGpio pusValue g_pCurrentBp = fxo_value usGpioRingDetc pusValue g_pCurrentBp"

definition BpGetFxoLoopDetcGpio :: "u16 \<Rightarrow> BOARD_PARAMETERS option \<Rightarrow> int \<times> u16" where
  "BpGetFxoLoopDetcGpio pusValue g_pCurrentBp = fxo_value usGpioLoopDetc pusValue g_pCurrentBp"

definition BpGetSlicType :: "BOARD_PARAMETERS option \<Rightarrow> int \<times> SLIC_TYPE" where
  "BpGetSlicType g_pCurrentBp =
     (if g_pCurrentBp = None then (BP_BOARD_ID_NOT_SET, Slic_Not_Defined)
      else case BpGetVoipDspConfig 0 g_pCurrentBp of
             Some d \<Rightarrow> (if slicType d \<noteq> Slic_Not_Defined then BP_SUCCESS else BP_VALUE_NOT_DEFINED, slicType d)
           | None \<Rightarrow> (BP_BOARD_ID_NOT_FOUND, Slic_Not_Defined))"

definition BpGetDAAType :: "BOARD_PARAMETERS option \<Rightarrow> int \<times> DAA_TYPE" where
  "BpGetDAAType g_pCurrentBp =
     (if g_pCurrentBp = None then (BP_BOARD_ID_NOT_SET, DAA_Not_Defined)
      else case BpGetVoipDspConfig 0 g_pCurrentBp of
             Some d \<Rightarrow> (if daaType d \<noteq> DAA_Not_Defined then BP_SUCCESS else BP_VALUE_NOT_DEFINED, daaType d)
           | None \<Rightarrow> (BP_BOARD_ID_NOT_FOUND, DAA_Not_Defined))"

definition BpGetVcopeGpio :: "int \<Rightarrow> BOARD_PARAMETERS option \<Rightarrow> int" where
  "BpGetVcopeGpio pio_idx g_pCurrentBp =
     (case g_pCurrentBp of
        Some bp \<Rightarrow>
          if pio_idx = 1 then uint (usVcopeResetGpio bp)
          else if pio_idx = 2 then uint (usVcopeRelayGpio bp)
          else if pio_idx = 3 then uint (usCsHpi bp)
          else if pio_idx = 4 then uint (usVcopeBoardRev bp)
          else uint BP_NOT_DEFINED
      | None \<Rightarrow> uint BP_NOT_DEFINED)"

section \<open>Version pins and capabilities\<close>

text \<open>A bit number that does not exist leaves the variable as it was (PCB) or zero (board).\<close>

definition BpGetPCBVesionGpio :: "byte \<Rightarrow> u16 \<Rightarrow> BOARD_PARAMETERS option \<Rightarrow> int \<times> u16" where
  "BpGetPCBVesionGpio ucPcbVerBit pusValue g_pCurrentBp =
     (case g_pCurrentBp of
        None \<Rightarrow> (BP_BOARD_ID_NOT_SET, BP_NOT_DEFINED)
      | Some bp \<Rightarrow>
          if ucPcbVerBit = 0
          then (bp_code (usPcbVer_Low (stPcbVersion bp)), usPcbVer_Low (stPcbVersion bp))
          else if ucPcbVerBit = 1
          then (bp_code (usPcbVer_High (stPcbVersion bp)), usPcbVer_High (stPcbVersion bp))
          else (BP_VALUE_NOT_DEFINED, pusValue))"

definition BpGetBoardVesionGpio :: "byte \<Rightarrow> BOARD_PARAMETERS option \<Rightarrow> int \<times> u16" where
  "BpGetBoardVesionGpio ucBoardVerBit g_pCurrentBp =
     (case g_pCurrentBp of
        None \<Rightarrow> (BP_BOARD_ID_NOT_SET, BP_NOT_DEFINED)
      | Some bp \<Rightarrow>
          if ucBoardVerBit = 0
          then (bp_code (usBoardVer_Low (stBoardVersion bp)), usBoardVer_Low (stBoardVersion bp))
          else if ucBoardVerBit = 1
          then (bp_code (usBoardVer_Mid (stBoardVersion bp)), usBoardVer_Mid (stBoardVersion bp))
          else if ucBoardVerBit = 2
          then (bp_code (usBoardVer_High (stBoardVersion bp)), usBoardVer_High (stBoardVersion bp))
          else (BP_VALUE_NOT_DEFINED, 0))"

definition hw_cfg :: "u16 \<Rightarrow> BOARD_PARAMETERS option \<Rightarrow> int" where
  "hw_cfg bits g_pCurrentBp =
     (case g_pCurrentBp of
        Some bp \<Rightarrow> if usHardwareCfg bp AND bits \<noteq> 0 then BP_SUCCESS else BP_VALUE_NOT_DEFINED
      | None \<Rightarrow> BP_BOARD_ID_NOT_SET)"

definition BpIsSupportSerialGpioMode :: "BOARD_PARAMETERS option \<Rightarrow> int" where
  "BpIsSupportSerialGpioMode g_pCurrentBp = hw_cfg GPIO_SERIAL_MODE_MASK g_pCurrentBp"

definition BpIsSupportLedGpioMode :: "BOARD_PARAMETERS option \<Rightarrow> int" where
  "BpIsSupportLedGpioMode g_pCurrentBp = hw_cfg GPIO_LED_MODE_MMASK g_pCurrentBp"

definition BpIsSupportPcbVersion :: "BOARD_PARAMETERS option \<Rightarrow> int" where
  "BpIsSupportPcbVersion g_pCurrentBp = hw_cfg GPIO_GET_PCB_VER_MASK g_pCurrentBp"

definition BpIsSupportBoardVersion :: "BOARD_PARAMETERS option \<Rightarrow> int" where
  "BpIsSupportBoardVersion g_pCurrentBp = hw_cfg GPIO_GET_BOARD_VER_MASK g_pCurrentBp"

section \<open>The wireless SROM patch\<close>

record WLAN_SROM_ENTRY =
  srom_name :: "byte list"
  wordOffset :: u16
  srom_value :: u16

record WLAN_SROM_PATCH_INFO =
  szboardId :: "byte list"
  usWirelessChipId :: u16
  usNeededSize :: u16
  entries :: "WLAN_SROM_ENTRY list"

text \<open>The patch table, without its terminating entries.\<close>

definition srom_pa0b :: "WLAN_SROM_ENTRY list" where
  "srom_pa0b =
     [\<lparr>srom_name = char_array 16 ''pa0b0'', wordOffset = 47, srom_value = 0x14AE\<rparr>,
      \<lparr>srom_name = char_array 16 ''pa0b1'', wordOffset = 48, srom_value = 0xFAD4\<rparr>,
      \<lparr>srom_name = char_array 16 ''pa0b2'', wordOffset = 49, srom_value = 0xFE82\<rparr>]"

definition wlanPaInfo :: "WLAN_SROM_PATCH_INFO list" where
  "wlanPaInfo =
     [\<lparr>szboardId = char_array 16 ''96348W3-10'', usWirelessChipId = 0x4318, usNeededSize = 49,
       entries = srom_pa0b\<rparr>,
      \<lparr>szboardId = char_array 16 ''96348W3'', usWirelessChipId = 0x4318, usNeededSize = 49,
       entries = srom_pa0b\<rparr>]"

fun srom_patch :: "WLAN_SROM_ENTRY list \<Rightarrow> u16 list \<Rightarrow> u16 list res" where
  "srom_patch [] pBase = Inr pBase"
| "srom_patch (e # es) pBase =
     bindR (mem_wr pBase (uint (wordOffset e)) [srom_value e]) (\<lambda>pBase'. srom_patch es pBase')"

fun srom_find ::
  "WLAN_SROM_PATCH_INFO list \<Rightarrow> u16 \<Rightarrow> u16 list \<Rightarrow> int \<Rightarrow> BOARD_PARAMETERS option \<Rightarrow> (int \<times> u16 list) res" where
  "srom_find [] chipID pBase sizeInWords g_pCurrentBp = Inr (BP_BOARD_ID_NOT_FOUND, pBase)"
| "srom_find (p # ps) chipID pBase sizeInWords g_pCurrentBp =
     (case g_pCurrentBp of
        None \<Rightarrow> Inl NullPointer
      | Some bp \<Rightarrow>
          bindR (bpstrcmp (szBoardId bp) (szboardId p)) (\<lambda>r.
            if r = 0 \<and> usWirelessChipId p = chipID \<and> uint (usNeededSize p) \<le> sizeInWords
            then bindR (srom_patch (entries p) pBase) (\<lambda>pBase'. Inr (BP_SUCCESS, pBase'))
            else srom_find ps chipID pBase sizeInWords g_pCurrentBp))"

text \<open>\<open>pBase\<close> is the map, or \<open>None\<close> for a null pointer.\<close>

definition BpUpdateWirelessSromMap ::
  "u16 \<Rightarrow> u16 list option \<Rightarrow> int \<Rightarrow> BOARD_PARAMETERS option \<Rightarrow> (int \<times> u16 list option) res" where
  "BpUpdateWirelessSromMap chipID pBase sizeInWords g_pCurrentBp =
     (case pBase of
        None \<Rightarrow> Inr (BP_BOARD_ID_NOT_FOUND, None)
      | Some base \<Rightarrow>
          if chipID = 0 \<or> sizeInWords \<le> 0 then Inr (BP_BOARD_ID_NOT_FOUND, pBase)
          else bindR (srom_find wlanPaInfo chipID base sizeInWords g_pCurrentBp)
                 (\<lambda>(nRet, base'). Inr (nRet, Some base')))"

end
