(* ===== verification/Board_Parms_Correct.thy ===== *)
theory Board_Parms_Correct
  imports Board_Parms
begin

text \<open>
  Properties of the board parameters: string comparison, the table of boards and its ids, the codes
  of the access functions, the pins of the HG556 boards and the wireless SROM patch.
\<close>

section \<open>Strings\<close>

text \<open>The string in an array, and the order of strings as a list function.\<close>

abbreviation c_str :: "byte list \<Rightarrow> byte list" where
  "c_str s \<equiv> takeWhile (\<lambda>c. c \<noteq> 0) s"

fun str_cmp :: "byte list \<Rightarrow> byte list \<Rightarrow> int" where
  "str_cmp [] [] = 0"
| "str_cmp [] (_ # _) = -1"
| "str_cmp (_ # _) [] = 1"
| "str_cmp (x # xs) (y # ys) =
     (if sint x < sint y then -1 else if sint y < sint x then 1 else str_cmp xs ys)"

lemma str_cmp_eq_0: "str_cmp xs ys = 0 \<longleftrightarrow> xs = ys"
  by (induction xs ys rule: str_cmp.induct) (auto simp: not_less order_antisym_conv dest: signed_word_eqI)

lemma str_cmp_swap: "str_cmp ys xs = - str_cmp xs ys"
  by (induction xs ys rule: str_cmp.induct) auto

lemma str_cmp_range: "str_cmp xs ys \<in> {-1, 0, 1}"
  by (induction xs ys rule: str_cmp.induct) auto

lemma bpstrcmp_str_cmp:
  "\<lbrakk>0 \<in> set dest; 0 \<in> set src\<rbrakk> \<Longrightarrow> bpstrcmp dest src = Inr (str_cmp (c_str dest) (c_str src))"
  by (induction dest src rule: bpstrcmp.induct) (auto split: if_splits)

lemma bpstrcmp_0_iff:
  "\<lbrakk>0 \<in> set dest; 0 \<in> set src\<rbrakk> \<Longrightarrow> bpstrcmp dest src = Inr 0 \<longleftrightarrow> c_str dest = c_str src"
  by (simp add: bpstrcmp_str_cmp str_cmp_eq_0)

lemma find_board_eq:
  assumes "\<forall>b \<in> set bs. 0 \<in> set (szBoardId b)" "0 \<in> set s"
  shows "find_board s bs = Inr (find (\<lambda>b. c_str (szBoardId b) = c_str s) bs)"
  using assms by (induction bs) (auto simp: bpstrcmp_str_cmp str_cmp_eq_0)

section \<open>The table of boards\<close>

lemmas g_boards = g_hw96358gw_a_def g_huawei96358gw_b_def g_huawei96358gw_HG550_def
  g_huawei96358gw_HG550_FXO_def g_huawei96358gw_HG553_def g_huawei96358gw_HG556_def
  g_huawei96358gw_HG556iso_def g_bcm96358vw_def g_bcm96358vw16_def g_bcm96358gw_def
  g_bcm96358gw16_def g_bcm96358m_def

lemma unat_of_char [simp]: "unat (of_char c :: byte) = of_char c"
proof -
  have "(of_char c :: byte) = of_nat (of_char c)" by (simp add: of_nat_of_char)
  thus ?thesis by (simp add: unat_of_nat of_char_mod_256)
qed

lemma of_char_inject: "(of_char c :: byte) = of_char d \<longleftrightarrow> c = d"
  by (metis char_of_char unat_of_char)

lemma of_char_eq_0: "(of_char c :: byte) = 0 \<longleftrightarrow> c = CHR 0x00"
  using of_char_inject[of c "CHR 0x00"] by simp

lemma char_array_terminated: "length s < n \<Longrightarrow> 0 \<in> set (char_array n s)"
  by (simp add: char_array_def)

lemma c_str_char_array: "CHR 0x00 \<notin> set s \<Longrightarrow> c_str (char_array n s) = map of_char s"
  by (subst char_array_def, subst takeWhile_append2) (auto simp: of_char_eq_0 takeWhile_eq_Nil_iff)

lemma board_ids:
  "map szBoardId g_BoardParms =
     map (char_array 16) [''HW6358GW_A'', ''HW6358GW_B'', ''HW550'', ''HW550_FXO'', ''HW553'', ''HW556'',
       ''HW556aV2'', ''96358VW'', ''96358VW-16'', ''96358GW'', ''96358GW-16'', ''96358M'']"
  by (simp add: g_BoardParms_def g_boards)

lemma board_id_terminated: "b \<in> set g_BoardParms \<Longrightarrow> 0 \<in> set (szBoardId b)"
  by (auto simp: g_BoardParms_def g_boards char_array_terminated)

lemma board_ids_distinct: "distinct (map (\<lambda>b. c_str (szBoardId b)) g_BoardParms)"
proof -
  have "map (\<lambda>b. c_str (szBoardId b)) g_BoardParms = map c_str (map szBoardId g_BoardParms)" by simp
  thus ?thesis unfolding board_ids by (simp add: c_str_char_array of_char_inject)
qed

lemma board_id_length: "b \<in> set g_BoardParms \<Longrightarrow> length (c_str (szBoardId b)) < 16"
  by (auto simp: g_BoardParms_def g_boards c_str_char_array)

lemma find_unique:
  "\<lbrakk>distinct (map f xs); x \<in> set xs\<rbrakk> \<Longrightarrow> find (\<lambda>y. f y = f x) xs = Some x"
  by (induction xs) (auto simp: rev_image_eqI)

lemma find_board_g:
  "0 \<in> set s \<Longrightarrow> find_board s g_BoardParms = Inr (find (\<lambda>b. c_str (szBoardId b) = c_str s) g_BoardParms)"
  by (intro find_board_eq) (simp_all add: board_id_terminated)

lemma BpSetBoardId_known:
  assumes "b \<in> set g_BoardParms" "0 \<in> set s" "c_str s = c_str (szBoardId b)"
  shows "BpSetBoardId s cur = Inr (BP_SUCCESS, Some b)"
  using find_unique[OF board_ids_distinct assms(1)] assms(2,3) by (simp add: BpSetBoardId_def find_board_g)

lemma BpSetBoardId_unknown:
  assumes "0 \<in> set s" "c_str s \<notin> (\<lambda>b. c_str (szBoardId b)) ` set g_BoardParms"
  shows "BpSetBoardId s cur = Inr (BP_BOARD_ID_NOT_FOUND, cur)"
proof -
  have "find (\<lambda>b. c_str (szBoardId b) = c_str s) g_BoardParms = None"
    using assms(2) by (auto simp: find_None_iff image_iff)
  thus ?thesis using assms(1) by (simp add: BpSetBoardId_def find_board_g)
qed

lemma slice_take: "p + n \<le> m \<Longrightarrow> slice p n (take m buf) = slice p n buf"
  by (simp add: slice_def drop_take min_def)

lemma copy_board_ids_ok:
  assumes "\<forall>b \<in> set bs. 0 \<in> set (szBoardId b) \<and> length (c_str (szBoardId b)) < 16"
    and "pos + 16 * min n (length bs) \<le> length buf"
  shows "\<exists>buf'. copy_board_ids bs i (int pos) buf (int n) = Inr (i + int (min n (length bs)), buf')
    \<and> length buf' = length buf \<and> take pos buf' = take pos buf
    \<and> (\<forall>j < min n (length bs). 0 \<in> set (slice (pos + 16 * j) 16 buf')
         \<and> c_str (slice (pos + 16 * j) 16 buf') = c_str (szBoardId (bs ! j)))"
  using assms
proof (induction bs arbitrary: i pos n buf)
  case (Cons b bs)
  show ?case
  proof (cases n)
    case (Suc m)
    let ?id = "c_str (szBoardId b)" and ?b1 = "overlay pos (c_str (szBoardId b) @ [0]) buf"
    have id: "0 \<in> set (szBoardId b)" "length ?id < 16" using Cons.prems(1) by auto
    have fit: "pos + 16 + 16 * min m (length bs) \<le> length buf" using Cons.prems(2) Suc by simp
    obtain buf' where b': "copy_board_ids bs (i + 1) (int (pos + 16)) ?b1 (int m) = Inr (i + 1 + int (min m (length bs)), buf')"
      "length buf' = length ?b1" "take (pos + 16) buf' = take (pos + 16) ?b1"
      "\<forall>j < min m (length bs). 0 \<in> set (slice (pos + 16 + 16 * j) 16 buf')
         \<and> c_str (slice (pos + 16 + 16 * j) 16 buf') = c_str (szBoardId (bs ! j))"
      using Cons.IH[of "pos + 16" m ?b1 "i + 1"] Cons.prems(1) fit id(2) by auto
    have "slice pos 16 buf' = slice pos 16 (take (pos + 16) ?b1)"
      using b'(3) slice_take[of pos 16 "pos + 16" buf'] by simp
    also have "\<dots> = ?id @ 0 # drop (pos + length ?id + 1) (take (pos + 16) buf)"
      using fit id(2) by (simp add: slice_take) (simp add: slice_def overlay_def drop_take take_Cons')
    finally have h: "slice pos 16 buf' = ?id @ 0 # drop (pos + length ?id + 1) (take (pos + 16) buf)" .
    have "c_str (slice pos 16 buf') = ?id" unfolding h by (subst takeWhile_append2) (auto dest: set_takeWhileD)
    moreover have "0 \<in> set (slice pos 16 buf')" unfolding h by simp
    moreover have "take pos buf' = take pos buf"
      using arg_cong[OF b'(3), of "take pos"] fit by (simp add: overlay_def)
    moreover have "mem_wr buf (int pos) (?id @ [0]) = Inr ?b1" using fit id(2) by simp
    ultimately show ?thesis using b' id Suc fit
      by (intro exI[of _ buf']) (auto simp: c_string_def add.commute less_Suc_eq_0_disj add.assoc)
  qed auto
qed simp

section \<open>The pins of a board\<close>

lemmas bp_getter_defs =
  BpGetPressAndHoldResetGpio_def BpGetRestoreDefCfgGpio_def BpGetDiagnoseEthPortGpio_def
  BpGetLan1LinkUpLedGpio_def BpGetLan1LinkDownLedGpio_def BpGetLan2LinkUpLedGpio_def
  BpGetLan2LinkDownLedGpio_def BpGetLan3LinkUpLedGpio_def BpGetLan3LinkDownLedGpio_def
  BpGetLan4LinkUpLedGpio_def BpGetLan4LinkDownLedGpio_def BpGetMessageLedGpio_def
  BpGetHspaEnableGpio_def BpGetAdslLedGpio_def BpGetAdslFailLedGpio_def BpGetWirelessLedGpio_def
  BpGetWirelessFailLedGpio_def BpGetWirelessAntInUse_def BpGetWirelessFlags_def
  BpGetWirelessSesBtnGpio_def BpGetWirelessSesExtIntr_def BpGetWirelessSesLedGpio_def
  BpGetUsbLedGpio_def BpGetHpnaLedGpio_def BpGetWanDataFailLedGpio_def BpGetWanDataLedGpio_def
  BpGetHspaLedGpio_def BpGetHspaFailLedGpio_def BpGetInternetLedGpio_def
  BpGetInternetFailLedGpio_def BpGetPppLedGpio_def BpGetPppFailLedGpio_def
  BpGetBootloaderPowerOnLedGpio_def BpGetBootloaderResetCfgLedGpio_def
  BpGetBootloaderStopLedGpio_def BpGetPotsResetGpio_def BpGetVoipLedGpio_def
  BpGetTelLine0LedGpio_def BpGetTelLine1LedGpio_def BpGetPstnLedGpio_def

text \<open>Every pin the access functions report for a board: the name of the function, its code and its value.\<close>

definition board_pins :: "BOARD_PARAMETERS option \<Rightarrow> (string \<times> int \<times> u16) list" where
  "board_pins bp =
     [(''PressAndHoldReset'', BpGetPressAndHoldResetGpio bp),
      (''RestoreDefCfg'', BpGetRestoreDefCfgGpio bp),
      (''DiagnoseEthPort'', BpGetDiagnoseEthPortGpio bp),
      (''Lan1LinkUpLed'', BpGetLan1LinkUpLedGpio bp),
      (''Lan1LinkDownLed'', BpGetLan1LinkDownLedGpio bp),
      (''Lan2LinkUpLed'', BpGetLan2LinkUpLedGpio bp),
      (''Lan2LinkDownLed'', BpGetLan2LinkDownLedGpio bp),
      (''Lan3LinkUpLed'', BpGetLan3LinkUpLedGpio bp),
      (''Lan3LinkDownLed'', BpGetLan3LinkDownLedGpio bp),
      (''Lan4LinkUpLed'', BpGetLan4LinkUpLedGpio bp),
      (''Lan4LinkDownLed'', BpGetLan4LinkDownLedGpio bp),
      (''MessageLed'', BpGetMessageLedGpio bp), (''HspaEnable'', BpGetHspaEnableGpio bp),
      (''AdslLed'', BpGetAdslLedGpio bp), (''AdslFailLed'', BpGetAdslFailLedGpio bp),
      (''WirelessLed'', BpGetWirelessLedGpio bp),
      (''WirelessFailLed'', BpGetWirelessFailLedGpio bp),
      (''WirelessSesBtn'', BpGetWirelessSesBtnGpio bp),
      (''WirelessSesLed'', BpGetWirelessSesLedGpio bp), (''UsbLed'', BpGetUsbLedGpio bp),
      (''HpnaLed'', BpGetHpnaLedGpio bp), (''WanDataLed'', BpGetWanDataLedGpio bp),
      (''WanDataFailLed'', BpGetWanDataFailLedGpio bp), (''HspaLed'', BpGetHspaLedGpio bp),
      (''HspaFailLed'', BpGetHspaFailLedGpio bp), (''InternetLed'', BpGetInternetLedGpio bp),
      (''InternetFailLed'', BpGetInternetFailLedGpio bp), (''PppLed'', BpGetPppLedGpio bp),
      (''PppFailLed'', BpGetPppFailLedGpio bp),
      (''BootloaderPowerOnLed'', BpGetBootloaderPowerOnLedGpio bp),
      (''BootloaderResetCfgLed'', BpGetBootloaderResetCfgLedGpio bp),
      (''BootloaderStopLed'', BpGetBootloaderStopLedGpio bp),
      (''PotsReset'', BpGetPotsResetGpio bp), (''VoipLed'', BpGetVoipLedGpio bp),
      (''TelLine0Led'', BpGetTelLine0LedGpio bp), (''TelLine1Led'', BpGetTelLine1LedGpio bp),
      (''PstnLed'', BpGetPstnLedGpio bp), (''VoipReset0'', BpGetVoipResetGpio 0 bp),
      (''VoipReset1'', BpGetVoipResetGpio 1 bp), (''VoipIntr0'', BpGetVoipIntrGpio 0 bp),
      (''VoipIntr1'', BpGetVoipIntrGpio 1 bp),
      (''FxoRelayCtl'', BpGetFxoRelayCtlGpio BP_NOT_DEFINED bp),
      (''FxoRingDetc'', BpGetFxoRingDetcGpio BP_NOT_DEFINED bp),
      (''FxoLoopDetc'', BpGetFxoLoopDetcGpio BP_NOT_DEFINED bp),
      (''BoardVersion0'', BpGetBoardVesionGpio 0 bp),
      (''BoardVersion1'', BpGetBoardVesionGpio 1 bp),
      (''BoardVersion2'', BpGetBoardVesionGpio 2 bp),
      (''PCBVersion0'', BpGetPCBVesionGpio 0 BP_NOT_DEFINED bp),
      (''PCBVersion1'', BpGetPCBVesionGpio 1 BP_NOT_DEFINED bp)]
     @ (case BpGetRj11InnerOuterPairGpios bp of (r, inner, outer) \<Rightarrow> [(''Rj11Inner'', r, inner), (''Rj11Outer'', r, outer)])
     @ (case BpGetRtsCtsUartGpios bp of (r, rts, cts) \<Rightarrow> [(''UartRts'', r, rts), (''UartCts'', r, cts)])
     @ map (\<lambda>(name, v). (name, bp_code (of_int v), of_int v))
         [(''VcopeReset'', BpGetVcopeGpio 1 bp), (''VcopeRelay'', BpGetVcopeGpio 2 bp)]"


lemmas board_eval = board_pins_def BpGetVcopeGpio_def BpGetRj11InnerOuterPairGpios_def BpGetRtsCtsUartGpios_def
  BpGetVoipResetGpio_def BpGetVoipIntrGpio_def bp_getter_defs bp_value_def dsp_value_def fxo_value_def bp_code_def
  BpGetVoipDspConfig_def BpGetFxoRelayCtlGpio_def BpGetFxoRingDetcGpio_def BpGetFxoLoopDetcGpio_def
  BpGetBoardVesionGpio_def BpGetPCBVesionGpio_def g_boards

section \<open>Properties\<close>

text \<open>C17: every id that \<^verbatim>\<open>BpGetBoardIds\<close> lists is accepted by \<^verbatim>\<open>BpSetBoardId\<close>, which
  selects the board it was listed for: the ids are terminated, fit their 16 byte slots and are
  distinct. The number of ids is the smaller of the caller's size and the twelve boards.\<close>

theorem board_ids_roundtrip:
  assumes "16 * min n (length g_BoardParms) \<le> length buf"
  shows "\<exists>buf'. BpGetBoardIds buf (int n) = Inr (int (min n (length g_BoardParms)), buf')
    \<and> (\<forall>i < min n (length g_BoardParms). \<forall>cur.
         BpSetBoardId (slice (16 * i) 16 buf') cur = Inr (BP_SUCCESS, Some (g_BoardParms ! i)))"
proof -
  obtain buf' where b: "BpGetBoardIds buf (int n) = Inr (int (min n (length g_BoardParms)), buf')"
    "\<forall>i < min n (length g_BoardParms). 0 \<in> set (slice (16 * i) 16 buf')
         \<and> c_str (slice (16 * i) 16 buf') = c_str (szBoardId (g_BoardParms ! i))"
    using copy_board_ids_ok[of g_BoardParms 0 n buf 0] assms board_id_terminated board_id_length
    by (auto simp: BpGetBoardIds_def)
  thus ?thesis using BpSetBoardId_known by (intro exI[of _ buf']) simp
qed

theorem board_ids_roundtrip_witness:
  "\<exists>buf'. BpGetBoardIds (replicate 32 0) (int 2) = Inr (int (min 2 (length g_BoardParms)), buf')
    \<and> (\<forall>i < min 2 (length g_BoardParms). \<forall>cur.
         BpSetBoardId (slice (16 * i) 16 buf') cur = Inr (BP_SUCCESS, Some (g_BoardParms ! i)))"
  by (rule board_ids_roundtrip) simp

text \<open>C26: an id that names no board of the table is refused and leaves the selected board as it was.\<close>

theorem board_id_unknown_rejected:
  assumes "0 \<in> set s" "\<forall>b \<in> set g_BoardParms. c_str (szBoardId b) \<noteq> c_str s"
  shows "BpSetBoardId s cur = Inr (BP_BOARD_ID_NOT_FOUND, cur)"
  using assms by (intro BpSetBoardId_unknown) auto

theorem board_id_unknown_rejected_witness:
  "BpSetBoardId (char_array 16 ''HG520'') None = Inr (BP_BOARD_ID_NOT_FOUND, None)"
  by (rule board_id_unknown_rejected)
    (simp_all add: char_array_terminated g_BoardParms_def g_boards c_str_char_array of_char_inject)


text \<open>The 96358VW initialiser leaves out the chip select, so that the fields after it hold
  their neighbours' values: the relay pin is the one meant for ring detection, the ring pin the one
  meant for loop detection, the loop pin is the SLIC type, and the SLIC type reads as not defined.\<close>

theorem bcm96358vw_shifted:
  "BpGetVoipChipSelect 0 (Some g_bcm96358vw) = (BP_SUCCESS, 14)
   \<and> BpGetFxoRelayCtlGpio v (Some g_bcm96358vw) = (BP_SUCCESS, BP_GPIO_AH 15)
   \<and> BpGetFxoRingDetcGpio v (Some g_bcm96358vw) = (BP_SUCCESS, BP_GPIO_AL 16)
   \<and> BpGetFxoLoopDetcGpio v (Some g_bcm96358vw) = (BP_SUCCESS, 2)
   \<and> BpGetSlicType (Some g_bcm96358vw) = (BP_VALUE_NOT_DEFINED, Slic_Not_Defined)
   \<and> BpGetDAAType (Some g_bcm96358vw) = (BP_SUCCESS, DAA_CIRCUIT)"
  by (simp add: board_eval BpGetVoipChipSelect_def BpGetSlicType_def BpGetDAAType_def)

lemma srom_ids_other:
  "b \<in> set g_BoardParms \<Longrightarrow> p \<in> set wlanPaInfo \<Longrightarrow> bpstrcmp (szBoardId b) (szboardId p) \<in> {Inr 1, Inr (-1)}"
  by (auto simp: g_BoardParms_def wlanPaInfo_def g_boards char_array_def)

lemma srom_find_none:
  assumes "\<forall>p \<in> set ps. bpstrcmp (szBoardId b) (szboardId p) \<in> {Inr 1, Inr (-1)}"
  shows "srom_find ps chip base n (Some b) = Inr (BP_BOARD_ID_NOT_FOUND, base)"
  using assms by (induction ps) auto

lemma srom_ids:
  "bpstrcmp (char_array 16 ''96348W3'') (char_array 16 ''96348W3-10'') = Inr (-1)"
  "bpstrcmp (char_array 16 ''96348W3'') (char_array 16 ''96348W3'') = Inr 0"
  by (simp_all add: bpstrcmp_str_cmp char_array_terminated c_str_char_array)

text \<open>The wireless SROM patch never applies to a board of this family.\<close>

theorem srom_patch_unused:
  assumes "b \<in> set g_BoardParms"
  shows "BpUpdateWirelessSromMap chip (Some base) n (Some b) = Inr (BP_BOARD_ID_NOT_FOUND, Some base)"
  using srom_find_none[of wlanPaInfo b chip base n] srom_ids_other[OF assms]
  by (auto simp: BpUpdateWirelessSromMap_def)

theorem srom_patch_unused_witness:
  "BpUpdateWirelessSromMap 0x4318 (Some []) 1 (Some g_huawei96358gw_HG556) = Inr (BP_BOARD_ID_NOT_FOUND, Some [])"
  by (rule srom_patch_unused) (simp add: g_BoardParms_def)

text \<open>C36: on a board it is meant for, the wireless SROM patch asks for a map of 49 words and writes
  word 49, one past its end.\<close>

theorem srom_patch_overrun:
  assumes "length base = 49" "szBoardId b = char_array 16 ''96348W3''"
  shows "BpUpdateWirelessSromMap 0x4318 (Some base) 49 (Some b) = Inl OutOfBounds"
  using assms by (simp add: BpUpdateWirelessSromMap_def wlanPaInfo_def srom_pa0b_def srom_ids mem_wr_def)

theorem srom_patch_overrun_witness:
  "BpUpdateWirelessSromMap 0x4318 (Some (replicate 49 0)) 49
     (Some (g_huawei96358gw_HG556\<lparr>szBoardId := char_array 16 ''96348W3''\<rparr>)) = Inl OutOfBounds"
  by (rule srom_patch_overrun) simp_all

end
