(* ===== verification/Gpio.thy ===== *)
theory Gpio
  imports Board_Parms_Correct
begin

text \<open>
  The GPIO pins as \<^verbatim>\<open>board.c\<close> and \<^verbatim>\<open>bcm63xx_flash.c\<close> use them: the registers of the
  chip (\<^verbatim>\<open>6358_map_part.h\<close>), reading and driving a pin, and what is read from pins: the
  hardware type, the manufacturer, the PCB version and the buttons.
\<close>

section \<open>Registers and masks\<close>

record gpio_regs =
  GPIODir_high :: u32
  GPIODir :: u32
  GPIOio_high :: u32
  GPIOio :: u32

definition GPIO_NUM_TO_MASK :: "int \<Rightarrow> u32" where
  "GPIO_NUM_TO_MASK X = (if X AND 0x3F < 32 then push_bit (nat (X AND 0x1F)) 1 else 0)"

definition GPIO_NUM_TO_MASK_HIGH :: "int \<Rightarrow> u32" where
  "GPIO_NUM_TO_MASK_HIGH X = (if X AND 0x3F \<ge> 32 then push_bit (nat ((X - 32) AND 0x07)) 1 else 0)"

section \<open>Reading and driving a pin\<close>

text \<open>The register is first stored into an \<^verbatim>\<open>unsigned char\<close> and only then shifted.\<close>

definition kerSysGetGPIO :: "u16 \<Rightarrow> gpio_regs \<Rightarrow> byte" where
  "kerSysGetGPIO ucGpioNum r =
     (let n = unat (ucGpioNum AND BP_GPIO_NUM_MASK);
          (m, ucGpioValue) = (if n \<ge> 32 then (n - 32, ucast (GPIOio_high r) :: byte)
                              else (n, ucast (GPIOio r))) in
      drop_bit m ucGpioValue AND 1)"

datatype GPIO_STATE = GPIO_LOW | GPIO_HIGH

definition SetGpio :: "int \<Rightarrow> GPIO_STATE \<Rightarrow> gpio_regs \<Rightarrow> gpio_regs" where
  "SetGpio gpio state r =
     (if gpio \<ge> 32
      then let m = GPIO_NUM_TO_MASK_HIGH gpio in
           r\<lparr>GPIODir_high := GPIODir_high r OR m,
             GPIOio_high := (if state = GPIO_HIGH then GPIOio_high r OR m else GPIOio_high r AND NOT m)\<rparr>
      else let m = GPIO_NUM_TO_MASK gpio in
           r\<lparr>GPIODir := GPIODir r OR m,
             GPIOio := (if state = GPIO_HIGH then GPIOio r OR m else GPIOio r AND NOT m)\<rparr>)"

definition kerSysSetGPIO :: "u16 \<Rightarrow> GPIO_STATE \<Rightarrow> gpio_regs \<Rightarrow> gpio_regs" where
  "kerSysSetGPIO ucGpioNum state r = SetGpio (uint ucGpioNum) state r"

definition kerRecoverDataCard :: "BOARD_PARAMETERS option \<Rightarrow> gpio_regs \<Rightarrow> int \<times> gpio_regs" where
  "kerRecoverDataCard g_pCurrentBp r =
     (case BpGetHspaEnableGpio g_pCurrentBp of
        (ret, usGpioHspa) \<Rightarrow>
          if BP_SUCCESS = ret then (0, SetGpio (uint usGpioHspa) GPIO_HIGH r) else (-1, r))"

section \<open>Versions\<close>

definition GetBoardVersion :: "gpio_regs \<Rightarrow> byte" where
  "GetBoardVersion r =
     push_bit 1 (kerSysGetGPIO (BP_GPIO_AL 5) r) OR kerSysGetGPIO (BP_GPIO_AL 4) r"

definition GetHarewareType :: "gpio_regs \<Rightarrow> byte" where
  "GetHarewareType r = GetBoardVersion r"

text \<open>The same in \<^verbatim>\<open>board.c\<close>, computed on \<^verbatim>\<open>int\<close>.\<close>

definition kerSysGetBoardVersion :: "gpio_regs \<Rightarrow> byte" where
  "kerSysGetBoardVersion r =
     of_int (push_bit 1 (uint (kerSysGetGPIO (BP_GPIO_AL 5) r)) OR uint (kerSysGetGPIO (BP_GPIO_AL 4) r))"

definition kerSysGetBoardManufacturer :: "gpio_regs \<Rightarrow> byte" where
  "kerSysGetBoardManufacturer r =
     push_bit 1 (kerSysGetGPIO (BP_GPIO_AH 35) r) OR kerSysGetGPIO (BP_GPIO_AH 33) r"

abbreviation (input) NOT_SUPPROT_GET_VERSION :: byte where "NOT_SUPPROT_GET_VERSION \<equiv> 0xFF"

definition pPCBVersion :: "byte list" where
  "pPCBVersion = map of_char ''ABCDEFG0''"

text \<open>The loop over the version bits: \<open>None\<close> when a pin is not defined.\<close>

fun pcb_version_bits :: "nat list \<Rightarrow> int \<Rightarrow> BOARD_PARAMETERS option \<Rightarrow> gpio_regs \<Rightarrow> int option" where
  "pcb_version_bits [] iPCBVerNum bp r = Some iPCBVerNum"
| "pcb_version_bits (i # is) iPCBVerNum bp r =
     (case BpGetPCBVesionGpio (of_nat i) 0 bp of
        (iRet, usGPIOValue) \<Rightarrow>
          if BP_SUCCESS = iRet
          then pcb_version_bits is (push_bit i (uint (kerSysGetGPIO usGPIOValue r)) OR iPCBVerNum) bp r
          else None)"

definition kerSysGetPCBVersion :: "BOARD_PARAMETERS option \<Rightarrow> gpio_regs \<Rightarrow> byte res" where
  "kerSysGetPCBVersion bp r =
     (if BP_SUCCESS \<noteq> BpIsSupportBoardVersion bp then Inr NOT_SUPPROT_GET_VERSION
      else case pcb_version_bits [0, 1] 0 bp r of
             None \<Rightarrow> Inr NOT_SUPPROT_GET_VERSION
           | Some v \<Rightarrow> if 0 \<le> v \<and> v < int (length pPCBVersion) then Inr (pPCBVersion ! nat v)
                       else Inl OutOfBounds)"

section \<open>Buttons\<close>

text \<open>The common body of the four button functions: zero while the button is pressed (the pin is low),
  a positive value while it is not, \<open>-1\<close> on a board without the button.\<close>

definition button_status :: "int \<times> u16 \<Rightarrow> gpio_regs \<Rightarrow> int" where
  "button_status g r =
     (case g of (ret, unGpio) \<Rightarrow>
        if ret = BP_SUCCESS
        then sint (if unGpio AND BP_GPIO_NUM_MASK \<ge> 32
                   then GPIOio_high r AND GPIO_NUM_TO_MASK_HIGH (uint unGpio)
                   else GPIOio r AND GPIO_NUM_TO_MASK (uint unGpio))
        else -1)"

definition kerSysGetResetStatus :: "BOARD_PARAMETERS option \<Rightarrow> gpio_regs \<Rightarrow> int" where
  "kerSysGetResetStatus bp r = button_status (BpGetPressAndHoldResetGpio bp) r"

definition kerSysGetRestoreDefCfgBtnStatus :: "BOARD_PARAMETERS option \<Rightarrow> gpio_regs \<Rightarrow> int" where
  "kerSysGetRestoreDefCfgBtnStatus bp r = button_status (BpGetRestoreDefCfgGpio bp) r"

definition kerSysGetDiagnoseEthPortBtnStatus :: "BOARD_PARAMETERS option \<Rightarrow> gpio_regs \<Rightarrow> int" where
  "kerSysGetDiagnoseEthPortBtnStatus bp r = button_status (BpGetDiagnoseEthPortGpio bp) r"

definition kerSysGetWlanButtonStatus :: "BOARD_PARAMETERS option \<Rightarrow> gpio_regs \<Rightarrow> int" where
  "kerSysGetWlanButtonStatus bp r = button_status (BpGetWirelessSesBtnGpio bp) r"

section \<open>Lemmas\<close>

text \<open>Level and direction of pin \<open>n\<close>.\<close>

definition pin_level :: "nat \<Rightarrow> gpio_regs \<Rightarrow> bool" where
  "pin_level n r = (if n < 32 then bit (GPIOio r) n else bit (GPIOio_high r) (n - 32))"

definition pin_output :: "nat \<Rightarrow> gpio_regs \<Rightarrow> bool" where
  "pin_output n r = (if n < 32 then bit (GPIODir r) n else bit (GPIODir_high r) (n - 32))"

lemma and_one_bit: "(w :: 'a::len word) AND 1 = of_bool (bit w 0)"
  by (simp add: and_one_eq odd_iff_mod_2_eq_one bit_0)

lemma kerSysGetGPIO_eq:
  assumes "unat (g AND 0xFF) = n"
  shows "kerSysGetGPIO g r =
    of_bool (if n < 32 then n < 8 \<and> pin_level n r else n < 40 \<and> pin_level n r)"
  using assms by (auto simp: kerSysGetGPIO_def Let_def and_one_bit pin_level_def bit_simps)

lemma int_and_mask: "0 \<le> X \<Longrightarrow> X AND 0x3F = X mod 64" "0 \<le> X \<Longrightarrow> X AND 0x1F = X mod 32" "0 \<le> X \<Longrightarrow> X AND 7 = X mod 8" for X :: int
  using take_bit_eq_mask[of 6 X] take_bit_eq_mask[of 5 X] take_bit_eq_mask[of 3 X]
  by (simp_all add: mask_eq_exp_minus_1 take_bit_eq_mod and.commute)

lemma masks_low: "n < 32 \<Longrightarrow> GPIO_NUM_TO_MASK (int n) = push_bit n 1"
  by (simp add: GPIO_NUM_TO_MASK_def int_and_mask)

lemma masks_high: "32 \<le> n \<Longrightarrow> n < 40 \<Longrightarrow> GPIO_NUM_TO_MASK_HIGH (int n) = push_bit (n - 32) 1"
proof -
  assume n: "32 \<le> n" "n < 40"
  hence "int n AND 63 = int n" "(int n - 32) AND 7 = int (n - 32)" by (simp_all add: int_and_mask of_nat_diff)
  moreover have "nat (int n - 32) = n - 32" using n by simp
  ultimately show ?thesis using n by (simp add: GPIO_NUM_TO_MASK_HIGH_def)
qed


lemma SetGpio_levels:
  assumes "n < 40" "m < 40"
  shows "pin_level m (SetGpio (int n) st r) = (if m = n then st = GPIO_HIGH else pin_level m r)"
    and "pin_output m (SetGpio (int n) st r) = (m = n \<or> pin_output m r)"
  using assms by (auto simp: SetGpio_def pin_level_def pin_output_def masks_low masks_high Let_def bit_simps)

lemma gpio_num: "n < 40 \<Longrightarrow> unat ((of_nat n :: u16) AND 0xFF) = n"
proof -
  assume n: "n < 40"
  have "(0xFF :: u16) = mask 8" by (simp add: mask_eq_exp_minus_1)
  hence "(of_nat n :: u16) AND 0xFF = take_bit 8 (of_nat n)" by (simp add: take_bit_eq_mask)
  thus ?thesis using n by (simp add: unsigned_take_bit_eq unat_of_nat take_bit_nat_eq_self)
qed

lemma GetBoardVersion_eq:
  "GetBoardVersion r = of_nat (2 * of_bool (pin_level 5 r) + of_bool (pin_level 4 r))"
  by (simp add: GetBoardVersion_def kerSysGetGPIO_eq[of _ 5] kerSysGetGPIO_eq[of _ 4])

lemma pcb_version_range:
  "pcb_version_bits [0, 1] 0 bp r = Some v \<Longrightarrow> 0 \<le> v \<and> v < 4"
proof -
  assume "pcb_version_bits [0, 1] 0 bp r = Some v"
  then obtain g0 g1 where "v = push_bit 1 (uint (kerSysGetGPIO g1 r)) OR uint (kerSysGetGPIO g0 r)"
    by (auto split: prod.splits if_splits)
  thus ?thesis by (auto simp: kerSysGetGPIO_eq[OF refl])
qed

lemma kerSysGetPCBVersion_eq:
  "kerSysGetPCBVersion bp r = Inr (if BP_SUCCESS \<noteq> BpIsSupportBoardVersion bp then NOT_SUPPROT_GET_VERSION
     else case pcb_version_bits [0, 1] 0 bp r of None \<Rightarrow> NOT_SUPPROT_GET_VERSION
          | Some v \<Rightarrow> pPCBVersion ! nat v)"
  using pcb_version_range[of bp r]
  by (auto simp: kerSysGetPCBVersion_def pPCBVersion_def split: option.splits)

section \<open>Properties\<close>

text \<open>C18: driving a pin makes it an output with the given level and leaves every other pin as it was;
  reading it back returns the level for pins 0 to 7 and 32 to 39, and low for pins 8 to 31, because
  the register is cut to eight bits before the pin is shifted down.\<close>

theorem gpio_set_get:
  assumes "n < 40"
  shows "(\<forall>m < 40. pin_level m (SetGpio (int n) st r) = (if m = n then st = GPIO_HIGH else pin_level m r)
            \<and> pin_output m (SetGpio (int n) st r) = (m = n \<or> pin_output m r))
         \<and> kerSysGetGPIO (of_nat n) (SetGpio (int n) st r)
             = of_bool (st = GPIO_HIGH \<and> (n < 8 \<or> 32 \<le> n))"
  using assms kerSysGetGPIO_eq[OF gpio_num[OF assms]] by (auto simp: SetGpio_levels)

theorem gpio_set_get_witness:
  "kerSysGetGPIO (of_nat 10) (SetGpio (int 10) GPIO_HIGH
      \<lparr>GPIODir_high = 0, GPIODir = 0, GPIOio_high = 0, GPIOio = 0\<rparr>) = 0"
  using gpio_set_get[of 10 GPIO_HIGH "\<lparr>GPIODir_high = 0, GPIODir = 0, GPIOio_high = 0, GPIOio = 0\<rparr>"] by simp

text \<open>C39: the hardware type is read from pins 5 and 4, is at most 3, and is the same in
  \<^verbatim>\<open>bcm63xx_flash.c\<close> and \<^verbatim>\<open>board.c\<close>.\<close>

theorem hardware_type_pins:
  "unat (GetHarewareType r) = 2 * of_bool (pin_level 5 r) + of_bool (pin_level 4 r)
   \<and> kerSysGetBoardVersion r = GetHarewareType r"
  by (auto simp: GetHarewareType_def GetBoardVersion_eq kerSysGetBoardVersion_def
      kerSysGetGPIO_eq[of _ 5] kerSysGetGPIO_eq[of _ 4])

text \<open>C38: the PCB version is a letter from A to D or \<^verbatim>\<open>NOT_SUPPROT_GET_VERSION\<close>; the index into
  the table of letters is always within it. On the HG550 FXO board, whose version pins are 10
  and 11, it is A whatever the pins are.\<close>

theorem pcb_version_letters:
  "\<exists>v \<in> set [0x41, 0x42, 0x43, 0x44, NOT_SUPPROT_GET_VERSION]. kerSysGetPCBVersion bp r = Inr v
     \<and> (bp = Some g_huawei96358gw_HG550_FXO \<longrightarrow> v = 0x41)"
proof -
  have "pPCBVersion ! nat v \<in> {0x41, 0x42, 0x43, 0x44}" if "0 \<le> v" "v < 4" for v
  proof -
    have "v = 0 \<or> v = 1 \<or> v = 2 \<or> v = 3" using that by linarith
    thus ?thesis by (auto simp: pPCBVersion_def)
  qed
  moreover have "kerSysGetPCBVersion (Some g_huawei96358gw_HG550_FXO) r = Inr 0x41"
    by (simp add: kerSysGetPCBVersion_eq BpIsSupportBoardVersion_def hw_cfg_def board_eval
        kerSysGetGPIO_eq[of _ 10] kerSysGetGPIO_eq[of _ 11] pPCBVersion_def)
  ultimately show ?thesis using pcb_version_range[of bp r]
    by (auto simp: kerSysGetPCBVersion_eq split: option.splits)
qed

theorem pcb_version_letters_witness:
  "kerSysGetPCBVersion (Some g_huawei96358gw_HG550_FXO)
     \<lparr>GPIODir_high = 0, GPIODir = 0, GPIOio_high = 0, GPIOio = 0xFFFFFFFF\<rparr> = Inr 0x41"
  using pcb_version_letters[of "Some g_huawei96358gw_HG550_FXO"
      "\<lparr>GPIODir_high = 0, GPIODir = 0, GPIOio_high = 0, GPIOio = 0xFFFFFFFF\<rparr>"] by auto

text \<open>C37: on the HG556 boards \<^verbatim>\<open>kerRecoverDataCard\<close> drives nothing. On the HW556 it reports success, but the
  pin is passed with its active-low flag, which selects the high register with an empty mask; on the
  HW556aV2, which has no such pin, it reports failure.\<close>

theorem recover_data_card_no_effect:
  "kerRecoverDataCard (Some g_huawei96358gw_HG556) r = (0, r)
   \<and> kerRecoverDataCard (Some g_huawei96358gw_HG556iso) r = (-1, r)"
  by (simp add: kerRecoverDataCard_def board_eval SetGpio_def GPIO_NUM_TO_MASK_HIGH_def)

end
