(* ===== verification/Flash_Store.thy ===== *)
theory Flash_Store
  imports Flash_Api Gpio
begin

text \<open>
  The partition store of \<^verbatim>\<open>bcm63xx_flash.c\<close>: allocation with retries, reading and rewriting a
  range of sectors (\<^verbatim>\<open>getSharedBlks\<close>, \<^verbatim>\<open>setSharedBlks\<close>), and the get, set and clear
  operations of every partition. The kernel side state is the record \<open>kersys\<close> over the state \<open>'s\<close>
  of the flash driver; it also holds the selected board and the GPIO registers. Heap blocks are numbers: \<open>heap_live\<close> is the set of blocks in use, and releasing
  a block that is not in use is a fault. Whether the \<open>n\<close>-th call of \<^verbatim>\<open>kmalloc\<close> succeeds is
  given by \<open>kmalloc_ok\<close>, so that every allocation failure is covered.
\<close>

section \<open>State\<close>

record flash_part =
  part_start_blk :: int
  part_number_blk :: int
  part_length :: int
  part_blk_offset :: int

record flash_addr_info =
  flash_persistent :: flash_part
  flash_psi_backup :: flash_part
  flash_fix :: flash_part
  flash_avail :: flash_part
  flash_variable :: flash_part
  flash_firewalllog :: flash_part
  flash_systemlog :: flash_part
  flash_wlanparam :: flash_part
  flash_scratch_pad :: flash_part
  flash_nvram :: flash_part

record 's kersys =
  flash_dev :: 's
  g_flash_info :: "'s flash_device_info option"
  fInfo :: flash_addr_info
  flashInitialized :: bool
  cur_bp :: "BOARD_PARAMETERS option"
  gpio :: gpio_regs
  kmalloc_ok :: "nat \<Rightarrow> bool"
  kmalloc_calls :: nat
  heap_live :: "nat set"

abbreviation (input) NVRAM_LENGTH :: int where "NVRAM_LENGTH \<equiv> 1024"

section \<open>The heap\<close>

definition kmalloc :: "'s kersys \<Rightarrow> nat option \<times> 's kersys" where
  "kmalloc k =
     (let n = kmalloc_calls k in
      if kmalloc_ok k n
      then (Some n, k\<lparr>kmalloc_calls := Suc n, heap_live := insert n (heap_live k)\<rparr>)
      else (None, k\<lparr>kmalloc_calls := Suc n\<rparr>))"

text \<open>The loop of \<^verbatim>\<open>retriedKmalloc\<close>: \<open>left\<close> is \<open>1000 - tryCount\<close>. It returns the pointer and
  whether \<^verbatim>\<open>tryCount\<close> is still below 1000.\<close>

fun kmalloc_tries :: "nat \<Rightarrow> 's kersys \<Rightarrow> nat option \<times> bool \<times> 's kersys" where
  "kmalloc_tries left k =
     (case kmalloc k of
        (Some p, k1) \<Rightarrow> (Some p, 0 < left, k1)
      | (None, k1) \<Rightarrow>
          (case left of 0 \<Rightarrow> (None, False, k1) | Suc l \<Rightarrow> kmalloc_tries l k1))"

declare kmalloc_tries.simps [simp del]

text \<open>The block is cleared; its content is \<open>sz\<close> zero bytes.\<close>

definition retriedKmalloc :: "int \<Rightarrow> 's kersys \<Rightarrow> (nat \<times> byte list) option \<times> 's kersys" where
  "retriedKmalloc sz k =
     (case kmalloc_tries 1000 k of
        (Some p, True, k1) \<Rightarrow> (Some (p, replicate (nat sz) 0), k1)
      | (_, _, k1) \<Rightarrow> (None, k1))"

definition retriedKfree :: "nat \<Rightarrow> 's kersys \<Rightarrow> 's kersys res" where
  "retriedKfree p k =
     (if p \<in> heap_live k then Inr (k\<lparr>heap_live := heap_live k - {p}\<rparr>) else Inl DoubleFree)"

section \<open>Ranges of sectors\<close>

definition sector_size_k :: "int \<Rightarrow> 's kersys \<Rightarrow> int res" where
  "sector_size_k i k = flash_get_sector_size (g_flash_info k) (of_int i) (flash_dev k)"

fun sum_sectors :: "int \<Rightarrow> nat \<Rightarrow> 's kersys \<Rightarrow> int res" where
  "sum_sectors i 0 k = Inr 0"
| "sum_sectors i (Suc n) k =
     bindR (sector_size_k i k) (\<lambda>sz. bindR (sum_sectors (i + 1) n k) (\<lambda>r. Inr (sz + r)))"

fun read_sectors :: "int \<Rightarrow> nat \<Rightarrow> int \<Rightarrow> byte list \<Rightarrow> 's kersys \<Rightarrow> (byte list \<times> 's kersys) res" where
  "read_sectors i 0 pos pTempBuf k = Inr (pTempBuf, k)"
| "read_sectors i (Suc n) pos pTempBuf k =
     bindR (sector_size_k i k) (\<lambda>sect_size.
     bindR (flash_read_buf (g_flash_info k) (of_int i) 0 sect_size (flash_dev k)) (\<lambda>(_, bs, d).
     bindR (mem_wr pTempBuf pos bs) (\<lambda>pTempBuf'.
       read_sectors (i + 1) n (pos + sect_size) pTempBuf' (k\<lparr>flash_dev := d\<rparr>))))"

definition getSharedBlks ::
  "int \<Rightarrow> int \<Rightarrow> 's kersys \<Rightarrow> ((nat \<times> byte list) option \<times> 's kersys) res" where
  "getSharedBlks start_blk end_blk k =
     bindR (sum_sectors start_blk (nat (end_blk - start_blk)) k) (\<lambda>usedBlkSize.
       case retriedKmalloc usedBlkSize k of
         (None, k1) \<Rightarrow> Inr (None, k1)
       | (Some (p, pTempBuf), k1) \<Rightarrow>
           bindR (read_sectors start_blk (nat (end_blk - start_blk)) 0 pTempBuf k1)
             (\<lambda>(pTempBuf', k2). Inr (Some (p, pTempBuf'), k2)))"

text \<open>The pointer passed to the driver is the rest of the buffer; pointers before the buffer do not
  occur, since sector sizes are not negative.\<close>

fun write_sectors :: "int \<Rightarrow> nat \<Rightarrow> nat \<Rightarrow> byte list \<Rightarrow> 's kersys \<Rightarrow> (int \<times> 's kersys) res" where
  "write_sectors i 0 pos pTempBuf k = Inr (0, k)"
| "write_sectors i (Suc n) pos pTempBuf k =
     bindR (sector_size_k i k) (\<lambda>sect_size.
     bindR (flash_sector_erase_int (g_flash_info k) (of_int i) (flash_dev k)) (\<lambda>(_, d).
     bindR (flash_write_buf (g_flash_info k) (of_int i) 0 (drop pos pTempBuf) sect_size d)
       (\<lambda>(r, d').
          if r \<noteq> sect_size then Inr (-1, k\<lparr>flash_dev := d'\<rparr>)
          else write_sectors (i + 1) n (pos + nat sect_size) pTempBuf (k\<lparr>flash_dev := d'\<rparr>))))"

definition setSharedBlks :: "int \<Rightarrow> int \<Rightarrow> byte list \<Rightarrow> 's kersys \<Rightarrow> (int \<times> 's kersys) res" where
  "setSharedBlks start_blk end_blk pTempBuf k =
     write_sectors start_blk (nat (end_blk - start_blk)) 0 pTempBuf k"

section \<open>Operations on one partition\<close>

text \<open>The common bodies of the get, set and clear functions below. \<open>string\<close> is the caller's buffer,
  \<open>pos\<close> the offset within the partition and \<open>n\<close> the number of bytes copied.\<close>

definition part_read ::
  "flash_part \<Rightarrow> int \<Rightarrow> int \<Rightarrow> byte list \<Rightarrow> 's kersys \<Rightarrow> (int \<times> byte list \<times> 's kersys) res" where
  "part_read fp pos n string k =
     bindR (getSharedBlks (part_start_blk fp) (part_start_blk fp + part_number_blk fp) k)
       (\<lambda>(r, k1). case r of
          None \<Rightarrow> Inr (-1, string, k1)
        | Some (p, pBuf) \<Rightarrow>
            bindR (mem_rd pBuf (part_blk_offset fp + pos) n) (\<lambda>bs.
            bindR (mem_wr string 0 bs) (\<lambda>string'.
            bindR (retriedKfree p k1) (\<lambda>k2.
              Inr (0, string', k2)))))"

definition part_write ::
  "flash_part \<Rightarrow> int \<Rightarrow> int \<Rightarrow> byte list \<Rightarrow> 's kersys \<Rightarrow> (int \<times> 's kersys) res" where
  "part_write fp pos n string k =
     bindR (getSharedBlks (part_start_blk fp) (part_start_blk fp + part_number_blk fp) k)
       (\<lambda>(r, k1). case r of
          None \<Rightarrow> Inr (-1, k1)
        | Some (p, pBuf) \<Rightarrow>
            bindR (mem_rd string 0 n) (\<lambda>bs.
            bindR (mem_wr pBuf (part_blk_offset fp + pos) bs) (\<lambda>pBuf'.
            bindR (setSharedBlks (part_start_blk fp) (part_number_blk fp + part_start_blk fp) pBuf' k1)
              (\<lambda>(sts, k2).
            bindR (retriedKfree p k2) (\<lambda>k3.
              Inr (if sts \<noteq> 0 then -1 else 0, k3))))))"

definition part_clear :: "flash_part \<Rightarrow> 's kersys \<Rightarrow> (int \<times> 's kersys) res" where
  "part_clear fp k =
     (if part_length fp = 0 then Inr (-1, k)
      else
        bindR (getSharedBlks (part_start_blk fp) (part_start_blk fp + part_number_blk fp) k)
          (\<lambda>(r, k1). case r of
             None \<Rightarrow> Inr (-1, k1)
           | Some (p, pShareBuf) \<Rightarrow>
               bindR (mem_set pShareBuf (part_blk_offset fp) 0 (part_length fp)) (\<lambda>pShareBuf'.
               bindR (setSharedBlks (part_start_blk fp) (part_number_blk fp + part_start_blk fp)
                        pShareBuf' k1) (\<lambda>(sts, k2).
               bindR (retriedKfree p k2) (\<lambda>k3. Inr (sts, k3))))))"

text \<open>The partitions. Get, set and clear of each are declared together.\<close>

definition kerSysNvRamSet :: "byte list \<Rightarrow> int \<Rightarrow> int \<Rightarrow> 's kersys \<Rightarrow> (int \<times> 's kersys) res" where
  "kerSysNvRamSet string strLen offset k =
     (if strLen > NVRAM_LENGTH then Inr (-1, k)
      else part_write (flash_nvram (fInfo k)) offset strLen string k)"

definition kerSysEraseNvRam :: "'s kersys \<Rightarrow> (int \<times> 's kersys) res" where
  "kerSysEraseNvRam k =
     (case retriedKmalloc NVRAM_LENGTH k of
        (None, k1) \<Rightarrow> Inr (0, k1)
      | (Some (p, tempStorage), k1) \<Rightarrow>
          bindR (mem_set tempStorage 0 0xff NVRAM_LENGTH) (\<lambda>tempStorage'.
          bindR (kerSysNvRamSet tempStorage' NVRAM_LENGTH 0 k1) (\<lambda>(r, k2).
          bindR (retriedKfree p k2) (\<lambda>k3.
            Inr (if r \<noteq> 0 then 0 else 1, k3)))))"

definition kerSysPersistentGet ::
  "byte list \<Rightarrow> int \<Rightarrow> int \<Rightarrow> 's kersys \<Rightarrow> (int \<times> byte list \<times> 's kersys) res" where
  "kerSysPersistentGet string strLen offset k =
     (if strLen > part_length (flash_persistent (fInfo k)) then Inr (-1, string, k)
      else part_read (flash_persistent (fInfo k)) offset strLen string k)"

definition kerSysPersistentSet :: "byte list \<Rightarrow> int \<Rightarrow> int \<Rightarrow> 's kersys \<Rightarrow> (int \<times> 's kersys) res" where
  "kerSysPersistentSet string strLen offset k =
     (if strLen > part_length (flash_persistent (fInfo k)) then Inr (-1, k)
      else part_write (flash_persistent (fInfo k)) offset strLen string k)"

definition kerSysPersistentClear :: "'s kersys \<Rightarrow> (int \<times> 's kersys) res" where
  "kerSysPersistentClear k = part_clear (flash_persistent (fInfo k)) k"

definition kerSysPsiBackupGet ::
  "byte list \<Rightarrow> int \<Rightarrow> int \<Rightarrow> 's kersys \<Rightarrow> (int \<times> byte list \<times> 's kersys) res" where
  "kerSysPsiBackupGet string strLen offset k =
     (if strLen > part_length (flash_psi_backup (fInfo k)) then Inr (-1, string, k)
      else part_read (flash_psi_backup (fInfo k)) offset strLen string k)"

definition kerSysPsiBackupSet :: "byte list \<Rightarrow> int \<Rightarrow> int \<Rightarrow> 's kersys \<Rightarrow> (int \<times> 's kersys) res" where
  "kerSysPsiBackupSet string strLen offset k =
     (if strLen > part_length (flash_psi_backup (fInfo k)) then Inr (-1, k)
      else part_write (flash_psi_backup (fInfo k)) offset strLen string k)"

definition kerSysPsiBackupClear :: "'s kersys \<Rightarrow> (int \<times> 's kersys) res" where
  "kerSysPsiBackupClear k = part_clear (flash_psi_backup (fInfo k)) k"

definition kerSysVariableGet ::
  "byte list \<Rightarrow> int \<Rightarrow> int \<Rightarrow> 's kersys \<Rightarrow> (int \<times> byte list \<times> 's kersys) res" where
  "kerSysVariableGet string strLen offset k =
     (if strLen > part_length (flash_variable (fInfo k)) then Inr (-1, string, k)
      else part_read (flash_variable (fInfo k)) offset strLen string k)"

definition kerSysVariableSet :: "byte list \<Rightarrow> int \<Rightarrow> int \<Rightarrow> 's kersys \<Rightarrow> (int \<times> 's kersys) res" where
  "kerSysVariableSet string strLen offset k =
     (if strLen > part_length (flash_variable (fInfo k)) then Inr (-1, k)
      else part_write (flash_variable (fInfo k)) offset strLen string k)"

definition kerSysFixGet ::
  "byte list \<Rightarrow> int \<Rightarrow> int \<Rightarrow> 's kersys \<Rightarrow> (int \<times> byte list \<times> 's kersys) res" where
  "kerSysFixGet string strLen offset k =
     (if strLen > part_length (flash_fix (fInfo k)) then Inr (-1, string, k)
      else part_read (flash_fix (fInfo k)) offset strLen string k)"

definition kerSysFixSet :: "byte list \<Rightarrow> int \<Rightarrow> int \<Rightarrow> 's kersys \<Rightarrow> (int \<times> 's kersys) res" where
  "kerSysFixSet string strLen offset k =
     (if strLen > part_length (flash_fix (fInfo k)) then Inr (-1, k)
      else part_write (flash_fix (fInfo k)) offset strLen string k)"

definition kerSysFixClear :: "'s kersys \<Rightarrow> (int \<times> 's kersys) res" where
  "kerSysFixClear k = part_clear (flash_fix (fInfo k)) k"

definition kerSysAvailGet ::
  "byte list \<Rightarrow> int \<Rightarrow> int \<Rightarrow> 's kersys \<Rightarrow> (int \<times> byte list \<times> 's kersys) res" where
  "kerSysAvailGet string strLen offset k =
     (if strLen > part_length (flash_avail (fInfo k)) then Inr (-1, string, k)
      else part_read (flash_avail (fInfo k)) offset strLen string k)"

definition kerSysAvailSet :: "byte list \<Rightarrow> int \<Rightarrow> int \<Rightarrow> 's kersys \<Rightarrow> (int \<times> 's kersys) res" where
  "kerSysAvailSet string strLen offset k =
     (if strLen > part_length (flash_avail (fInfo k)) then Inr (-1, k)
      else part_write (flash_avail (fInfo k)) offset strLen string k)"

definition kerSysAvailClear :: "'s kersys \<Rightarrow> (int \<times> 's kersys) res" where
  "kerSysAvailClear k = part_clear (flash_avail (fInfo k)) k"

text \<open>The two log partitions copy their whole length and ignore \<open>offset\<close> and, but for the check,
  \<open>strLen\<close>; the WLAN parameters ignore \<open>offset\<close>.\<close>

definition kerSysFirewalllogGet ::
  "byte list \<Rightarrow> int \<Rightarrow> int \<Rightarrow> 's kersys \<Rightarrow> (int \<times> byte list \<times> 's kersys) res" where
  "kerSysFirewalllogGet string strLen offset k =
     (let fp = flash_firewalllog (fInfo k) in
      if strLen > part_length fp then Inr (-1, string, k)
      else part_read fp 0 (part_length fp) string k)"

definition kerSysFirewalllogSet :: "byte list \<Rightarrow> int \<Rightarrow> int \<Rightarrow> 's kersys \<Rightarrow> (int \<times> 's kersys) res" where
  "kerSysFirewalllogSet string strLen offset k =
     (let fp = flash_firewalllog (fInfo k) in
      if strLen > part_length fp then Inr (-1, k)
      else part_write fp 0 (part_length fp) string k)"

definition kerSysSystemLogGet ::
  "byte list \<Rightarrow> int \<Rightarrow> int \<Rightarrow> 's kersys \<Rightarrow> (int \<times> byte list \<times> 's kersys) res" where
  "kerSysSystemLogGet string strLen offset k =
     (let fp = flash_systemlog (fInfo k) in
      if strLen > part_length fp then Inr (-1, string, k)
      else part_read fp 0 (part_length fp) string k)"

definition kerSysSystemLogSet :: "byte list \<Rightarrow> int \<Rightarrow> int \<Rightarrow> 's kersys \<Rightarrow> (int \<times> 's kersys) res" where
  "kerSysSystemLogSet string strLen offset k =
     (let fp = flash_systemlog (fInfo k) in
      if strLen > part_length fp then Inr (-1, k)
      else part_write fp 0 (part_length fp) string k)"

definition kerSysWlanParamGet ::
  "byte list \<Rightarrow> int \<Rightarrow> int \<Rightarrow> 's kersys \<Rightarrow> (int \<times> byte list \<times> 's kersys) res" where
  "kerSysWlanParamGet string strLen offset k =
     (let fp = flash_wlanparam (fInfo k) in
      if strLen > part_length fp then Inr (-1, string, k)
      else part_read fp 0 strLen string k)"

definition kerSysWlanParamSet :: "byte list \<Rightarrow> int \<Rightarrow> int \<Rightarrow> 's kersys \<Rightarrow> (int \<times> 's kersys) res" where
  "kerSysWlanParamSet string strLen offset k =
     (let fp = flash_wlanparam (fInfo k) in
      if strLen > part_length fp then Inr (-1, k)
      else part_write fp 0 strLen string k)"

section \<open>Direct reads\<close>

definition kerSysFlashSizeGet :: "'s kersys \<Rightarrow> int" where
  "kerSysFlashSizeGet k = flash_get_total_size (g_flash_info k) (flash_dev k)"

definition kerSysMemoryMappedFlashSizeGet :: "'s kersys \<Rightarrow> int" where
  "kerSysMemoryMappedFlashSizeGet k =
     flash_get_total_memory_mapped_size (g_flash_info k) (flash_dev k)"

definition kerSysReadFromFlash ::
  "byte list \<Rightarrow> u32 \<Rightarrow> u32 \<Rightarrow> 's kersys \<Rightarrow> (u32 \<times> byte list \<times> 's kersys) res" where
  "kerSysReadFromFlash toaddr fromaddr len k =
     bindR (flash_get_blk (g_flash_info k) fromaddr (flash_dev k)) (\<lambda>sect.
     bindR (flash_get_memptr (g_flash_info k) (of_int sect) (flash_dev k)) (\<lambda>start.
     bindR (flash_read_buf (g_flash_info k) (of_int sect) (sint (fromaddr - start)) (sint len)
              (flash_dev k)) (\<lambda>(_, bs, d).
     bindR (mem_wr toaddr 0 bs) (\<lambda>toaddr'.
       Inr (len, toaddr', k\<lparr>flash_dev := d\<rparr>)))))"

section \<open>Allocation\<close>

text \<open>\<open>mem_available\<close>: one of the first thousand attempts succeeds. \<open>heap_wf\<close>: blocks in use
  have been handed out.\<close>

definition mem_available :: "'s kersys \<Rightarrow> bool" where
  "mem_available k \<longleftrightarrow> (\<exists>j < 1000. kmalloc_ok k (kmalloc_calls k + j))"

definition heap_wf :: "'s kersys \<Rightarrow> bool" where
  "heap_wf k \<longleftrightarrow> heap_live k \<subseteq> {..<kmalloc_calls k}"

lemma kmalloc_tries_found:
  assumes "j \<le> left" "kmalloc_ok k (kmalloc_calls k + j)"
    and "\<And>i. i < j \<Longrightarrow> \<not> kmalloc_ok k (kmalloc_calls k + i)"
  shows "kmalloc_tries left k = (Some (kmalloc_calls k + j), j < left,
     k\<lparr>kmalloc_calls := Suc (kmalloc_calls k + j), heap_live := insert (kmalloc_calls k + j) (heap_live k)\<rparr>)"
  using assms
proof (induction j arbitrary: left k)
  case 0 thus ?case by (subst kmalloc_tries.simps) (simp add: kmalloc_def Let_def)
next
  case (Suc j)
  from Suc.prems(1) obtain l where l: "left = Suc l" by (cases left) auto
  have n: "\<not> kmalloc_ok k (kmalloc_calls k)" using Suc.prems(3)[of 0] by simp
  have "kmalloc_tries l (k\<lparr>kmalloc_calls := Suc (kmalloc_calls k)\<rparr>) = (Some (Suc (kmalloc_calls k) + j), j < l,
     k\<lparr>kmalloc_calls := Suc (Suc (kmalloc_calls k) + j), heap_live := insert (Suc (kmalloc_calls k) + j) (heap_live k)\<rparr>)"
    using Suc.IH[of l "k\<lparr>kmalloc_calls := Suc (kmalloc_calls k)\<rparr>"] Suc.prems(1,2) Suc.prems(3)[of "Suc _"] l by simp
  thus ?case using n l by (subst kmalloc_tries.simps) (simp add: kmalloc_def Let_def)
qed

lemma kmalloc_tries_none:
  assumes "\<And>i. i \<le> left \<Longrightarrow> \<not> kmalloc_ok k (kmalloc_calls k + i)"
  shows "kmalloc_tries left k = (None, False, k\<lparr>kmalloc_calls := Suc (kmalloc_calls k + left)\<rparr>)"
  using assms
proof (induction left arbitrary: k)
  case 0 thus ?case using "0.prems"[of 0] by (subst kmalloc_tries.simps) (simp add: kmalloc_def Let_def)
next
  case (Suc l)
  have "kmalloc_tries l (k\<lparr>kmalloc_calls := Suc (kmalloc_calls k)\<rparr>) = (None, False, k\<lparr>kmalloc_calls := Suc (Suc (kmalloc_calls k) + l)\<rparr>)"
    using Suc.IH[of "k\<lparr>kmalloc_calls := Suc (kmalloc_calls k)\<rparr>"] Suc.prems[of "Suc _"] by simp
  thus ?case using Suc.prems[of 0] by (subst kmalloc_tries.simps) (simp add: kmalloc_def Let_def)
qed

lemma retriedKmalloc_ok:
  assumes "mem_available k"
  shows "\<exists>p \<ge> kmalloc_calls k. retriedKmalloc n k = (Some (p, replicate (nat n) 0),
     k\<lparr>kmalloc_calls := Suc p, heap_live := insert p (heap_live k)\<rparr>)"
proof -
  let ?P = "\<lambda>j. kmalloc_ok k (kmalloc_calls k + j)"
  obtain j0 where j0: "j0 < 1000" "?P j0" using assms by (auto simp: mem_available_def)
  define j where "j = (LEAST j. ?P j)"
  have j: "?P j" "j \<le> j0" "\<And>i. i < j \<Longrightarrow> \<not> ?P i"
    using LeastI[of ?P, OF j0(2)] Least_le[of ?P, OF j0(2)] not_less_Least[of _ ?P] by (auto simp: j_def)
  show ?thesis using kmalloc_tries_found[of j 1000 k, OF _ j(1,3)] j(2) j0(1)
    by (intro exI[of _ "kmalloc_calls k + j"]) (simp add: retriedKmalloc_def)
qed

text \<open>The state after 1001 attempts: a block obtained by the last one is dropped.\<close>

definition kmalloc_failed :: "'s kersys \<Rightarrow> 's kersys" where
  "kmalloc_failed k = k\<lparr>kmalloc_calls := kmalloc_calls k + 1001,
     heap_live := (if kmalloc_ok k (kmalloc_calls k + 1000)
                   then insert (kmalloc_calls k + 1000) (heap_live k) else heap_live k)\<rparr>"

lemma kmalloc_failed_sel [simp]:
  "flash_dev (kmalloc_failed k) = flash_dev k" "fInfo (kmalloc_failed k) = fInfo k"
  "g_flash_info (kmalloc_failed k) = g_flash_info k"
  by (simp_all add: kmalloc_failed_def)

lemma retriedKmalloc_exhausted:
  assumes "\<not> mem_available k"
  shows "retriedKmalloc n k = (None, kmalloc_failed k)"
proof (cases "kmalloc_ok k (kmalloc_calls k + 1000)")
  case True thus ?thesis using kmalloc_tries_found[of 1000 1000 k] assms
    by (auto simp: retriedKmalloc_def mem_available_def kmalloc_failed_def)
next
  case False
  hence "i \<le> 1000 \<Longrightarrow> \<not> kmalloc_ok k (kmalloc_calls k + i)" for i
    using assms by (cases "i = 1000") (auto simp: mem_available_def)
  thus ?thesis using kmalloc_tries_none[of 1000 k] False by (simp add: retriedKmalloc_def kmalloc_failed_def)
qed

section \<open>Ranges of sectors on a device\<close>

text \<open>\<open>sys_ok\<close>: the board code is bound to the device and the device is well formed.\<close>

definition sys_ok :: "'s flash_device_info \<Rightarrow> ('s \<Rightarrow> bool) \<Rightarrow> 's kersys \<Rightarrow> bool" where
  "sys_ok dev I k \<longleftrightarrow> g_flash_info k = Some dev \<and> I (flash_dev k)"

lemma sys_ok_dev: "sys_ok dev I k \<Longrightarrow> I d \<Longrightarrow> sys_ok dev I (k\<lparr>flash_dev := d\<rparr>)"
  by (simp add: sys_ok_def)

lemma sys_ok_heap [simp]:
  "sys_ok dev I (k\<lparr>kmalloc_calls := n\<rparr>) = sys_ok dev I k"
  "sys_ok dev I (k\<lparr>heap_live := h\<rparr>) = sys_ok dev I k"
  by (simp_all add: sys_ok_def)

text \<open>\<open>part_wf\<close>: the partition lies within its blocks and these within the device. \<open>part_base\<close>
  is its byte offset in the device.\<close>

definition part_wf :: "nat list \<Rightarrow> flash_part \<Rightarrow> bool" where
  "part_wf sects fp \<longleftrightarrow> 0 \<le> part_start_blk fp \<and> 0 \<le> part_number_blk fp
     \<and> part_start_blk fp + part_number_blk fp \<le> int (length sects)
     \<and> 0 \<le> part_blk_offset fp \<and> 0 \<le> part_length fp
     \<and> part_blk_offset fp + part_length fp
          \<le> int (span sects (nat (part_start_blk fp)) (nat (part_number_blk fp)))"

definition part_base :: "nat list \<Rightarrow> flash_part \<Rightarrow> nat" where
  "part_base sects fp = sector_start sects (nat (part_start_blk fp)) + nat (part_blk_offset fp)"

lemma part_wfE:
  assumes "part_wf sects fp"
  obtains a n off len where "part_start_blk fp = int a" "part_number_blk fp = int n"
    "part_blk_offset fp = int off" "part_length fp = int len"
    "a + n \<le> length sects" "off + len \<le> span sects a n" "part_base sects fp = sector_start sects a + off"
proof (rule that[of "nat (part_start_blk fp)" "nat (part_number_blk fp)" "nat (part_blk_offset fp)" "nat (part_length fp)"])
qed (use assms in \<open>auto simp: part_wf_def part_base_def nat_le_iff\<close>)

lemma part_end_le: "part_wf sects fp \<Longrightarrow> part_base sects fp + nat (part_length fp) \<le> sum_list sects"
proof (erule part_wfE)
  fix a n off len
  assume "part_length fp = int len" "off + len \<le> span sects a n" "part_base sects fp = sector_start sects a + off"
  thus ?thesis using span_end_le[of a sects n] by simp
qed

context flash_device begin

lemma sector_size_k_ok:
  "\<lbrakk>sys_ok dev inv k; a < length sects\<rbrakk> \<Longrightarrow> sector_size_k (int a) k = Inr (int (sects ! a))"
  by (simp add: sys_ok_def sector_size_k_def flash_get_sector_size_def sector_size)

lemma sum_sectors_ok:
  "\<lbrakk>sys_ok dev inv k; a + n \<le> length sects\<rbrakk> \<Longrightarrow> sum_sectors (int a) n k = Inr (int (span sects a n))"
proof (induction n arbitrary: a)
  case (Suc n)
  thus ?case using Suc.IH[of "Suc a"] by (simp add: sector_size_k_ok span_Suc add.commute)
qed simp

lemma read_sectors_ok:
  assumes "sys_ok dev inv k" "a + n \<le> length sects" "pos + span sects a n \<le> length buf"
  shows "\<exists>d. read_sectors (int a) n (int pos) buf k
              = Inr (overlay pos (slice (sector_start sects a) (span sects a n) (content (flash_dev k))) buf,
                     k\<lparr>flash_dev := d\<rparr>)
            \<and> inv d \<and> content d = content (flash_dev k)"
  using assms
proof (induction n arbitrary: a pos buf k)
  case 0 thus ?case by (intro exI[of _ "flash_dev k"]) (simp add: sys_ok_def)
next
  case (Suc n)
  let ?st = "sector_start sects a" and ?c = "content (flash_dev k)"
  have a: "a < length sects" using Suc.prems(2) by simp
  have iv: "inv (flash_dev k)" "g_flash_info k = Some dev" using Suc.prems(1) by (simp_all add: sys_ok_def)
  have lc: "?st + span sects a (Suc n) \<le> length ?c" using span_end_le content_length[OF iv(1)] by metis
  obtain d where d: "fn_flash_read_buf dev (of_nat a) (int 0) (int (sects ! a)) (flash_dev k)
      = Inr (FLASH_API_OK, slice (?st + 0) (sects ! a) ?c, d)" "inv d" "content d = ?c"
    using read_buf[OF iv(1) a, of 0 "sects ! a"] sector_end_le[OF a] by auto
  let ?buf = "overlay pos (slice ?st (sects ! a) ?c) buf"
  have l: "length (slice ?st (sects ! a) ?c) = sects ! a" "length ?buf = length buf"
    using lc Suc.prems(3) by (simp_all add: span_Suc[OF a])
  have "sys_ok dev inv (k\<lparr>flash_dev := d\<rparr>)" using Suc.prems(1) d(2) by (rule sys_ok_dev)
  then obtain d' where d': "read_sectors (int (Suc a)) n (int (pos + sects ! a)) ?buf (k\<lparr>flash_dev := d\<rparr>)
      = Inr (overlay (pos + sects ! a) (slice (sector_start sects (Suc a)) (span sects (Suc a) n) ?c) ?buf,
             k\<lparr>flash_dev := d'\<rparr>)" "inv d'" "content d' = ?c"
    using Suc.IH[of "k\<lparr>flash_dev := d\<rparr>" "Suc a" "pos + sects ! a" ?buf] Suc.prems(2,3) d(3) l(2)
    by (auto simp: span_Suc[OF a])
  have "overlay (pos + sects ! a) (slice (sector_start sects (Suc a)) (span sects (Suc a) n) ?c) ?buf
      = overlay pos (slice ?st (span sects a (Suc n)) ?c) buf"
    using overlay_append_adjacent[of pos "slice ?st (sects ! a) ?c" "slice (sector_start sects (Suc a)) (span sects (Suc a) n) ?c" buf]
      slice_append_adjacent[of ?st "sects ! a" ?c "span sects (Suc a) n"] l Suc.prems(3) lc
    by (simp add: span_Suc[OF a] sector_start_Suc[OF a])
  moreover have "mem_wr buf (int pos) (slice ?st (sects ! a) ?c) = Inr ?buf"
    using l(1) Suc.prems(3) by (simp add: span_Suc[OF a])
  ultimately show ?case
    using d d' iv(2) sector_size_k_ok[OF Suc.prems(1) a]
    by (auto simp: flash_read_buf_def add.commute)
qed

lemma write_sectors_ok:
  assumes "sys_ok dev inv k" "a + n \<le> length sects" "pos + span sects a n \<le> length buf"
  shows "\<exists>d. write_sectors (int a) n pos buf k = Inr (0, k\<lparr>flash_dev := d\<rparr>) \<and> inv d
            \<and> content d = overlay (sector_start sects a) (slice pos (span sects a n) buf) (content (flash_dev k))"
  using assms
proof (induction n arbitrary: a pos k)
  case 0 thus ?case by (intro exI[of _ "flash_dev k"]) (simp add: sys_ok_def)
next
  case (Suc n)
  let ?st = "sector_start sects a" and ?c = "content (flash_dev k)" and ?sz = "sects ! a"
  have a: "a < length sects" using Suc.prems(2) by simp
  have iv: "inv (flash_dev k)" "g_flash_info k = Some dev" using Suc.prems(1) by (simp_all add: sys_ok_def)
  have lc: "?st + span sects a (Suc n) \<le> length ?c" using span_end_le content_length[OF iv(1)] by metis
  hence lc1: "?st + ?sz + span sects (Suc a) n \<le> length ?c" by (simp add: span_Suc[OF a])
  have lb: "pos + ?sz + span sects (Suc a) n \<le> length buf" using Suc.prems(3) by (simp add: span_Suc[OF a])
  obtain d where d: "fn_flash_sector_erase_int dev (of_nat a) (flash_dev k) = Inr (FLASH_API_OK, d)" "inv d"
      "content d = overlay ?st (replicate ?sz 0xFF) ?c"
    using erase[OF iv(1) a] by auto
  have "?sz \<le> length buf - pos" using lb by linarith
  moreover have "slice (?st + 0) ?sz (content d) = replicate ?sz 0xFF"
    using d(3) slice_overlay_same[of ?st "replicate ?sz (0xFF :: byte)" ?c] lc1 by simp
  ultimately obtain d1 where d1: "fn_flash_write_buf dev (of_nat a) (int 0) (drop pos buf) (int ?sz) d = Inr (int ?sz, d1)" "inv d1"
      "content d1 = overlay ?st (take ?sz (drop pos buf)) (content d)"
    using write_buf[OF d(2) a, of 0 ?sz "drop pos buf"] sects_wf(2)[OF nth_mem[OF a]] lb sector_end_le[OF a] by auto
  have c1: "content d1 = overlay ?st (slice pos ?sz buf) ?c"
    using d1(3) d(3) overlay_overlay_same[of ?st "replicate ?sz (0xFF :: byte)" ?c "slice pos ?sz buf"] lc1 lb
    by (simp add: slice_def)
  have "sys_ok dev inv (k\<lparr>flash_dev := d1\<rparr>)" using Suc.prems(1) d1(2) by (rule sys_ok_dev)
  then obtain d' where d': "write_sectors (int (Suc a)) n (pos + ?sz) buf (k\<lparr>flash_dev := d1\<rparr>) = Inr (0, k\<lparr>flash_dev := d'\<rparr>)" "inv d'"
      "content d' = overlay (sector_start sects (Suc a)) (slice (pos + ?sz) (span sects (Suc a) n) buf) (content d1)"
    using Suc.IH[of "k\<lparr>flash_dev := d1\<rparr>" "Suc a" "pos + ?sz"] Suc.prems(2) lb by auto
  have "content d' = overlay ?st (slice pos (span sects a (Suc n)) buf) ?c"
    using d'(3) c1 overlay_append_adjacent[of ?st "slice pos ?sz buf" "slice (pos + ?sz) (span sects (Suc a) n) buf" ?c]
      slice_append_adjacent[of pos ?sz buf "span sects (Suc a) n"] lb lc1
    by (simp add: span_Suc[OF a] sector_start_Suc[OF a])
  thus ?case using d d1 d'(1,2) iv(2) sector_size_k_ok[OF Suc.prems(1) a]
    by (auto simp: flash_sector_erase_int_def flash_write_buf_def add.commute)
qed


lemma getSharedBlks_ok:
  assumes "sys_ok dev inv k" "a + n \<le> length sects" "mem_available k"
  shows "\<exists>p d. getSharedBlks (int a) (int a + int n) k
      = Inr (Some (p, slice (sector_start sects a) (span sects a n) (content (flash_dev k))),
             k\<lparr>flash_dev := d, kmalloc_calls := Suc p, heap_live := insert p (heap_live k)\<rparr>)
    \<and> kmalloc_calls k \<le> p \<and> inv d \<and> content d = content (flash_dev k)"
proof -
  let ?m = "span sects a n"
  obtain p where p: "kmalloc_calls k \<le> p" "retriedKmalloc (int ?m) k = (Some (p, replicate ?m 0),
     k\<lparr>kmalloc_calls := Suc p, heap_live := insert p (heap_live k)\<rparr>)"
    using retriedKmalloc_ok[OF assms(3), of "int ?m"] by auto
  let ?k = "k\<lparr>kmalloc_calls := Suc p, heap_live := insert p (heap_live k)\<rparr>"
  have iv: "inv (flash_dev k)" using assms(1) by (simp add: sys_ok_def)
  have le: "sector_start sects a + ?m \<le> length (content (flash_dev k))"
    using span_end_le content_length[OF iv] by metis
  obtain d where d: "read_sectors (int a) n (int 0) (replicate ?m 0) ?k
      = Inr (overlay 0 (slice (sector_start sects a) ?m (content (flash_dev k))) (replicate ?m 0), ?k\<lparr>flash_dev := d\<rparr>)"
      "inv d" "content d = content (flash_dev k)"
    using read_sectors_ok[of ?k a n 0 "replicate ?m 0"] assms(1,2) by auto
  moreover have "overlay 0 (slice (sector_start sects a) ?m (content (flash_dev k))) (replicate ?m 0)
      = slice (sector_start sects a) ?m (content (flash_dev k))"
    using le by (simp add: overlay_def)
  ultimately show ?thesis
    using p sum_sectors_ok[OF assms(1,2)] by (auto simp: getSharedBlks_def intro!: exI[of _ p] exI[of _ d])
qed

lemma setSharedBlks_ok:
  assumes "sys_ok dev inv k" "a + n \<le> length sects" "length buf = span sects a n"
  shows "\<exists>d. setSharedBlks (int a) (int a + int n) buf k = Inr (0, k\<lparr>flash_dev := d\<rparr>) \<and> inv d
            \<and> content d = overlay (sector_start sects a) buf (content (flash_dev k))"
  using write_sectors_ok[OF assms(1,2), of 0 buf] assms(3) slice_all[of buf]
  by (simp add: setSharedBlks_def)


lemma part_read_ok:
  assumes "sys_ok dev inv k" "part_wf sects fp" "mem_available k" "heap_wf k"
    and "int pos + int m \<le> part_length fp" "m \<le> length string"
  shows "\<exists>d c. part_read fp (int pos) (int m) string k
      = Inr (0, overlay 0 (slice (part_base sects fp + pos) m (content (flash_dev k))) string,
             k\<lparr>flash_dev := d, kmalloc_calls := c\<rparr>)
    \<and> kmalloc_calls k \<le> c \<and> inv d \<and> content d = content (flash_dev k)"
  using assms(2)
proof (rule part_wfE)
  fix a n off len
  assume fp: "part_start_blk fp = int a" "part_number_blk fp = int n"
    "part_blk_offset fp = int off" "part_length fp = int len"
    "a + n \<le> length sects" "off + len \<le> span sects a n" "part_base sects fp = sector_start sects a + off"
  let ?c = "content (flash_dev k)"
  obtain p d where g: "getSharedBlks (int a) (int a + int n) k
      = Inr (Some (p, slice (sector_start sects a) (span sects a n) ?c),
             k\<lparr>flash_dev := d, kmalloc_calls := Suc p, heap_live := insert p (heap_live k)\<rparr>)"
     and p: "kmalloc_calls k \<le> p" "inv d" "content d = ?c"
    using getSharedBlks_ok[OF assms(1) fp(5) assms(3)] by blast
  have le: "sector_start sects a + span sects a n \<le> length ?c"
    using span_end_le[of a sects n] content_length assms(1) by (simp add: sys_ok_def)
  have "mem_rd (slice (sector_start sects a) (span sects a n) ?c) (int off + int pos) (int m)
        = Inr (slice (sector_start sects a + off + pos) m ?c)"
    using mem_rd_ok[of "off + pos" m "slice (sector_start sects a) (span sects a n) ?c"]
      slice_slice[of "off + pos" m "span sects a n" "sector_start sects a" ?c] le fp(4,6) assms(5)
    by (simp add: add.assoc)
  moreover have "heap_live k - {p} = heap_live k"
    using p(1) assms(4) by (auto simp: heap_wf_def)
  moreover have "mem_wr string 0 (slice (sector_start sects a + off + pos) m ?c)
      = Inr (overlay 0 (slice (sector_start sects a + off + pos) m ?c) string)"
    using mem_wr_ok[of 0 "slice (sector_start sects a + off + pos) m ?c" string] le fp(4,6) assms(5,6) by simp
  ultimately show ?thesis
    using g p fp(1-4,7) by (intro exI[of _ d] exI[of _ "Suc p"]) (simp add: part_read_def retriedKfree_def)
qed

lemma part_store_ok:
  assumes "sys_ok dev inv k" "part_wf sects fp" "mem_available k" "heap_wf k"
    and "int pos + int (length bs) \<le> part_length fp"
  shows "\<exists>d c. bindR (getSharedBlks (part_start_blk fp) (part_start_blk fp + part_number_blk fp) k)
       (\<lambda>(r, k1). case r of
          None \<Rightarrow> Inr (e, k1)
        | Some (p, pBuf) \<Rightarrow>
            bindR (mem_wr pBuf (part_blk_offset fp + int pos) bs) (\<lambda>pBuf'.
            bindR (setSharedBlks (part_start_blk fp) (part_number_blk fp + part_start_blk fp) pBuf' k1)
              (\<lambda>(sts, k2). bindR (retriedKfree p k2) (\<lambda>k3. Inr (f sts, k3)))))
     = Inr (f 0, k\<lparr>flash_dev := d, kmalloc_calls := c\<rparr>)
    \<and> kmalloc_calls k \<le> c \<and> inv d
    \<and> content d = overlay (part_base sects fp + pos) bs (content (flash_dev k))"
  using assms(2)
proof (rule part_wfE)
  fix a n off len
  assume fp: "part_start_blk fp = int a" "part_number_blk fp = int n"
    "part_blk_offset fp = int off" "part_length fp = int len"
    "a + n \<le> length sects" "off + len \<le> span sects a n" "part_base sects fp = sector_start sects a + off"
  let ?c = "content (flash_dev k)" and ?buf = "slice (sector_start sects a) (span sects a n) (content (flash_dev k))"
  obtain p d where g: "getSharedBlks (int a) (int a + int n) k
      = Inr (Some (p, ?buf), k\<lparr>flash_dev := d, kmalloc_calls := Suc p, heap_live := insert p (heap_live k)\<rparr>)"
     and p: "kmalloc_calls k \<le> p" "inv d" "content d = ?c"
    using getSharedBlks_ok[OF assms(1) fp(5) assms(3)] by blast
  let ?k1 = "k\<lparr>flash_dev := d, kmalloc_calls := Suc p, heap_live := insert p (heap_live k)\<rparr>"
  have le: "sector_start sects a + span sects a n \<le> length ?c"
    using span_end_le[of a sects n] content_length assms(1) by (simp add: sys_ok_def)
  have fit: "off + pos + length bs \<le> span sects a n" using fp(4,6) assms(5) by linarith
  have w: "mem_wr ?buf (int off + int pos) bs = Inr (overlay (off + pos) bs ?buf)"
    using mem_wr_ok[of "off + pos" bs ?buf] le fit by simp
  have "sys_ok dev inv ?k1" using assms(1) p(2) by (simp add: sys_ok_def)
  then obtain d' where d': "setSharedBlks (int a) (int a + int n) (overlay (off + pos) bs ?buf) ?k1 = Inr (0, ?k1\<lparr>flash_dev := d'\<rparr>)"
      "inv d'" "content d' = overlay (sector_start sects a) (overlay (off + pos) bs ?buf) ?c"
    using setSharedBlks_ok[OF _ fp(5), of ?k1 "overlay (off + pos) bs ?buf"] le fit p(3) by auto
  have "content d' = overlay (part_base sects fp + pos) bs ?c"
    using overlay_slice_overlay[OF le fit] d'(3) fp(7) by (simp add: add.assoc)
  moreover have "insert p (heap_live k) - {p} = heap_live k" using p(1) assms(4) by (auto simp: heap_wf_def)
  ultimately show ?thesis using g w d' p(1) fp(1-3)
    by (intro exI[of _ d'] exI[of _ "Suc p"]) (simp add: add.commute[of "int n"] retriedKfree_def)
qed

lemma part_write_ok:
  assumes "sys_ok dev inv k" "part_wf sects fp" "mem_available k" "heap_wf k"
    and "int pos + int m \<le> part_length fp" "m \<le> length string"
  shows "\<exists>d c. part_write fp (int pos) (int m) string k = Inr (0, k\<lparr>flash_dev := d, kmalloc_calls := c\<rparr>)
    \<and> kmalloc_calls k \<le> c \<and> inv d
    \<and> content d = overlay (part_base sects fp + pos) (take m string) (content (flash_dev k))"
proof -
  have "int pos + int (length (take m string)) \<le> part_length fp" "mem_rd string 0 (int m) = Inr (take m string)"
    using assms(5,6) mem_rd_ok[of 0 m string] by (simp_all add: slice_def)
  with part_store_ok[OF assms(1-4), of pos "take m string" "-1" "\<lambda>sts. if sts \<noteq> 0 then -1 else 0"] show ?thesis
    by (simp add: part_write_def cong del: option.case_cong_weak prod.case_cong_weak)
qed

lemma part_clear_ok:
  assumes "sys_ok dev inv k" "part_wf sects fp" "mem_available k" "heap_wf k" "0 < part_length fp"
  shows "\<exists>d c. part_clear fp k = Inr (0, k\<lparr>flash_dev := d, kmalloc_calls := c\<rparr>)
    \<and> kmalloc_calls k \<le> c \<and> inv d
    \<and> content d = overlay (part_base sects fp) (replicate (nat (part_length fp)) 0) (content (flash_dev k))"
proof -
  have "int 0 + int (length (replicate (nat (part_length fp)) (0::byte))) \<le> part_length fp" using assms(5) by simp
  from part_store_ok[OF assms(1-4) this, of "-1" "\<lambda>sts. sts"] show ?thesis using assms(5)
    by (simp add: part_clear_def mem_set_def cong del: option.case_cong_weak prod.case_cong_weak)
qed

lemma getSharedBlks_nomem:
  assumes "sys_ok dev inv k" "part_wf sects fp" "\<not> mem_available k"
  shows "getSharedBlks (part_start_blk fp) (part_start_blk fp + part_number_blk fp) k
               = Inr (None, kmalloc_failed k)"
  using assms(2)
proof (rule part_wfE)
  fix a n assume fp: "part_start_blk fp = int a" "part_number_blk fp = int n" "a + n \<le> length sects"
  show ?thesis
    using sum_sectors_ok[OF assms(1) fp(3)] retriedKmalloc_exhausted[OF assms(3)] fp(1,2)
    by (auto simp: getSharedBlks_def)
qed

lemma part_nomem:
  assumes "sys_ok dev inv k" "part_wf sects fp" "\<not> mem_available k" "0 < part_length fp"
  shows "part_read fp pos m string k = Inr (-1, string, kmalloc_failed k)"
    and "part_write fp pos m string k = Inr (-1, kmalloc_failed k)"
    and "part_clear fp k = Inr (-1, kmalloc_failed k)"
  using getSharedBlks_nomem[OF assms(1-3)] assms(4)
  by (auto simp: part_read_def part_write_def part_clear_def)

lemma part_overrun:
  assumes "sys_ok dev inv k" "part_wf sects fp" "mem_available k" "0 < m"
    and "int (span sects (nat (part_start_blk fp)) (nat (part_number_blk fp))) < part_blk_offset fp + pos + m"
  shows "part_read fp pos m string k = Inl OutOfBounds"
    and "m \<le> int (length string) \<Longrightarrow> part_write fp pos m string k = Inl OutOfBounds"
proof -
  have c: "part_wf sects fp" by (rule assms(2))
  obtain a n where fp: "part_start_blk fp = int a" "part_number_blk fp = int n" "a + n \<le> length sects"
    by (rule part_wfE[OF c]) blast
  have le: "sector_start sects a + span sects a n \<le> length (content (flash_dev k))"
    using span_end_le[of a sects n] content_length assms(1) by (simp add: sys_ok_def)
  obtain p d where g: "getSharedBlks (int a) (int a + int n) k
      = Inr (Some (p, slice (sector_start sects a) (span sects a n) (content (flash_dev k))),
             k\<lparr>flash_dev := d, kmalloc_calls := Suc p, heap_live := insert p (heap_live k)\<rparr>)"
    using getSharedBlks_ok[OF assms(1) fp(3) assms(3)] by blast
  let ?buf = "slice (sector_start sects a) (span sects a n) (content (flash_dev k))"
  have big: "int (length ?buf) < part_blk_offset fp + pos + m" using le assms(5) fp(1,2) by simp
  show "part_read fp pos m string k = Inl OutOfBounds"
    using g fp(1,2) mem_rd_beyond[OF assms(4) big] by (simp add: part_read_def)
  assume m: "m \<le> int (length string)"
  hence r: "mem_rd string 0 m = Inr (take (nat m) string)" using assms(4) by (simp add: mem_rd_def slice_def)
  have "mem_wr ?buf (part_blk_offset fp + pos) (take (nat m) string) = Inl OutOfBounds"
    using big assms(4) m by (intro mem_wr_beyond) (auto simp: min_def nat_le_iff)
  thus "part_write fp pos m string k = Inl OutOfBounds" using g fp(1,2) r by (simp add: part_write_def)
qed

text \<open>Reading the blocks of a partition, and writing them back with new bytes for the partition.\<close>

lemma part_open_ok:
  assumes "sys_ok dev inv k" "part_wf sects fp" "mem_available k"
  obtains p d pre aft where
    "getSharedBlks (part_start_blk fp) (part_start_blk fp + part_number_blk fp) k
       = Inr (Some (p, pre @ slice (part_base sects fp) (nat (part_length fp)) (content (flash_dev k)) @ aft),
              k\<lparr>flash_dev := d, kmalloc_calls := Suc p, heap_live := insert p (heap_live k)\<rparr>)"
    and "int (length pre) = part_blk_offset fp" "kmalloc_calls k \<le> p" "inv d" "content d = content (flash_dev k)"
    and "length (slice (part_base sects fp) (nat (part_length fp)) (content (flash_dev k))) = nat (part_length fp)"
    and "part_blk_offset fp + part_length fp + int (length aft)
           = int (span sects (nat (part_start_blk fp)) (nat (part_number_blk fp)))"
    and "\<And>k2 x pad. \<lbrakk>sys_ok dev inv k2; length x = nat (part_length fp); length pad = nat (part_length fp);
            content (flash_dev k2) = overlay (part_base sects fp) x (content (flash_dev k))\<rbrakk> \<Longrightarrow>
          \<exists>d'. setSharedBlks (part_start_blk fp) (part_number_blk fp + part_start_blk fp) (pre @ pad @ aft) k2
                 = Inr (0, k2\<lparr>flash_dev := d'\<rparr>) \<and> inv d'
            \<and> content d' = overlay (part_base sects fp) pad (content (flash_dev k))"
  using assms(2)
proof (rule part_wfE)
  fix a n off len
  assume fp: "part_start_blk fp = int a" "part_number_blk fp = int n"
    "part_blk_offset fp = int off" "part_length fp = int len"
    "a + n \<le> length sects" "off + len \<le> span sects a n" "part_base sects fp = sector_start sects a + off"
  let ?c = "content (flash_dev k)" and ?m = "span sects a n" and ?st = "sector_start sects a"
  let ?buf = "slice ?st ?m ?c"
  obtain p d where g: "getSharedBlks (int a) (int a + int n) k = Inr (Some (p, ?buf),
             k\<lparr>flash_dev := d, kmalloc_calls := Suc p, heap_live := insert p (heap_live k)\<rparr>)"
     and p: "kmalloc_calls k \<le> p" "inv d" "content d = ?c"
    using getSharedBlks_ok[OF assms(1) fp(5) assms(3)] by blast
  have le: "?st + ?m \<le> length ?c"
    using span_end_le[of a sects n] content_length assms(1) by (simp add: sys_ok_def)
  have lb: "length ?buf = ?m" using le by simp
  have sl: "slice off len ?buf = slice (part_base sects fp) len ?c"
    using slice_slice[OF fp(6) le] fp(7) by simp
  let ?pre = "take off ?buf" and ?aft = "drop (off + len) ?buf"
  have b: "?buf = ?pre @ slice (part_base sects fp) len ?c @ ?aft"
    using slice_split[of off len ?buf] fp(6) lb sl by simp
  show ?thesis
  proof (rule that)
    show "getSharedBlks (part_start_blk fp) (part_start_blk fp + part_number_blk fp) k
       = Inr (Some (p, ?pre @ slice (part_base sects fp) (nat (part_length fp)) ?c @ ?aft),
              k\<lparr>flash_dev := d, kmalloc_calls := Suc p, heap_live := insert p (heap_live k)\<rparr>)"
      using g b fp(1,2,4) by simp
    show "int (length ?pre) = part_blk_offset fp" using fp(3,6) lb by simp
    show "length (slice (part_base sects fp) (nat (part_length fp)) ?c) = nat (part_length fp)"
      using le fp(4,6,7) by simp
    show "part_blk_offset fp + part_length fp + int (length ?aft)
           = int (span sects (nat (part_start_blk fp)) (nat (part_number_blk fp)))"
      using fp(1-4,6) lb by simp
    fix k2 and x pad :: "byte list"
    assume k2: "sys_ok dev inv k2" "length x = nat (part_length fp)" "length pad = nat (part_length fp)"
       "content (flash_dev k2) = overlay (part_base sects fp) x ?c"
    have e: "?pre @ pad @ ?aft = overlay off pad ?buf"
      using overlay_split[of off len ?buf pad] fp(4,6) lb k2(3) by simp
    have fit: "off + length pad \<le> ?m" "off + length x \<le> ?m" using k2(2,3) fp(4,6) by simp_all
    have l: "length (overlay off pad ?buf) = ?m" using lb fit(1) by simp
    obtain d' where d': "setSharedBlks (int a) (int a + int n) (overlay off pad ?buf) k2 = Inr (0, k2\<lparr>flash_dev := d'\<rparr>)"
        "inv d'" "content d' = overlay ?st (overlay off pad ?buf) (content (flash_dev k2))"
      using setSharedBlks_ok[OF k2(1) fp(5) l] by auto
    have "content (flash_dev k2) = overlay ?st (overlay off x ?buf) ?c"
      using overlay_slice_overlay[OF le fit(2)] k2(4) fp(7) by simp
    hence "content d' = overlay ?st (overlay off pad ?buf) ?c"
      using d'(3) overlay_overlay_same[of ?st "overlay off x ?buf" ?c "overlay off pad ?buf"] fit lb le by simp
    hence "content d' = overlay (part_base sects fp) pad ?c"
      using overlay_slice_overlay[OF le fit(1)] fp(7) by simp
    thus "\<exists>d'. setSharedBlks (part_start_blk fp) (part_number_blk fp + part_start_blk fp) (?pre @ pad @ ?aft) k2
          = Inr (0, k2\<lparr>flash_dev := d'\<rparr>) \<and> inv d' \<and> content d' = overlay (part_base sects fp) pad ?c"
      using d'(1,2) fp(1,2) e by (auto simp: add.commute)
  qed (use p in auto)
qed

end

end
