(* ===== verification/Nvram.thy ===== *)
theory Nvram
  imports Crc32
begin

text \<open>
  The NVRAM block of \<^verbatim>\<open>board.h\<close> (\<^verbatim>\<open>NVRAM_DATA\<close>): its fields, its image in flash (big-endian,
  without padding, 332 bytes) and its checksum, a CRC-32 over the image with the checksum field zero.
\<close>

section \<open>The structure\<close>

record NVRAM_DATA =
  ulVersion :: u32
  szBootline :: "byte list"
  nv_szBoardId :: "byte list"
  ulReserved1 :: "u32 \<times> u32"
  ulNumMacAddrs :: u32
  ucaBaseMacAddr :: "byte list"
  chReserved :: "byte list"
  szSerialNumber :: "byte list"
  ulCheckSum :: u32

abbreviation (input) sizeof_NVRAM_DATA :: nat where "sizeof_NVRAM_DATA \<equiv> 332"
abbreviation (input) NVRAM_BOOTLINE_LEN :: nat where "NVRAM_BOOTLINE_LEN \<equiv> 256"
abbreviation (input) NVRAM_BOARD_ID_STRING_LEN :: nat where "NVRAM_BOARD_ID_STRING_LEN \<equiv> 16"
abbreviation (input) NVRAM_MAC_ADDRESS_LEN :: nat where "NVRAM_MAC_ADDRESS_LEN \<equiv> 6"
abbreviation (input) NVRAM_SERIAL_NUMBER_LEN :: nat where "NVRAM_SERIAL_NUMBER_LEN \<equiv> 32"

definition nvram_wf :: "NVRAM_DATA \<Rightarrow> bool" where
  "nvram_wf d \<longleftrightarrow> length (szBootline d) = NVRAM_BOOTLINE_LEN
     \<and> length (nv_szBoardId d) = NVRAM_BOARD_ID_STRING_LEN
     \<and> length (ucaBaseMacAddr d) = NVRAM_MAC_ADDRESS_LEN \<and> length (chReserved d) = 2
     \<and> length (szSerialNumber d) = NVRAM_SERIAL_NUMBER_LEN"

text \<open>The code copies the structure to and from the flash with \<^verbatim>\<open>memcpy\<close> and checks it as an array of bytes. The
  two functions relate the fields to these bytes: they are the layout that the compiler gives the
  declaration (\<open>nvram_of_bytes\<close> and \<open>nvram_bytes_of\<close> show that they are inverse), not code of the program.\<close>

definition nvram_bytes :: "NVRAM_DATA \<Rightarrow> byte list" where
  "nvram_bytes d =
     be32_bytes (ulVersion d) @ szBootline d @ nv_szBoardId d
     @ be32_bytes (fst (ulReserved1 d)) @ be32_bytes (snd (ulReserved1 d))
     @ be32_bytes (ulNumMacAddrs d) @ ucaBaseMacAddr d @ chReserved d @ szSerialNumber d
     @ be32_bytes (ulCheckSum d)"

definition nvram_of :: "byte list \<Rightarrow> NVRAM_DATA" where
  "nvram_of bs =
     \<lparr>ulVersion = be32 (slice 0 4 bs), szBootline = slice 4 256 bs, nv_szBoardId = slice 260 16 bs,
      ulReserved1 = (be32 (slice 276 4 bs), be32 (slice 280 4 bs)),
      ulNumMacAddrs = be32 (slice 284 4 bs), ucaBaseMacAddr = slice 288 6 bs,
      chReserved = slice 294 2 bs, szSerialNumber = slice 296 32 bs,
      ulCheckSum = be32 (slice 328 4 bs)\<rparr>"

section \<open>The checksum\<close>

text \<open>The CRC over the image with the checksum field cleared.\<close>

definition nvram_crc :: "NVRAM_DATA \<Rightarrow> u32 res" where
  "nvram_crc d = getCrc32 (nvram_bytes (d\<lparr>ulCheckSum := 0\<rparr>)) sizeof_NVRAM_DATA CRC32_INIT_VALUE"

text \<open>Clear the checksum, compute the CRC and store it.\<close>

definition nvram_seal :: "NVRAM_DATA \<Rightarrow> NVRAM_DATA res" where
  "nvram_seal d = bindR (nvram_crc d) (\<lambda>crc. Inr (d\<lparr>ulCheckSum := crc\<rparr>))"

definition nvram_valid :: "NVRAM_DATA \<Rightarrow> bool" where
  "nvram_valid d \<longleftrightarrow> nvram_crc d = Inr (ulCheckSum d)"

section \<open>Lemmas\<close>

lemma be32_bytes_be32: "length bs = 4 \<Longrightarrow> be32_bytes (be32 bs) = bs"
proof -
  assume "length bs = 4"
  then obtain a b c d where bs: "bs = [a, b, c, d]" by (auto simp: length_Suc_conv numeral_eq_Suc)
  show ?thesis unfolding bs be32_def be32_bytes_def list.case
    by (simp, intro conjI; rule bit_word_eqI) (auto simp: bit_simps dest: bit_imp_le_length)
qed

lemma length_nvram_bytes: "nvram_wf d \<Longrightarrow> length (nvram_bytes d) = 332"
  by (simp add: nvram_wf_def nvram_bytes_def)

lemma nvram_of_wf: "length bs = 332 \<Longrightarrow> nvram_wf (nvram_of bs)"
  by (simp add: nvram_wf_def nvram_of_def)

lemma nvram_of_bytes: "nvram_wf d \<Longrightarrow> nvram_of (nvram_bytes d) = d"
proof -
  assume w: "nvram_wf d"
  have "nvram_of (nvram_bytes d) = \<lparr>ulVersion = ulVersion d, szBootline = szBootline d, nv_szBoardId = nv_szBoardId d,
      ulReserved1 = ulReserved1 d, ulNumMacAddrs = ulNumMacAddrs d, ucaBaseMacAddr = ucaBaseMacAddr d,
      chReserved = chReserved d, szSerialNumber = szSerialNumber d, ulCheckSum = ulCheckSum d\<rparr>"
    using w unfolding nvram_of_def nvram_wf_def nvram_bytes_def
    by (simp add: slice_def)
  thus ?thesis by simp
qed

lemma nvram_bytes_of:
  assumes "length bs = 332" shows "nvram_bytes (nvram_of bs) = bs"
proof -
  have "slice 0 4 bs @ slice 4 256 bs @ slice 260 16 bs @ slice 276 4 bs @ slice 280 4 bs @ slice 284 4 bs
      @ slice 288 6 bs @ slice 294 2 bs @ slice 296 32 bs @ slice 328 4 bs = slice 0 332 bs"
    using slice_append_adjacent[of 0 4 bs 328] slice_append_adjacent[of 4 256 bs 72] slice_append_adjacent[of 260 16 bs 56]
      slice_append_adjacent[of 276 4 bs 52] slice_append_adjacent[of 280 4 bs 48] slice_append_adjacent[of 284 4 bs 44]
      slice_append_adjacent[of 288 6 bs 38] slice_append_adjacent[of 294 2 bs 36] slice_append_adjacent[of 296 32 bs 4]
    by simp
  moreover have "slice 0 332 bs = bs" using assms slice_all[of bs] by simp
  ultimately show ?thesis using assms by (simp add: nvram_bytes_def nvram_of_def be32_bytes_be32)
qed

lemma nvram_crc_ok: "nvram_wf d \<Longrightarrow> \<exists>c. nvram_crc d = Inr c"
  by (simp add: nvram_crc_def getCrc32_eq length_nvram_bytes nvram_wf_def nvram_bytes_def)

lemma nvram_crc_checksum [simp]: "nvram_crc (d\<lparr>ulCheckSum := c\<rparr>) = nvram_crc d"
  by (simp add: nvram_crc_def)

lemma nvram_seal_valid: "nvram_seal d = Inr d' \<Longrightarrow> nvram_valid d'"
  by (auto simp: nvram_seal_def nvram_valid_def)

end
