(* ===== verification/Flash_Layout.thy ===== *)
theory Flash_Layout
  imports Flash_Store Nvram
begin

text \<open>
  \<^verbatim>\<open>kerSysFlashInit\<close> of \<^verbatim>\<open>bcm63xx_flash.c\<close>: the flash is brought up, the NVRAM checksum decides
  the size of the persistent storage, and the partitions are laid out from the end of the flash
  downwards, each on sectors of its own. The driver, the address of the flash and reads through the
  memory window (\<^verbatim>\<open>memcpy\<close> from a flash address) are the parameter \<open>flash_hw\<close>, with the flag
  \<^verbatim>\<open>g_iReset\<close> through which the board code tells the driver that an image is being flashed.
\<close>

section \<open>The hardware\<close>

record 's flash_hw =
  hw_flash_init :: "'s \<Rightarrow> (int \<times> 's flash_device_info option \<times> 's) res"
  hw_base :: "'s \<Rightarrow> u32"
  hw_peek :: "u32 \<Rightarrow> nat \<Rightarrow> 's \<Rightarrow> byte list \<times> 's"
  hw_set_reset :: "int \<Rightarrow> 's \<Rightarrow> 's"

section \<open>Addresses\<close>

definition get_nvram_start_addr :: "'s kersys \<Rightarrow> u32 res" where
  "get_nvram_start_addr k =
     bindR (flash_get_memptr (g_flash_info k) (of_int (part_start_blk (flash_nvram (fInfo k)))) (flash_dev k))
       (\<lambda>p. Inr (p + of_int (part_blk_offset (flash_nvram (fInfo k)))))"

definition get_scratch_pad_start_addr :: "'s kersys \<Rightarrow> u32 res" where
  "get_scratch_pad_start_addr k =
     bindR (flash_get_memptr (g_flash_info k) (of_int (part_start_blk (flash_scratch_pad (fInfo k)))) (flash_dev k))
       (\<lambda>p. Inr (p + of_int (part_blk_offset (flash_scratch_pad (fInfo k)))))"

section \<open>Laying out the partitions\<close>

text \<open>One partition of \<open>len\<close> bytes below block \<open>next_blk\<close>: the partition and the bytes in use up to
  its first block.\<close>

definition carve :: "u32 \<Rightarrow> int \<Rightarrow> int \<Rightarrow> int \<Rightarrow> int \<Rightarrow> 's kersys \<Rightarrow> (flash_part \<times> int) res" where
  "carve base totalSize usedBlkSize next_blk len k =
     bindR (flash_get_blk (g_flash_info k) (of_int (totalSize - usedBlkSize - len) + base) (flash_dev k))
       (\<lambda>start_blk.
     bindR (sum_sectors start_blk (nat (next_blk - start_blk)) k) (\<lambda>used.
       Inr (\<lparr>part_start_blk = start_blk, part_number_blk = next_blk - start_blk, part_length = len,
             part_blk_offset = used - len\<rparr>,
            usedBlkSize + used)))"

fun carve_list :: "u32 \<Rightarrow> int \<Rightarrow> int \<Rightarrow> int \<Rightarrow> int list \<Rightarrow> 's kersys \<Rightarrow> flash_part list res" where
  "carve_list base totalSize usedBlkSize next_blk [] k = Inr []"
| "carve_list base totalSize usedBlkSize next_blk (len # lens) k =
     bindR (carve base totalSize usedBlkSize next_blk len k) (\<lambda>(fp, used).
     bindR (carve_list base totalSize used (part_start_blk fp) lens k) (\<lambda>fps. Inr (fp # fps)))"

abbreviation (input) ONEK :: int where "ONEK \<equiv> 1024"
abbreviation (input) NVRAM_DATA_OFFSET :: int where "NVRAM_DATA_OFFSET \<equiv> 0x580"
abbreviation (input) NVRAM_PSI_DEFAULT :: int where "NVRAM_PSI_DEFAULT \<equiv> 64"
abbreviation (input) SP_MAX_LEN :: int where "SP_MAX_LEN \<equiv> 8 * 1024"
abbreviation (input) VA_MAX_LEN :: int where "VA_MAX_LEN \<equiv> 8 * 1024"
abbreviation (input) FIX_MAX_LEN :: int where "FIX_MAX_LEN \<equiv> 8 * 1024"
abbreviation (input) AVAIL_MAX_LEN :: int where "AVAIL_MAX_LEN \<equiv> 16 * 1024"
abbreviation (input) FIREWALL_LOG_MAX_LEN :: int where "FIREWALL_LOG_MAX_LEN \<equiv> 10 * 1024"
abbreviation (input) SYSTEM_LOG_MAX_LEN :: int where "SYSTEM_LOG_MAX_LEN \<equiv> 16 * 1024"
abbreviation (input) ATHEROS_WLAN_PARAM_MAX_LEN :: int where "ATHEROS_WLAN_PARAM_MAX_LEN \<equiv> 8 * 1024"
abbreviation (input) RALINK_WLAN_PARAM_MAX_LEN :: int where "RALINK_WLAN_PARAM_MAX_LEN \<equiv> 512"

text \<open>The lengths in the order of the layout: persistent storage, its backup, fix, avail, variable,
  scratch pad, firewall log, system log, WLAN parameters.\<close>

definition part_lengths :: "int \<Rightarrow> byte \<Rightarrow> int list" where
  "part_lengths psi ucHardwareType =
     [psi, psi, FIX_MAX_LEN, AVAIL_MAX_LEN, VA_MAX_LEN, SP_MAX_LEN, FIREWALL_LOG_MAX_LEN,
      SYSTEM_LOG_MAX_LEN,
      if HG55VDFA = ucHardwareType then ATHEROS_WLAN_PARAM_MAX_LEN else RALINK_WLAN_PARAM_MAX_LEN]"

definition store_parts :: "flash_part list \<Rightarrow> flash_addr_info \<Rightarrow> flash_addr_info" where
  "store_parts fps info =
     info\<lparr>flash_persistent := fps ! 0, flash_psi_backup := fps ! 1, flash_fix := fps ! 2,
          flash_avail := fps ! 3, flash_variable := fps ! 4, flash_scratch_pad := fps ! 5,
          flash_firewalllog := fps ! 6, flash_systemlog := fps ! 7, flash_wlanparam := fps ! 8\<rparr>"

definition nvram_part :: flash_part where
  "nvram_part = \<lparr>part_start_blk = 0, part_number_blk = 1, part_length = NVRAM_LENGTH,
                 part_blk_offset = NVRAM_DATA_OFFSET\<rparr>"

text \<open>The size of the persistent storage in bytes: the board's when the NVRAM checksum is right.\<close>

definition psi_bytes :: "NVRAM_DATA \<Rightarrow> BOARD_PARAMETERS option \<Rightarrow> int res" where
  "psi_bytes nvramData bp =
     bindR (nvram_crc nvramData) (\<lambda>crc.
       Inr (ONEK * (if ulCheckSum nvramData \<noteq> crc then NVRAM_PSI_DEFAULT
                    else case BpGetPsiSize bp of
                           (r, ulPsiSize) \<Rightarrow> if r = BP_SUCCESS then sint ulPsiSize else NVRAM_PSI_DEFAULT)))"

text \<open>Without a device the NVRAM address is computed from a null pointer.\<close>

definition kerSysFlashInit :: "'s flash_hw \<Rightarrow> 's kersys \<Rightarrow> 's kersys res" where
  "kerSysFlashInit hw k =
     (if flashInitialized k then Inr k
      else
        bindR (hw_flash_init hw (flash_dev k)) (\<lambda>(_, info, d).
        let k1 = k\<lparr>flashInitialized := True, flash_dev := d, g_flash_info := info,
                   fInfo := (fInfo k)\<lparr>flash_nvram := nvram_part\<rparr>\<rparr>;
            totalBlks = flash_get_numsectors info d;
            totalSize = flash_get_total_size info d in
        bindR (get_nvram_start_addr k1) (\<lambda>addr.
        if info = None then Inl NullPointer
        else
          let (bs, d1) = hw_peek hw addr sizeof_NVRAM_DATA d;
              ucHardwareType = GetHarewareType (gpio k);
              bp = snd (BpSetBoardIdByHardwareType ucHardwareType);
              k2 = k1\<lparr>flash_dev := d1, cur_bp := bp\<rparr> in
          bindR (psi_bytes (nvram_of bs) bp) (\<lambda>psi.
          bindR (carve_list (hw_base hw d1) totalSize 0 totalBlks (part_lengths psi ucHardwareType) k2)
            (\<lambda>fps. Inr (k2\<lparr>fInfo := store_parts fps (fInfo k2)\<rparr>))))))"

definition kerSysFlashAddrInfoGet :: "'s kersys \<Rightarrow> flash_addr_info \<Rightarrow> flash_addr_info" where
  "kerSysFlashAddrInfoGet k pflash_addr_info =
     pflash_addr_info\<lparr>flash_nvram := flash_nvram (fInfo k), flash_persistent := flash_persistent (fInfo k)\<rparr>"

definition kerSysNvRamGet ::
  "'s flash_hw \<Rightarrow> byte list \<Rightarrow> int \<Rightarrow> int \<Rightarrow> 's kersys \<Rightarrow> (int \<times> byte list \<times> 's kersys) res" where
  "kerSysNvRamGet hw string strLen offset k =
     bindR (if \<not> flashInitialized k then kerSysFlashInit hw k else Inr k) (\<lambda>k1.
       if strLen > NVRAM_LENGTH then Inr (-1, string, k1)
       else part_read (flash_nvram (fInfo k1)) offset strLen string k1)"

section \<open>The layout as a function of the sectors\<close>

definition layout_part :: "nat list \<Rightarrow> nat \<Rightarrow> nat \<Rightarrow> flash_part" where
  "layout_part sects nxt len =
     (let j = sector_of sects (sector_start sects nxt - len) in
      \<lparr>part_start_blk = int j, part_number_blk = int nxt - int j, part_length = int len,
       part_blk_offset = int (sector_start sects nxt) - int (sector_start sects j) - int len\<rparr>)"

fun layout :: "nat list \<Rightarrow> nat \<Rightarrow> nat list \<Rightarrow> flash_part list" where
  "layout sects nxt [] = []"
| "layout sects nxt (len # lens) =
     layout_part sects nxt len # layout sects (sector_of sects (sector_start sects nxt - len)) lens"

fun layout_fits :: "nat list \<Rightarrow> nat \<Rightarrow> nat list \<Rightarrow> bool" where
  "layout_fits sects nxt [] = True"
| "layout_fits sects nxt (len # lens) =
     (0 < len \<and> len \<le> sector_start sects nxt
      \<and> layout_fits sects (sector_of sects (sector_start sects nxt - len)) lens)"

lemma layout_part_wf:
  assumes "0 < len" "len \<le> sector_start sects nxt" "nxt \<le> length sects"
  shows "part_wf sects (layout_part sects nxt len)"
    and "part_base sects (layout_part sects nxt len) = sector_start sects nxt - len"
    and "part_start_blk (layout_part sects nxt len) + part_number_blk (layout_part sects nxt len) = int nxt"
proof -
  let ?a = "sector_start sects nxt - len" and ?j = "sector_of sects (sector_start sects nxt - len)"
  have j: "?j < nxt" using assms(1,2) by (intro sector_of_below) simp
  have "?a < sum_list sects" using assms(1,2) sector_start_le[of nxt sects] by linarith
  hence b: "sector_start sects ?j \<le> ?a" using sector_of_bounds by blast
  have sp: "span sects ?j (nxt - ?j) = sector_start sects nxt - sector_start sects ?j"
    using j by (intro span_diff) simp
  have le: "len \<le> sector_start sects nxt - sector_start sects ?j"
    using b assms(2) by linarith
  have o: "nat (int (sector_start sects nxt) - int (sector_start sects ?j) - int len)
      = sector_start sects nxt - sector_start sects ?j - len" using le by linarith
  have n: "nat (int nxt - int ?j) = nxt - ?j" using j by simp
  have i: "int (sector_start sects nxt - sector_start sects ?j) = int (sector_start sects nxt) - int (sector_start sects ?j)"
    "int len \<le> int (sector_start sects nxt) - int (sector_start sects ?j)"
    using le assms(1) by linarith+
  show "part_wf sects (layout_part sects nxt len)"
    using j assms(3) sp le i by (simp add: part_wf_def layout_part_def Let_def n)
  show "part_base sects (layout_part sects nxt len) = ?a"
    using b le by (simp add: part_base_def layout_part_def Let_def o)
  show "part_start_blk (layout_part sects nxt len) + part_number_blk (layout_part sects nxt len) = int nxt"
    by (simp add: layout_part_def Let_def)
qed

lemma layout_part_start:
  "part_start_blk (layout_part sects nxt len) = int (sector_of sects (sector_start sects nxt - len))"
  "part_length (layout_part sects nxt len) = int len"
  by (simp_all add: layout_part_def Let_def)

text \<open>\<open>below p q\<close>: the blocks of \<open>q\<close> end where those of \<open>p\<close> start, or before.\<close>

definition below :: "flash_part \<Rightarrow> flash_part \<Rightarrow> bool" where
  "below p q \<longleftrightarrow> part_start_blk q + part_number_blk q \<le> part_start_blk p"

lemma layout_ok:
  assumes "layout_fits sects nxt lens" "nxt \<le> length sects"
  shows "(\<forall>p \<in> set (layout sects nxt lens). part_wf sects p \<and> part_start_blk p + part_number_blk p \<le> int nxt)
    \<and> sorted_wrt below (layout sects nxt lens) \<and> map part_length (layout sects nxt lens) = map int lens"
  using assms
proof (induction lens arbitrary: nxt)
  case (Cons len lens)
  let ?j = "sector_of sects (sector_start sects nxt - len)"
  have j: "?j < nxt" using Cons.prems by (intro sector_of_below) auto
  have fit: "0 < len" "len \<le> sector_start sects nxt" "layout_fits sects ?j lens" using Cons.prems(1) by simp_all
  note ih = Cons.IH[OF fit(3)]
  have jl: "?j \<le> length sects" using j Cons.prems(2) by simp
  note p = layout_part_wf[OF fit(1,2) Cons.prems(2)]
  show ?case using ih[OF jl] p j layout_part_start[of sects nxt len] by (auto simp: below_def)
qed simp

lemma disjoint_bytes:
  assumes "part_wf sects p" "part_wf sects q" "below p q"
  shows "part_base sects q + nat (part_length q) \<le> part_base sects p"
proof -
  obtain a n off len where q: "part_start_blk q = int a" "part_number_blk q = int n" "part_length q = int len"
    "off + len \<le> span sects a n" "part_base sects q = sector_start sects a + off"
    using assms(2) by (rule part_wfE) blast
  obtain b off' where p: "part_start_blk p = int b" "part_base sects p = sector_start sects b + off'"
    using assms(1) by (rule part_wfE) blast
  have "a + n \<le> b" using assms(3) q(1,2) p(1) by (simp add: below_def)
  from sector_start_mono[OF this, of sects] show ?thesis using q p(2) by (simp add: sector_start_span)
qed

section \<open>All partitions\<close>

definition all_parts :: "flash_addr_info \<Rightarrow> flash_part list" where
  "all_parts info =
     [flash_persistent info, flash_psi_backup info, flash_fix info, flash_avail info,
      flash_variable info, flash_scratch_pad info, flash_firewalllog info, flash_systemlog info,
      flash_wlanparam info, flash_nvram info]"

definition finfo_wf :: "nat list \<Rightarrow> flash_addr_info \<Rightarrow> bool" where
  "finfo_wf sects info \<longleftrightarrow>
     (\<forall>p \<in> set (all_parts info). part_wf sects p \<and> 0 < part_length p) \<and> sorted_wrt below (all_parts info)"

definition hg556_lengths :: "byte \<Rightarrow> nat list" where
  "hg556_lengths hwtype = [65536, 65536, 8192, 16384, 8192, 8192, 10240, 16384, if hwtype = 0 then 8192 else 512]"

text \<open>The partitions fit the device, and the first block is left to the NVRAM.\<close>

definition flash_fits :: "nat list \<Rightarrow> byte \<Rightarrow> bool" where
  "flash_fits sects hwtype \<longleftrightarrow>
     layout_fits sects (length sects) (hg556_lengths hwtype) \<and> sects \<noteq> [] \<and> 0x580 + 1024 \<le> sects ! 0
     \<and> 1 \<le> part_start_blk (layout sects (length sects) (hg556_lengths hwtype) ! 8)"

lemma psi_bytes_hg556:
  assumes "length bs = 332"
  shows "psi_bytes (nvram_of bs) (snd (BpSetBoardIdByHardwareType hwtype)) = Inr 65536"
  using nvram_crc_ok[OF nvram_of_wf[OF assms]]
  by (auto simp: psi_bytes_def BpGetPsiSize_def bp_size_def BpSetBoardIdByHardwareType_def g_boards)

lemma part_lengths_hg556: "part_lengths 65536 hwtype = map int (hg556_lengths hwtype)"
  by (simp add: part_lengths_def hg556_lengths_def)

lemma nvram_part_wf: "\<lbrakk>sects \<noteq> []; 0x580 + 1024 \<le> sects ! 0\<rbrakk> \<Longrightarrow> part_wf sects nvram_part"
  by (cases sects) (auto simp: part_wf_def nvram_part_def)

lemma length_layout [simp]: "length (layout sects nxt lens) = length lens"
  by (induction lens arbitrary: nxt) auto

lemma all_parts_store:
  assumes "length fps = 9"
  shows "all_parts (store_parts fps info) = fps @ [flash_nvram info]"
proof -
  have "length fps = Suc (Suc (Suc (Suc (Suc (Suc (Suc (Suc (Suc 0))))))))" using assms by simp
  then obtain a b c d e f g h i where "fps = [a, b, c, d, e, f, g, h, i]"
    by (auto simp only: length_Suc_conv length_0_conv)
  thus ?thesis by (simp add: all_parts_def store_parts_def)
qed

lemma finfo_wf_layout:
  assumes "flash_fits sects hwtype"
  shows "finfo_wf sects (store_parts (layout sects (length sects) (hg556_lengths hwtype)) (info\<lparr>flash_nvram := nvram_part\<rparr>))"
proof -
  let ?ps = "layout sects (length sects) (hg556_lengths hwtype)"
  have fit: "layout_fits sects (length sects) (hg556_lengths hwtype)" using assms by (simp add: flash_fits_def)
  note l = layout_ok[OF fit order_refl]
  have n: "length ?ps = 9" by (subst length_layout) (simp add: hg556_lengths_def)
  have pos: "0 < part_length p" if "p \<in> set ?ps" for p
  proof -
    have "part_length p \<in> set (map part_length ?ps)" using that by simp
    moreover have "map part_length ?ps = map int (hg556_lengths hwtype)" using l by blast
    ultimately have "part_length p \<in> int ` set (hg556_lengths hwtype)" by simp
    moreover have "\<forall>n \<in> set (hg556_lengths hwtype). 0 < n" by (simp add: hg556_lengths_def)
    ultimately show ?thesis by auto
  qed
  have "below p nvram_part" if "p \<in> set ?ps" for p
  proof -
    have "1 \<le> part_start_blk (?ps ! 8)" using assms by (simp add: flash_fits_def)
    moreover obtain i where i: "i < 9" "p = ?ps ! i" using \<open>p \<in> set ?ps\<close> n by (auto simp: in_set_conv_nth)
    have "i = 8 \<or> below p (?ps ! 8)"
    proof (cases "i = 8")
      case False
      hence "i < 8" using i(1) by simp
      thus ?thesis using l i(2) n by (simp add: sorted_wrt_iff_nth_less)
    qed simp
    moreover have "0 \<le> part_number_blk (?ps ! 8)" using l n by (auto simp: part_wf_def)
    ultimately show ?thesis using i by (auto simp: below_def nvram_part_def)
  qed
  moreover have "part_wf sects nvram_part" using assms by (intro nvram_part_wf) (simp_all add: flash_fits_def)
  ultimately show ?thesis using l pos
    by (auto simp: finfo_wf_def all_parts_store[OF n] sorted_wrt_append nvram_part_def)
qed

section \<open>The layout is what the code computes\<close>

locale mapped_flash = flash_device dev sects base inv content
  for dev :: "'s flash_device_info" and sects :: "nat list" and base :: u32
    and inv :: "'s \<Rightarrow> bool" and content :: "'s \<Rightarrow> byte list" +
  fixes hw :: "'s flash_hw"
  assumes base_hw: "inv s \<Longrightarrow> hw_base hw s = base"
    and peek_hw: "\<lbrakk>inv s; off + n \<le> sum_list sects\<rbrakk> \<Longrightarrow>
        hw_peek hw (base + of_nat off) n s = (slice off n (content s), s)"
    and reset_hw: "inv s \<Longrightarrow> inv (hw_set_reset hw r s) \<and> content (hw_set_reset hw r s) = content s"
begin

lemma carve_ok:
  assumes "sys_ok dev inv k" "nxt \<le> length sects" "0 < len" "len \<le> sector_start sects nxt"
    and "used = int (sum_list sects) - int (sector_start sects nxt)"
  shows "carve base (int (sum_list sects)) used (int nxt) (int len) k
    = Inr (layout_part sects nxt len,
           int (sum_list sects) - int (sector_start sects (sector_of sects (sector_start sects nxt - len))))"
proof -
  let ?a = "sector_start sects nxt - len" and ?j = "sector_of sects (sector_start sects nxt - len)"
  have j: "?j < nxt" using assms(3,4) by (intro sector_of_below) simp
  have a: "?a < sum_list sects" using assms(3,4) sector_start_le[of nxt sects] by linarith
  have "(of_int (int (sum_list sects) - used - int len) :: u32) = of_nat ?a"
    using assms(4,5) by (simp add: of_nat_diff)
  hence blk: "flash_get_blk (g_flash_info k) (of_int (int (sum_list sects) - used - int len) + base) (flash_dev k)
      = Inr (int ?j)"
    using get_blk[OF _ a, of "flash_dev k"] assms(1) by (simp add: sys_ok_def flash_get_blk_def add.commute)
  have n: "nat (int nxt - int ?j) = nxt - ?j" using j by simp
  have le: "sector_start sects ?j \<le> sector_start sects nxt" using j by (intro sector_start_mono) simp
  have "sum_sectors (int ?j) (nxt - ?j) k = Inr (int (sector_start sects nxt) - int (sector_start sects ?j))"
    using sum_sectors_ok[OF assms(1), of ?j "nxt - ?j"] j assms(2) le
    by (simp add: of_nat_diff span_diff)
  thus ?thesis using blk n assms(5) by (simp add: carve_def layout_part_def Let_def)
qed

lemma carve_list_ok:
  assumes "sys_ok dev inv k" "nxt \<le> length sects" "layout_fits sects nxt lens"
  shows "carve_list base (int (sum_list sects)) (int (sum_list sects) - int (sector_start sects nxt)) (int nxt) (map int lens) k
    = Inr (layout sects nxt lens)"
  using assms(2,3)
proof (induction lens arbitrary: nxt)
  case (Cons len lens)
  let ?j = "sector_of sects (sector_start sects nxt - len)"
  have j: "?j < nxt" using Cons.prems by (intro sector_of_below) auto
  hence "carve_list base (int (sum_list sects)) (int (sum_list sects) - int (sector_start sects ?j)) (int ?j) (map int lens) k
     = Inr (layout sects ?j lens)" using Cons by simp
  thus ?case using carve_ok[OF assms(1) Cons.prems(1)] Cons.prems(2) by (simp add: layout_part_start)
qed simp


lemma nvram_addr_ok:
  assumes "sys_ok dev inv k" "flash_nvram (fInfo k) = nvram_part"
  shows "get_nvram_start_addr k = Inr (base + of_nat 0x580)"
proof -
  have "0 < length sects" using sects_wf(1) by simp
  from memptr[OF _ this, of "flash_dev k"] show ?thesis
    using assms by (simp add: get_nvram_start_addr_def sys_ok_def flash_get_memptr_def nvram_part_def)
qed

lemma flash_init_ok:
  assumes "\<not> flashInitialized k" "hw_flash_init hw (flash_dev k) = Inr (r, Some dev, d)" "inv d"
    and "flash_fits sects (GetHarewareType (gpio k))"
  shows "\<exists>k'. kerSysFlashInit hw k = Inr k' \<and> sys_ok dev inv k' \<and> flashInitialized k'
     \<and> finfo_wf sects (fInfo k') \<and> content (flash_dev k') = content d \<and> flash_nvram (fInfo k') = nvram_part
     \<and> map part_length (all_parts (fInfo k')) = map int (hg556_lengths (GetHarewareType (gpio k)) @ [1024])
     \<and> all_parts (fInfo k') = layout sects (length sects) (hg556_lengths (GetHarewareType (gpio k))) @ [nvram_part]
     \<and> kmalloc_ok k' = kmalloc_ok k \<and> kmalloc_calls k' = kmalloc_calls k \<and> heap_live k' = heap_live k"
proof -
  define hwt where "hwt = GetHarewareType (gpio k)"
  define k1 where "k1 = k\<lparr>flashInitialized := True, flash_dev := d, g_flash_info := Some dev,
                   fInfo := (fInfo k)\<lparr>flash_nvram := nvram_part\<rparr>\<rparr>"
  define k2 where "k2 = k1\<lparr>flash_dev := d, cur_bp := snd (BpSetBoardIdByHardwareType hwt)\<rparr>"
  let ?fps = "layout sects (length sects) (hg556_lengths hwt)"
  have sys: "sys_ok dev inv k1" "sys_ok dev inv k2" using assms(3) by (simp_all add: sys_ok_def k1_def k2_def)
  have "sects ! 0 \<le> sum_list sects" using sector_end_le[of 0 sects] sects_wf(1) by simp
  moreover have "0x580 + 1024 \<le> sects ! 0" using assms(4) by (simp add: flash_fits_def)
  ultimately have sz: "0x580 + 332 \<le> sum_list sects" by linarith
  have bs: "hw_peek hw (base + of_nat 0x580) 332 d = (slice 0x580 332 (content d), d)"
    using peek_hw[OF assms(3) sz] .
  have psi: "psi_bytes (nvram_of (slice 0x580 332 (content d))) (snd (BpSetBoardIdByHardwareType hwt)) = Inr 65536"
    using sz content_length[OF assms(3)] by (intro psi_bytes_hg556) simp
  have addr: "get_nvram_start_addr k1 = Inr (base + of_nat 0x580)"
    using sys(1) by (rule nvram_addr_ok) (simp add: k1_def)
  have "carve_list base (int (sum_list sects)) 0 (int (length sects)) (part_lengths 65536 hwt) k2 = Inr ?fps"
    using carve_list_ok[OF sys(2) order_refl, of "hg556_lengths hwt"] assms(4)
    by (simp add: part_lengths_hg556 flash_fits_def hwt_def)
  hence "kerSysFlashInit hw k = Inr (k2\<lparr>fInfo := store_parts ?fps (fInfo k2)\<rparr>)"
    using assms(1,2) addr bs psi base_hw[OF assms(3)] numsectors[OF assms(3)] total_size[OF assms(3)]
    unfolding k1_def k2_def
    by (simp add: kerSysFlashInit_def Let_def hwt_def[symmetric] flash_get_numsectors_def flash_get_total_size_def)
  moreover have "finfo_wf sects (store_parts ?fps (fInfo k2))"
    using finfo_wf_layout[OF assms(4), of "fInfo k"] by (simp add: k2_def k1_def hwt_def)
  moreover have "all_parts (store_parts ?fps (fInfo k2)) = ?fps @ [nvram_part]"
  proof -
    have "length ?fps = 9" by (subst length_layout) (simp add: hg556_lengths_def)
    thus ?thesis by (simp add: all_parts_store k2_def k1_def)
  qed
  moreover have "map part_length (?fps @ [nvram_part]) = map int (hg556_lengths hwt @ [1024])"
    using layout_ok[of sects "length sects" "hg556_lengths hwt"] assms(4)
    by (simp add: flash_fits_def hwt_def nvram_part_def)
  moreover have "flash_nvram (store_parts ?fps (fInfo k2)) = nvram_part" by (simp add: k2_def k1_def store_parts_def)
  ultimately show ?thesis using assms(3)
    by (intro exI[of _ "k2\<lparr>fInfo := store_parts ?fps (fInfo k2)\<rparr>"]) (simp add: sys_ok_def k2_def k1_def hwt_def)
qed

end

end
