(* ===== verification/Scratch_Pad.thy ===== *)
theory Scratch_Pad
  imports Flash_Layout
begin

text \<open>
  The scratch pad of \<^verbatim>\<open>bcm63xx_flash.c\<close>: a partition that holds a header of 32 bytes and a list
  of tokens, each a name of 16 bytes, a length and the data padded to a multiple of four. The
  operations work on a copy of the partition's blocks (\<open>buf\<close>); a pointer is its index in the copy.
\<close>

section \<open>Reading the pad\<close>

abbreviation (input) sizeof_SP_HEADER :: int where "sizeof_SP_HEADER \<equiv> 32"
abbreviation (input) sizeof_SP_TOKEN :: int where "sizeof_SP_TOKEN \<equiv> 20"
abbreviation (input) TOKEN_NAME_LEN :: nat where "TOKEN_NAME_LEN \<equiv> 16"

definition MAGIC_NUMBER :: "byte list" where
  "MAGIC_NUMBER = map of_char ''gOGoBD20''"

definition SPHead :: "byte list" where
  "SPHead = MAGIC_NUMBER @ be32_bytes 1 @ replicate 20 0"

definition rd_byte :: "byte list \<Rightarrow> int \<Rightarrow> byte res" where
  "rd_byte buf p = bindR (mem_rd buf p 1) (\<lambda>bs. Inr (hd bs))"

definition rd_int :: "byte list \<Rightarrow> int \<Rightarrow> int res" where
  "rd_int buf p = bindR (mem_rd buf p 4) (\<lambda>bs. Inr (sint (be32 bs)))"

text \<open>\<^verbatim>\<open>(x + 0x03) & ~0x03\<close>; it is used on lengths between zero and the size of the pad.\<close>

definition align4 :: "int \<Rightarrow> int" where
  "align4 x = (x + 3) div 4 * 4"

text \<open>\<^verbatim>\<open>strncmp(a, b, n) == 0\<close>, \<^verbatim>\<open>strlen\<close> and \<^verbatim>\<open>strncpy\<close> into a cleared array.\<close>

fun strncmp_eq :: "byte list \<Rightarrow> byte list \<Rightarrow> nat \<Rightarrow> bool res" where
  "strncmp_eq a b 0 = Inr True"
| "strncmp_eq (x # a) (y # b) (Suc n) =
     (if x \<noteq> y then Inr False else if x = 0 then Inr True else strncmp_eq a b n)"
| "strncmp_eq _ _ (Suc n) = Inl OutOfBounds"

definition strlen_at :: "byte list \<Rightarrow> int \<Rightarrow> int res" where
  "strlen_at buf p =
     (if 0 \<in> set (drop (nat p) buf) then Inr (int (length (takeWhile (\<lambda>c. c \<noteq> 0) (drop (nat p) buf))))
      else Inl OutOfBounds)"

definition strncpy_cleared :: "byte list \<Rightarrow> nat \<Rightarrow> nat \<Rightarrow> byte list res" where
  "strncpy_cleared src n sz =
     (if 0 \<in> set (take n src) \<or> n \<le> length src
      then let s = takeWhile (\<lambda>c. c \<noteq> 0) (take n src) in Inr (s @ replicate (sz - length s) 0)
      else Inl OutOfBounds)"

lemma mem_rd_bounds: "mem_rd buf p n = Inr xs \<Longrightarrow> 0 < n \<Longrightarrow> 0 \<le> p \<and> p + n \<le> int (length buf)"
  by (auto simp: mem_rd_def split: if_splits)

lemma align4_ge: "0 < x \<Longrightarrow> x \<le> align4 x \<and> align4 x < x + 4"
  unfolding align4_def by linarith

text \<open>The search of \<^verbatim>\<open>kerSysScratchPadGet\<close>: where the token is, and its length.\<close>

function sp_find :: "byte list \<Rightarrow> int \<Rightarrow> byte list \<Rightarrow> int \<Rightarrow> int \<Rightarrow> (int \<times> int) option res" where
  "sp_find buf len tokenId startPtr usedLen =
     bindR (rd_byte buf startPtr) (\<lambda>c.
       if c = 0 then Inr None
       else bindR (rd_int buf (startPtr + 16)) (\<lambda>tokenLen.
         if 0 < tokenLen \<and> tokenLen < len \<and> usedLen < len
         then bindR (strncmp_eq (drop (nat startPtr) buf) tokenId TOKEN_NAME_LEN) (\<lambda>eq.
                if eq then Inr (Some (startPtr, tokenLen))
                else sp_find buf len tokenId (startPtr + sizeof_SP_TOKEN + align4 tokenLen)
                       (usedLen + align4 tokenLen))
         else Inr None))"
  by pat_completeness auto

termination
proof (relation "measure (\<lambda>(buf, _, _, p, _). nat (int (length buf) - p))")
  fix buf len tokenId p usedLen c tokenLen eq
  assume "rd_int buf (p + 16) = Inr tokenLen" "0 < tokenLen \<and> tokenLen < len \<and> usedLen < len"
  thus "((buf, len, tokenId, p + 20 + align4 tokenLen, usedLen + align4 tokenLen), (buf, len, tokenId, p, usedLen))
      \<in> measure (\<lambda>(buf, _, _, p, _). nat (int (length buf) - p))"
    using align4_ge[of tokenLen] mem_rd_bounds[of buf "p + 16" 4] by (auto simp: rd_int_def)
qed simp

declare sp_find.simps [simp del]

section \<open>The operations\<close>

definition kerSysScratchPadClearAll :: "'s kersys \<Rightarrow> (int \<times> 's kersys) res" where
  "kerSysScratchPadClearAll k = part_clear (flash_scratch_pad (fInfo k)) k"

text \<open>The comparison with the size of the pad is unsigned, so that a negative \<open>bufLen\<close> is refused.\<close>

definition sp_too_long :: "int \<Rightarrow> int \<Rightarrow> bool" where
  "sp_too_long bufLen len \<longleftrightarrow> (of_int bufLen :: u32) \<ge> of_int (len - sizeof_SP_HEADER - sizeof_SP_TOKEN)"

definition kerSysScratchPadGet ::
  "byte list \<Rightarrow> byte list \<Rightarrow> int \<Rightarrow> 's kersys \<Rightarrow> (int \<times> byte list \<times> 's kersys) res" where
  "kerSysScratchPadGet tokenId tokBuf bufLen k =
     (let fp = flash_scratch_pad (fInfo k); len = part_length fp in
      if len = 0 \<or> sp_too_long bufLen len then Inr (-1, tokBuf, k)
      else
        bindR (getSharedBlks (part_start_blk fp) (part_start_blk fp + part_number_blk fp) k)
          (\<lambda>(r, k1). case r of
             None \<Rightarrow> Inr (-1, tokBuf, k1)
           | Some (p, buf) \<Rightarrow>
               bindR (mem_rd buf (part_blk_offset fp) 8) (\<lambda>magic.
               if magic \<noteq> MAGIC_NUMBER
               then bindR (kerSysScratchPadClearAll k1) (\<lambda>(_, k2). Inr (-1, tokBuf, k2))
               else
                 bindR (sp_find buf len tokenId (part_blk_offset fp + sizeof_SP_HEADER) sizeof_SP_HEADER)
                   (\<lambda>found.
                 bindR (case found of
                          None \<Rightarrow> Inr (-1, tokBuf)
                        | Some (q, sts) \<Rightarrow>
                            bindR (mem_rd buf (q + sizeof_SP_TOKEN) sts) (\<lambda>bs.
                            bindR (mem_wr tokBuf 0 bs) (\<lambda>tokBuf'. Inr (sts, tokBuf'))))
                   (\<lambda>(sts, tokBuf').
                 bindR (retriedKfree p k1) (\<lambda>k2. Inr (sts, tokBuf', k2)))))))"

text \<open>The first loop of \<^verbatim>\<open>kerSysScratchPadSet\<close>: the length of header and tokens.\<close>

function sp_used :: "byte list \<Rightarrow> int \<Rightarrow> int \<Rightarrow> int \<Rightarrow> int res" where
  "sp_used buf len curPtr usedLen =
     bindR (rd_int buf (curPtr + 16)) (\<lambda>tokenLen.
     bindR (rd_byte buf curPtr) (\<lambda>c.
       if 65 \<le> sint c \<and> sint c \<le> 122
       then bindR (strlen_at buf curPtr) (\<lambda>n.
              if n < 16 \<and> 0 < tokenLen \<and> tokenLen < len \<and> usedLen < len
              then sp_used buf len (curPtr + sizeof_SP_TOKEN + align4 tokenLen)
                     (usedLen + sizeof_SP_TOKEN + align4 tokenLen)
              else Inr usedLen)
       else Inr usedLen))"
  by pat_completeness auto

termination
proof (relation "measure (\<lambda>(buf, _, p, _). nat (int (length buf) - p))")
  fix buf len p usedLen tokenLen c n
  assume "rd_int buf (p + 16) = Inr tokenLen" "n < 16 \<and> 0 < tokenLen \<and> tokenLen < len \<and> usedLen < len"
  thus "((buf, len, p + 20 + align4 tokenLen, usedLen + 20 + align4 tokenLen), (buf, len, p, usedLen))
      \<in> measure (\<lambda>(buf, _, p, _). nat (int (length buf) - p))"
    using align4_ge[of tokenLen] mem_rd_bounds[of buf "p + 16" 4] by (auto simp: rd_int_def)
qed simp

declare sp_used.simps [simp del]

text \<open>The second loop: overwrite the token or move the tokens after it down and clear the rest; the
  result is \<^verbatim>\<open>putAtEnd\<close>, \<^verbatim>\<open>usedLen\<close> and the buffer. \<open>fuel\<close> bounds the number of tokens. The
  overlapping \<^verbatim>\<open>memcpy\<close> is taken to copy the bytes as they were.\<close>

fun sp_replace ::
  "nat \<Rightarrow> byte list \<Rightarrow> int \<Rightarrow> byte list \<Rightarrow> byte list option \<Rightarrow> int \<Rightarrow> int \<Rightarrow> int \<Rightarrow> int \<Rightarrow>
     (bool \<times> int \<times> byte list) res" where
  "sp_replace fuel buf len tokenId tokBuf bufLen curPtr curLen usedLen =
     (if curLen < usedLen
      then case fuel of
             0 \<Rightarrow> Inl Hang
           | Suc fuel' \<Rightarrow>
               bindR (rd_int buf (curPtr + 16)) (\<lambda>tokenLen.
               let skipLen = align4 tokenLen in
               bindR (strncmp_eq (drop (nat curPtr) buf) tokenId TOKEN_NAME_LEN) (\<lambda>eq.
                 if eq
                 then (if tokBuf \<noteq> None \<and> tokenLen = bufLen
                       then bindR (mem_rd (the tokBuf) 0 bufLen) (\<lambda>bs.
                            bindR (mem_wr buf (curPtr + sizeof_SP_TOKEN) bs) (\<lambda>buf'.
                              Inr (False, usedLen, buf')))
                       else let copyLen = usedLen - (curLen + sizeof_SP_TOKEN + skipLen) in
                            bindR (mem_rd buf (curPtr + sizeof_SP_TOKEN + skipLen) copyLen) (\<lambda>bs.
                            bindR (mem_wr buf curPtr bs) (\<lambda>buf1.
                            bindR (mem_set buf1 (curPtr + copyLen) 0 (len - (curLen + copyLen))) (\<lambda>buf2.
                              Inr (True, usedLen - (sizeof_SP_TOKEN + skipLen), buf2)))))
                 else sp_replace fuel' buf len tokenId tokBuf bufLen
                        (curPtr + sizeof_SP_TOKEN + skipLen) (curLen + sizeof_SP_TOKEN + skipLen) usedLen))
      else Inr (True, usedLen, buf))"

declare sp_replace.simps [simp del]

text \<open>The pad after the update; \<open>None\<close> when it would overflow. \<open>pos\<close> is the pad's place in \<open>buf\<close>.\<close>

definition sp_update ::
  "byte list \<Rightarrow> int \<Rightarrow> int \<Rightarrow> byte list \<Rightarrow> byte list \<Rightarrow> byte list option \<Rightarrow> int \<Rightarrow> byte list option res" where
  "sp_update buf pos len SPToken tokenId tokBuf bufLen =
     bindR (sp_used buf len (pos + sizeof_SP_HEADER) sizeof_SP_HEADER) (\<lambda>usedLen.
     if (of_int (usedLen + bufLen + sizeof_SP_TOKEN) :: u32) > of_int len then Inr None
     else
       bindR (sp_replace (nat usedLen) buf len tokenId tokBuf bufLen (pos + sizeof_SP_HEADER)
                sizeof_SP_HEADER usedLen) (\<lambda>(putAtEnd, usedLen', buf1).
       if putAtEnd
       then bindR (case tokBuf of
                     None \<Rightarrow> Inr buf1
                   | Some tb \<Rightarrow>
                       bindR (mem_wr buf1 (pos + usedLen') SPToken) (\<lambda>buf2.
                       bindR (mem_rd tb 0 bufLen) (\<lambda>bs.
                         mem_wr buf2 (pos + usedLen' + sizeof_SP_TOKEN) bs)))
              (\<lambda>buf3. bindR (mem_wr buf3 pos SPHead) (\<lambda>buf4. Inr (Some buf4)))
       else Inr (Some buf1)))"

definition sp_first ::
  "byte list \<Rightarrow> int \<Rightarrow> byte list \<Rightarrow> byte list option \<Rightarrow> int \<Rightarrow> byte list res" where
  "sp_first buf pos SPToken tokBuf bufLen =
     bindR (mem_wr buf pos SPHead) (\<lambda>buf1.
     bindR (mem_wr buf1 (pos + sizeof_SP_HEADER) SPToken) (\<lambda>buf2.
       case tokBuf of
         None \<Rightarrow> Inr buf2
       | Some tb \<Rightarrow>
           bindR (mem_rd tb 0 bufLen) (\<lambda>bs.
             mem_wr buf2 (pos + sizeof_SP_HEADER + sizeof_SP_TOKEN) bs)))"

definition kerSysScratchPadSet ::
  "byte list \<Rightarrow> byte list option \<Rightarrow> int \<Rightarrow> 's kersys \<Rightarrow> (int \<times> 's kersys) res" where
  "kerSysScratchPadSet tokenId tokBuf bufLen k =
     (let fp = flash_scratch_pad (fInfo k); len = part_length fp; pos = part_blk_offset fp in
      if len = 0 \<or> sp_too_long bufLen len then Inr (-1, k)
      else
        bindR (getSharedBlks (part_start_blk fp) (part_start_blk fp + part_number_blk fp) k)
          (\<lambda>(r, k1). case r of
             None \<Rightarrow> Inr (-1, k1)
           | Some (p, buf) \<Rightarrow>
               bindR (strncpy_cleared tokenId 15 TOKEN_NAME_LEN) (\<lambda>tokenName.
               let SPToken = tokenName @ be32_bytes (of_int bufLen) in
               bindR (mem_rd buf pos 8) (\<lambda>magic.
               bindR (if magic \<noteq> MAGIC_NUMBER
                      then bindR (kerSysScratchPadClearAll k1) (\<lambda>(_, k2).
                           bindR (sp_first buf pos SPToken tokBuf bufLen) (\<lambda>buf'. Inr (Some buf', k2)))
                      else bindR (sp_update buf pos len SPToken tokenId tokBuf bufLen) (\<lambda>r'. Inr (r', k1)))
                 (\<lambda>(r', k2).
               case r' of
                 None \<Rightarrow> Inr (-1, k2)
               | Some buf' \<Rightarrow>
                   bindR (setSharedBlks (part_start_blk fp) (part_number_blk fp + part_start_blk fp) buf' k2)
                     (\<lambda>(sts, k3).
                   bindR (retriedKfree p k3) (\<lambda>k4. Inr (sts, k4))))))))"

end
