(* ===== verification/Scratch_Pad_Scan.thy ===== *)
theory Scratch_Pad_Scan
  imports Scratch_Pad
begin

text \<open>
  What the three scans of the scratch pad compute on a pad that is a list of tokens: the length in
  use, the place of a token, and the buffer after a token has been overwritten or removed.
\<close>

section \<open>Buffers in pieces\<close>

lemma mem_rd_mid:
  "p = int (length pre) \<Longrightarrow> n = int (length xs) \<Longrightarrow> mem_rd (pre @ xs @ suf) p n = Inr xs"
  by (auto simp: mem_rd_def slice_def)

lemma mem_wr_mid:
  "p = int (length pre) \<Longrightarrow> length ys = length xs \<Longrightarrow> mem_wr (pre @ xs @ suf) p ys = Inr (pre @ ys @ suf)"
  by (auto simp: mem_wr_def overlay_def)

section \<open>Tokens\<close>

text \<open>A token: its name without the terminator, its data and the bytes that pad the data.\<close>

type_synonym sp_token = "byte list \<times> byte list \<times> byte list"

abbreviation tok_name :: "sp_token \<Rightarrow> byte list" where "tok_name t \<equiv> fst t"
abbreviation tok_data :: "sp_token \<Rightarrow> byte list" where "tok_data t \<equiv> fst (snd t)"
abbreviation tok_pad :: "sp_token \<Rightarrow> byte list" where "tok_pad t \<equiv> snd (snd t)"

definition tok_head :: "byte list \<Rightarrow> nat \<Rightarrow> byte list" where
  "tok_head nm n = (nm @ replicate (16 - length nm) 0) @ be32_bytes (of_nat n)"

definition tok_bytes :: "sp_token \<Rightarrow> byte list" where
  "tok_bytes t = tok_head (tok_name t) (length (tok_data t)) @ tok_data t @ tok_pad t"

definition name_ok :: "byte list \<Rightarrow> bool" where
  "name_ok nm \<longleftrightarrow> nm \<noteq> [] \<and> 0 \<notin> set nm \<and> length nm \<le> 15 \<and> 65 \<le> sint (hd nm) \<and> sint (hd nm) \<le> 122"

definition tok_ok :: "nat \<Rightarrow> sp_token \<Rightarrow> bool" where
  "tok_ok len t \<longleftrightarrow> name_ok (tok_name t) \<and> tok_data t \<noteq> [] \<and> length (tok_data t) < len
     \<and> int (length (tok_data t) + length (tok_pad t)) = align4 (int (length (tok_data t)))"

definition pad4 :: "nat \<Rightarrow> nat" where
  "pad4 n = (n + 3) div 4 * 4"

lemma align4_int [simp]: "align4 (int n) = int (pad4 n)"
  by (simp add: align4_def pad4_def zdiv_int)

lemma pad4_bounds: "n \<le> pad4 n" "pad4 n < n + 4" "4 dvd pad4 n"
  unfolding pad4_def by presburger+

lemma name_head: "name_ok nm \<Longrightarrow> \<exists>c cs. nm = c # cs \<and> c \<noteq> 0"
  by (cases nm) (auto simp: name_ok_def)

lemma length_tok_head [simp]: "name_ok nm \<Longrightarrow> length (tok_head nm n) = 20"
  by (simp add: tok_head_def name_ok_def)

lemma length_tok_bytes [simp]: "tok_ok len t \<Longrightarrow> length (tok_bytes t) = 20 + pad4 (length (tok_data t))"
  by (simp add: tok_bytes_def tok_ok_def)

lemma sint_of_nat_small: "n < 2 ^ 31 \<Longrightarrow> sint (of_nat n :: u32) = int n"
  by (simp add: signed_of_nat signed_take_bit_int_eq_self)

lemma rd_int_mid:
  "p = int (length pre) \<Longrightarrow> n < 2 ^ 31 \<Longrightarrow> rd_int (pre @ be32_bytes (of_nat n) @ suf) p = Inr (int n)"
  using mem_rd_mid[of p pre 4 "be32_bytes (of_nat n)" suf]
  by (simp add: rd_int_def sint_of_nat_small)

lemma rd_int_tok:
  assumes "tok_ok len t" "len \<le> 2 ^ 31"
  shows "rd_int (pre @ tok_bytes t @ suf) (int (length pre) + 16) = Inr (int (length (tok_data t)))"
  using assms rd_int_mid[of "int (length pre) + 16" "pre @ tok_name t @ replicate (16 - length (tok_name t)) 0"
      "length (tok_data t)" "tok_data t @ tok_pad t @ suf"]
  by (simp add: tok_bytes_def tok_head_def tok_ok_def name_ok_def)

lemma rd_byte_mid: "p = int (length pre) \<Longrightarrow> rd_byte (pre @ c # suf) p = Inr c"
  using mem_rd_mid[of p pre 1 "[c]" suf] by (simp add: rd_byte_def)

lemma tok_bytes_Cons:
  assumes "tok_ok len t"
  obtains c cs where "tok_bytes t = c # cs" "c = hd (tok_name t)" "c \<noteq> 0"
  using assms name_head[of "tok_name t"] by (auto simp: tok_ok_def tok_bytes_def tok_head_def)

lemma rd_byte_tok: "tok_ok len t \<Longrightarrow> rd_byte (pre @ tok_bytes t @ suf) (int (length pre)) = Inr (hd (tok_name t))"
  by (erule tok_bytes_Cons) (simp add: rd_byte_mid)

lemma strlen_at_tok:
  assumes "tok_ok len t"
  shows "strlen_at (pre @ tok_bytes t @ suf) (int (length pre)) = Inr (int (length (tok_name t)))"
proof -
  let ?nm = "tok_name t"
  have "16 - length ?nm = Suc (15 - length ?nm)" "\<forall>x \<in> set ?nm. x \<noteq> 0"
    using assms by (auto simp: tok_ok_def name_ok_def)
  thus ?thesis by (simp add: strlen_at_def tok_bytes_def tok_head_def takeWhile_append2)
qed

lemma strncmp_eq_names:
  assumes "0 \<notin> set a" "0 \<notin> set b" "length a < n" "length b < n"
  shows "strncmp_eq (a @ 0 # s) (b @ 0 # z) n = Inr (a = b)"
  using assms
proof (induction a arbitrary: b n)
  case Nil thus ?case by (cases n; cases b) auto
next
  case (Cons x a) thus ?case by (cases n; cases b) auto
qed

lemma strncmp_eq_tok:
  assumes "tok_ok len t" "name_ok nm"
  shows "strncmp_eq (drop (nat (int (length pre))) (pre @ tok_bytes t @ suf)) (nm @ 0 # z) 16 = Inr (tok_name t = nm)"
proof -
  have "16 - length (tok_name t) = Suc (15 - length (tok_name t))"
    using assms(1) by (auto simp: tok_ok_def name_ok_def)
  thus ?thesis using strncmp_eq_names[of "tok_name t" nm 16] assms
    by (simp add: tok_bytes_def tok_head_def tok_ok_def name_ok_def)
qed

section \<open>Lists of tokens\<close>

definition toks_bytes :: "sp_token list \<Rightarrow> byte list" where
  "toks_bytes ts = concat (map tok_bytes ts)"

lemma toks_bytes_simps [simp]:
  "toks_bytes [] = []" "toks_bytes (t # ts) = tok_bytes t @ toks_bytes ts"
  "toks_bytes (ts @ us) = toks_bytes ts @ toks_bytes us"
  by (simp_all add: toks_bytes_def)

text \<open>The bytes after the tokens, on which every scan stops.\<close>

definition quiet :: "byte list \<Rightarrow> bool" where
  "quiet rest \<longleftrightarrow> (\<exists>m b. 20 \<le> m \<and> (b = 0 \<or> b = 0xFF) \<and> take m rest = replicate m b)"

lemma quietE:
  assumes "quiet rest"
  obtains b r where "b = 0 \<or> b = 0xFF" "rest = replicate 20 b @ r"
proof -
  obtain m b where "20 \<le> m" "b = 0 \<or> b = 0xFF" "take m rest = replicate m b" using assms by (auto simp: quiet_def)
  moreover from this have "take 20 rest = replicate 20 b" by (metis min.absorb1 take_replicate take_take)
  ultimately show ?thesis using that[of b "drop 20 rest"] by (metis append_take_drop_id)
qed

lemma rd_quiet:
  assumes "rest = replicate 20 b @ r" "b = 0 \<or> b = 0xFF"
  shows "rd_byte (pre @ rest) (int (length pre)) = Inr b"
    and "\<exists>n \<le> 0. rd_int (pre @ rest) (int (length pre) + 16) = Inr n"
proof -
  have e: "rest = b # replicate 19 b @ r" using assms(1) replicate_Suc[of 19 b] by simp
  show "rd_byte (pre @ rest) (int (length pre)) = Inr b" unfolding e by (rule rd_byte_mid) simp
  have f: "pre @ rest = (pre @ replicate 16 b) @ replicate 4 b @ r" using assms(1) replicate_add[of 16 4 b] by simp
  have "replicate (Suc (Suc (Suc (Suc 0)))) b = [b, b, b, b]" "Suc (Suc (Suc (Suc 0))) = 4" by simp_all
  hence r4: "replicate 4 b = [b, b, b, b]" by metis
  have "rd_int (pre @ rest) (int (length pre) + 16) = Inr (sint (be32 [b, b, b, b]))"
    unfolding f rd_int_def r4 by (subst mem_rd_mid[where n = 4 and xs = "[b, b, b, b]"]) simp_all
  moreover have "sint (be32 [b, b, b, b]) \<le> 0" using assms(2) by (auto simp: be32_def)
  ultimately show "\<exists>n \<le> 0. rd_int (pre @ rest) (int (length pre) + 16) = Inr n" by metis
qed

lemma sp_used_ok:
  assumes "\<forall>t \<in> set ts. tok_ok len t" "quiet rest" "used + length (toks_bytes ts) \<le> len" "len \<le> 2 ^ 31"
  shows "sp_used (pre @ toks_bytes ts @ rest) (int len) (int (length pre)) (int used)
           = Inr (int (used + length (toks_bytes ts)))"
  using assms(1,3)
proof (induction ts arbitrary: pre used)
  case Nil
  obtain b r where b: "b = 0 \<or> b = 0xFF" "rest = replicate 20 b @ r" using assms(2) by (rule quietE)
  obtain n where "rd_int (pre @ rest) (int (length pre) + 16) = Inr n" using rd_quiet(2)[OF b(2,1)] by blast
  thus ?case using rd_quiet(1)[OF b(2,1)] b(1) by (subst sp_used.simps) auto
next
  case (Cons t ts)
  have t: "tok_ok len t" using Cons.prems(1) by simp
  let ?suf = "toks_bytes ts @ rest" and ?n = "length (tok_data t)"
  have nm: "name_ok (tok_name t)" "0 < ?n" "?n < len" using t by (simp_all add: tok_ok_def)
  have "sp_used ((pre @ tok_bytes t) @ ?suf) (int len) (int (length (pre @ tok_bytes t))) (int (used + length (tok_bytes t)))
      = Inr (int (used + length (tok_bytes t) + length (toks_bytes ts)))"
    using Cons.prems by (intro Cons.IH) auto
  moreover have "used < len" using Cons.prems(2) length_tok_bytes[OF t] by simp
  ultimately show ?case
    using rd_int_tok[OF t assms(4), of pre ?suf] rd_byte_tok[OF t, of pre ?suf] strlen_at_tok[OF t, of pre ?suf] nm length_tok_bytes[OF t]
    by (subst sp_used.simps) (auto simp: name_ok_def add.assoc)
qed


lemma sp_find_skip:
  assumes t: "tok_ok len t" and "len \<le> 2 ^ 31" "name_ok nm" "used < int len"
  shows "sp_find (pre @ tok_bytes t @ suf) (int len) (nm @ 0 # z) (int (length pre)) used =
     (if tok_name t = nm then Inr (Some (int (length pre), int (length (tok_data t))))
      else sp_find ((pre @ tok_bytes t) @ suf) (int len) (nm @ 0 # z) (int (length (pre @ tok_bytes t)))
             (used + int (pad4 (length (tok_data t)))))"
proof -
  have nm: "name_ok (tok_name t)" "0 < length (tok_data t)" "length (tok_data t) < len"
    using t by (simp_all add: tok_ok_def)
  hence "hd (tok_name t) \<noteq> 0" using name_head by force
  thus ?thesis
    using rd_int_tok[OF t assms(2), of pre suf] rd_byte_tok[OF t, of pre suf] nm assms(4)
      strncmp_eq_tok[OF t assms(3), of pre suf z] length_tok_bytes[OF t]
    by (subst sp_find.simps) (auto simp: add.assoc)
qed

lemma sp_find_found:
  assumes "\<forall>t \<in> set (ts @ [t]). tok_ok len t" "nm \<notin> tok_name ` set ts" "tok_name t = nm"
    and "used + int (length (toks_bytes ts)) < int len" "len \<le> 2 ^ 31"
  shows "sp_find (pre @ toks_bytes ts @ tok_bytes t @ suf) (int len) (nm @ 0 # z) (int (length pre)) used
           = Inr (Some (int (length pre + length (toks_bytes ts)), int (length (tok_data t))))"
  using assms(1,2,4)
proof (induction ts arbitrary: pre used)
  case Nil
  have "name_ok nm" using Nil.prems(1) assms(3) by (auto simp: tok_ok_def)
  thus ?case using sp_find_skip[of len t nm used pre suf z] Nil.prems assms(3,5) by simp
next
  case (Cons u ts)
  have u: "tok_ok len u" "name_ok nm" using Cons.prems(1) assms(3) by (auto simp: tok_ok_def)
  show ?case using sp_find_skip[OF u(1) assms(5) u(2), of used pre "toks_bytes ts @ tok_bytes t @ suf" z]
      Cons.IH[of "used + int (pad4 (length (tok_data u)))" "pre @ tok_bytes u"] Cons.prems length_tok_bytes[OF u(1)]
    by (auto simp: add.assoc)
qed

lemma sp_find_missing:
  assumes "\<forall>t \<in> set ts. tok_ok len t" "name_ok nm" "nm \<notin> tok_name ` set ts" "quiet rest"
    and "used + int (length (toks_bytes ts)) \<le> int len" "len \<le> 2 ^ 31"
  shows "sp_find (pre @ toks_bytes ts @ rest) (int len) (nm @ 0 # z) (int (length pre)) used = Inr None"
  using assms(1,3,5)
proof (induction ts arbitrary: pre used)
  case Nil
  obtain b r where b: "b = 0 \<or> b = 0xFF" "rest = replicate 20 b @ r" using assms(4) by (rule quietE)
  obtain n where "n \<le> 0" "rd_int (pre @ rest) (int (length pre) + 16) = Inr n" using rd_quiet(2)[OF b(2,1)] by blast
  thus ?case using rd_quiet(1)[OF b(2,1)] b(1) by (subst sp_find.simps) auto
next
  case (Cons u ts)
  have u: "tok_ok len u" using Cons.prems(1) by simp
  have "used < int len" using Cons.prems(3) length_tok_bytes[OF u] by simp
  thus ?case using sp_find_skip[OF u assms(6,2), of used pre "toks_bytes ts @ rest" z]
      Cons.IH[of "used + int (pad4 (length (tok_data u)))" "pre @ tok_bytes u"] Cons.prems length_tok_bytes[OF u]
    by (auto simp: add.assoc)
qed

lemma sp_replace_skip:
  assumes t: "tok_ok len t" and "len \<le> 2 ^ 31" "name_ok nm" "cur < used" "tok_name t \<noteq> nm"
  shows "sp_replace (Suc fuel) (pre @ tok_bytes t @ suf) (int len) (nm @ 0 # z) tb bl (int (length pre)) cur used =
     sp_replace fuel ((pre @ tok_bytes t) @ suf) (int len) (nm @ 0 # z) tb bl (int (length (pre @ tok_bytes t)))
       (cur + int (length (tok_bytes t))) used"
  using rd_int_tok[OF t assms(2), of pre suf] strncmp_eq_tok[OF t assms(3), of pre suf z] length_tok_bytes[OF t] assms(4,5)
  by (subst sp_replace.simps) (simp add: add.assoc Let_def)

lemma sp_replace_skips:
  assumes "\<forall>t \<in> set ts. tok_ok len t" "name_ok nm" "nm \<notin> tok_name ` set ts" "len \<le> 2 ^ 31"
    and "cur + int (length (toks_bytes ts)) \<le> used" "length (toks_bytes ts) \<le> fuel"
  shows "\<exists>fuel' \<ge> fuel - length (toks_bytes ts).
    sp_replace fuel (pre @ toks_bytes ts @ suf) (int len) (nm @ 0 # z) tb bl (int (length pre)) cur used =
    sp_replace fuel' ((pre @ toks_bytes ts) @ suf) (int len) (nm @ 0 # z) tb bl (int (length (pre @ toks_bytes ts)))
       (cur + int (length (toks_bytes ts))) used"
  using assms(1,3,5,6)
proof (induction ts arbitrary: pre cur fuel)
  case Nil thus ?case by auto
next
  case (Cons t ts)
  have t: "tok_ok len t" using Cons.prems(1) by simp
  obtain f where f: "fuel = Suc f" using Cons.prems(4) length_tok_bytes[OF t] by (cases fuel) auto
  have "cur < used" using Cons.prems(3) length_tok_bytes[OF t] by simp
  hence "sp_replace fuel (pre @ toks_bytes (t # ts) @ suf) (int len) (nm @ 0 # z) tb bl (int (length pre)) cur used =
     sp_replace f ((pre @ tok_bytes t) @ toks_bytes ts @ suf) (int len) (nm @ 0 # z) tb bl (int (length (pre @ tok_bytes t)))
       (cur + int (length (tok_bytes t))) used"
    using sp_replace_skip[OF t assms(4,2), of cur used f pre "toks_bytes ts @ suf" z tb bl] Cons.prems(2) f by auto
  moreover obtain f' where "f' \<ge> f - length (toks_bytes ts)"
    "sp_replace f ((pre @ tok_bytes t) @ toks_bytes ts @ suf) (int len) (nm @ 0 # z) tb bl (int (length (pre @ tok_bytes t)))
       (cur + int (length (tok_bytes t))) used =
     sp_replace f' (((pre @ tok_bytes t) @ toks_bytes ts) @ suf) (int len) (nm @ 0 # z) tb bl
       (int (length ((pre @ tok_bytes t) @ toks_bytes ts))) (cur + int (length (tok_bytes t)) + int (length (toks_bytes ts))) used"
    using Cons.IH[of "cur + int (length (tok_bytes t))" f "pre @ tok_bytes t"] Cons.prems length_tok_bytes[OF t] f by auto
  ultimately show ?case using f length_tok_bytes[OF t] by (intro exI[of _ f']) (simp add: add.assoc)
qed


lemma sp_replace_missing:
  assumes "\<forall>t \<in> set ts. tok_ok len t" "name_ok nm" "nm \<notin> tok_name ` set ts" "len \<le> 2 ^ 31"
    and "used = cur + int (length (toks_bytes ts))" "length (toks_bytes ts) \<le> fuel"
  shows "sp_replace fuel (pre @ toks_bytes ts @ suf) (int len) (nm @ 0 # z) tb bl (int (length pre)) cur used
           = Inr (True, used, pre @ toks_bytes ts @ suf)"
proof -
  obtain f where "sp_replace fuel (pre @ toks_bytes ts @ suf) (int len) (nm @ 0 # z) tb bl (int (length pre)) cur used =
    sp_replace f ((pre @ toks_bytes ts) @ suf) (int len) (nm @ 0 # z) tb bl (int (length (pre @ toks_bytes ts)))
       (cur + int (length (toks_bytes ts))) used"
    using sp_replace_skips[OF assms(1-4), of cur used fuel pre suf z tb bl] assms(5,6) by auto
  thus ?thesis using assms(5) by (simp add: sp_replace.simps[of f])
qed

lemma sp_replace_at:
  assumes "\<forall>t \<in> set (ts @ [t]). tok_ok len t" "nm \<notin> tok_name ` set ts" "tok_name t = nm" "len \<le> 2 ^ 31"
    and "cur + int (length (toks_bytes ts) + length (tok_bytes t)) \<le> used" "length (toks_bytes ts) + length (tok_bytes t) \<le> fuel"
  obtains f where "sp_replace fuel (pre @ toks_bytes ts @ tok_bytes t @ suf) (int len) (nm @ 0 # z) tb bl (int (length pre)) cur used =
    sp_replace (Suc f) ((pre @ toks_bytes ts) @ tok_bytes t @ suf) (int len) (nm @ 0 # z) tb bl
       (int (length (pre @ toks_bytes ts))) (cur + int (length (toks_bytes ts))) used"
    and "cur + int (length (toks_bytes ts)) < used" "name_ok nm"
    "rd_int ((pre @ toks_bytes ts) @ tok_bytes t @ suf) (int (length (pre @ toks_bytes ts)) + 16) = Inr (int (length (tok_data t)))"
    "strncmp_eq (drop (nat (int (length (pre @ toks_bytes ts)))) ((pre @ toks_bytes ts) @ tok_bytes t @ suf)) (nm @ 0 # z) 16 = Inr True"
proof -
  have t: "tok_ok len t" "name_ok nm" using assms(1,3) by (auto simp: tok_ok_def)
  have ts: "\<forall>t \<in> set ts. tok_ok len t" using assms(1) by simp
  obtain f where f: "f \<ge> fuel - length (toks_bytes ts)"
    "sp_replace fuel (pre @ toks_bytes ts @ tok_bytes t @ suf) (int len) (nm @ 0 # z) tb bl (int (length pre)) cur used =
    sp_replace f ((pre @ toks_bytes ts) @ tok_bytes t @ suf) (int len) (nm @ 0 # z) tb bl (int (length (pre @ toks_bytes ts)))
       (cur + int (length (toks_bytes ts))) used"
    using sp_replace_skips[OF ts t(2) assms(2,4), of cur used fuel pre "tok_bytes t @ suf" z tb bl] assms(5,6) by auto
  moreover obtain f' where "f = Suc f'" using f(1) assms(6) length_tok_bytes[OF t(1)] by (cases f) auto
  ultimately show ?thesis
    using that[of f'] rd_int_tok[OF t(1) assms(4), of "pre @ toks_bytes ts" suf] length_tok_bytes[OF t(1)]
      strncmp_eq_tok[OF t, of "pre @ toks_bytes ts" suf z] assms(3,5) t(2) by simp
qed

lemma sp_replace_same:
  assumes "\<forall>t \<in> set (ts @ [t]). tok_ok len t" "nm \<notin> tok_name ` set ts" "tok_name t = nm" "len \<le> 2 ^ 31"
    and "cur + int (length (toks_bytes ts) + length (tok_bytes t)) \<le> used" "length (toks_bytes ts) + length (tok_bytes t) \<le> fuel"
    and "length data = length (tok_data t)"
  shows "sp_replace fuel (pre @ toks_bytes ts @ tok_bytes t @ suf) (int len) (nm @ 0 # z) (Some (data @ ex))
           (int (length data)) (int (length pre)) cur used
    = Inr (False, used, pre @ toks_bytes ts @ tok_bytes (nm, data, tok_pad t) @ suf)"
proof (rule sp_replace_at[OF assms(1-6), of pre suf z "Some (data @ ex)" "int (length data)"])
  fix f let ?p = "pre @ toks_bytes ts"
  assume s: "sp_replace fuel (pre @ toks_bytes ts @ tok_bytes t @ suf) (int len) (nm @ 0 # z) (Some (data @ ex))
        (int (length data)) (int (length pre)) cur used =
      sp_replace (Suc f) (?p @ tok_bytes t @ suf) (int len) (nm @ 0 # z) (Some (data @ ex)) (int (length data)) (int (length ?p))
       (cur + int (length (toks_bytes ts))) used" "cur + int (length (toks_bytes ts)) < used" "name_ok nm"
    and r: "rd_int (?p @ tok_bytes t @ suf) (int (length ?p) + 16) = Inr (int (length (tok_data t)))"
    "strncmp_eq (drop (nat (int (length ?p))) (?p @ tok_bytes t @ suf)) (nm @ 0 # z) 16 = Inr True"
  have "mem_rd (data @ ex) 0 (int (length data)) = Inr data" using mem_rd_mid[of 0 "[]" _ data ex] by simp
  moreover have "mem_wr (?p @ tok_bytes t @ suf) (int (length ?p) + 20) data
      = Inr (?p @ tok_bytes (nm, data, tok_pad t) @ suf)"
    using mem_wr_mid[of "int (length ?p) + 20" "?p @ tok_head nm (length data)" data "tok_data t" "tok_pad t @ suf"] assms(3,7) s(3)
    by (simp add: tok_bytes_def)
  ultimately show ?thesis unfolding s(1) using s(2) r assms(7) by (subst sp_replace.simps) (simp add: Let_def)
qed

lemma sp_replace_shift:
  assumes "\<forall>t \<in> set (ts @ [t]). tok_ok len t" "nm \<notin> tok_name ` set ts" "tok_name t = nm" "len \<le> 2 ^ 31"
    and "used = cur + int (length (toks_bytes ts) + length (tok_bytes t) + length (toks_bytes us))"
    and "length (toks_bytes ts) + length (tok_bytes t) \<le> fuel"
    and "tb = None \<or> bl \<noteq> int (length (tok_data t))" "int len = used + int (length rest)"
  shows "sp_replace fuel (pre @ toks_bytes ts @ tok_bytes t @ toks_bytes us @ rest @ aft) (int len) (nm @ 0 # z) tb bl (int (length pre)) cur used
    = Inr (True, used - int (length (tok_bytes t)),
           pre @ toks_bytes ts @ toks_bytes us @ replicate (length (tok_bytes t) + length rest) 0 @ aft)"
proof -
  let ?p = "pre @ toks_bytes ts" and ?suf = "toks_bytes us @ rest @ aft" and ?u = "toks_bytes us"
  have le: "cur + int (length (toks_bytes ts) + length (tok_bytes t)) \<le> used" using assms(5) by simp
  have t: "tok_ok len t" using assms(1) by simp
  obtain f where s: "sp_replace fuel (pre @ toks_bytes ts @ tok_bytes t @ ?suf) (int len) (nm @ 0 # z) tb bl (int (length pre)) cur used =
      sp_replace (Suc f) (?p @ tok_bytes t @ ?suf) (int len) (nm @ 0 # z) tb bl (int (length ?p))
       (cur + int (length (toks_bytes ts))) used" "cur + int (length (toks_bytes ts)) < used"
    and r: "rd_int (?p @ tok_bytes t @ ?suf) (int (length ?p) + 16) = Inr (int (length (tok_data t)))"
    "strncmp_eq (drop (nat (int (length ?p))) (?p @ tok_bytes t @ ?suf)) (nm @ 0 # z) 16 = Inr True"
    by (rule sp_replace_at[OF assms(1-4) le assms(6), of pre ?suf z tb bl])
  have l: "int (length (tok_bytes t)) = 20 + align4 (int (length (tok_data t)))" using length_tok_bytes[OF t] by simp
  have "mem_rd (?p @ tok_bytes t @ ?suf) (int (length ?p) + int (length (tok_bytes t))) (int (length ?u)) = Inr ?u"
    using mem_rd_mid[of "int (length ?p) + int (length (tok_bytes t))" "?p @ tok_bytes t" _ ?u "rest @ aft"] by simp
  moreover obtain v w where v: "tok_bytes t @ ?u = v @ w" "length v = length ?u" "length w = length (tok_bytes t)"
    using append_take_drop_id[of "length ?u" "tok_bytes t @ ?u"] length_take length_drop
    by (metis add.commute add_diff_cancel_left' length_append min.absorb2 le_add1)
  moreover have "mem_wr (?p @ tok_bytes t @ ?suf) (int (length ?p)) ?u = Inr (?p @ ?u @ w @ rest @ aft)"
    using mem_wr_mid[of "int (length ?p)" ?p ?u v "w @ rest @ aft"] v by (metis append_assoc)
  moreover have "mem_set (?p @ ?u @ w @ rest @ aft) (int (length ?p) + int (length ?u)) 0 (int (length w + length rest))
      = Inr (?p @ ?u @ replicate (length w + length rest) 0 @ aft)"
    using mem_wr_mid[of "int (length ?p) + int (length ?u)" "?p @ ?u" "replicate (length w + length rest) 0" "w @ rest" aft]
    by (simp add: mem_set_def nat_add_distrib)
  ultimately show ?thesis unfolding s(1) using s(2) r assms(5,7,8) l
    by (subst sp_replace.simps) (auto simp add: Let_def algebra_simps)
qed

end
