(* ===== verification/Scratch_Pad_Map.thy ===== *)
theory Scratch_Pad_Map
  imports Scratch_Pad_Scan
begin

text \<open>
  The scratch pad as a map from names to data: \<open>sp_holds\<close> relates the bytes of a pad and the map,
  and the update and the search of the code implement update and lookup of the map.
\<close>

section \<open>The pad as a map\<close>

text \<open>A pad of \<open>len\<close> bytes: header, tokens with distinct names, and at least a token header of
  bytes that end every scan.\<close>

definition sp_pad :: "sp_token list \<Rightarrow> nat \<Rightarrow> byte \<Rightarrow> byte list" where
  "sp_pad ts m b = SPHead @ toks_bytes ts @ replicate m b"

definition sp_wf :: "nat \<Rightarrow> sp_token list \<Rightarrow> nat \<Rightarrow> byte \<Rightarrow> bool" where
  "sp_wf len ts m b \<longleftrightarrow> distinct (map tok_name ts) \<and> (\<forall>t \<in> set ts. tok_ok len t)
     \<and> 20 \<le> m \<and> (b = 0 \<or> b = 0xFF) \<and> len = 32 + length (toks_bytes ts) + m \<and> len < 2 ^ 31"

definition sp_map :: "sp_token list \<Rightarrow> byte list \<rightharpoonup> byte list" where
  "sp_map ts = map_of (map (\<lambda>t. (tok_name t, tok_data t)) ts)"

definition sp_holds :: "byte list \<Rightarrow> (byte list \<rightharpoonup> byte list) \<Rightarrow> bool" where
  "sp_holds pad M \<longleftrightarrow> (\<exists>ts m b. pad = sp_pad ts m b \<and> sp_wf (length pad) ts m b \<and> sp_map ts = M)"

text \<open>The bytes taken by the tokens of a map.\<close>

definition sp_size :: "(byte list \<rightharpoonup> byte list) \<Rightarrow> nat" where
  "sp_size M = (\<Sum>n \<in> dom M. 20 + pad4 (length (the (M n))))"

lemma length_SPHead [simp]: "length SPHead = 32" and SPHead_magic: "\<exists>r. SPHead = MAGIC_NUMBER @ r"
  and length_MAGIC [simp]: "length MAGIC_NUMBER = 8"
  by (simp_all add: SPHead_def MAGIC_NUMBER_def)

lemma length_sp_pad [simp]: "length (sp_pad ts m b) = 32 + length (toks_bytes ts) + m"
  by (simp add: sp_pad_def)

lemma dom_sp_map [simp]: "dom (sp_map ts) = tok_name ` set ts"
  by (simp add: sp_map_def dom_map_of_conv_image_fst image_image)

lemma sp_map_None: "nm \<notin> tok_name ` set ts \<longleftrightarrow> sp_map ts nm = None"
  using dom_sp_map[of ts] by (simp add: domIff flip: dom_sp_map)

lemma sp_map_Cons: "sp_map (t # ts) = (sp_map ts)(tok_name t \<mapsto> tok_data t)"
  by (simp add: sp_map_def)

lemma sp_map_append: "sp_map (ts @ us) = sp_map us ++ sp_map ts"
  by (simp add: sp_map_def)

lemma sp_map_mid:
  "tok_name t \<notin> tok_name ` set ts \<Longrightarrow> sp_map (ts @ t # us) = (sp_map (ts @ us))(tok_name t \<mapsto> tok_data t)"
  by (rule ext) (auto simp: sp_map_append sp_map_Cons map_add_def dom_sp_map[symmetric] simp del: dom_sp_map split: option.splits)

lemma sp_size_toks:
  "distinct (map tok_name ts) \<Longrightarrow> \<forall>t \<in> set ts. tok_ok len t \<Longrightarrow> sp_size (sp_map ts) = length (toks_bytes ts)"
proof (induction ts)
  case Nil thus ?case by (simp add: sp_size_def sp_map_def)
next
  case (Cons t ts)
  let ?f = "\<lambda>M n. 20 + pad4 (length (the (M n)))"
  have "sum (?f (sp_map (t # ts))) (tok_name ` set ts) = sum (?f (sp_map ts)) (tok_name ` set ts)"
    using Cons.prems(1) by (intro sum.cong refl) (simp add: sp_map_Cons, metis imageI)
  hence "sp_size (sp_map (t # ts)) = 20 + pad4 (length (tok_data t)) + sp_size (sp_map ts)"
    using Cons.prems(1) by (simp add: sp_size_def sp_map_Cons)
  thus ?case using Cons length_tok_bytes[of len t] by simp
qed

lemma sp_holdsE:
  assumes "sp_holds pad M"
  obtains ts m b where "pad = sp_pad ts m b" "sp_wf (length pad) ts m b" "sp_map ts = M"
    "length pad = 32 + sp_size M + m" "length (toks_bytes ts) = sp_size M"
  using assms sp_size_toks by (fastforce simp: sp_holds_def sp_wf_def)

lemma sp_holdsI: "sp_wf len ts m b \<Longrightarrow> sp_holds (sp_pad ts m b) (sp_map ts) \<and> length (sp_pad ts m b) = len"
  unfolding sp_holds_def by (rule conjI, intro exI[of _ ts] exI[of _ m] exI[of _ b]) (auto simp: sp_wf_def)

lemma quiet_replicate: "sp_wf len ts m b \<Longrightarrow> quiet (replicate m b @ r)"
  by (auto simp: quiet_def sp_wf_def intro!: exI[of _ m] exI[of _ b])

lemma u32_less: "x < 2 ^ 32 \<Longrightarrow> y < 2 ^ 32 \<Longrightarrow> (word_of_int (int x) :: u32) < word_of_int (int y) \<longleftrightarrow> x < y"
  by (simp add: word_of_nat_less_iff take_bit_nat_eq_self)

text \<open>Writing a token after the last one.\<close>

lemma sp_append:
  assumes "name_ok nm" "20 + pad4 (length data) \<le> m" "length pre' = 32" "p = int (length pre + 32 + length (toks_bytes ts))"
  shows "bindR (mem_wr (pre @ pre' @ toks_bytes ts @ replicate m b @ aft) p (tok_head nm (length data)))
       (\<lambda>buf2. bindR (mem_rd (data @ ex) 0 (int (length data))) (\<lambda>bs. mem_wr buf2 (p + 20) bs))
     = Inr (pre @ pre' @ toks_bytes (ts @ [(nm, data, replicate (pad4 (length data) - length data) b)])
              @ replicate (m - 20 - pad4 (length data)) b @ aft)"
proof -
  let ?n = "length data" and ?q = "pre @ pre' @ toks_bytes ts"
  let ?r = "replicate (pad4 ?n - ?n) b @ replicate (m - 20 - pad4 ?n) b @ aft"
  have "m = 20 + (?n + ((pad4 ?n - ?n) + (m - 20 - pad4 ?n)))" using assms(2) pad4_bounds(1)[of ?n] by simp
  hence e: "replicate m b = replicate 20 b @ replicate ?n b @ replicate (pad4 ?n - ?n) b @ replicate (m - 20 - pad4 ?n) b"
    by (metis replicate_add)
  have "mem_wr (pre @ pre' @ toks_bytes ts @ replicate m b @ aft) p (tok_head nm ?n)
      = Inr (?q @ tok_head nm ?n @ replicate ?n b @ ?r)"
    using mem_wr_mid[of p ?q "tok_head nm ?n" "replicate 20 b" "replicate ?n b @ ?r"] assms(1,3,4) by (simp add: e)
  moreover have "mem_rd (data @ ex) 0 (int ?n) = Inr data" using mem_rd_mid[of 0 "[]" _ data ex] by simp
  moreover have "mem_wr (?q @ tok_head nm ?n @ replicate ?n b @ ?r) (p + 20) data = Inr (?q @ tok_head nm ?n @ data @ ?r)"
    using mem_wr_mid[of "p + 20" "?q @ tok_head nm ?n" data "replicate ?n b" ?r] assms(1,3,4) by simp
  ultimately show ?thesis by (simp add: tok_bytes_def)
qed

lemma sp_wf_append:
  assumes "sp_wf len ts m b" "name_ok nm" "nm \<notin> tok_name ` set ts" "data \<noteq> []" "40 + pad4 (length data) \<le> m"
  shows "sp_wf len (ts @ [(nm, data, replicate (pad4 (length data) - length data) b)]) (m - 20 - pad4 (length data)) b"
proof -
  have "length data \<le> pad4 (length data)" by (rule pad4_bounds)
  moreover from this have "tok_ok len (nm, data, replicate (pad4 (length data) - length data) b)"
    using assms(1,2,4,5) by (simp add: tok_ok_def sp_wf_def)
  ultimately show ?thesis using assms length_tok_bytes by (auto simp: sp_wf_def)
qed


lemma sp_names_split:
  assumes "sp_wf len ts m b" "nm \<in> tok_name ` set ts"
  obtains us t vs where "ts = us @ t # vs" "tok_name t = nm" "nm \<notin> tok_name ` set us" "nm \<notin> tok_name ` set vs"
proof -
  obtain t where "t \<in> set ts" "tok_name t = nm" using assms(2) by auto
  then obtain us vs where "ts = us @ t # vs" by (meson split_list)
  thus ?thesis using that \<open>tok_name t = nm\<close> assms(1) by (auto simp: sp_wf_def)
qed

text \<open>The pad after the second loop: the token overwritten, removed, or not there.\<close>

lemma sp_replace_cases:
  assumes w: "sp_wf len ts m b" and "name_ok nm" "data \<noteq> []"
    and tb: "tb = None \<or> tb = Some (data @ ex)"
  shows "\<exists>e us m' b'. sp_replace (32 + length (toks_bytes ts)) ((pre @ SPHead) @ toks_bytes ts @ replicate m b @ aft) (int len)
       (nm @ 0 # z) tb (int (length data)) (int (length (pre @ SPHead))) 32 (32 + int (length (toks_bytes ts)))
     = Inr (e, 32 + int (length (toks_bytes us)), (pre @ SPHead) @ toks_bytes us @ replicate m' b' @ aft)
     \<and> sp_wf len us m' b' \<and> m \<le> m'
     \<and> (if e then sp_map us = (sp_map ts)(nm := None) else tb \<noteq> None \<and> sp_map us = (sp_map ts)(nm \<mapsto> data))"
proof (cases "nm \<in> tok_name ` set ts")
  case False
  have "\<forall>t \<in> set ts. tok_ok len t" "len \<le> 2 ^ 31" using w by (auto simp: sp_wf_def)
  moreover have "(sp_map ts)(nm := None) = sp_map ts" using False by (simp add: sp_map_None fun_upd_idem)
  ultimately show ?thesis using False assms(2) w
    by (intro exI[of _ True] exI[of _ ts] exI[of _ m] exI[of _ b]) (simp add: sp_replace_missing del: append_assoc length_append)
next
  case True
  obtain us t vs where s: "ts = us @ t # vs" "tok_name t = nm" "nm \<notin> tok_name ` set us" "nm \<notin> tok_name ` set vs"
    using w True by (rule sp_names_split)
  have t: "\<forall>t \<in> set (us @ [t]). tok_ok len t" "len \<le> 2 ^ 31" "tok_ok len t" using w s(1) by (auto simp: sp_wf_def)
  show ?thesis
  proof (cases "tb \<noteq> None \<and> length data = length (tok_data t)")
    case c: True
    let ?t = "(nm, data, tok_pad t)"
    have k: "tok_ok len ?t" using t(3) c s(2) assms(3) by (auto simp: tok_ok_def)
    have l: "length (tok_bytes ?t) = length (tok_bytes t)" using length_tok_bytes[OF k] length_tok_bytes[OF t(3)] c by simp
    have "sp_wf len (us @ ?t # vs) m b" using w s k l by (auto simp: sp_wf_def)
    moreover have "sp_map (us @ ?t # vs) = (sp_map ts)(nm \<mapsto> data)"
      using s sp_map_mid[of t us vs] sp_map_mid[of ?t us vs] by simp
    ultimately show ?thesis
      using sp_replace_same[OF t(1) s(3,2) t(2), of 32 "32 + int (length (toks_bytes ts))" "32 + length (toks_bytes ts)" data
          "pre @ SPHead" "toks_bytes vs @ replicate m b @ aft" z ex] c tb l s(1)
      by (intro exI[of _ False] exI[of _ "us @ ?t # vs"] exI[of _ m] exI[of _ b]) auto
  next
    case c: False
    have "sp_map (us @ vs) = (sp_map ts)(nm := None)"
      using s sp_map_mid[of t us vs] sp_map_None[of nm "us @ vs"] by (simp add: fun_upd_idem image_Un)
    moreover have "sp_wf len (us @ vs) (length (tok_bytes t) + m) 0" using w s by (auto simp: sp_wf_def)
    ultimately show ?thesis
      using sp_replace_shift[OF t(1) s(3,2) t(2), of "32 + int (length (toks_bytes ts))" 32 vs "32 + length (toks_bytes ts)" tb
          "int (length data)" "replicate m b" "pre @ SPHead" aft z] c w s(1)
      by (intro exI[of _ True] exI[of _ "us @ vs"] exI[of _ "length (tok_bytes t) + m"] exI[of _ 0]) (auto simp: sp_wf_def)
  qed
qed

lemma sp_update_ok:
  assumes "sp_holds pad M" "name_ok nm" "data \<noteq> []" "tb = None \<or> tb = Some (data @ ex)"
    and "32 + sp_size M + 40 + pad4 (length data) \<le> length pad"
  shows "\<exists>pad'. sp_update (pre @ pad @ aft) (int (length pre)) (int (length pad)) (tok_head nm (length data)) (nm @ 0 # z) tb (int (length data))
       = Inr (Some (pre @ pad' @ aft)) \<and> length pad' = length pad
     \<and> sp_holds pad' (M(nm := map_option (\<lambda>_. data) tb))"
proof -
  obtain ts m b where p: "pad = sp_pad ts m b" "sp_wf (length pad) ts m b" "sp_map ts = M" "length pad = 32 + sp_size M + m"
      "length (toks_bytes ts) = sp_size M" using assms(1) by (rule sp_holdsE)
  let ?len = "length pad" and ?n = "length data" and ?h = "pre @ SPHead"
  have w: "\<forall>t \<in> set ts. tok_ok ?len t" "?len < 2 ^ 31" "?len \<le> 2 ^ 31" using p(2) by (auto simp: sp_wf_def)
  have m: "40 + pad4 ?n \<le> m" using assms(5) p(4) by simp
  have buf: "pre @ pad @ aft = ?h @ toks_bytes ts @ replicate m b @ aft" by (simp add: p(1) sp_pad_def)
  have u: "sp_used (pre @ pad @ aft) (int ?len) (int (length ?h)) 32 = Inr (32 + int (length (toks_bytes ts)))"
    using sp_used_ok[OF w(1) quiet_replicate[OF p(2)], of 32 ?h aft] w(3) p(4,5) unfolding buf by simp
  have fit: "\<not> (word_of_int (int ?len) :: u32) < word_of_int (int (32 + length (toks_bytes ts) + ?n + 20))"
    using u32_less[of ?len "32 + length (toks_bytes ts) + ?n + 20"] w(2) p(4,5) m pad4_bounds(1)[of ?n] by simp
  obtain e us m' b' where r: "sp_replace (32 + length (toks_bytes ts)) (?h @ toks_bytes ts @ replicate m b @ aft) (int ?len)
       (nm @ 0 # z) tb (int ?n) (int (length ?h)) 32 (32 + int (length (toks_bytes ts)))
     = Inr (e, 32 + int (length (toks_bytes us)), ?h @ toks_bytes us @ replicate m' b' @ aft)"
     "sp_wf ?len us m' b'" "m \<le> m'"
     "if e then sp_map us = (sp_map ts)(nm := None) else tb \<noteq> None \<and> sp_map us = (sp_map ts)(nm \<mapsto> data)"
    using sp_replace_cases[OF p(2) assms(2-4), of pre aft z] by blast
  have upd: "sp_update (pre @ pad @ aft) (int (length pre)) (int ?len) (tok_head nm ?n) (nm @ 0 # z) tb (int ?n) =
     (if e then bindR (case tb of None \<Rightarrow> Inr (?h @ toks_bytes us @ replicate m' b' @ aft)
            | Some tb' \<Rightarrow> bindR (mem_wr (?h @ toks_bytes us @ replicate m' b' @ aft) (int (length pre) + (32 + int (length (toks_bytes us)))) (tok_head nm ?n))
                (\<lambda>buf2. bindR (mem_rd tb' 0 (int ?n)) (\<lambda>bs. mem_wr buf2 (int (length pre) + (32 + int (length (toks_bytes us))) + 20) bs)))
            (\<lambda>buf3. bindR (mem_wr buf3 (int (length pre)) SPHead) (\<lambda>buf4. Inr (Some buf4)))
      else Inr (Some (?h @ toks_bytes us @ replicate m' b' @ aft)))"
    using u r(1) fit unfolding buf sp_update_def
    by (simp add: add_ac nat_add_distrib cong del: option.case_cong_weak)
  have hd: "mem_wr (pre @ SPHead @ x) (int (length pre)) SPHead = Inr (pre @ SPHead @ x)" for x
    using mem_wr_mid[of "int (length pre)" pre SPHead SPHead x] by simp
  have holds: "sp_holds (sp_pad us m' b') (sp_map us)" "length (sp_pad us m' b') = ?len" using sp_holdsI[OF r(2)] by simp_all
  consider "\<not> e" | "e" "tb = None" | "e" "tb = Some (data @ ex)" using assms(4) by blast
  thus ?thesis
  proof cases
    case 1 thus ?thesis using upd r(4) assms(4) holds p(3)
      by (intro exI[of _ "sp_pad us m' b'"]) (auto simp: sp_pad_def)
  next
    case 2 thus ?thesis using upd r(4) hd holds p(3)
      by (intro exI[of _ "sp_pad us m' b'"]) (auto simp: sp_pad_def)
  next
    case 3
    let ?us = "us @ [(nm, data, replicate (pad4 ?n - ?n) b')]" and ?m = "m' - 20 - pad4 ?n"
    have "nm \<notin> tok_name ` set us" using r(4) 3(1) dom_sp_map[of us] by (simp add: domIff flip: dom_sp_map)
    hence wf: "sp_wf ?len ?us ?m b'" "sp_map ?us = M(nm \<mapsto> data)"
      using sp_wf_append[OF r(2) assms(2) _ assms(3)] m r(3,4) 3(1) p(3) sp_map_mid[of "(nm, data, _)" us "[]"] by simp_all
    have "sp_update (pre @ pad @ aft) (int (length pre)) (int ?len) (tok_head nm ?n) (nm @ 0 # z) tb (int ?n)
        = Inr (Some (pre @ sp_pad ?us ?m b' @ aft))"
      using upd 3 hd sp_append[of nm data m' SPHead "int (length pre + 32 + length (toks_bytes us))" pre us b' aft ex] assms(2) m r(3)
      by (simp add: sp_pad_def add.assoc)
    thus ?thesis using sp_holdsI[OF wf(1)] wf(2) 3(2) by (intro exI[of _ "sp_pad ?us ?m b'"]) (simp del: length_sp_pad)
  qed
qed

text \<open>The pad after the first update: one token.\<close>

definition sp_single :: "byte list \<Rightarrow> byte list \<Rightarrow> byte \<Rightarrow> nat \<Rightarrow> byte list" where
  "sp_single nm data b len =
     sp_pad [(nm, data, replicate (pad4 (length data) - length data) b)] (len - 52 - pad4 (length data)) b"

lemma sp_first_ok:
  assumes "name_ok nm" "data \<noteq> []" "52 + pad4 (length data) \<le> len"
  shows "sp_first (pre @ replicate len b @ aft) (int (length pre)) (tok_head nm (length data)) (Some (data @ ex)) (int (length data))
       = Inr (pre @ sp_single nm data b len @ aft)" and "length (sp_single nm data b len) = len"
proof -
  let ?n = "length data"
  have e: "replicate len b = replicate 32 b @ replicate (len - 32) b" using assms(3) replicate_add[of 32 "len - 32" b] by simp
  have "mem_wr (pre @ replicate len b @ aft) (int (length pre)) SPHead = Inr (pre @ SPHead @ replicate (len - 32) b @ aft)"
    using mem_wr_mid[of "int (length pre)" pre SPHead "replicate 32 b" "replicate (len - 32) b @ aft"] by (simp add: e)
  thus "sp_first (pre @ replicate len b @ aft) (int (length pre)) (tok_head nm ?n) (Some (data @ ex)) (int ?n)
      = Inr (pre @ sp_single nm data b len @ aft)"
    using sp_append[of nm data "len - 32" SPHead "int (length pre + 32)" pre "[]" b aft ex] assms(1,3)
    by (simp add: sp_first_def sp_pad_def sp_single_def)
  show "length (sp_single nm data b len) = len"
    using assms pad4_bounds(1)[of ?n] by (simp add: sp_single_def tok_bytes_def)
qed

lemma sp_single_holds:
  assumes "name_ok nm" "data \<noteq> []" "72 + pad4 (length data) \<le> len" "b = 0 \<or> b = 0xFF" "len < 2 ^ 31"
  shows "sp_holds (sp_single nm data b len) [nm \<mapsto> data]"
proof -
  let ?n = "length data"
  let ?ts = "[] @ [(nm, data, replicate (pad4 ?n - ?n) b)]"
  have w: "sp_wf len [] (len - 32) b" using assms(3-5) by (auto simp: sp_wf_def)
  have "sp_wf len ?ts (len - 32 - 20 - pad4 ?n) b" using sp_wf_append[OF w assms(1) _ assms(2)] assms(3) by simp
  moreover have "sp_map ?ts = [nm \<mapsto> data]" by (simp add: sp_map_def)
  ultimately show ?thesis using sp_holdsI[of len ?ts] by (simp add: sp_single_def del: length_sp_pad)
qed

lemma sp_find_ok:
  assumes "sp_holds pad M" "name_ok nm"
  shows "M nm = None \<Longrightarrow> sp_find (pre @ pad @ aft) (int (length pad)) (nm @ 0 # z) (int (length pre) + 32) 32 = Inr None"
    and "M nm = Some data \<Longrightarrow> \<exists>q. sp_find (pre @ pad @ aft) (int (length pad)) (nm @ 0 # z) (int (length pre) + 32) 32
           = Inr (Some (q, int (length data))) \<and> mem_rd (pre @ pad @ aft) (q + 20) (int (length data)) = Inr data
           \<and> data \<noteq> []"
proof -
  obtain ts m b where p: "pad = sp_pad ts m b" "sp_wf (length pad) ts m b" "sp_map ts = M" using assms(1) by (rule sp_holdsE)
  let ?len = "length pad" and ?h = "pre @ SPHead"
  have w: "\<forall>t \<in> set ts. tok_ok ?len t" "?len \<le> 2 ^ 31" "32 + int (length (toks_bytes ts)) < int ?len"
    using p(2) by (auto simp: sp_wf_def)
  have buf: "pre @ pad @ aft = ?h @ toks_bytes ts @ replicate m b @ aft" by (simp add: p(1) sp_pad_def)
  {
    assume "M nm = None"
    hence "nm \<notin> tok_name ` set ts" using p(3) by (simp add: domIff flip: dom_sp_map)
    thus "sp_find (pre @ pad @ aft) (int ?len) (nm @ 0 # z) (int (length pre) + 32) 32 = Inr None"
      using sp_find_missing[OF w(1) assms(2) _ quiet_replicate[OF p(2)], of 32 ?h aft z] w(2,3) unfolding buf by simp
  next
    assume M: "M nm = Some data"
    hence "nm \<in> tok_name ` set ts" using p(3) by (simp add: domIff flip: dom_sp_map)
    then obtain us t vs where s: "ts = us @ t # vs" "tok_name t = nm" "nm \<notin> tok_name ` set us"
      by (rule sp_names_split[OF p(2)])
    have d: "tok_data t = data" using M s p(3) sp_map_mid[of t us vs] by auto
    have t: "\<forall>t \<in> set (us @ [t]). tok_ok ?len t" "32 + int (length (toks_bytes us)) < int ?len" "name_ok nm" "data \<noteq> []"
      using w s(1) assms(2) d by (auto simp: tok_ok_def)
    have "sp_find (pre @ pad @ aft) (int ?len) (nm @ 0 # z) (int (length pre) + 32) 32
        = Inr (Some (int (length pre) + 32 + int (length (toks_bytes us)), int (length data)))"
      using sp_find_found[OF t(1) s(3,2) t(2) w(2), of ?h "toks_bytes vs @ replicate m b @ aft" z] d unfolding buf
      by (simp add: s(1))
    moreover have "mem_rd (pre @ pad @ aft) (int (length pre) + 32 + int (length (toks_bytes us)) + 20) (int (length data)) = Inr data"
      using mem_rd_mid[of "52 + (int (length pre) + int (length (toks_bytes us)))" "?h @ toks_bytes us @ tok_head nm (length data)" "int (length data)" data "tok_pad t @ toks_bytes vs @ replicate m b @ aft"]
        s d t(3) unfolding buf by (simp add: tok_bytes_def)
    ultimately show "\<exists>q. sp_find (pre @ pad @ aft) (int ?len) (nm @ 0 # z) (int (length pre) + 32) 32
           = Inr (Some (q, int (length data))) \<and> mem_rd (pre @ pad @ aft) (q + 20) (int (length data)) = Inr data \<and> data \<noteq> []"
      using t(4) by blast
  }
qed


text \<open>With fewer than 20 bytes left the scans read past the end of the pad.\<close>

lemma sp_used_full:
  assumes "\<forall>t \<in> set ts. tok_ok len t" "length rest < 20" "used + length (toks_bytes ts) \<le> len" "len \<le> 2 ^ 31"
  shows "sp_used (pre @ toks_bytes ts @ rest) (int len) (int (length pre)) (int used) = Inl OutOfBounds"
  using assms(1,3)
proof (induction ts arbitrary: pre used)
  case Nil
  have "mem_rd (pre @ rest) (int (length pre) + 16) 4 = Inl OutOfBounds" using assms(2) by (intro mem_rd_beyond) auto
  thus ?case by (subst sp_used.simps) (simp add: rd_int_def)
next
  case (Cons t ts)
  have t: "tok_ok len t" using Cons.prems(1) by simp
  let ?suf = "toks_bytes ts @ rest" and ?n = "length (tok_data t)"
  have nm: "name_ok (tok_name t)" "0 < ?n" "?n < len" using t by (simp_all add: tok_ok_def)
  have "sp_used ((pre @ tok_bytes t) @ ?suf) (int len) (int (length (pre @ tok_bytes t))) (int (used + length (tok_bytes t)))
      = Inl OutOfBounds"
    using Cons.prems by (intro Cons.IH) auto
  moreover have "used < len" using Cons.prems(2) length_tok_bytes[OF t] by simp
  ultimately show ?case
    using rd_int_tok[OF t assms(4), of pre ?suf] rd_byte_tok[OF t, of pre ?suf] strlen_at_tok[OF t, of pre ?suf] nm length_tok_bytes[OF t]
    by (subst sp_used.simps) (auto simp: name_ok_def add.assoc)
qed

lemma sp_single_full:
  assumes "name_ok nm" "data \<noteq> []" "52 + pad4 (length data) \<le> len" "len < 72 + pad4 (length data)" "len < 2 ^ 31"
  shows "sp_update (pre @ sp_single nm data b len) (int (length pre)) (int len) tok tid tb bl = Inl OutOfBounds"
proof -
  let ?n = "length data"
  let ?ts = "[(nm, data, replicate (pad4 ?n - ?n) b)]"
  have ok: "\<forall>t \<in> set ?ts. tok_ok len t" using assms pad4_bounds(1)[of ?n] by (auto simp: tok_ok_def)
  hence l: "length (toks_bytes ?ts) = 20 + pad4 ?n" by simp
  show ?thesis
    using sp_used_full[OF ok, of "replicate (len - 52 - pad4 ?n) b" 32 "pre @ SPHead"] assms(3-5) l
    by (simp add: sp_update_def sp_single_def sp_pad_def)
qed

end
