(* ===== verification/Board_Flash.thy ===== *)
theory Board_Flash
  imports Bring_Up Flash_Layout
begin

text \<open>
  The board on the CFI driver: \<open>cfi_hw\<close> gives \<^verbatim>\<open>kerSysFlashInit\<close> the driver of
  \<^verbatim>\<open>cfiflash.c\<close>, and the memory window reads the chip in array mode. The contract
  \<open>mapped_flash\<close> follows from the chip's, and the 8 MB part is the concrete board of the witnesses.
\<close>

section \<open>The driver as the board's hardware\<close>

definition cfi_hw :: "'c nor_ops \<Rightarrow> 'c cfi_state flash_hw" where
  "cfi_hw ops =
     \<lparr>hw_flash_init = (\<lambda>s. bindR (flash_init ops s) (\<lambda>(r, s').
         Inr (r, if g_flash_info_set s' then Some (flash_cfi_dev ops s') else None, s'))),
      hw_base = FLASH_BASE,
      hw_peek = (\<lambda>a n s. read_bytes ops (uint (a - FLASH_BASE s)) n s),
      hw_set_reset = (\<lambda>r s. s\<lparr>g_iReset := r\<rparr>)\<rparr>"

sublocale cfi_board \<subseteq> mapped_flash "flash_cfi_dev ops s0" sectors base "cfi_inv sectors idle base"
  "flash_content cells" "cfi_hw ops"
proof
  show "cfi_inv sectors idle base s \<Longrightarrow> hw_base (cfi_hw ops) s = base" for s
    by (simp add: cfi_hw_def cfi_inv_def)
next
  fix s off n
  assume a: "cfi_inv sectors idle base s" "off + n \<le> sum_list sectors"
  have "off < 2 ^ 32" using a(2) geometry(4) by simp
  hence "uint (of_nat off :: u32) = int off" by (simp add: uint_nat unat_of_nat)
  thus "hw_peek (cfi_hw ops) (base + word_of_nat off) n s = (slice off n (flash_content cells s), s)"
    using a read_bytes_idle[of s off n] by (auto simp: cfi_hw_def cfi_inv_def)
next
  show "cfi_inv sectors idle base s \<Longrightarrow> cfi_inv sectors idle base (hw_set_reset (cfi_hw ops) r s)
      \<and> flash_content cells (hw_set_reset (cfi_hw ops) r s) = flash_content cells s" for s r
    by (auto simp: cfi_hw_def cfi_inv_def cfi_wf_def flash_content_def FLASH_BASE_def)
qed

section \<open>The board with the 8 MB part\<close>

definition flash_part0 :: flash_part where
  "flash_part0 = \<lparr>part_start_blk = 0, part_number_blk = 0, part_length = 0, part_blk_offset = 0\<rparr>"

definition fInfo0 :: flash_addr_info where
  "fInfo0 = \<lparr>flash_persistent = flash_part0, flash_psi_backup = flash_part0, flash_fix = flash_part0,
     flash_avail = flash_part0, flash_variable = flash_part0, flash_firewalllog = flash_part0,
     flash_systemlog = flash_part0, flash_wlanparam = flash_part0, flash_scratch_pad = flash_part0,
     flash_nvram = flash_part0\<rparr>"

definition mx640_power_on :: "sim_chip cfi_state kersys" where
  "mx640_power_on =
     \<lparr>flash_dev = mx640_boot, g_flash_info = None, fInfo = fInfo0, flashInitialized = False,
      cur_bp = None, gpio = \<lparr>GPIODir_high = 0, GPIODir = 0, GPIOio_high = 0, GPIOio = 0\<rparr>,
      kmalloc_ok = (\<lambda>_. True), kmalloc_calls = 0, heap_live = {}\<rparr>"

lemma mx640_flash_init: "flash_init (sim_ops mx640) mx640_boot = Inr (FLASH_API_OK, mx640_ready)"
  using mx640_init[of "0x1FC00000"] by (auto simp: mx640_ready_def mx640_boot_def)

lemma mx640_hw_init:
  "hw_flash_init (cfi_hw (sim_ops mx640)) mx640_boot
     = Inr (FLASH_API_OK, Some (flash_cfi_dev (sim_ops mx640) mx640_ready), mx640_ready)"
  by (simp add: cfi_hw_def mx640_flash_init mx640_ready_inv)

lemma mx640_mapped:
  "mapped_flash (flash_cfi_dev (sim_ops mx640) mx640_ready) mx640_sectors 0xBFC00000
     (cfi_inv mx640_sectors (sim_in mx640 ReadArray) 0xBFC00000) (flash_content (sim_cells mx640))
     (cfi_hw (sim_ops mx640))"
  by (rule mx640_dev.mapped_flash_axioms)

lemma mx640_start: "\<lbrakk>8 \<le> k; k \<le> 135\<rbrakk> \<Longrightarrow> sector_start mx640_sectors k = 65536 * (k - 7)"
  by (auto simp: mx640_sectors_def sum_list_replicate min_def)

lemma mx640_sector_of:
  assumes "65536 \<le> a" "a < 8388608"
  shows "sector_of mx640_sectors a = 7 + a div 65536"
proof (rule sector_of_unique)
  have d: "1 \<le> a div 65536" "a div 65536 < 128" using assms by (simp_all add: div_le_mono less_mult_imp_div_less)
  show "7 + a div 65536 < length mx640_sectors" using d by (simp add: mx640_sizes)
  have "sector_start mx640_sectors (7 + a div 65536) = 65536 * (a div 65536)" using d by (subst mx640_start) auto
  moreover have "mx640_sectors ! (7 + a div 65536) = 65536"
    using d by (auto simp: mx640_sectors_def nth_append)
  ultimately show "sector_start mx640_sectors (7 + a div 65536) \<le> a"
    "a < sector_start mx640_sectors (7 + a div 65536) + mx640_sectors ! (7 + a div 65536)"
    by (simp_all add: dividend_less_div_times mult.commute)
qed

lemma mx640_fits: "flash_fits mx640_sectors hwt"
proof -
  have "mx640_sectors ! 0 = 8192" "mx640_sectors \<noteq> []" by (simp_all add: mx640_sectors_def nth_append)
  thus ?thesis
    by (simp add: flash_fits_def hg556_lengths_def mx640_sizes mx640_start mx640_sector_of layout_part_def Let_def)
qed

text \<open>The simulated board after \<^verbatim>\<open>kerSysFlashInit\<close> on an erased part.\<close>

abbreviation mx640_inv :: "sim_chip cfi_state \<Rightarrow> bool" where
  "mx640_inv \<equiv> cfi_inv mx640_sectors (sim_in mx640 ReadArray) 0xBFC00000"

lemma mx640_device:
  "flash_device (flash_cfi_dev (sim_ops mx640) mx640_ready) mx640_sectors 0xBFC00000 mx640_inv
     (flash_content (sim_cells mx640))"
  by (rule mx640_dev.flash_device_axioms)

lemma mx640_booted:
  obtains k where "kerSysFlashInit (cfi_hw (sim_ops mx640)) mx640_power_on = Inr k"
    "sys_ok (flash_cfi_dev (sim_ops mx640) mx640_ready) mx640_inv k"
    "finfo_wf mx640_sectors (fInfo k)"
    "flash_content (sim_cells mx640) (flash_dev k) = replicate 8388608 0xFF"
    "map part_length (all_parts (fInfo k)) = [65536, 65536, 8192, 16384, 8192, 8192, 10240, 16384, 8192, 1024]"
    "kmalloc_ok k = (\<lambda>_. True)" "heap_live k = {}" "kmalloc_calls k = 0"
    "all_parts (fInfo k) = layout mx640_sectors 135 (hg556_lengths 0) @ [nvram_part]"
    "flash_scratch_pad (fInfo k) = \<lparr>part_start_blk = 129, part_number_blk = 1, part_length = 8192, part_blk_offset = 57344\<rparr>"
proof -
  have z: "GetHarewareType (gpio mx640_power_on) = 0"
    by (simp add: mx640_power_on_def GetHarewareType_def GetBoardVersion_def kerSysGetGPIO_def)
  have "\<not> flashInitialized mx640_power_on"
    "hw_flash_init (cfi_hw (sim_ops mx640)) (flash_dev mx640_power_on)
       = Inr (FLASH_API_OK, Some (flash_cfi_dev (sim_ops mx640) mx640_ready), mx640_ready)"
    by (simp_all add: mx640_power_on_def mx640_hw_init)
  note boot = mapped_flash.flash_init_ok[OF mx640_mapped this mx640_ready_inv(1) mx640_fits]
  obtain k where k: "kerSysFlashInit (cfi_hw (sim_ops mx640)) mx640_power_on = Inr k"
    "sys_ok (flash_cfi_dev (sim_ops mx640) mx640_ready) mx640_inv k" "finfo_wf mx640_sectors (fInfo k)"
    "flash_content (sim_cells mx640) (flash_dev k) = flash_content (sim_cells mx640) mx640_ready"
    "map part_length (all_parts (fInfo k)) = map int (hg556_lengths (GetHarewareType (gpio mx640_power_on)) @ [1024])"
    "all_parts (fInfo k) = layout mx640_sectors (length mx640_sectors) (hg556_lengths (GetHarewareType (gpio mx640_power_on))) @ [nvram_part]"
    "kmalloc_ok k = kmalloc_ok mx640_power_on" "heap_live k = heap_live mx640_power_on"
    "kmalloc_calls k = kmalloc_calls mx640_power_on"
    using boot by blast
  have "flash_scratch_pad (fInfo k) = all_parts (fInfo k) ! 5" by (simp add: all_parts_def)
  also have "\<dots> = layout mx640_sectors 135 (hg556_lengths 0) ! 5"
  proof -
    have "length (layout mx640_sectors 135 (hg556_lengths 0)) = 9" by (subst length_layout) (simp add: hg556_lengths_def)
    thus ?thesis unfolding k(6) z mx640_sizes nth_append by (simp only: if_True less_numeral_simps) simp
  qed
  also have "\<dots> = \<lparr>part_start_blk = 129, part_number_blk = 1, part_length = 8192, part_blk_offset = 57344\<rparr>"
    by (simp add: hg556_lengths_def mx640_start mx640_sector_of layout_part_def Let_def)
  finally have sp: "flash_scratch_pad (fInfo k) = \<lparr>part_start_blk = 129, part_number_blk = 1, part_length = 8192, part_blk_offset = 57344\<rparr>" .
  show ?thesis
    by (rule that[OF k(1-3) _ _ _ _ _ k(6)[unfolded z mx640_sizes] sp])
      (simp_all add: k(4,5,7-9) z mx640_content hg556_lengths_def, simp_all add: mx640_power_on_def)
qed

section \<open>Properties\<close>

text \<open>C6: bringing up the flash on any device with room for them lays out ten partitions that lie
  within the device, on blocks of their own, in a fixed order and with the lengths of the HG556; the
  flash contents stay as they were.\<close>

theorem flash_layout_disjoint:
  assumes "mapped_flash dev sects base I content hw"
    and "\<not> flashInitialized k" "hw_flash_init hw (flash_dev k) = Inr (r, Some dev, d)" "I d"
    and "flash_fits sects (GetHarewareType (gpio k))"
  shows "\<exists>k'. kerSysFlashInit hw k = Inr k' \<and> sys_ok dev I k' \<and> flashInitialized k'
     \<and> finfo_wf sects (fInfo k') \<and> content (flash_dev k') = content d
     \<and> map part_length (all_parts (fInfo k')) = map int (hg556_lengths (GetHarewareType (gpio k)) @ [1024])"
  using mapped_flash.flash_init_ok[OF assms] by blast

theorem flash_layout_disjoint_witness:
  "\<exists>k'. kerSysFlashInit (cfi_hw (sim_ops mx640)) mx640_power_on = Inr k'
     \<and> finfo_wf mx640_sectors (fInfo k')"
  using flash_layout_disjoint[OF mx640_mapped, of mx640_power_on FLASH_API_OK mx640_ready]
    mx640_hw_init mx640_ready_inv(1) mx640_fits by (auto simp: mx640_power_on_def)

end
