(* ===== verification/Scratch_Pad_Correct.thy ===== *)
theory Scratch_Pad_Correct
  imports Scratch_Pad_Map Board_Flash
begin

text \<open>
  \<^verbatim>\<open>kerSysScratchPadGet\<close> and \<^verbatim>\<open>kerSysScratchPadSet\<close> on any flash device: lookup and update of
  the map the pad holds, and the two ways the code leaves its buffers.
\<close>

section \<open>The operations on the flash\<close>

lemma strncpy_name:
  assumes "name_ok nm"
  shows "strncpy_cleared (nm @ 0 # z) 15 16 = Inr (nm @ replicate (16 - length nm) 0)"
proof -
  have n: "length nm \<le> 15" "\<forall>c \<in> set nm. c \<noteq> 0" using assms by (auto simp: name_ok_def)
  hence "takeWhile (\<lambda>c. c \<noteq> 0) (take 15 (nm @ 0 # z)) = nm" by (cases "15 - length nm") (simp_all add: takeWhile_append2)
  moreover have "0 \<in> set (take 15 (nm @ 0 # z)) \<or> 15 \<le> length (nm @ 0 # z)"
    using n(1) by (cases "15 - length nm") simp_all
  ultimately show ?thesis by (simp add: strncpy_cleared_def Let_def)
qed

lemma sp_not_too_long: "n + 52 < len \<Longrightarrow> len < 2 ^ 31 \<Longrightarrow> \<not> sp_too_long (int n) (int len)"
proof -
  assume a: "n + 52 < len" "len < 2 ^ 31"
  hence "int len - 32 - 20 = int (len - 52)" "(word_of_int (int n) :: u32) < word_of_int (int (len - 52))"
    using u32_less[of n "len - 52"] by simp_all
  thus ?thesis unfolding sp_too_long_def by (simp only: not_le)
qed


abbreviation sp_bytes :: "nat list \<Rightarrow> ('s \<Rightarrow> byte list) \<Rightarrow> 's kersys \<Rightarrow> byte list" where
  "sp_bytes sects content k \<equiv>
     slice (part_base sects (flash_scratch_pad (fInfo k))) (nat (part_length (flash_scratch_pad (fInfo k)))) (content (flash_dev k))"

text \<open>The kernel is bound to the device, memory is available, and the scratch pad is a partition.\<close>

definition sp_ready :: "'s flash_device_info \<Rightarrow> ('s \<Rightarrow> bool) \<Rightarrow> nat list \<Rightarrow> 's kersys \<Rightarrow> bool" where
  "sp_ready dev I sects k \<longleftrightarrow> sys_ok dev I k \<and> part_wf sects (flash_scratch_pad (fInfo k))
     \<and> mem_available k \<and> heap_wf k"

lemma sp_holds_magic:
  assumes "sp_holds pad M" "int (length pre) = p"
  shows "mem_rd (pre @ pad @ aft) p 8 = Inr MAGIC_NUMBER" "52 \<le> length pad" "length pad < 2 ^ 31"
proof -
  obtain ts m b where h: "pad = sp_pad ts m b" "sp_wf (length pad) ts m b" using assms(1) by (rule sp_holdsE)
  obtain r where hd: "SPHead = MAGIC_NUMBER @ r" using SPHead_magic by blast
  show "mem_rd (pre @ pad @ aft) p 8 = Inr MAGIC_NUMBER"
    using mem_rd_mid[of p pre 8 MAGIC_NUMBER "r @ toks_bytes ts @ replicate m b @ aft"] assms(2) h(1)
    by (simp add: sp_pad_def hd)
  show "52 \<le> length pad" "length pad < 2 ^ 31" using h(2) by (auto simp: sp_wf_def)
qed

context flash_device begin

lemma sp_get_ok:
  assumes "sp_ready dev inv sects k" "sp_holds (sp_bytes sects content k) M" "name_ok nm"
    and "int bl + 52 < part_length (flash_scratch_pad (fInfo k))"
  shows "M nm = None \<Longrightarrow> \<exists>d c. kerSysScratchPadGet (nm @ 0 # z) tokBuf (int bl) k
           = Inr (-1, tokBuf, k\<lparr>flash_dev := d, kmalloc_calls := c\<rparr>)
         \<and> kmalloc_calls k \<le> c \<and> inv d \<and> content d = content (flash_dev k)"
    and "M nm = Some data \<Longrightarrow> length data \<le> length tokBuf \<Longrightarrow> \<exists>d c. kerSysScratchPadGet (nm @ 0 # z) tokBuf (int bl) k
           = Inr (int (length data), overlay 0 data tokBuf, k\<lparr>flash_dev := d, kmalloc_calls := c\<rparr>)
         \<and> kmalloc_calls k \<le> c \<and> inv d \<and> content d = content (flash_dev k)"
    and "M nm = Some data \<Longrightarrow> length tokBuf < length data \<Longrightarrow>
         kerSysScratchPadGet (nm @ 0 # z) tokBuf (int bl) k = Inl OutOfBounds"
proof -
  let ?fp = "flash_scratch_pad (fInfo k)"
  define pad where "pad = sp_bytes sects content k"
  have hold: "sp_holds pad M" using assms(2) by (simp add: pad_def)
  have r: "sys_ok dev inv k" "part_wf sects ?fp" "mem_available k" "heap_wf k" using assms(1) by (simp_all add: sp_ready_def)
  obtain p d pre aft where g: "getSharedBlks (part_start_blk ?fp) (part_start_blk ?fp + part_number_blk ?fp) k
       = Inr (Some (p, pre @ pad @ aft), k\<lparr>flash_dev := d, kmalloc_calls := Suc p, heap_live := insert p (heap_live k)\<rparr>)"
    and o: "int (length pre) = part_blk_offset ?fp" and d: "kmalloc_calls k \<le> p" "inv d" "content d = content (flash_dev k)"
    and l: "length pad = nat (part_length ?fp)"
    unfolding pad_def by (rule part_open_ok[OF r(1-3)])
  have pl: "part_length ?fp = int (length pad)" using l assms(4) by simp
  have fr: "insert p (heap_live k) - {p} = heap_live k" using d(1) r(4) by (auto simp: heap_wf_def)
  note m = sp_holds_magic[OF hold o]
  have nl: "\<not> sp_too_long (int bl) (part_length ?fp)" "part_length ?fp \<noteq> 0"
    using sp_not_too_long[OF _ m(3), of bl] assms(4) m(2) pl by auto
  note f = sp_find_ok(1)[OF hold assms(3), of pre aft z, unfolded o]
    sp_find_ok(2)[OF hold assms(3), of data pre aft z, unfolded o]
  have get: "kerSysScratchPadGet (nm @ 0 # z) tokBuf (int bl) k =
      bindR (sp_find (pre @ pad @ aft) (int (length pad)) (nm @ 0 # z) (part_blk_offset ?fp + 32) 32) (\<lambda>found.
      bindR (case found of None \<Rightarrow> Inr (-1, tokBuf)
             | Some (q, sts) \<Rightarrow> bindR (mem_rd (pre @ pad @ aft) (q + 20) sts) (\<lambda>bs.
                 bindR (mem_wr tokBuf 0 bs) (\<lambda>tokBuf'. Inr (sts, tokBuf'))))
        (\<lambda>(sts, tokBuf'). Inr (sts, tokBuf', k\<lparr>flash_dev := d, kmalloc_calls := Suc p\<rparr>)))"
    using g nl m(1) fr pl by (simp add: kerSysScratchPadGet_def Let_def retriedKfree_def
        cong del: option.case_cong_weak prod.case_cong_weak)
  {
    assume "M nm = None"
    with f(1) show "\<exists>d c. kerSysScratchPadGet (nm @ 0 # z) tokBuf (int bl) k
           = Inr (-1, tokBuf, k\<lparr>flash_dev := d, kmalloc_calls := c\<rparr>)
         \<and> kmalloc_calls k \<le> c \<and> inv d \<and> content d = content (flash_dev k)"
      using d unfolding get by (intro exI[of _ d] exI[of _ "Suc p"]) simp
  next
    assume M: "M nm = Some data" and le: "length data \<le> length tokBuf"
    moreover have "mem_wr tokBuf 0 data = Inr (overlay 0 data tokBuf)" using mem_wr_ok[of 0 data tokBuf] le by simp
    ultimately show "\<exists>d c. kerSysScratchPadGet (nm @ 0 # z) tokBuf (int bl) k
           = Inr (int (length data), overlay 0 data tokBuf, k\<lparr>flash_dev := d, kmalloc_calls := c\<rparr>)
         \<and> kmalloc_calls k \<le> c \<and> inv d \<and> content d = content (flash_dev k)"
      using f(2)[OF M] d unfolding get by (intro exI[of _ d] exI[of _ "Suc p"]) auto
  next
    assume M: "M nm = Some data" and le: "length tokBuf < length data"
    moreover have "mem_wr tokBuf 0 data = Inl OutOfBounds" using le by (intro mem_wr_beyond) auto
    ultimately show "kerSysScratchPadGet (nm @ 0 # z) tokBuf (int bl) k = Inl OutOfBounds"
      using f(2)[OF M] unfolding get by auto
  }
qed

lemma sp_set_ok:
  assumes "sp_ready dev inv sects k" "sp_holds (sp_bytes sects content k) M" "name_ok nm" "data \<noteq> []"
    and "tb = None \<or> tb = Some (data @ ex)"
    and "int (72 + sp_size M + pad4 (length data)) \<le> part_length (flash_scratch_pad (fInfo k))"
  shows "\<exists>d c pad'. kerSysScratchPadSet (nm @ 0 # z) tb (int (length data)) k
           = Inr (0, k\<lparr>flash_dev := d, kmalloc_calls := c\<rparr>)
         \<and> kmalloc_calls k \<le> c \<and> inv d \<and> sp_holds pad' (M(nm := map_option (\<lambda>_. data) tb))
         \<and> int (length pad') = part_length (flash_scratch_pad (fInfo k))
         \<and> content d = overlay (part_base sects (flash_scratch_pad (fInfo k))) pad' (content (flash_dev k))"
proof -
  let ?fp = "flash_scratch_pad (fInfo k)" and ?n = "length data"
  define pad where "pad = sp_bytes sects content k"
  have hold: "sp_holds pad M" using assms(2) by (simp add: pad_def)
  have r: "sys_ok dev inv k" "part_wf sects ?fp" "mem_available k" "heap_wf k" using assms(1) by (simp_all add: sp_ready_def)
  obtain p d pre aft where g: "getSharedBlks (part_start_blk ?fp) (part_start_blk ?fp + part_number_blk ?fp) k
       = Inr (Some (p, pre @ pad @ aft), k\<lparr>flash_dev := d, kmalloc_calls := Suc p, heap_live := insert p (heap_live k)\<rparr>)"
    and o: "int (length pre) = part_blk_offset ?fp" and d: "kmalloc_calls k \<le> p" "inv d" "content d = content (flash_dev k)"
    and l: "length pad = nat (part_length ?fp)"
    and st: "\<And>k2 x pad. \<lbrakk>sys_ok dev inv k2; length x = nat (part_length ?fp); length pad = nat (part_length ?fp);
            content (flash_dev k2) = overlay (part_base sects ?fp) x (content (flash_dev k))\<rbrakk> \<Longrightarrow>
          \<exists>d'. setSharedBlks (part_start_blk ?fp) (part_number_blk ?fp + part_start_blk ?fp) (pre @ pad @ aft) k2
                 = Inr (0, k2\<lparr>flash_dev := d'\<rparr>) \<and> inv d' \<and> content d' = overlay (part_base sects ?fp) pad (content (flash_dev k))"
    by (rule part_open_ok[OF r(1-3), folded pad_def]) (rule that; assumption)
  let ?k1 = "k\<lparr>flash_dev := d, kmalloc_calls := Suc p, heap_live := insert p (heap_live k)\<rparr>"
  have pl: "part_length ?fp = int (length pad)" using l assms(6) by simp
  have fr: "insert p (heap_live k) - {p} = heap_live k" using d(1) r(4) by (auto simp: heap_wf_def)
  note m = sp_holds_magic[OF hold o]
  have room: "72 + sp_size M + pad4 ?n \<le> length pad" "0 < ?n" "?n \<le> pad4 ?n"
    using assms(4,6) pl pad4_bounds(1) by auto
  have nl: "\<not> sp_too_long (int ?n) (part_length ?fp)" "part_length ?fp \<noteq> 0"
    using sp_not_too_long[OF _ m(3), of ?n] room pl by auto
  have room': "32 + sp_size M + 40 + pad4 ?n \<le> length pad" using room(1) by simp
  obtain pad' where u: "sp_update (pre @ pad @ aft) (part_blk_offset ?fp) (part_length ?fp) (tok_head nm ?n) (nm @ 0 # z) tb (int ?n)
       = Inr (Some (pre @ pad' @ aft))" "length pad' = length pad" "sp_holds pad' (M(nm := map_option (\<lambda>_. data) tb))"
    using sp_update_ok[OF hold assms(3-5) room', of pre aft z] unfolding o pl by blast
  have lc: "part_base sects ?fp + length pad \<le> length (content (flash_dev k))"
    using part_end_le[OF r(2)] l content_length r(1) by (simp add: sys_ok_def)
  have "content d = overlay (part_base sects ?fp) pad (content (flash_dev k))"
    using d(3) lc l overlay_slice[of "part_base sects ?fp" "nat (part_length ?fp)" "content (flash_dev k)"]
    by (simp add: pad_def)
  moreover have "sys_ok dev inv ?k1" using r(1) d(2) by (simp add: sys_ok_def)
  ultimately obtain d' where d': "setSharedBlks (part_start_blk ?fp) (part_number_blk ?fp + part_start_blk ?fp) (pre @ pad' @ aft) ?k1
        = Inr (0, ?k1\<lparr>flash_dev := d'\<rparr>)" "inv d'" "content d' = overlay (part_base sects ?fp) pad' (content (flash_dev k))"
    using st[of ?k1 pad pad'] l u(2) by auto
  have "kerSysScratchPadSet (nm @ 0 # z) tb (int ?n) k = Inr (0, k\<lparr>flash_dev := d', kmalloc_calls := Suc p\<rparr>)"
    using g nl m(1) u(1) d'(1) fr strncpy_name[OF assms(3), of z]
    by (simp add: kerSysScratchPadSet_def Let_def retriedKfree_def tok_head_def)
  thus ?thesis using d'(2,3) u(2,3) pl d(1) by (intro exI[of _ d'] exI[of _ "Suc p"] exI[of _ pad']) simp
qed

lemma sp_clear_ok:
  assumes "sp_ready dev inv sects k" "0 < part_length (flash_scratch_pad (fInfo k))"
  shows "\<exists>d c. kerSysScratchPadClearAll k = Inr (0, k\<lparr>flash_dev := d, kmalloc_calls := c\<rparr>)
         \<and> kmalloc_calls k \<le> c \<and> inv d
         \<and> content d = overlay (part_base sects (flash_scratch_pad (fInfo k)))
                         (replicate (nat (part_length (flash_scratch_pad (fInfo k)))) 0) (content (flash_dev k))"
  using part_clear_ok[of k "flash_scratch_pad (fInfo k)"] assms by (auto simp: sp_ready_def kerSysScratchPadClearAll_def)

lemma sp_first_set_ok:
  assumes "sp_ready dev inv sects k" "\<forall>n. kmalloc_ok k n" "name_ok nm" "data \<noteq> []"
    and "sp_bytes sects content k = replicate (nat (part_length (flash_scratch_pad (fInfo k)))) b" "b = 0 \<or> b = 0xFF"
    and "int (52 + pad4 (length data)) \<le> part_length (flash_scratch_pad (fInfo k))"
    and "part_length (flash_scratch_pad (fInfo k)) < 2 ^ 31"
    and "int (length data) + 52 < part_length (flash_scratch_pad (fInfo k))"
  shows "\<exists>d c. kerSysScratchPadSet (nm @ 0 # z) (Some (data @ ex)) (int (length data)) k
           = Inr (0, k\<lparr>flash_dev := d, kmalloc_calls := c\<rparr>)
         \<and> kmalloc_calls k \<le> c \<and> inv d
         \<and> content d = overlay (part_base sects (flash_scratch_pad (fInfo k)))
                         (sp_single nm data b (nat (part_length (flash_scratch_pad (fInfo k))))) (content (flash_dev k))"
proof -
  let ?fp = "flash_scratch_pad (fInfo k)" and ?n = "length data"
  define pad where "pad = sp_bytes sects content k"
  obtain len where pl: "part_length ?fp = int len" using assms(7) by (cases "part_length ?fp") auto
  have pad: "pad = replicate len b" using assms(5) pl by (simp add: pad_def)
  have len: "52 + pad4 ?n \<le> len" "len < 2 ^ 31" "?n + 52 < len" using assms(7-9) pl by auto
  have r: "sys_ok dev inv k" "part_wf sects ?fp" "mem_available k" "heap_wf k" using assms(1) by (simp_all add: sp_ready_def)
  obtain p d pre aft where g: "getSharedBlks (part_start_blk ?fp) (part_start_blk ?fp + part_number_blk ?fp) k
       = Inr (Some (p, pre @ pad @ aft), k\<lparr>flash_dev := d, kmalloc_calls := Suc p, heap_live := insert p (heap_live k)\<rparr>)"
    and o: "int (length pre) = part_blk_offset ?fp" and d: "kmalloc_calls k \<le> p" "inv d" "content d = content (flash_dev k)"
    and st: "\<And>k2 x pad. \<lbrakk>sys_ok dev inv k2; length x = nat (part_length ?fp); length pad = nat (part_length ?fp);
            content (flash_dev k2) = overlay (part_base sects ?fp) x (content (flash_dev k))\<rbrakk> \<Longrightarrow>
          \<exists>d'. setSharedBlks (part_start_blk ?fp) (part_number_blk ?fp + part_start_blk ?fp) (pre @ pad @ aft) k2
                 = Inr (0, k2\<lparr>flash_dev := d'\<rparr>) \<and> inv d' \<and> content d' = overlay (part_base sects ?fp) pad (content (flash_dev k))"
    by (rule part_open_ok[OF r(1-3), folded pad_def]) (rule that; assumption)
  let ?k1 = "k\<lparr>flash_dev := d, kmalloc_calls := Suc p, heap_live := insert p (heap_live k)\<rparr>"
  have "sp_ready dev inv sects ?k1" using r d assms(2)
    by (auto simp: sp_ready_def sys_ok_def mem_available_def heap_wf_def intro: exI[of _ 0])
  then obtain d1 c1 where c: "kerSysScratchPadClearAll ?k1 = Inr (0, ?k1\<lparr>flash_dev := d1, kmalloc_calls := c1\<rparr>)"
      "Suc p \<le> c1" "inv d1" "content d1 = overlay (part_base sects ?fp) (replicate len 0) (content (flash_dev k))"
    using sp_clear_ok[of ?k1] pl len(1) d(3) by auto
  let ?k2 = "?k1\<lparr>flash_dev := d1, kmalloc_calls := c1\<rparr>"
  define pad' where "pad' = sp_single nm data b len"
  have f: "sp_first (pre @ pad @ aft) (part_blk_offset ?fp) (tok_head nm ?n) (Some (data @ ex)) (int ?n)
       = Inr (pre @ pad' @ aft)" "length pad' = len"
    using sp_first_ok(1)[OF assms(3,4) len(1), of pre b aft ex] sp_first_ok(2)[OF assms(3,4) len(1), of b]
    unfolding o pad pad'_def by simp_all
  have "sys_ok dev inv ?k2" using r(1) c(3) by (simp add: sys_ok_def)
  then obtain d' where d': "setSharedBlks (part_start_blk ?fp) (part_number_blk ?fp + part_start_blk ?fp) (pre @ pad' @ aft) ?k2
        = Inr (0, ?k2\<lparr>flash_dev := d'\<rparr>)" "inv d'" "content d' = overlay (part_base sects ?fp) pad' (content (flash_dev k))"
    using st[of ?k2 "replicate len 0" pad'] pl f(2) c(4) by auto
  have e8: "pad = replicate 8 b @ replicate (len - 8) b" using len(1) replicate_add[of 8 "len - 8" b] by (simp add: pad)
  have "mem_rd (pre @ pad @ aft) (part_blk_offset ?fp) 8 = Inr (replicate 8 b)"
    using mem_rd_mid[of "part_blk_offset ?fp" pre 8 "replicate 8 b" "replicate (len - 8) b @ aft"] o by (simp add: e8)
  moreover have "replicate 8 b \<noteq> MAGIC_NUMBER"
  proof
    assume "replicate 8 b = MAGIC_NUMBER"
    hence "hd (replicate 8 b) = hd MAGIC_NUMBER" by simp
    thus False using assms(6) by (auto simp: MAGIC_NUMBER_def)
  qed
  moreover have "\<not> sp_too_long (int ?n) (part_length ?fp)" "part_length ?fp \<noteq> 0"
    using sp_not_too_long[of ?n len] len pl assms(4) by auto
  moreover have "insert p (heap_live k) - {p} = heap_live k" using d(1) r(4) by (auto simp: heap_wf_def)
  ultimately have "kerSysScratchPadSet (nm @ 0 # z) (Some (data @ ex)) (int ?n) k = Inr (0, k\<lparr>flash_dev := d', kmalloc_calls := c1\<rparr>)"
    using g f(1) c(1) d'(1) strncpy_name[OF assms(3), of z]
    by (simp add: kerSysScratchPadSet_def Let_def retriedKfree_def tok_head_def)
  thus ?thesis using d'(2,3) pl d(1) c(2) by (intro exI[of _ d'] exI[of _ c1]) (simp add: pad'_def)
qed

text \<open>A pad filled to its last twenty bytes, at the end of its blocks.\<close>

lemma sp_set_full:
  assumes "sp_ready dev inv sects k" "name_ok nm" "data \<noteq> []" "part_length (flash_scratch_pad (fInfo k)) = int len"
    and "sp_bytes sects content k = sp_single nm data b len"
    and "52 + pad4 (length data) \<le> len" "len < 72 + pad4 (length data)" "len < 2 ^ 31"
    and "part_blk_offset (flash_scratch_pad (fInfo k)) + int len
       = int (span sects (nat (part_start_blk (flash_scratch_pad (fInfo k)))) (nat (part_number_blk (flash_scratch_pad (fInfo k)))))"
    and "name_ok nm'" "m + 52 < len"
  shows "kerSysScratchPadSet (nm' @ 0 # z) tb (int m) k = Inl OutOfBounds"
proof -
  let ?fp = "flash_scratch_pad (fInfo k)"
  define pad where "pad = sp_bytes sects content k"
  have r: "sys_ok dev inv k" "part_wf sects ?fp" "mem_available k" "heap_wf k" using assms(1) by (simp_all add: sp_ready_def)
  obtain p d pre aft where g: "getSharedBlks (part_start_blk ?fp) (part_start_blk ?fp + part_number_blk ?fp) k
       = Inr (Some (p, pre @ pad @ aft), k\<lparr>flash_dev := d, kmalloc_calls := Suc p, heap_live := insert p (heap_live k)\<rparr>)"
    and o: "int (length pre) = part_blk_offset ?fp"
    and aft: "part_blk_offset ?fp + part_length ?fp + int (length aft) = int (span sects (nat (part_start_blk ?fp)) (nat (part_number_blk ?fp)))"
    by (rule part_open_ok[OF r(1-3), folded pad_def]) (rule that; assumption)
  have a: "aft = []" using aft assms(4,9) by simp
  have pad: "pad = sp_single nm data b len" using assms(5) by (simp add: pad_def)
  obtain q where "sp_single nm data b len = MAGIC_NUMBER @ q"
    using SPHead_magic unfolding sp_single_def sp_pad_def by (metis append_assoc)
  hence "mem_rd (pre @ pad @ aft) (part_blk_offset ?fp) 8 = Inr MAGIC_NUMBER"
    using mem_rd_mid[of "part_blk_offset ?fp" pre 8 MAGIC_NUMBER "q @ aft"] o pad by simp
  thus ?thesis
    using g a sp_single_full[OF assms(2,3,6-8), of pre b] strncpy_name[OF assms(10), of z]
      sp_not_too_long[OF assms(11,8)] assms(4,11) o pad
    by (simp add: kerSysScratchPadSet_def Let_def)
qed

end

section \<open>A pad on the simulated board\<close>

abbreviation (input) PSI_name :: "byte list" where "PSI_name \<equiv> [0x50, 0x53, 0x49]"

lemma PSI_name_ok: "name_ok PSI_name"
  by (simp add: name_ok_def)

lemma mx640_sp_ready:
  obtains k where "sp_ready (flash_cfi_dev (sim_ops mx640) mx640_ready) mx640_inv mx640_sectors k"
    "flash_scratch_pad (fInfo k) = \<lparr>part_start_blk = 129, part_number_blk = 1, part_length = 8192, part_blk_offset = 57344\<rparr>"
    "sp_bytes mx640_sectors (flash_content (sim_cells mx640)) k = replicate 8192 0xFF" "\<forall>n. kmalloc_ok k n"
proof -
  obtain k where k: "sys_ok (flash_cfi_dev (sim_ops mx640) mx640_ready) mx640_inv k" "finfo_wf mx640_sectors (fInfo k)"
    "flash_content (sim_cells mx640) (flash_dev k) = replicate 8388608 0xFF"
    "kmalloc_ok k = (\<lambda>_. True)" "heap_live k = {}" "kmalloc_calls k = 0"
    "flash_scratch_pad (fInfo k) = \<lparr>part_start_blk = 129, part_number_blk = 1, part_length = 8192, part_blk_offset = 57344\<rparr>"
    by (rule mx640_booted)
  have wf: "part_wf mx640_sectors (flash_scratch_pad (fInfo k))" using k(2) by (simp add: finfo_wf_def all_parts_def)
  hence "part_base mx640_sectors (flash_scratch_pad (fInfo k)) + 8192 \<le> 8388608"
    using part_end_le[OF wf] k(7) by (simp add: mx640_sizes)
  thus ?thesis using that[of k] wf k by (simp add: sp_ready_def mem_available_def heap_wf_def slice_def exI[of _ 0])
qed

lemma sp_size_single: "sp_size [nm \<mapsto> data] = 20 + pad4 (length data)"
  by (simp add: sp_size_def)

lemma mx640_sp_span: "span mx640_sectors 129 1 = 65536"
  by (simp add: mx640_sectors_def)

lemma mx640_sp_holds:
  obtains k where "sp_ready (flash_cfi_dev (sim_ops mx640) mx640_ready) mx640_inv mx640_sectors k"
    "part_length (flash_scratch_pad (fInfo k)) = 8192" "\<forall>n. kmalloc_ok k n"
    "sp_holds (sp_bytes mx640_sectors (flash_content (sim_cells mx640)) k) [PSI_name \<mapsto> [1, 2, 3]]"
proof -
  let ?c = "flash_content (sim_cells mx640)" and ?dev = "flash_cfi_dev (sim_ops mx640) mx640_ready"
  obtain k where k: "sp_ready ?dev mx640_inv mx640_sectors k"
    "flash_scratch_pad (fInfo k) = \<lparr>part_start_blk = 129, part_number_blk = 1, part_length = 8192, part_blk_offset = 57344\<rparr>"
    "sp_bytes mx640_sectors ?c k = replicate 8192 0xFF" "\<forall>n. kmalloc_ok k n"
    by (rule mx640_sp_ready)
  let ?b = "part_base mx640_sectors (flash_scratch_pad (fInfo k))" and ?pad = "sp_single PSI_name [1, 2, 3] 0xFF 8192"
  obtain d c where d: "kmalloc_calls k \<le> c" "mx640_inv d" "?c d = overlay ?b ?pad (?c (flash_dev k))"
    using mx640_dev.sp_first_set_ok[OF k(1,4) PSI_name_ok, where data = "[1, 2, 3]" and b = "0xFF" and z = "[]" and ex = "[]"] k(2,3)
    by (auto simp: pad4_def)
  let ?k = "k\<lparr>flash_dev := d, kmalloc_calls := c\<rparr>"
  have r: "sp_ready ?dev mx640_inv mx640_sectors ?k" using k(1,4) d(1,2)
    by (auto simp: sp_ready_def sys_ok_def heap_wf_def mem_available_def exI[of _ 0])
  have "?b + 8192 \<le> length (?c (flash_dev k))"
    using k(1,2) part_end_le[of mx640_sectors "flash_scratch_pad (fInfo k)"] mx640_dev.content_length
    by (simp add: sp_ready_def sys_ok_def)
  hence "sp_bytes mx640_sectors ?c ?k = ?pad"
    using d(3) k(2) slice_overlay_same[of ?b ?pad "?c (flash_dev k)"] sp_first_ok(2)[OF PSI_name_ok, of "[1, 2, 3]" 8192 "0xFF"]
    by (simp add: pad4_def)
  thus ?thesis using that[OF r] k(2,4) sp_single_holds[OF PSI_name_ok, of "[1, 2, 3]" 8192 "0xFF"] by (simp add: pad4_def)
qed

section \<open>Properties\<close>

text \<open>C13: reading the scratch pad is a lookup: on a pad that holds the map \<open>M\<close>,
  \<^verbatim>\<open>kerSysScratchPadGet\<close> copies the data of the name to the caller's buffer and returns its length,
  or returns -1 and leaves the buffer alone when the name is absent; the flash and the heap keep
  their contents.\<close>

theorem scratch_pad_get_lookup:
  assumes "flash_device dev sects base I content" "sp_ready dev I sects k"
    and "sp_holds (sp_bytes sects content k) M" "name_ok nm"
    and "int bl + 52 < part_length (flash_scratch_pad (fInfo k))"
    and "\<forall>data. M nm = Some data \<longrightarrow> length data \<le> length tokBuf"
  shows "\<exists>d c. kerSysScratchPadGet (nm @ 0 # z) tokBuf (int bl) k
       = Inr (case M nm of None \<Rightarrow> -1 | Some data \<Rightarrow> int (length data),
              case M nm of None \<Rightarrow> tokBuf | Some data \<Rightarrow> overlay 0 data tokBuf,
              k\<lparr>flash_dev := d, kmalloc_calls := c\<rparr>)
     \<and> I d \<and> content d = content (flash_dev k)"
  using flash_device.sp_get_ok(1)[OF assms(1-5), of z tokBuf] flash_device.sp_get_ok(2)[OF assms(1-5), of _ tokBuf z] assms(6)
  by (cases "M nm") (simp_all, blast+)

theorem scratch_pad_get_lookup_witness:
  "\<exists>k d c. kerSysScratchPadGet [0x50, 0x53, 0x49, 0] (replicate 4 9) 4 (k :: sim_chip cfi_state kersys)
     = Inr (3, [1, 2, 3, 9], k\<lparr>flash_dev := d, kmalloc_calls := c\<rparr>)"
proof -
  obtain k where k: "sp_ready (flash_cfi_dev (sim_ops mx640) mx640_ready) mx640_inv mx640_sectors k"
    "part_length (flash_scratch_pad (fInfo k)) = 8192"
    "sp_holds (sp_bytes mx640_sectors (flash_content (sim_cells mx640)) k) [PSI_name \<mapsto> [1, 2, 3]]"
    by (rule mx640_sp_holds)
  thus ?thesis
    using scratch_pad_get_lookup[OF mx640_device k(1,3) PSI_name_ok, of 4 "replicate 4 9" "[]"]
    by (auto simp: overlay_def)
qed

text \<open>C4: writing the scratch pad is an update: with data the name is bound to the data, without data
  the name is removed, every other name keeps its data, and no byte of the flash outside the
  scratch pad changes.\<close>

theorem scratch_pad_set_update:
  assumes "flash_device dev sects base I content" "sp_ready dev I sects k"
    and "sp_holds (sp_bytes sects content k) M" "name_ok nm" "data \<noteq> []"
    and "tb = None \<or> tb = Some (data @ ex)"
    and "int (72 + sp_size M + pad4 (length data)) \<le> part_length (flash_scratch_pad (fInfo k))"
  shows "\<exists>d c pad'. kerSysScratchPadSet (nm @ 0 # z) tb (int (length data)) k
       = Inr (0, k\<lparr>flash_dev := d, kmalloc_calls := c\<rparr>)
     \<and> I d \<and> sp_holds pad' (M(nm := (if tb = None then None else Some data)))
     \<and> int (length pad') = part_length (flash_scratch_pad (fInfo k))
     \<and> content d = overlay (part_base sects (flash_scratch_pad (fInfo k))) pad' (content (flash_dev k))"
proof -
  have "map_option (\<lambda>_. data) tb = (if tb = None then None else Some data)" by (cases tb) auto
  with flash_device.sp_set_ok[OF assms, of z] show ?thesis by (elim exE conjE) (simp only:, blast)
qed

theorem scratch_pad_set_update_witness:
  "\<exists>k k'. kerSysScratchPadSet [0x50, 0x53, 0x49, 0] (Some [7, 8]) 2 (k :: sim_chip cfi_state kersys) = Inr (0, k')"
proof -
  obtain k where k: "sp_ready (flash_cfi_dev (sim_ops mx640) mx640_ready) mx640_inv mx640_sectors k"
    "part_length (flash_scratch_pad (fInfo k)) = 8192"
    "sp_holds (sp_bytes mx640_sectors (flash_content (sim_cells mx640)) k) [PSI_name \<mapsto> [1, 2, 3]]"
    by (rule mx640_sp_holds)
  have "int (72 + sp_size [PSI_name \<mapsto> [1, 2, 3]] + pad4 (length [7, 8 :: byte])) \<le> part_length (flash_scratch_pad (fInfo k))"
    unfolding sp_size_single k(2) by (simp add: pad4_def)
  from scratch_pad_set_update[OF mx640_device k(1,3) PSI_name_ok _ _ this, of "Some [7, 8]" "[]" "[]"]
  obtain k' where "kerSysScratchPadSet (PSI_name @ 0 # []) (Some [7, 8]) (int (length [7, 8 :: byte])) k = Inr (0, k')" by auto
  thus ?thesis by (intro exI[of _ k] exI[of _ k']) simp
qed

text \<open>C33: \<^verbatim>\<open>kerSysScratchPadGet\<close> never compares the length of the token with the size of the caller's
  buffer: a token longer than the buffer is written past its end.\<close>

theorem scratch_pad_get_overruns:
  assumes "flash_device dev sects base I content" "sp_ready dev I sects k"
    and "sp_holds (sp_bytes sects content k) M" "name_ok nm" "M nm = Some data"
    and "int (length tokBuf) + 52 < part_length (flash_scratch_pad (fInfo k))" "length tokBuf < length data"
  shows "kerSysScratchPadGet (nm @ 0 # z) tokBuf (int (length tokBuf)) k = Inl OutOfBounds"
  using flash_device.sp_get_ok(3)[OF assms(1-4,6,5,7)] .

theorem scratch_pad_get_overruns_witness:
  "\<exists>k. kerSysScratchPadGet [0x50, 0x53, 0x49, 0] [9, 9] 2 (k :: sim_chip cfi_state kersys) = Inl OutOfBounds"
proof -
  obtain k where k: "sp_ready (flash_cfi_dev (sim_ops mx640) mx640_ready) mx640_inv mx640_sectors k"
    "part_length (flash_scratch_pad (fInfo k)) = 8192"
    "sp_holds (sp_bytes mx640_sectors (flash_content (sim_cells mx640)) k) [PSI_name \<mapsto> [1, 2, 3]]"
    by (rule mx640_sp_holds)
  thus ?thesis
    using scratch_pad_get_overruns[OF mx640_device k(1,3) PSI_name_ok, of "[1, 2, 3]" "[9, 9]" "[]"] by auto
qed

text \<open>C34: a token that fills the pad to its last twenty bytes is accepted, and from then on every
  update of the scratch pad reads past the end of its buffer.\<close>

theorem scratch_pad_fills_up:
  assumes "flash_device dev sects base I content" "sp_ready dev I sects k" "\<forall>n. kmalloc_ok k n"
    and "part_length (flash_scratch_pad (fInfo k)) = int len" "len < 2 ^ 31"
    and "part_blk_offset (flash_scratch_pad (fInfo k)) + int len
       = int (span sects (nat (part_start_blk (flash_scratch_pad (fInfo k)))) (nat (part_number_blk (flash_scratch_pad (fInfo k)))))"
    and "sp_bytes sects content k = replicate len b" "b = 0 \<or> b = 0xFF"
    and "name_ok nm" "data \<noteq> []" "52 + pad4 (length data) \<le> len" "len < 72 + pad4 (length data)" "length data + 52 < len"
    and "name_ok nm'" "m + 52 < len"
  shows "\<exists>k'. kerSysScratchPadSet (nm @ 0 # z) (Some data) (int (length data)) k = Inr (0, k')
     \<and> kerSysScratchPadSet (nm' @ 0 # z) tb (int m) k' = Inl OutOfBounds"
proof -
  let ?fp = "flash_scratch_pad (fInfo k)"
  have pad: "sp_bytes sects content k = replicate (nat (part_length ?fp)) b" using assms(4,7) by simp
  obtain d c where d: "kerSysScratchPadSet (nm @ 0 # z) (Some (data @ [])) (int (length data)) k
         = Inr (0, k\<lparr>flash_dev := d, kmalloc_calls := c\<rparr>)" "kmalloc_calls k \<le> c" "I d"
      "content d = overlay (part_base sects ?fp) (sp_single nm data b len) (content (flash_dev k))"
    using flash_device.sp_first_set_ok[OF assms(1-3,9,10) pad assms(8), of z "[]"] assms(4,5,11,13) by auto
  let ?k = "k\<lparr>flash_dev := d, kmalloc_calls := c\<rparr>"
  have r: "sp_ready dev I sects ?k" using assms(2,3) d(2,3)
    by (auto simp: sp_ready_def sys_ok_def heap_wf_def mem_available_def exI[of _ 0])
  have "part_base sects ?fp + len \<le> length (content (flash_dev k))"
    using assms(2,4) part_end_le[of sects ?fp] flash_device.content_length[OF assms(1)]
    by (simp add: sp_ready_def sys_ok_def)
  hence "sp_bytes sects content ?k = sp_single nm data b len"
    using d(4) assms(4) slice_overlay_same[of "part_base sects ?fp" "sp_single nm data b len" "content (flash_dev k)"]
      sp_first_ok(2)[OF assms(9-11), of b] by simp
  hence "kerSysScratchPadSet (nm' @ 0 # z) tb (int m) ?k = Inl OutOfBounds"
    using flash_device.sp_set_full[OF assms(1) r assms(9,10), of len b nm' m z tb] assms(4-6,11-15) by simp
  thus ?thesis using d(1) by simp
qed

theorem scratch_pad_fills_up_witness:
  "\<exists>k k'. kerSysScratchPadSet [0x50, 0x53, 0x49, 0] (Some (replicate 8139 1)) 8139 (k :: sim_chip cfi_state kersys) = Inr (0, k')
     \<and> kerSysScratchPadSet [0x50, 0x53, 0x49, 0] (Some [7]) 1 k' = Inl OutOfBounds"
proof -
  obtain k where k: "sp_ready (flash_cfi_dev (sim_ops mx640) mx640_ready) mx640_inv mx640_sectors k"
    "flash_scratch_pad (fInfo k) = \<lparr>part_start_blk = 129, part_number_blk = 1, part_length = 8192, part_blk_offset = 57344\<rparr>"
    "sp_bytes mx640_sectors (flash_content (sim_cells mx640)) k = replicate 8192 0xFF" "\<forall>n. kmalloc_ok k n"
    by (rule mx640_sp_ready)
  show ?thesis
    using scratch_pad_fills_up[OF mx640_device k(1,4), of 8192 "0xFF" PSI_name "replicate 8139 1" PSI_name 1 "[]" "Some [7]"]
      k(2,3) PSI_name_ok mx640_sp_span by (auto simp: pad4_def)
qed

end
