(* ===== verification/Image_Set.thy ===== *)
theory Image_Set
  imports Flash_Layout
begin

text \<open>
  \<^verbatim>\<open>kerSysBcmImageSet\<close> of \<^verbatim>\<open>bcm63xx_flash.c\<close>: writing a firmware image to consecutive blocks,
  sharing the block of the variable partition, and erasing the rest of the flash after a whole
  image.
\<close>

abbreviation (input) FLASH_LENGTH_BOOT_ROM :: int where "FLASH_LENGTH_BOOT_ROM \<equiv> 131072"

section \<open>Writing an image\<close>

text \<open>
  The loop of \<^verbatim>\<open>kerSysBcmImageSet\<close>. The result is \<^verbatim>\<open>blk_start\<close>, what is left of \<^verbatim>\<open>size\<close>,
  \<^verbatim>\<open>pTempBuf\<close> and the state. \<open>string\<close> is the memory from the image pointer on; a
  \<^verbatim>\<open>copy_from_user\<close> that runs past it fails. \<open>fuel\<close> bounds the number of blocks.
\<close>

fun image_loop ::
  "nat \<Rightarrow> bool \<Rightarrow> int \<Rightarrow> byte list \<Rightarrow> int \<Rightarrow> 's kersys \<Rightarrow> (int \<times> int \<times> nat option \<times> 's kersys) res" where
  "image_loop 0 whole_image blk_start string sz k = Inl Hang"
| "image_loop (Suc fuel) whole_image blk_start string sz k =
     bindR (sector_size_k blk_start k) (\<lambda>sect_size.
     if \<not> whole_image \<and> blk_start = part_start_blk (flash_variable (fInfo k))
     then
       if sz > sect_size - part_length (flash_variable (fInfo k)) then Inr (blk_start, sz, None, k)
       else
         case retriedKmalloc sect_size k of
           (None, k1) \<Rightarrow> Inl Reset
         | (Some (p, _), k1) \<Rightarrow>
             bindR (flash_read_buf (g_flash_info k1) (of_int blk_start) 0 sect_size (flash_dev k1))
               (\<lambda>(_, pTempBuf, d).
             if sz < 0 \<or> int (length string) < sz then Inr (blk_start, sz, Some p, k1\<lparr>flash_dev := d\<rparr>)
             else
               bindR (mem_wr pTempBuf 0 (take (nat sz) string)) (\<lambda>pTempBuf'.
               bindR (flash_sector_erase_int (g_flash_info k1) (of_int blk_start) d) (\<lambda>(_, d1).
               bindR (flash_write_buf (g_flash_info k1) (of_int blk_start) 0 pTempBuf' sect_size d1)
                 (\<lambda>(r, d2).
               bindR (retriedKfree p (k1\<lparr>flash_dev := d2\<rparr>)) (\<lambda>k2.
                 Inr (blk_start, if r = sect_size then 0 else sz, Some p, k2))))))
     else
       bindR (flash_sector_erase_int (g_flash_info k) (of_int blk_start) (flash_dev k)) (\<lambda>(_, d).
       let sz' = (if sect_size > sz \<and> odd sz then sz + 1 else sz);
           n = (if sect_size > sz then sz' else sect_size)
       in bindR (flash_write_buf (g_flash_info k) (of_int blk_start) 0 string n d) (\<lambda>(i, d').
            let k' = k\<lparr>flash_dev := d'\<rparr> in
            if i \<noteq> n then Inr (blk_start, sz', None, k')
            else if sz' - n > 0
            then image_loop fuel whole_image (blk_start + 1) (drop (nat n) string) (sz' - n) k'
            else Inr (blk_start + 1, sz' - n, None, k'))))"

declare image_loop.simps(2) [simp del]

text \<open>The erase of the remaining blocks after a whole image.\<close>

fun erase_blks :: "int \<Rightarrow> nat \<Rightarrow> 's kersys \<Rightarrow> 's kersys res" where
  "erase_blks blk 0 k = Inr k"
| "erase_blks blk (Suc n) k =
     bindR (flash_sector_erase_int (g_flash_info k) (of_int blk) (flash_dev k)) (\<lambda>(_, d).
       erase_blks (blk + 1) n (k\<lparr>flash_dev := d\<rparr>))"

text \<open>Every block but the last takes at least one byte of the image, so \<open>size + 1\<close> rounds are
  enough.\<close>

definition kerSysBcmImageSet ::
  "'s flash_hw \<Rightarrow> u32 \<Rightarrow> byte list \<Rightarrow> int \<Rightarrow> 's kersys \<Rightarrow> (int \<times> 's kersys) res" where
  "kerSysBcmImageSet hw flash_start_addr string sz k =
     bindR (flash_get_blk (g_flash_info k) flash_start_addr (flash_dev k)) (\<lambda>blk_start.
     if blk_start < 0 then Inr (-1, k)
     else
       let whole_image = (flash_start_addr = hw_base hw (flash_dev k) \<and> sz > FLASH_LENGTH_BOOT_ROM) in
       bindR (image_loop (Suc (nat sz)) whole_image blk_start string sz k) (\<lambda>(blk, left, pTempBuf, k1).
       let total = flash_get_numsectors (g_flash_info k1) (flash_dev k1) in
       bindR (if whole_image then erase_blks blk (nat (total - blk)) k1 else Inr k1) (\<lambda>k2.
       bindR (case pTempBuf of None \<Rightarrow> Inr k2 | Some p \<Rightarrow> retriedKfree p k2) (\<lambda>k3.
         Inr (if left = 0 then 0 else if whole_image \<and> blk < total then total else blk, k3)))))"


section \<open>An image below the partitions\<close>

lemma overlay_sector_erased:
  assumes "p + m + r \<le> length c" "length xs = m"
  shows "overlay p xs (overlay p (replicate (m + r) b) c) = overlay p (xs @ replicate r b) c"
proof (rule nth_equalityI)
  fix i assume "i < length (overlay p xs (overlay p (replicate (m + r) b) c))"
  thus "overlay p xs (overlay p (replicate (m + r) b) c) ! i = overlay p (xs @ replicate r b) c ! i"
    using assms by (auto simp: nth_overlay nth_append)
qed (use assms in simp)

context mapped_flash begin

text \<open>One block: erased and written with \<open>n\<close> bytes.\<close>

lemma blk_write_ok:
  assumes "inv d" "a < length sects" "m \<le> sects ! a" "even m" "m \<le> length string"
  shows "\<exists>d1 d2. fn_flash_sector_erase_int dev (of_nat a) d = Inr (FLASH_API_OK, d1)
     \<and> fn_flash_write_buf dev (of_nat a) 0 string (int m) d1 = Inr (int m, d2) \<and> inv d2
     \<and> content d2 = overlay (sector_start sects a) (take m string @ replicate (sects ! a - m) 0xFF) (content d)"
proof -
  let ?st = "sector_start sects a" and ?r = "sects ! a - m"
  obtain d1 where d1: "fn_flash_sector_erase_int dev (of_nat a) d = Inr (FLASH_API_OK, d1)" "inv d1"
      "content d1 = overlay ?st (replicate (sects ! a) 0xFF) (content d)"
    using erase[OF assms(1,2)] by auto
  have le: "?st + sects ! a \<le> length (content d)" using sector_end_le[OF assms(2)] content_length[OF assms(1)] by simp
  have "slice (?st + 0) m (content d1) = replicate m 0xFF"
    using slice_overlay_inner[of ?st "replicate (sects ! a) (0xFF :: byte)" "content d" ?st m] le assms(3) d1(3)
    by (simp add: slice_def)
  then obtain d2 where d2: "fn_flash_write_buf dev (of_nat a) 0 string (int m) d1 = Inr (int m, d2)" "inv d2"
      "content d2 = overlay ?st (take m string) (content d1)"
    using write_buf[OF d1(2) assms(2), of 0 m string] assms(3-5) le content_length[OF assms(1)] by auto
  have "content d2 = overlay ?st (take m string @ replicate ?r 0xFF) (content d)"
    using d2(3) d1(3) overlay_sector_erased[of ?st m ?r "content d" "take m string" "0xFF"] le assms(3,5) by simp
  thus ?thesis using d1(1) d2(1,2) by blast
qed

lemma image_loop_plain:
  assumes "sector_size_k blk k = Inr s" "whole \<or> blk \<noteq> part_start_blk (flash_variable (fInfo k))" "g_flash_info k = Some dev"
    and "fn_flash_sector_erase_int dev (of_int blk) (flash_dev k) = Inr (e, d1)"
    and "sz' = (if s > sz \<and> odd sz then sz + 1 else sz)" "n = (if s > sz then sz' else s)"
    and "fn_flash_write_buf dev (of_int blk) 0 string n d1 = Inr (n, d2)"
  shows "image_loop (Suc f) whole blk string sz k =
     (if sz' - n > 0 then image_loop f whole (blk + 1) (drop (nat n) string) (sz' - n) (k\<lparr>flash_dev := d2\<rparr>)
      else Inr (blk + 1, sz' - n, None, k\<lparr>flash_dev := d2\<rparr>))"
  using assms
  by (cases whole; cases "s > sz"; cases "odd sz") (simp_all add: image_loop.simps(2) Let_def flash_sector_erase_int_def flash_write_buf_def)

lemma image_loop_ok:
  assumes "sys_ok dev inv k" "a + Suc n \<le> length sects"
    and "whole \<or> int (a + Suc n) \<le> part_start_blk (flash_variable (fInfo k))"
    and "0 < sz" "m = sz + sz mod 2" "m \<le> length string"
    and "span sects a n < m" "m \<le> span sects a (Suc n)" "Suc n \<le> fuel"
  shows "\<exists>d. image_loop fuel whole (int a) string (int sz) k = Inr (int (a + Suc n), 0, None, k\<lparr>flash_dev := d\<rparr>) \<and> inv d
     \<and> content d = overlay (sector_start sects a) (take m string @ replicate (span sects a (Suc n) - m) 0xFF) (content (flash_dev k))"
  using assms
proof (induction n arbitrary: a fuel string sz m k)
  case 0
  note p = "0.prems"
  have a: "a < length sects" using p(2) by simp
  have s: "span sects a (Suc 0) = sects ! a" using span_Suc[OF a, of 0] by simp
  obtain f where f: "fuel = Suc f" using p(9) by (cases fuel) auto
  have iv: "inv (flash_dev k)" "g_flash_info k = Some dev" using p(1) by (simp_all add: sys_ok_def)
  have m: "m \<le> sects ! a" "even m" using p(5,8) s by (auto simp: mod2_eq_if)
  have sz: "int m = (if int (sects ! a) > int sz \<and> odd (int sz) then int sz + 1 else int sz)"
       "int m = (if int (sects ! a) > int sz then int m else int (sects ! a))"
    using p(5) m sects_wf(2)[OF nth_mem[OF a]] by (auto simp: mod2_eq_if split: if_splits)
  obtain d1 d2 where d: "fn_flash_sector_erase_int dev (of_nat a) (flash_dev k) = Inr (FLASH_API_OK, d1)"
     "fn_flash_write_buf dev (of_nat a) 0 string (int m) d1 = Inr (int m, d2)" "inv d2"
     "content d2 = overlay (sector_start sects a) (take m string @ replicate (sects ! a - m) 0xFF) (content (flash_dev k))"
    using blk_write_ok[OF iv(1) a m p(6)] by blast
  have w: "whole \<or> int a \<noteq> part_start_blk (flash_variable (fInfo k))" using p(3) by auto
  show ?case
    using image_loop_plain[OF sector_size_k_ok[OF p(1) a] w iv(2) _ sz, of FLASH_API_OK d1 string d2 f] d f s
    by (intro exI[of _ d2]) simp
next
  case (Suc n)
  note p = Suc.prems
  have a: "a < length sects" using p(2) by simp
  let ?s = "sects ! a" and ?st = "sector_start sects a" and ?c = "content (flash_dev k)"
  obtain f where f: "fuel = Suc f" "Suc n \<le> f" using p(9) by (cases fuel) auto
  have iv: "inv (flash_dev k)" "g_flash_info k = Some dev" using p(1) by (simp_all add: sys_ok_def)
  have s: "even ?s" "0 < ?s" using sects_wf(2)[OF nth_mem[OF a]] by auto
  have sp: "span sects a (Suc n) = ?s + span sects (Suc a) n" "span sects a (Suc (Suc n)) = ?s + span sects (Suc a) (Suc n)"
    using span_Suc[OF a] by simp_all
  have m: "even m" "?s < m" "?s \<le> sz" "0 < sz - ?s" "m - ?s = (sz - ?s) + (sz - ?s) mod 2" "?s \<le> length string"
  proof -
    show e: "even m" using p(5) by (simp add: mod2_eq_if)
    show lt: "?s < m" using p(7) sp(1) by simp
    have "Suc ?s < m" using e s(1) lt by (metis Suc_lessI even_Suc)
    thus l: "?s \<le> sz" "0 < sz - ?s" using p(5) by (auto simp: mod2_eq_if split: if_splits)
    have "(sz - ?s) mod 2 = sz mod 2" using l(1) s(1) by (auto simp: mod2_eq_if)
    thus "m - ?s = (sz - ?s) + (sz - ?s) mod 2" using p(5) l(1) by simp
    show "?s \<le> length string" using lt p(6) by simp
  qed
  obtain d1 d2 where d: "fn_flash_sector_erase_int dev (of_nat a) (flash_dev k) = Inr (FLASH_API_OK, d1)"
     "fn_flash_write_buf dev (of_nat a) 0 string (int ?s) d1 = Inr (int ?s, d2)" "inv d2"
     "content d2 = overlay ?st (take ?s string) ?c"
    using blk_write_ok[OF iv(1) a order_refl s(1) m(6)] by auto
  let ?k = "k\<lparr>flash_dev := d2\<rparr>"
  have sys: "sys_ok dev inv ?k" using p(1) d(3) by (rule sys_ok_dev)
  obtain d' where d': "image_loop f whole (int (Suc a)) (drop ?s string) (int (sz - ?s)) ?k = Inr (int (Suc a + Suc n), 0, None, ?k\<lparr>flash_dev := d'\<rparr>)"
     "inv d'" "content d' = overlay (sector_start sects (Suc a)) (take (m - ?s) (drop ?s string) @ replicate (span sects (Suc a) (Suc n) - (m - ?s)) 0xFF) (content d2)"
  proof -
    have q: "Suc a + Suc n \<le> length sects" "whole \<or> int (Suc a + Suc n) \<le> part_start_blk (flash_variable (fInfo ?k))"
      "m - ?s \<le> length (drop ?s string)" "span sects (Suc a) n < m - ?s" "m - ?s \<le> span sects (Suc a) (Suc n)"
      using p(2,3,6-8) sp m(2) by auto
    from Suc.IH[OF sys q(1,2) m(4,5) q(3-5) f(2)] show thesis by (elim exE conjE) (rule that, simp_all)
  qed
  have le: "?st + ?s + span sects (Suc a) (Suc n) \<le> length ?c"
    using span_end_le[of a sects "Suc (Suc n)"] content_length[OF iv(1)] sp(2) by (simp add: add.assoc)
  let ?tail = "take (m - ?s) (drop ?s string) @ replicate (span sects (Suc a) (Suc n) - (m - ?s)) 0xFF"
  have l: "length (take ?s string) = ?s" "length ?tail = span sects (Suc a) (Suc n)"
    using m(2,6) p(6,8) sp(2) by simp_all
  have "overlay (?st + ?s) ?tail (overlay ?st (take ?s string) ?c) = overlay ?st (take ?s string @ ?tail) ?c"
    using overlay_append_adjacent[of ?st "take ?s string" ?tail ?c] le unfolding l by simp
  moreover have "take ?s string @ take (m - ?s) (drop ?s string) = take m string"
    using m(2) by (metis le_add_diff_inverse less_imp_le take_add)
  moreover have "span sects (Suc a) (Suc n) - (m - ?s) = span sects a (Suc (Suc n)) - m" using sp(2) m(2) by linarith
  ultimately have c: "content d' = overlay ?st (take m string @ replicate (span sects a (Suc (Suc n)) - m) 0xFF) ?c"
    unfolding d'(3) d(4) sector_start_Suc[OF a] by (metis append_assoc)
  have i: "int (Suc a) = int a + 1" "int (sz - ?s) = int sz - int ?s" "0 < int sz - int ?s"
    using m by simp_all
  have w: "whole \<or> int a \<noteq> part_start_blk (flash_variable (fInfo k))" using p(3) by auto
  have z: "int sz = (if int ?s > int sz \<and> odd (int sz) then int sz + 1 else int sz)"
       "int ?s = (if int ?s > int sz then int sz else int ?s)" using m by auto
  note step = image_loop_plain[OF sector_size_k_ok[OF p(1) a] w iv(2) _ z, of FLASH_API_OK d1 string d2 f]
  have "image_loop fuel whole (int a) string (int sz) k = Inr (int (a + Suc (Suc n)), 0, None, k\<lparr>flash_dev := d'\<rparr>)"
    using step d(1,2) d'(1) i unfolding f(1) by (simp add: add_ac)
  thus ?case using c d'(2) by blast
qed

lemma blk_of_start:
  assumes "sys_ok dev inv k" "a < length sects"
  shows "flash_get_blk (g_flash_info k) (base + of_nat (sector_start sects a)) (flash_dev k) = Inr (int a)"
proof -
  have pos: "0 < sects ! a" using sects_wf(2)[OF nth_mem[OF assms(2)]] by simp
  have "sector_start sects a < sum_list sects" using sector_end_le[OF assms(2)] pos by linarith
  moreover have "sector_of sects (sector_start sects a) = a" using assms(2) pos by (intro sector_of_unique) simp_all
  ultimately show ?thesis using get_blk[of "flash_dev k" "sector_start sects a"] assms(1)
    by (simp add: flash_get_blk_def sys_ok_def)
qed

lemma start_not_base:
  assumes "inv d" "a < length sects" "a \<noteq> 0"
  shows "base + of_nat (sector_start sects a) \<noteq> hw_base hw d"
proof -
  have "sector_start sects a < sum_list sects"
    using sector_end_le[OF assms(2)] sects_wf(2)[OF nth_mem[OF assms(2)]] by linarith
  moreover have "0 < sector_start sects a"
    using sector_start_mono[of 1 a sects] sects_wf(1) sects_wf(2)[OF nth_mem, of 0] sector_start_Suc[of 0 sects] assms(3) by simp
  ultimately have "(of_nat (sector_start sects a) :: u32) \<noteq> 0"
    using sects_wf(4) by (simp add: word_of_nat_eq_0_iff nat_dvd_not_less)
  thus ?thesis using base_hw[OF assms(1)] by simp
qed

lemma image_set_ok:
  assumes "sys_ok dev inv k" "a + Suc n \<le> length sects"
    and "int (a + Suc n) \<le> part_start_blk (flash_variable (fInfo k))"
    and "0 < sz" "m = sz + sz mod 2" "m \<le> length string"
    and "span sects a n < m" "m \<le> span sects a (Suc n)" "a \<noteq> 0 \<or> sz \<le> 131072"
  shows "\<exists>d. kerSysBcmImageSet hw (base + of_nat (sector_start sects a)) string (int sz) k = Inr (0, k\<lparr>flash_dev := d\<rparr>) \<and> inv d
     \<and> content d = overlay (sector_start sects a) (take m string @ replicate (span sects a (Suc n) - m) 0xFF) (content (flash_dev k))"
proof -
  have iv: "inv (flash_dev k)" "g_flash_info k = Some dev" using assms(1) by (simp_all add: sys_ok_def)
  have a: "a < length sects" using assms(2) by simp
  have fuel: "Suc n \<le> Suc sz"
  proof -
    have "n \<le> span sects a n" using assms(2) sects_wf(2)
    proof (induction n arbitrary: a)
      case (Suc n)
      have "0 < sects ! a" using Suc.prems(2)[OF nth_mem, of a] Suc.prems(1) by simp
      moreover have "n \<le> span sects (Suc a) n" using Suc by simp
      ultimately show ?case using Suc.prems(1) span_Suc[of a sects n] by linarith
    qed simp
    thus ?thesis using assms(5,7) by (auto simp: mod2_eq_if split: if_splits)
  qed
  have nw: "\<not> (base + of_nat (sector_start sects a) = hw_base hw (flash_dev k) \<and> int sz > FLASH_LENGTH_BOOT_ROM)"
    using assms(9) start_not_base[OF iv(1) a] by auto
  obtain d where "image_loop (Suc sz) False (int a) string (int sz) k = Inr (int (a + Suc n), 0, None, k\<lparr>flash_dev := d\<rparr>)" "inv d"
     "content d = overlay (sector_start sects a) (take m string @ replicate (span sects a (Suc n) - m) 0xFF) (content (flash_dev k))"
    using image_loop_ok[OF assms(1,2) _ assms(4-8) fuel, of False] assms(3) by auto
  thus ?thesis using blk_of_start[OF assms(1) a] nw by (intro exI[of _ d]) (auto simp: kerSysBcmImageSet_def Let_def)
qed

text \<open>An image that reaches the block of the variable partition is written there through a buffer
  that is released twice.\<close>

lemma image_set_double_free:
  assumes "sys_ok dev inv k" "part_wf sects (flash_variable (fInfo k))" "mem_available k" "heap_wf k"
    and "part_start_blk (flash_variable (fInfo k)) = int a" "a < length sects" "a \<noteq> 0"
    and "0 \<le> sz" "sz \<le> int (length string)" "sz \<le> int (sects ! a) - part_length (flash_variable (fInfo k))"
  shows "kerSysBcmImageSet hw (base + of_nat (sector_start sects a)) string sz k = Inl DoubleFree"
proof -
  let ?va = "flash_variable (fInfo k)" and ?s = "sects ! a" and ?st = "sector_start sects a"
  have iv: "inv (flash_dev k)" "g_flash_info k = Some dev" using assms(1) by (simp_all add: sys_ok_def)
  have wf: "0 < ?s" "even ?s" using sects_wf(2)[OF nth_mem[OF assms(6)]] by auto
  have le: "?st + ?s \<le> length (content (flash_dev k))" using sector_end_le[OF assms(6)] content_length[OF iv(1)] by simp
  have sz: "nat sz \<le> ?s" using assms(2,10) by (auto simp: part_wf_def)
  obtain p where p: "kmalloc_calls k \<le> p" "retriedKmalloc (int ?s) k = (Some (p, replicate ?s 0),
     k\<lparr>kmalloc_calls := Suc p, heap_live := insert p (heap_live k)\<rparr>)"
    using retriedKmalloc_ok[OF assms(3), of "int ?s"] by auto
  let ?k1 = "k\<lparr>kmalloc_calls := Suc p, heap_live := insert p (heap_live k)\<rparr>"
  obtain d where d: "fn_flash_read_buf dev (of_nat a) 0 (int ?s) (flash_dev k) = Inr (FLASH_API_OK, slice ?st ?s (content (flash_dev k)), d)"
      "inv d" using read_buf[OF iv(1) assms(6), of 0 ?s] le content_length[OF iv(1)] by auto
  define b where "b = overlay 0 (take (nat sz) string) (slice ?st ?s (content (flash_dev k)))"
  have lb: "length b = ?s" using le sz assms(9) by (simp add: b_def)
  have wr: "mem_wr (slice ?st ?s (content (flash_dev k))) 0 (take (nat sz) string) = Inr b"
    using mem_wr_ok[of 0 "take (nat sz) string" "slice ?st ?s (content (flash_dev k))"] le sz by (simp add: b_def)
  obtain d1 d2 where w: "fn_flash_sector_erase_int dev (of_nat a) d = Inr (FLASH_API_OK, d1)"
     "fn_flash_write_buf dev (of_nat a) 0 b (int ?s) d1 = Inr (int ?s, d2)"
    using blk_write_ok[OF d(2) assms(6) order_refl wf(2), of b] lb by auto
  have "\<not> (sz < 0 \<or> int (length string) < sz)" "\<not> sz > int ?s - part_length ?va" using assms(8-10) by auto
  moreover have "insert p (heap_live k) - {p} = heap_live k" "p \<notin> heap_live k" using p(1) assms(4) by (auto simp: heap_wf_def)
  ultimately have "image_loop (Suc (nat sz)) False (int a) string sz k
      = Inr (int a, 0, Some p, k\<lparr>kmalloc_calls := Suc p, flash_dev := d2\<rparr>)"
    using p(2) d(1) wr w iv(2) assms(5) sector_size_k_ok[OF assms(1,6)]
    by (simp add: image_loop.simps(2) flash_read_buf_def flash_sector_erase_int_def flash_write_buf_def retriedKfree_def)
  thus ?thesis
    using blk_of_start[OF assms(1,6)] start_not_base[OF iv(1) assms(6,7)] \<open>p \<notin> heap_live k\<close>
    by (simp add: kerSysBcmImageSet_def Let_def retriedKfree_def)
qed

end

end
