(* ===== verification/Vsprintf.thy ===== *)
theory Vsprintf
  imports Prelude
begin

text \<open>
  Numbers in text, from the kernel's \<^verbatim>\<open>lib/vsprintf.c\<close>: \<^verbatim>\<open>simple_strtoul\<close>, which reads the fields of an image
  tag, and \<^verbatim>\<open>number\<close>, \<^verbatim>\<open>vsnprintf\<close> and \<^verbatim>\<open>sprintf\<close>, which print the number of a new image. A pointer into a
  string is the memory from there on. A format is its characters before the terminator.
\<close>

section \<open>Reading numbers\<close>

definition isdigit :: "byte \<Rightarrow> bool" where
  "isdigit c \<longleftrightarrow> 48 \<le> c \<and> c \<le> 57"

definition isxdigit :: "byte \<Rightarrow> bool" where
  "isxdigit c \<longleftrightarrow> isdigit c \<or> 65 \<le> c \<and> c \<le> 70 \<or> 97 \<le> c \<and> c \<le> 102"

definition toupper :: "byte \<Rightarrow> byte" where
  "toupper c = (if 97 \<le> c \<and> c \<le> 122 \<or> 223 \<le> c \<and> c \<noteq> 247 then c - 32 else c)"

definition digit_value :: "byte \<Rightarrow> u32" where
  "digit_value c = (if isdigit c then ucast c - 48 else ucast (toupper c) - 65 + 10)"

fun strtoul_loop :: "byte list \<Rightarrow> u32 \<Rightarrow> u32 \<Rightarrow> u32 res" where
  "strtoul_loop [] base acc = Inl OutOfBounds"
| "strtoul_loop (c # cp) base acc =
     (if isxdigit c \<and> digit_value c < base then strtoul_loop cp base (acc * base + digit_value c)
      else Inr acc)"

definition simple_strtoul :: "byte list \<Rightarrow> u32 \<Rightarrow> u32 res" where
  "simple_strtoul cp base =
     (if base = 0
      then case cp of
             [] \<Rightarrow> Inl OutOfBounds
           | c # cp1 \<Rightarrow>
               if c = 48
               then case cp1 of
                      x # h # cp2 \<Rightarrow>
                        if toupper x = 88 \<and> isxdigit h then strtoul_loop (h # cp2) 16 0
                        else strtoul_loop cp1 8 0
                    | [x] \<Rightarrow> if toupper x = 88 then Inl OutOfBounds else strtoul_loop cp1 8 0
                    | [] \<Rightarrow> Inl OutOfBounds
               else strtoul_loop cp 10 0
      else if base = 16
      then case cp of
             c # x # cp1 \<Rightarrow> strtoul_loop (if c = 48 \<and> toupper x = 88 then cp1 else cp) 16 0
           | _ \<Rightarrow> strtoul_loop cp 16 0
      else strtoul_loop cp base 0)"

section \<open>Printing a number\<close>

abbreviation (input) ZEROPAD :: u32 where "ZEROPAD \<equiv> 1"
abbreviation (input) SIGN :: u32 where "SIGN \<equiv> 2"
abbreviation (input) PLUS :: u32 where "PLUS \<equiv> 4"
abbreviation (input) SPACE :: u32 where "SPACE \<equiv> 8"
abbreviation (input) LEFT :: u32 where "LEFT \<equiv> 16"
abbreviation (input) SPECIAL :: u32 where "SPECIAL \<equiv> 32"
abbreviation (input) LARGE :: u32 where "LARGE \<equiv> 64"

definition small_digits :: "byte list" where
  "small_digits = map of_char ''0123456789abcdefghijklmnopqrstuvwxyz''"

definition large_digits :: "byte list" where
  "large_digits = map of_char ''0123456789ABCDEFGHIJKLMNOPQRSTUVWXYZ''"

text \<open>The loop over \<^verbatim>\<open>do_div\<close>: the digits as they are stored in \<^verbatim>\<open>tmp\<close>, the last one first.\<close>

function div_digits :: "byte list \<Rightarrow> nat \<Rightarrow> nat \<Rightarrow> byte list" where
  "div_digits digits base num =
     (if num = 0 \<or> base < 2 then [] else digits ! (num mod base) # div_digits digits base (num div base))"
  by pat_completeness auto

termination div_digits
  by (relation "measure (\<lambda>(_, _, num). num)") auto

declare div_digits.simps [simp del]

text \<open>\<^verbatim>\<open>while (size-- > 0)\<close>: the characters it prints, and \<^verbatim>\<open>size\<close> after it.\<close>

definition pad_loop :: "byte \<Rightarrow> int \<Rightarrow> byte list \<times> int" where
  "pad_loop c sz = (replicate (nat sz) c, int32 ((if sz > 0 then 0 else sz) - 1))"

text \<open>\<^verbatim>\<open>number\<close> yields the characters it prints, \<open>None\<close> for a base it does not know. What of them is stored
  depends on the end of the buffer, see \<open>vsnprintf\<close>.\<close>

definition number :: "64 word \<Rightarrow> int \<Rightarrow> int \<Rightarrow> int \<Rightarrow> u32 \<Rightarrow> byte list option res" where
  "number num0 base size0 precision0 type0 =
     (let digits = (if type0 AND LARGE \<noteq> 0 then large_digits else small_digits);
          type = (if type0 AND LEFT \<noteq> 0 then type0 AND NOT ZEROPAD else type0)
      in if base < 2 \<or> base > 36 then Inr None
      else
      let c = (if type AND ZEROPAD \<noteq> 0 then 48 else 32);
          (sign, num, size1) =
            (if type AND SIGN = 0 then ([], num0, size0)
             else if sint num0 < 0 then ([45], - num0, int32 (size0 - 1))
             else if type AND PLUS \<noteq> 0 then ([43], num0, int32 (size0 - 1))
             else if type AND SPACE \<noteq> 0 then ([32], num0, int32 (size0 - 1))
             else ([], num0, size0));
          size2 = (if type AND SPECIAL = 0 then size1
                   else if base = 16 then int32 (size1 - 2) else if base = 8 then int32 (size1 - 1) else size1);
          tmp = (if num = 0 then [48] else div_digits digits (nat base) (unat num))
      in if 66 < length tmp then Inl OutOfBounds
      else
      let precision = (if int (length tmp) > precision0 then int (length tmp) else precision0);
          size3 = int32 (size2 - precision);
          (left, size4) = (if type AND (ZEROPAD + LEFT) = 0 then pad_loop 32 size3 else ([], size3));
          prefix = (if type AND SPECIAL = 0 then []
                    else if base = 8 then [48] else if base = 16 then [48, digits ! 33] else []);
          (fill, size5) = (if type AND LEFT = 0 then pad_loop c size4 else ([], size4));
          zeros = replicate (nat precision - length tmp) 48;
          (right, _) = pad_loop 32 size5
      in Inr (Some (left @ sign @ prefix @ fill @ zeros @ rev tmp @ right)))"

section \<open>Formats\<close>

text \<open>The arguments: a 32 bit value (\<^verbatim>\<open>int\<close>, \<^verbatim>\<open>long\<close>, \<^verbatim>\<open>size_t\<close>, \<^verbatim>\<open>void *\<close>), a \<^verbatim>\<open>long long\<close>, a string, which is
  \<open>None\<close> for a pointer into the first page, and the place for the count of \<^verbatim>\<open>%n\<close>. Reading an argument of another
  type, or one that is not there, is undefined.\<close>

datatype va = VInt u32 | VLong "64 word" | VStr "byte list option" | VCount

fun va_int :: "va list \<Rightarrow> (u32 \<times> va list) res" where
  "va_int (VInt w # args) = Inr (w, args)"
| "va_int _ = Inl OutOfBounds"

fun get_flags :: "u32 \<Rightarrow> byte list \<Rightarrow> u32 \<times> byte list" where
  "get_flags flags [] = (flags, [])"
| "get_flags flags (c # fmt) =
     (if c = 45 then get_flags (flags OR LEFT) fmt
      else if c = 43 then get_flags (flags OR PLUS) fmt
      else if c = 32 then get_flags (flags OR SPACE) fmt
      else if c = 35 then get_flags (flags OR SPECIAL) fmt
      else if c = 48 then get_flags (flags OR ZEROPAD) fmt
      else (flags, c # fmt))"

fun skip_atoi :: "int \<Rightarrow> byte list \<Rightarrow> int \<times> byte list" where
  "skip_atoi i [] = (i, [])"
| "skip_atoi i (c # fmt) = (if isdigit c then skip_atoi (int32 (i * 10 + uint c - 48)) fmt else (i, c # fmt))"

definition get_width :: "u32 \<Rightarrow> byte list \<Rightarrow> va list \<Rightarrow> (int \<times> u32 \<times> byte list \<times> va list) res" where
  "get_width flags fmt args =
     (case fmt of
        [] \<Rightarrow> Inr (-1, flags, fmt, args)
      | c # fmt1 \<Rightarrow>
          if isdigit c then case skip_atoi 0 fmt of (w, fmt2) \<Rightarrow> Inr (w, flags, fmt2, args)
          else if c = 42
          then bindR (va_int args) (\<lambda>(a, args1).
                 if sint a < 0 then Inr (int32 (- sint a), flags OR LEFT, fmt1, args1) else Inr (sint a, flags, fmt1, args1))
          else Inr (-1, flags, fmt, args))"

definition get_precision :: "byte list \<Rightarrow> va list \<Rightarrow> (int \<times> byte list \<times> va list) res" where
  "get_precision fmt args =
     (case fmt of
        [] \<Rightarrow> Inr (-1, fmt, args)
      | c # fmt1 \<Rightarrow>
          if c \<noteq> 46 then Inr (-1, fmt, args)
          else bindR (case fmt1 of
                        [] \<Rightarrow> Inr (-1, fmt1, args)
                      | d # fmt2 \<Rightarrow>
                          if isdigit d then case skip_atoi 0 fmt1 of (p, fmt3) \<Rightarrow> Inr (p, fmt3, args)
                          else if d = 42 then bindR (va_int args) (\<lambda>(a, args1). Inr (sint a, fmt2, args1))
                          else Inr (-1, fmt1, args)) (\<lambda>(p, fmt', args').
                 Inr (if p < 0 then 0 else p, fmt', args')))"

text \<open>The qualifier, 0 where the code has -1; \<^verbatim>\<open>ll\<close> is \<^verbatim>\<open>L\<close>.\<close>

fun get_qualifier :: "byte list \<Rightarrow> byte \<times> byte list" where
  "get_qualifier [] = (0, [])"
| "get_qualifier (c # fmt) =
     (if c \<in> {104, 108, 76, 90, 122}
      then case fmt of
             [] \<Rightarrow> (c, fmt)
           | d # fmt1 \<Rightarrow> if c = 108 \<and> d = 108 then (76, fmt1) else (c, fmt)
      else (0, c # fmt))"

definition get_number :: "byte \<Rightarrow> u32 \<Rightarrow> va list \<Rightarrow> (64 word \<times> va list) res" where
  "get_number qualifier flags args =
     (if qualifier = 76
      then case args of VLong n # args1 \<Rightarrow> Inr (n, args1) | _ \<Rightarrow> Inl OutOfBounds
      else
        bindR (va_int args) (\<lambda>(a, args1).
          Inr (if qualifier = 108 then (if flags AND SIGN \<noteq> 0 then scast a else ucast a)
               else if qualifier = 90 \<or> qualifier = 122 then ucast a
               else if qualifier = 104
               then (if flags AND SIGN \<noteq> 0 then scast (ucast a :: u16) else ucast (ucast a :: u16))
               else (if flags AND SIGN \<noteq> 0 then scast a else ucast a), args1)))"

fun strnlen :: "byte list \<Rightarrow> nat \<Rightarrow> nat res" where
  "strnlen s 0 = Inr 0"
| "strnlen [] (Suc count) = Inl OutOfBounds"
| "strnlen (c # s) (Suc count) = (if c = 0 then Inr 0 else bindR (strnlen s count) (\<lambda>n. Inr (Suc n)))"

text \<open>The field of \<^verbatim>\<open>c\<close> and of \<^verbatim>\<open>s\<close> is filled with spaces by \<^verbatim>\<open>while (--field_width > 0)\<close> and by
  \<^verbatim>\<open>while (len < field_width--)\<close>: the spaces, and \<^verbatim>\<open>field_width\<close> after the loop.\<close>

definition char_loop :: "int \<Rightarrow> byte list \<times> int" where
  "char_loop field_width =
     (let w = int32 (field_width - 1) in (replicate (nat w) 32, if w > 0 then 0 else w))"

definition string_loop :: "int \<Rightarrow> int \<Rightarrow> byte list \<times> int" where
  "string_loop len field_width =
     (replicate (nat (field_width - len)) 32, int32 ((if len < field_width then len else field_width) - 1))"

definition print_field :: "u32 \<Rightarrow> (int \<Rightarrow> byte list \<times> int) \<Rightarrow> int \<Rightarrow> byte list \<Rightarrow> byte list" where
  "print_field flags loop field_width xs =
     (let (left, w) = (if flags AND LEFT = 0 then loop field_width else ([], field_width))
      in left @ xs @ fst (loop w))"

definition print_string :: "u32 \<Rightarrow> int \<Rightarrow> int \<Rightarrow> va list \<Rightarrow> (byte list \<times> va list) res" where
  "print_string flags field_width precision args =
     (case args of
        VStr p # args1 \<Rightarrow>
          let s = (case p of None \<Rightarrow> map of_char ''<NULL>'' @ [0] | Some s \<Rightarrow> s)
          in bindR (strnlen s (unat (of_int precision :: u32))) (\<lambda>len. 
               Inr (print_field flags (string_loop (int len)) field_width (take len s), args1))
      | _ \<Rightarrow> Inl OutOfBounds)"

text \<open>What \<^verbatim>\<open>number\<close> prints; for a base it refuses, \<^verbatim>\<open>str\<close> would be \<^verbatim>\<open>NULL\<close> afterwards.\<close>

definition print_number :: "64 word \<Rightarrow> int \<Rightarrow> int \<Rightarrow> int \<Rightarrow> u32 \<Rightarrow> byte list res" where
  "print_number num base field_width precision flags =
     bindR (number num base field_width precision flags) (\<lambda>r. case r of Some cs \<Rightarrow> Inr cs | None \<Rightarrow> Inl NullPointer)"

definition print_integer ::
  "byte \<Rightarrow> byte \<Rightarrow> u32 \<Rightarrow> int \<Rightarrow> int \<Rightarrow> va list \<Rightarrow> (byte list \<times> va list) res" where
  "print_integer c qualifier flags0 field_width precision args =
     (let base = (if c = 111 then 8 else if c = 88 \<or> c = 120 then 16 else 10);
          flags = (if c = 88 then flags0 OR LARGE else if c = 100 \<or> c = 105 then flags0 OR SIGN else flags0)
      in bindR (get_number qualifier flags args) (\<lambda>(num, args1).
         bindR (print_number num base field_width precision flags) (\<lambda>cs. Inr (cs, args1))))"

text \<open>One conversion after its \<^verbatim>\<open>%\<close>: the characters it prints, the rest of the format and of the arguments,
  and the counts stored by \<^verbatim>\<open>%n\<close>. \<open>pos\<close> characters have been printed before.\<close>

definition conversion ::
  "byte list \<Rightarrow> va list \<Rightarrow> nat \<Rightarrow> (byte list \<times> byte list \<times> va list \<times> nat list) res" where
  "conversion fmt0 args0 pos =
     (case get_flags 0 fmt0 of (flags0, fmt1) \<Rightarrow>
      bindR (get_width flags0 fmt1 args0) (\<lambda>(field_width, flags, fmt2, args1).
      bindR (get_precision fmt2 args1) (\<lambda>(precision, fmt3, args2).
      case get_qualifier fmt3 of
        (_, []) \<Rightarrow> Inr ([37], [], args2, [])
      | (qualifier, c # fmt) \<Rightarrow>
          if c = 99
          then bindR (va_int args2) (\<lambda>(a, args3). Inr (print_field flags char_loop field_width [ucast a], fmt, args3, []))
          else if c = 115
          then bindR (print_string flags field_width precision args2) (\<lambda>(cs, args3). Inr (cs, fmt, args3, []))
          else if c = 112
          then bindR (va_int args2) (\<lambda>(a, args3).
               bindR (if field_width = -1 then print_number (ucast a) 16 8 precision (flags OR ZEROPAD)
                      else print_number (ucast a) 16 field_width precision flags) (\<lambda>cs. Inr (cs, fmt, args3, [])))
          else if c = 110
          then case args2 of VCount # args3 \<Rightarrow> Inr ([], fmt, args3, [pos]) | _ \<Rightarrow> Inl OutOfBounds
          else if c = 37 then Inr ([37], fmt, args2, [])
          else if c \<in> {111, 88, 120, 100, 105, 117}
          then bindR (print_integer c qualifier flags field_width precision args2) (\<lambda>(cs, args3). Inr (cs, fmt, args3, []))
          else Inr ([37, c], fmt, args2, []))))"

text \<open>Each step of a conversion leaves a rest of the format.\<close>

lemma get_flags_rest: "get_flags flags fmt = (flags', fmt') \<Longrightarrow> length fmt' \<le> length fmt"
  by (induction flags fmt rule: get_flags.induct) (auto split: if_splits)

lemma skip_atoi_rest: "skip_atoi i fmt = (i', fmt') \<Longrightarrow> length fmt' \<le> length fmt"
  by (induction i fmt rule: skip_atoi.induct) (auto split: if_splits)

lemma get_width_rest: "get_width flags fmt args = Inr (w, flags', fmt', args') \<Longrightarrow> length fmt' \<le> length fmt"
  by (auto simp: get_width_def split: list.splits if_splits prod.splits dest!: skip_atoi_rest)

lemma get_precision_rest: "get_precision fmt args = Inr (p, fmt', args') \<Longrightarrow> length fmt' \<le> length fmt"
  by (auto simp: get_precision_def split: list.splits if_splits prod.splits dest!: skip_atoi_rest)

lemma get_qualifier_rest: "get_qualifier fmt = (q, fmt') \<Longrightarrow> length fmt' \<le> length fmt"
  by (cases fmt) (auto split: list.splits if_splits)

lemma conversion_rest:
  assumes "conversion fmt args pos = Inr (cs, fmt', args', ns)"
  shows "length fmt' \<le> length fmt"
proof -
  obtain f0 fmt1 where f: "get_flags 0 fmt = (f0, fmt1)" by (cases "get_flags 0 fmt")
  obtain w f fmt2 args1 p fmt3 args2 where g: "get_width f0 fmt1 args = Inr (w, f, fmt2, args1)"
      "get_precision fmt2 args1 = Inr (p, fmt3, args2)"
    using assms f by (auto simp: conversion_def)
  obtain q fmt4 where q: "get_qualifier fmt3 = (q, fmt4)" by (cases "get_qualifier fmt3")
  have "length fmt' \<le> length fmt4"
  proof (cases fmt4)
    case Nil
    thus ?thesis using assms f g q by (simp add: conversion_def)
  next
    case (Cons c fmt5)
    hence "fmt' = fmt5"
      using assms f g q by (auto simp: conversion_def split: if_splits list.splits va.splits)
    thus ?thesis using Cons by simp
  qed
  thus ?thesis using get_flags_rest[OF f] get_width_rest[OF g(1)] get_precision_rest[OF g(2)] get_qualifier_rest[OF q]
    by linarith
qed

function vformat :: "byte list \<Rightarrow> va list \<Rightarrow> nat \<Rightarrow> (byte list \<times> nat list) res" where
  "vformat [] args pos = Inr ([], [])"
| "vformat (c # fmt) args pos =
     (if c \<noteq> 37
      then bindR (vformat fmt args (Suc pos)) (\<lambda>(cs, ns). Inr (c # cs, ns))
      else
        bindR (conversion fmt args pos) (\<lambda>(cs, fmt', args', ns).
        bindR (vformat fmt' args' (pos + length cs)) (\<lambda>(cs', ns'). Inr (cs @ cs', ns @ ns'))))"
  by pat_completeness auto

termination vformat
  by (relation "measure (\<lambda>(fmt, _, _). length fmt)") (auto dest: conversion_rest)

section \<open>Printing into a buffer\<close>

text \<open>\<^verbatim>\<open>vsnprintf\<close> for a buffer at the address \<open>buf\<close>: the value it returns, the bytes it stores from \<open>buf\<close> on, and the
  counts of \<^verbatim>\<open>%n\<close>. A character is stored if its place does not lie behind \<^verbatim>\<open>end\<close>.\<close>

definition vsnprintf :: "u32 \<Rightarrow> u32 \<Rightarrow> byte list \<Rightarrow> va list \<Rightarrow> (u32 \<times> byte list \<times> nat list) res" where
  "vsnprintf buf sz fmt args =
     (if sint sz < 0 then Inr (0, [], [])
      else
        let room = (if buf + sz - 1 < buf - 1 then 2 ^ 32 - unat buf else unat sz)
        in bindR (vformat fmt args 0) (\<lambda>(cs, ns).
             Inr (of_nat (length cs),
                  if length cs < room then cs @ [0] else if 0 < room then take (room - 1) cs @ [0] else [], ns)))"

text \<open>\<^verbatim>\<open>sprintf\<close> passes the largest \<^verbatim>\<open>int\<close> as the size: all characters are stored, followed by the
  terminator, unless the text reaches 2 GB or the end of the address space (\<open>vsnprintf_sprintf\<close>).\<close>

definition sprintf :: "byte list \<Rightarrow> va list \<Rightarrow> byte list res" where
  "sprintf fmt args = bindR (vformat fmt args 0) (\<lambda>(cs, _). Inr (cs @ [0]))"

lemma vsnprintf_sprintf:
  assumes "sprintf fmt args = Inr bs" "unat buf + length bs \<le> 2 ^ 32" "length bs \<le> 0x7FFFFFFF"
  shows "\<exists>ns. vsnprintf buf 0x7FFFFFFF fmt args = Inr (of_nat (length bs - 1), bs, ns)"
proof -
  obtain cs ns where c: "vformat fmt args 0 = Inr (cs, ns)" "bs = cs @ [0]" using assms(1) by (auto simp: sprintf_def)
  thus ?thesis using assms(2,3) by (auto simp: vsnprintf_def Let_def)
qed

end
