(* ===== verification/Image_Tag.thy ===== *)
theory Image_Tag
  imports Image_Set Vsprintf
begin

text \<open>
  Image tags and the firmware upgrade of \<^verbatim>\<open>board.c\<close>: a tag (\<^verbatim>\<open>FILE_TAG\<close>, 256 bytes of
  character fields with a CRC) precedes each image; its numbers are read with
  \<^verbatim>\<open>simple_strtoul\<close> and printed with \<^verbatim>\<open>sprintf\<close> of the kernel's \<^verbatim>\<open>lib/vsprintf.c\<close>. A pointer to a
  field is the memory from the field on, so that a number without terminator is read into the next field.
\<close>

section \<open>Numbers in text\<close>

text \<open>\<^verbatim>\<open>board_xtoi\<close> and \<^verbatim>\<open>board_atoi\<close> stop at the terminator or the first other character.\<close>

fun xtoi_loop :: "byte list \<Rightarrow> u32 \<Rightarrow> u32 res" where
  "xtoi_loop [] x = Inl OutOfBounds"
| "xtoi_loop (c # dest) x = (if isxdigit c then xtoi_loop dest (x * 16 + digit_value c) else Inr x)"

definition board_xtoi :: "byte list \<Rightarrow> u32 res" where
  "board_xtoi dest =
     (case dest of a # b # rest \<Rightarrow> xtoi_loop (if a = 48 \<and> b = 120 then rest else dest) 0 | _ \<Rightarrow> xtoi_loop dest 0)"

fun atoi_loop :: "byte list \<Rightarrow> u32 \<Rightarrow> u32 res" where
  "atoi_loop [] x = Inl OutOfBounds"
| "atoi_loop (c # dest) x = (if isdigit c then atoi_loop dest (x * 10 + (ucast c - 48)) else Inr x)"

definition board_atoi :: "byte list \<Rightarrow> u32 res" where
  "board_atoi dest =
     (case dest of
        a # b # rest \<Rightarrow> if a = 48 \<and> b = 120 then board_xtoi rest else atoi_loop dest 0
      | _ \<Rightarrow> atoi_loop dest 0)"

section \<open>The tag\<close>

type_synonym FILE_TAG = "byte list"

abbreviation (input) TAG_LEN :: nat where "TAG_LEN \<equiv> 256"
abbreviation (input) TOKEN_LEN :: nat where "TOKEN_LEN \<equiv> 20"
abbreviation (input) BOOT_LATEST_IMAGE :: byte where "BOOT_LATEST_IMAGE \<equiv> 48"

definition tag_rootfsAddress :: "FILE_TAG \<Rightarrow> byte list" where "tag_rootfsAddress t = drop 94 t"
definition tag_rootfsLen :: "FILE_TAG \<Rightarrow> byte list" where "tag_rootfsLen t = drop 106 t"
definition tag_kernelAddress :: "FILE_TAG \<Rightarrow> byte list" where "tag_kernelAddress t = drop 116 t"
definition tag_kernelLen :: "FILE_TAG \<Rightarrow> byte list" where "tag_kernelLen t = drop 128 t"
definition tag_imageSequence :: "FILE_TAG \<Rightarrow> byte list" where "tag_imageSequence t = drop 138 t"

definition getTagFromPartition :: "int \<Rightarrow> 's kersys \<Rightarrow> (FILE_TAG option \<times> 's kersys) res" where
  "getTagFromPartition imageNumber k =
     bindR (flash_get_memptr (g_flash_info k) 0 (flash_dev k)) (\<lambda>pBase.
     bindR (if imageNumber = 1 then flash_get_blk (g_flash_info k) (pBase + 131072) (flash_dev k)
            else if imageNumber = 2
            then flash_get_blk (g_flash_info k)
                   (pBase + of_int (flash_get_total_size (g_flash_info k) (flash_dev k) div 2)) (flash_dev k)
            else Inr 0) (\<lambda>blk.
     if blk = 0 then Inr (None, k)
     else
       bindR (flash_read_buf (g_flash_info k) (of_int blk) 0 (int TAG_LEN) (flash_dev k)) (\<lambda>(_, tag, d).
       bindR (getCrc32 tag (TAG_LEN - TOKEN_LEN) CRC32_INIT_VALUE) (\<lambda>crc.
         Inr (if crc \<noteq> be32 (slice 236 4 tag) then None else Some tag, k\<lparr>flash_dev := d\<rparr>)))))"

definition image_sequence :: "FILE_TAG option \<Rightarrow> int res" where
  "image_sequence t =
     (case t of None \<Rightarrow> Inr (-1) | Some t' \<Rightarrow> bindR (simple_strtoul (tag_imageSequence t') 10) (\<lambda>w. Inr (sint w)))"

definition getPartitionFromTag :: "FILE_TAG option \<Rightarrow> 's kersys \<Rightarrow> (int \<times> 's kersys) res" where
  "getPartitionFromTag pTag k =
     (case pTag of
        None \<Rightarrow> Inr (0, k)
      | Some _ \<Rightarrow>
          bindR (getTagFromPartition 1 k) (\<lambda>(pTag1, k1).
          bindR (getTagFromPartition 2 k1) (\<lambda>(pTag2, k2).
          bindR (image_sequence pTag) (\<lambda>sequence.
          bindR (image_sequence pTag1) (\<lambda>sequence1.
          bindR (image_sequence pTag2) (\<lambda>sequence2.
            Inr (if pTag1 \<noteq> None \<and> sequence = sequence1 then 1
                 else if pTag2 \<noteq> None \<and> sequence = sequence2 then 2 else 0, k2)))))))"

text \<open>The scan of the boot line for \<^verbatim>\<open>p=\<close>: the index of the \<^verbatim>\<open>p\<close>, if there is one.\<close>

fun bootline_scan :: "byte list \<Rightarrow> nat \<Rightarrow> nat option res" where
  "bootline_scan (a # b # c # r) i =
     (if c = 0 then Inr None else if a = 112 \<and> b = 61 then Inr (Some i) else bootline_scan (b # c # r) (Suc i))"
| "bootline_scan _ i = Inl OutOfBounds"

definition boot_choice ::
  "'s flash_hw \<Rightarrow> FILE_TAG option \<Rightarrow> FILE_TAG option \<Rightarrow> 's kersys \<Rightarrow> (FILE_TAG option \<times> int \<times> 's kersys) res" where
  "boot_choice hw pTag1 pTag2 k =
     (if pTag1 \<noteq> None \<and> pTag2 \<noteq> None
      then
        bindR (image_sequence pTag1) (\<lambda>sequence1.
        bindR (image_sequence pTag2) (\<lambda>sequence2.
        bindR (get_nvram_start_addr k) (\<lambda>addr.
        case hw_peek hw addr sizeof_NVRAM_DATA (flash_dev k) of (nvram, d) \<Rightarrow>
        bindR (bootline_scan (drop 4 nvram) 0) (\<lambda>r.
          let bootPartition = (case r of None \<Rightarrow> BOOT_LATEST_IMAGE | Some i \<Rightarrow> nvram ! (4 + i + 2));
              second = (if bootPartition = BOOT_LATEST_IMAGE then sequence2 > sequence1 else sequence2 < sequence1)
          in Inr (if second then pTag2 else pTag1, if second then 2 else 1, k\<lparr>flash_dev := d\<rparr>)))))
      else Inr (if pTag2 \<noteq> None then pTag2 else pTag1, if pTag2 \<noteq> None then 2 else 1, k))"

definition getBootImageTagAndSeq :: "'s flash_hw \<Rightarrow> 's kersys \<Rightarrow> (FILE_TAG option \<times> int \<times> 's kersys) res" where
  "getBootImageTagAndSeq hw k =
     bindR (getTagFromPartition 1 k) (\<lambda>(pTag1, k1).
     bindR (getTagFromPartition 2 k1) (\<lambda>(pTag2, k2). boot_choice hw pTag1 pTag2 k2))"

definition getBootImageTag :: "'s flash_hw \<Rightarrow> 's kersys \<Rightarrow> (FILE_TAG option \<times> 's kersys) res" where
  "getBootImageTag hw k =
     bindR (getTagFromPartition 1 k) (\<lambda>(pTag1, k1).
     bindR (getTagFromPartition 2 k1) (\<lambda>(pTag2, k2).
     bindR (boot_choice hw pTag1 pTag2 k2) (\<lambda>(t, _, k3). Inr (t, k3))))"

definition kerSysImageTagGet :: "'s flash_hw \<Rightarrow> 's kersys \<Rightarrow> (FILE_TAG option \<times> 's kersys) res" where
  "kerSysImageTagGet hw k = getBootImageTag hw k"


section \<open>The upgrade\<close>

text \<open>The new number is one more than the larger of the numbers in flash.\<close>

definition next_sequence :: "'s kersys \<Rightarrow> (int \<times> 's kersys) res" where
  "next_sequence k =
     bindR (getTagFromPartition 1 k) (\<lambda>(t1, k1).
     bindR (case t1 of None \<Rightarrow> Inr 0 | Some t \<Rightarrow> simple_strtoul (tag_imageSequence t) 10) (\<lambda>new.
     bindR (getTagFromPartition 2 k1) (\<lambda>(t2, k2).
     bindR (case t2 of
              None \<Rightarrow> Inr new
            | Some t \<Rightarrow> bindR (simple_strtoul (tag_imageSequence t) 10) (\<lambda>w. Inr (if w > new then w else new)))
       (\<lambda>new'. Inr (sint (new' + 1), k2)))))"

definition UpdateImageSequenceNumber :: "byte list \<Rightarrow> 's kersys \<Rightarrow> (byte list \<times> 's kersys) res" where
  "UpdateImageSequenceNumber imagePtr k =
     bindR (next_sequence k) (\<lambda>(n, k').
     bindR (sprintf (map of_char ''%d'') [VInt (of_int n)]) (\<lambda>text.
     bindR (mem_wr imagePtr 138 text) (\<lambda>imagePtr'. Inr (imagePtr', k'))))"

definition BOOT_OFFSET :: "'s flash_hw \<Rightarrow> 's \<Rightarrow> u32" where
  "BOOT_OFFSET hw d = hw_base hw d - 0xBFC00000"

text \<open>Number and CRC are put into the tag in front of the image.\<close>

definition stamp_tag :: "byte list \<Rightarrow> 's kersys \<Rightarrow> (byte list \<times> 's kersys) res" where
  "stamp_tag imagePtr k =
     bindR (UpdateImageSequenceNumber imagePtr k) (\<lambda>(imagePtr1, k1).
     bindR (getCrc32 imagePtr1 (TAG_LEN - TOKEN_LEN) CRC32_INIT_VALUE) (\<lambda>crc.
     bindR (mem_wr imagePtr1 236 (be32_bytes crc)) (\<lambda>imagePtr2. Inr (imagePtr2, k1))))"

text \<open>The block with the tag is written last.\<close>

definition write_image ::
  "'s flash_hw \<Rightarrow> u32 \<Rightarrow> byte list \<Rightarrow> u32 \<Rightarrow> 's kersys \<Rightarrow> (int \<times> 's kersys) res" where
  "write_image hw rootfsAddr imagePtr newImgSize k =
     bindR (flash_get_blk (g_flash_info k) (rootfsAddr - 256) (flash_dev k)) (\<lambda>fsBlk.
     bindR (sector_size_k fsBlk k) (\<lambda>ulSectorSize.
     bindR (kerSysBcmImageSet hw (rootfsAddr - 256 + of_int ulSectorSize) (drop (nat ulSectorSize) imagePtr)
              (sint (256 + newImgSize - of_int ulSectorSize)) k) (\<lambda>(status, k1).
     if status \<noteq> 0 then Inr (status, k1)
     else kerSysBcmImageSet hw (rootfsAddr - 256) imagePtr ulSectorSize k1)))"

text \<open>The loop over the boot line that looks for a boot partition other than the latest image.\<close>

fun bootline_old :: "byte list \<Rightarrow> nat \<Rightarrow> nat option res" where
  "bootline_old (a # b # c # r) i =
     (if c = 0 then Inr None else if a = 112 \<and> b = 61 \<and> c \<noteq> BOOT_LATEST_IMAGE then Inr (Some i)
      else bootline_old (b # c # r) (Suc i))"
| "bootline_old _ i = Inl OutOfBounds"

definition boot_latest :: "byte list \<Rightarrow> 's kersys \<Rightarrow> 's kersys res" where
  "boot_latest nvramData k =
     bindR (bootline_old (drop 4 nvramData) 0) (\<lambda>r.
     case r of
       None \<Rightarrow> Inr k
     | Some i \<Rightarrow>
         bindR (nvram_seal (nvram_of (nvramData[4 + i + 2 := BOOT_LATEST_IMAGE]))) (\<lambda>sealed.
         bindR (kerSysNvRamSet (nvram_bytes sealed) (int sizeof_NVRAM_DATA) 0 k) (\<lambda>(_, k'). Inr k')))"

definition upgrade_flag :: "byte \<Rightarrow> byte list" where
  "upgrade_flag c = c # replicate 7 0"

text \<open>The result is the status, the image buffer and the state. The LEDs switched on at the end are
  not part of this state; \<^verbatim>\<open>destAddr\<close> and \<^verbatim>\<open>imageLen\<close> are not used by the code.\<close>

definition flashFsKernelImage ::
  "'s flash_hw \<Rightarrow> byte list \<Rightarrow> 's kersys \<Rightarrow> (int \<times> byte list \<times> 's kersys) res" where
  "flashFsKernelImage hw imagePtr k =
     bindR (simple_strtoul (tag_rootfsAddress imagePtr) 10) (\<lambda>ra.
     bindR (simple_strtoul (tag_kernelAddress imagePtr) 10) (\<lambda>ka.
     bindR (flash_get_memptr (g_flash_info k) 0 (flash_dev k)) (\<lambda>baseAddr.
     bindR (simple_strtoul (tag_rootfsLen imagePtr) 10) (\<lambda>rl.
     bindR (simple_strtoul (tag_kernelLen imagePtr) 10) (\<lambda>kl.
     bindR (getBootImageTag hw k) (\<lambda>(pCurTag, k1).
     bindR (get_nvram_start_addr k1) (\<lambda>addr.
     case hw_peek hw addr sizeof_NVRAM_DATA (flash_dev k1) of (nvramData, d) \<Rightarrow>
     bindR (case pCurTag of
              None \<Rightarrow> Inr 0
            | Some t \<Rightarrow>
                bindR (simple_strtoul (tag_rootfsLen t) 10) (\<lambda>a.
                bindR (simple_strtoul (tag_kernelLen t) 10) (\<lambda>b. Inr (a + b)))) (\<lambda>curImgSize.
     let k2 = k1\<lparr>flash_dev := d\<rparr>;
         rootfsAddr = ra + BOOT_OFFSET hw (flash_dev k);
         availableSizeOneImg =
           of_int (flash_get_total_size (g_flash_info k) (flash_dev k)) - (rootfsAddr - baseAddr) - 65536;
         newImgSize = rl + kl
     in
     if newImgSize > availableSizeOneImg then Inr (-1, imagePtr, k2)
     else
       bindR (kerSysVariableSet (upgrade_flag 51) 8 256 k2) (\<lambda>(_, k3).
       bindR (stamp_tag imagePtr k3) (\<lambda>(imagePtr', k4).
       bindR (write_image hw rootfsAddr imagePtr' newImgSize k4) (\<lambda>(status, k5).
       if status \<noteq> 0 then Inr (status, imagePtr', k5)
       else
         bindR (boot_latest nvramData k5) (\<lambda>k6.
         bindR (kerSysVariableSet (upgrade_flag 49) 8 256 k6) (\<lambda>(_, k7).
           Inr (status, imagePtr', k7))))))))))))))"

text \<open>Reading parts of the image back; a \<open>NULL\<close> buffer is \<open>None\<close>.\<close>

definition image_read ::
  "(FILE_TAG \<Rightarrow> byte list) \<Rightarrow> 's flash_hw \<Rightarrow> byte list option \<Rightarrow> int \<Rightarrow> int \<Rightarrow> 's kersys
     \<Rightarrow> (int \<times> byte list option \<times> 's kersys) res" where
  "image_read field hw string strLen offSet k =
     bindR (getTagFromPartition 1 k) (\<lambda>(t, k1).
     case (string, t) of
       (Some s, Some tag) \<Rightarrow>
         bindR (board_atoi (field tag)) (\<lambda>a.
         bindR (kerSysReadFromFlash s (a + BOOT_OFFSET hw (flash_dev k1) + of_int offSet) (of_int strLen) k1)
           (\<lambda>(_, s', k2). Inr (0, Some s', k2)))
     | _ \<Rightarrow> Inr (-1, string, k1))"

definition kerSysGetFsImageFromFlash ::
  "'s flash_hw \<Rightarrow> byte list option \<Rightarrow> int \<Rightarrow> int \<Rightarrow> 's kersys \<Rightarrow> (int \<times> byte list option \<times> 's kersys) res" where
  "kerSysGetFsImageFromFlash = image_read tag_rootfsAddress"

definition kerSysGetKernelImageFromFlash ::
  "'s flash_hw \<Rightarrow> byte list option \<Rightarrow> int \<Rightarrow> int \<Rightarrow> 's kersys \<Rightarrow> (int \<times> byte list option \<times> 's kersys) res" where
  "kerSysGetKernelImageFromFlash = image_read tag_kernelAddress"

end
