(* ===== verification/Flash_Ioctl.thy ===== *)
theory Flash_Ioctl
  imports Scratch_Pad Image_Tag
begin

text \<open>
  The flash and equipment test commands of \<^verbatim>\<open>board_ioctl\<close> (\<^verbatim>\<open>board.c\<close>). The parameter block is
  \<open>None\<close> when \<^verbatim>\<open>copy_from_user\<close> fails. \<open>parm_string\<close> and \<open>parm_buf\<close> are the memory of the caller from
  the pointers on; a copy past its end is a fault.
\<close>

section \<open>Parameters and state\<close>

datatype BOARD_IOCTL_ACTION =
    PERSISTENT | NVRAM | BCM_IMAGE_CFE | BCM_IMAGE_FS | BCM_IMAGE_KERNEL | BCM_IMAGE_WHOLE | SCRATCH_PAD
  | FLASH_SIZE | SET_CS_PARAM | GET_FILE_TAG_FROM_FLASH | VARIABLE | PSI_BACKUP | FIX | AVAIL
  | FIREWALL_LOG | SYSTEM_LOG | WLAN_PARAM

datatype BOARD_EQUIPMENT_TEST_ACTION =
    SET_BASE_MAC_ADDRESS | GET_BASE_MAC_ADDRESS | SET_MAC_AMOUNT | GET_MAC_AMOUNT | GET_ALL_BOARD_ID_NAME
  | GET_PCB_VERSION | GET_BOARD_VERSION | SET_BOARD_ID | GET_BOARD_ID | SET_SERIAL_NUMBER | GET_SERIAL_NUMBER
  | GET_CPU_REVISION_ID | GET_BOARD_MANUFACTURER_NAME | BUTT

record 'a BOARD_IOCTL_PARMS =
  parm_string :: "byte list"
  parm_buf :: "byte list option"
  parm_strLen :: int
  parm_offset :: int
  parm_action :: 'a
  parm_result :: int

text \<open>The state of the driver beyond the flash. \<open>flash_sem\<close> is \<^verbatim>\<open>flash_sem_lock\<close>; \<open>dg_ulState\<close> and
  \<open>dg_ulCount\<close> are the monitor state of \<^verbatim>\<open>dyinggasp.c\<close>.\<close>

record 's board_drv =
  ker :: "'s kersys"
  flash_sem :: nat
  s_iFlashWriteFlg :: bool
  dg_ulState :: u32
  dg_ulCount :: u32
  perf_RevID :: u32

abbreviation (input) EFAULT :: int where "EFAULT \<equiv> 14"
abbreviation (input) EINVAL :: int where "EINVAL \<equiv> 22"
abbreviation (input) NVRAM_DATA_ID :: u32 where "NVRAM_DATA_ID \<equiv> 0x0f1e2d3c"
abbreviation (input) DG_DISABLE_SCHED_MON :: int where "DG_DISABLE_SCHED_MON \<equiv> 0"
abbreviation (input) DG_ENABLE_SCHED_MON :: int where "DG_ENABLE_SCHED_MON \<equiv> 1"

text \<open>\<^verbatim>\<open>down_interruptible\<close>: a signal ends the wait without the semaphore, and the callers ignore it.\<close>

definition down_flash :: "bool \<Rightarrow> 's board_drv \<Rightarrow> 's board_drv res" where
  "down_flash sig b =
     (if 0 < flash_sem b then Inr (b\<lparr>flash_sem := flash_sem b - 1\<rparr>)
      else if sig then Inr b else Inl Deadlock)"

definition up_flash :: "'s board_drv \<Rightarrow> 's board_drv" where
  "up_flash b = b\<lparr>flash_sem := Suc (flash_sem b)\<rparr>"

definition dg_setScheduleState :: "int \<Rightarrow> 's board_drv \<Rightarrow> 's board_drv" where
  "dg_setScheduleState iState b =
     (if iState = 0
      then (if dg_ulState b = 1 then b\<lparr>dg_ulState := 0\<rparr> else b)\<lparr>dg_ulCount := dg_ulCount b + 1\<rparr>
      else if iState = 1
      then if dg_ulState b = 0
           then let b' = b\<lparr>dg_ulCount := dg_ulCount b - 1\<rparr>
                in if dg_ulCount b' = 0 then b'\<lparr>dg_ulState := 1\<rparr> else b'
           else b
      else b)"

text \<open>The wait for another writer: \<open>busy i\<close> is the flag that test \<open>i\<close> sees. The result is the number of
  seconds slept, or \<open>None\<close> when the caller gives up.\<close>

function wait_idle :: "(nat \<Rightarrow> bool) \<Rightarrow> nat \<Rightarrow> nat option" where
  "wait_idle busy iWriteRetryTimes =
     (if \<not> busy iWriteRetryTimes then Some iWriteRetryTimes
      else if 10 \<le> Suc iWriteRetryTimes then None
      else wait_idle busy (Suc iWriteRetryTimes))"
  by pat_completeness auto

termination wait_idle
  by (relation "measure (\<lambda>(_, i). 10 - i)") auto

declare wait_idle.simps [simp del]

section \<open>Writing\<close>

definition set_g_iReset :: "'s flash_hw \<Rightarrow> int \<Rightarrow> 's kersys \<Rightarrow> 's kersys" where
  "set_g_iReset hw r k = k\<lparr>flash_dev := hw_set_reset hw r (flash_dev k)\<rparr>"

text \<open>The NVRAM saved before a boot loader image is put back when the image has brought none of its own.
  \<open>pNvramData\<close> is an address in the flash window.\<close>

definition restore_nvram :: "'s flash_hw \<Rightarrow> u32 \<Rightarrow> byte list \<Rightarrow> 's kersys \<Rightarrow> 's kersys res" where
  "restore_nvram hw pNvramData saved k =
     (case hw_peek hw (pNvramData + 260) (sizeof_NVRAM_DATA - 260) (flash_dev k) of (boardId, d) \<Rightarrow>
      bindR (BpSetBoardId boardId (cur_bp k)) (\<lambda>(r, bp).
        let k1 = k\<lparr>flash_dev := d, cur_bp := bp\<rparr> in
        if r = BP_SUCCESS then Inr k1
        else
          case hw_peek hw pNvramData 4 (flash_dev k1) of (v, d1) \<Rightarrow>
          let k2 = k1\<lparr>flash_dev := d1\<rparr> in
          if be32 v = NVRAM_DATA_ID
          then bindR (kerSysNvRamSet saved (int sizeof_NVRAM_DATA) 0 k2) (\<lambda>(_, k3). Inr k3)
          else Inr k2))"

definition write_cfe ::
  "'s flash_hw \<Rightarrow> u32 \<Rightarrow> byte list \<Rightarrow> int \<Rightarrow> int \<Rightarrow> 's kersys \<Rightarrow> (int \<times> byte list \<times> 's kersys) res" where
  "write_cfe hw pNvramData string strLen offset k =
     (let k0 = set_g_iReset hw 0 k in
      if strLen \<le> 0 \<or> strLen > FLASH_LENGTH_BOOT_ROM then Inr (-1, string, set_g_iReset hw 1 k0)
      else
        case hw_peek hw pNvramData sizeof_NVRAM_DATA (flash_dev k0) of (saved, d) \<Rightarrow>
        bindR (mem_wr string 16 (be32_bytes (snd (BpGetSdramSize (cur_bp k0))))) (\<lambda>string1.
        bindR (mem_wr string1 20 (be32_bytes (snd (BpGetCMTThread (cur_bp k0))))) (\<lambda>string2.
        bindR (kerSysBcmImageSet hw (of_int offset + BOOT_OFFSET hw d) string2 strLen (k0\<lparr>flash_dev := d\<rparr>)) (\<lambda>(ret, k1).
        bindR (restore_nvram hw pNvramData saved k1) (\<lambda>k2.
          Inr (ret, string2, set_g_iReset hw 1 k2))))))"

text \<open>After a whole image the board is reset, so that this command only returns when it is refused; the
  flag \<^verbatim>\<open>g_iReset\<close> then stays 0.\<close>

definition write_whole ::
  "'s flash_hw \<Rightarrow> u32 \<Rightarrow> byte list \<Rightarrow> int \<Rightarrow> int \<Rightarrow> 's kersys \<Rightarrow> (int \<times> byte list \<times> 's kersys) res" where
  "write_whole hw pNvramData string strLen offset k =
     (let k0 = set_g_iReset hw 0 k in
      if strLen \<le> 0 then Inr (-1, string, k0)
      else
        case hw_peek hw pNvramData sizeof_NVRAM_DATA (flash_dev k0) of (saved, d) \<Rightarrow>
        let addr = (if offset = 0 then hw_base hw d else of_int offset) in
        bindR (kerSysBcmImageSet hw addr string strLen (k0\<lparr>flash_dev := d\<rparr>)) (\<lambda>(ret, k1).
        bindR (restore_nvram hw pNvramData saved k1) (\<lambda>k2. Inl Reset)))"

definition write_fs :: "'s flash_hw \<Rightarrow> byte list \<Rightarrow> 's kersys \<Rightarrow> (int \<times> byte list \<times> 's kersys) res" where
  "write_fs hw string k =
     bindR (flashFsKernelImage hw string (set_g_iReset hw 0 k)) (\<lambda>(ret, string', k1).
       if ret = 0 then Inl Reset else Inr (ret, string', set_g_iReset hw 1 k1))"

text \<open>The inner switch. The memory of the caller is returned with the status, because the boot loader image
  and the tag are changed in place.\<close>

definition flash_set ::
  "'s flash_hw \<Rightarrow> u32 \<Rightarrow> BOARD_IOCTL_ACTION BOARD_IOCTL_PARMS \<Rightarrow> 's kersys \<Rightarrow> (int \<times> byte list \<times> 's kersys) res" where
  "flash_set hw pNvramData p k =
     (let s = parm_string p; n = parm_strLen p; off = parm_offset p;
          plain = (\<lambda>r. bindR r (\<lambda>(ret, k'). Inr (ret, s, k')))
      in case parm_action p of
           SCRATCH_PAD \<Rightarrow>
             plain (if off = -1 then kerSysScratchPadClearAll k else kerSysScratchPadSet s (parm_buf p) off k)
         | PERSISTENT \<Rightarrow> plain (kerSysPersistentSet s n off k)
         | PSI_BACKUP \<Rightarrow> plain (kerSysPsiBackupSet s n off k)
         | VARIABLE \<Rightarrow> plain (kerSysVariableSet s n off k)
         | NVRAM \<Rightarrow> plain (kerSysNvRamSet s n off k)
         | BCM_IMAGE_CFE \<Rightarrow> write_cfe hw pNvramData s n off k
         | BCM_IMAGE_FS \<Rightarrow> write_fs hw s k
         | BCM_IMAGE_KERNEL \<Rightarrow> Inr (0, s, k)
         | BCM_IMAGE_WHOLE \<Rightarrow> write_whole hw pNvramData s n off k
         | FIX \<Rightarrow> plain (kerSysFixSet s n off k)
         | AVAIL \<Rightarrow> plain (kerSysAvailSet s n off k)
         | FIREWALL_LOG \<Rightarrow> plain (kerSysFirewalllogSet s n off k)
         | SYSTEM_LOG \<Rightarrow> plain (kerSysSystemLogSet s n off k)
         | WLAN_PARAM \<Rightarrow> plain (kerSysWlanParamSet s n off k)
         | _ \<Rightarrow> Inr (- EINVAL, s, k))"

definition ioctl_flash_write ::
  "'s flash_hw \<Rightarrow> bool \<Rightarrow> (nat \<Rightarrow> bool) \<Rightarrow> BOARD_IOCTL_ACTION BOARD_IOCTL_PARMS option \<Rightarrow> 's board_drv
     \<Rightarrow> (int \<times> BOARD_IOCTL_ACTION BOARD_IOCTL_PARMS option \<times> 's board_drv) res" where
  "ioctl_flash_write hw sig later arg b =
     (case arg of
        None \<Rightarrow> Inr (- EFAULT, None, b)
      | Some p \<Rightarrow>
          bindR (down_flash sig b) (\<lambda>b1.
          case wait_idle (\<lambda>i. if i = 0 then s_iFlashWriteFlg b1 else later i) 0 of
            None \<Rightarrow> Inr (-1, Some (p\<lparr>parm_result := -1\<rparr>), up_flash b1)
          | Some _ \<Rightarrow>
              bindR (get_nvram_start_addr (ker b1)) (\<lambda>pNvramData.
              let b2 = dg_setScheduleState DG_DISABLE_SCHED_MON (b1\<lparr>s_iFlashWriteFlg := True\<rparr>) in
              bindR (flash_set hw pNvramData p (ker b2)) (\<lambda>(ret, s', k').
                Inr (ret, Some (p\<lparr>parm_string := s', parm_result := ret\<rparr>),
                     up_flash ((dg_setScheduleState DG_ENABLE_SCHED_MON (b2\<lparr>ker := k'\<rparr>))\<lparr>s_iFlashWriteFlg := False\<rparr>))))))"

section \<open>Reading\<close>

text \<open>The results of the image reads are replaced by the status 0.\<close>

definition flash_get ::
  "'s flash_hw \<Rightarrow> BOARD_IOCTL_ACTION BOARD_IOCTL_PARMS \<Rightarrow> 's kersys
     \<Rightarrow> (int \<times> BOARD_IOCTL_ACTION BOARD_IOCTL_PARMS \<times> 's kersys) res" where
  "flash_get hw p k =
     (let s = parm_string p; n = parm_strLen p; off = parm_offset p;
          plain = (\<lambda>r. bindR r (\<lambda>(ret, s', k'). Inr (ret, p\<lparr>parm_string := s'\<rparr>, k')));
          img = (\<lambda>r. bindR r (\<lambda>(_, s', k').
                   Inr (0, p\<lparr>parm_string := (case s' of Some x \<Rightarrow> x | None \<Rightarrow> s)\<rparr>, k')))
      in case parm_action p of
           SCRATCH_PAD \<Rightarrow>
             bindR (case parm_buf p of None \<Rightarrow> Inl NullPointer | Some tb \<Rightarrow> kerSysScratchPadGet s tb off k)
               (\<lambda>(ret, tb', k'). Inr (ret, p\<lparr>parm_buf := Some tb'\<rparr>, k'))
         | PERSISTENT \<Rightarrow> plain (kerSysPersistentGet s n off k)
         | PSI_BACKUP \<Rightarrow> plain (kerSysPsiBackupGet s n off k)
         | VARIABLE \<Rightarrow> plain (kerSysVariableGet s n off k)
         | NVRAM \<Rightarrow> plain (kerSysNvRamGet hw s n off k)
         | FLASH_SIZE \<Rightarrow> Inr (kerSysFlashSizeGet k, p, k)
         | GET_FILE_TAG_FROM_FLASH \<Rightarrow>
             bindR (getTagFromPartition 1 k) (\<lambda>(t, k').
             case t of
               None \<Rightarrow> Inr (- EFAULT, p, k')
             | Some tag \<Rightarrow> bindR (mem_wr s 0 tag) (\<lambda>s'. Inr (0, p\<lparr>parm_string := s'\<rparr>, k')))
         | BCM_IMAGE_FS \<Rightarrow> img (kerSysGetFsImageFromFlash hw (Some s) n off k)
         | BCM_IMAGE_KERNEL \<Rightarrow> img (kerSysGetKernelImageFromFlash hw (Some s) n off k)
         | FIX \<Rightarrow> plain (kerSysFixGet s n off k)
         | AVAIL \<Rightarrow> plain (kerSysAvailGet s n off k)
         | FIREWALL_LOG \<Rightarrow> plain (kerSysFirewalllogGet s n off k)
         | SYSTEM_LOG \<Rightarrow> plain (kerSysSystemLogGet s n off k)
         | WLAN_PARAM \<Rightarrow> plain (kerSysWlanParamGet s n off k)
         | _ \<Rightarrow> Inr (- EINVAL, p, k))"

definition ioctl_flash_read ::
  "'s flash_hw \<Rightarrow> bool \<Rightarrow> BOARD_IOCTL_ACTION BOARD_IOCTL_PARMS option \<Rightarrow> 's board_drv
     \<Rightarrow> (int \<times> BOARD_IOCTL_ACTION BOARD_IOCTL_PARMS option \<times> 's board_drv) res" where
  "ioctl_flash_read hw sig arg b =
     (case arg of
        None \<Rightarrow> Inr (- EFAULT, None, b)
      | Some p \<Rightarrow>
          bindR (down_flash sig b) (\<lambda>b1.
          bindR (flash_get hw p (ker b1)) (\<lambda>(ret, p', k').
            Inr (ret, Some (p'\<lparr>parm_result := ret\<rparr>), up_flash (b1\<lparr>ker := k'\<rparr>)))))"

section \<open>Equipment test\<close>

text \<open>The four setters change one field of a copy of the NVRAM and store the copy with a new checksum.\<close>

definition equip_store :: "'s flash_hw \<Rightarrow> u32 \<Rightarrow> (NVRAM_DATA \<Rightarrow> NVRAM_DATA) \<Rightarrow> 's kersys \<Rightarrow> 's kersys res" where
  "equip_store hw pNvramData f k =
     (case hw_peek hw pNvramData sizeof_NVRAM_DATA (flash_dev k) of (bs, d) \<Rightarrow>
      bindR (nvram_seal (f (nvram_of bs))) (\<lambda>saved.
      bindR (kerSysNvRamSet (nvram_bytes saved) (int sizeof_NVRAM_DATA) 0 (k\<lparr>flash_dev := d\<rparr>)) (\<lambda>(_, k'). Inr k')))"

definition equip_fetch :: "'s flash_hw \<Rightarrow> u32 \<Rightarrow> 's kersys \<Rightarrow> NVRAM_DATA \<times> 's kersys" where
  "equip_fetch hw pNvramData k =
     (case hw_peek hw pNvramData sizeof_NVRAM_DATA (flash_dev k) of (bs, d) \<Rightarrow> (nvram_of bs, k\<lparr>flash_dev := d\<rparr>))"

definition name16 :: "string \<Rightarrow> byte list" where
  "name16 s = overlay 0 (map of_char s @ [0]) (replicate 16 0)"

definition board_version_name :: "byte \<Rightarrow> string" where
  "board_version_name ucHardwareType =
     (if ucHardwareType = 0 then ''HG55VDFA'' else if ucHardwareType = 3 then ''HG56BZRB''
      else if ucHardwareType = NOT_SUPPROT_GET_VERSION then ''HG556Unkown'' else ''N/A'')"

definition manufacturer_name :: "byte \<Rightarrow> string" where
  "manufacturer_name ucBoardManufacturer =
     (if ucBoardManufacturer = 3 then ''Huawei'' else if ucBoardManufacturer = 2 then ''Alpha'' else ''N/A'')"

definition equip_action ::
  "'s flash_hw \<Rightarrow> u32 \<Rightarrow> u32 \<Rightarrow> BOARD_EQUIPMENT_TEST_ACTION BOARD_IOCTL_PARMS \<Rightarrow> 's kersys
     \<Rightarrow> (BOARD_EQUIPMENT_TEST_ACTION BOARD_IOCTL_PARMS \<times> 's kersys) res" where
  "equip_action hw revID pNvramData p k =
     (let s = parm_string p; n = parm_strLen p;
          store = (\<lambda>f. bindR (equip_store hw pNvramData f k) (\<lambda>k'. Inr (p\<lparr>parm_result := 0\<rparr>, k')));
          put = (\<lambda>q bs k'. bindR (mem_wr s 0 bs) (\<lambda>s'. Inr (q\<lparr>parm_string := s', parm_result := 0\<rparr>, k')))
      in case parm_action p of
           SET_BASE_MAC_ADDRESS \<Rightarrow> bindR (mem_rd s 0 6) (\<lambda>mac. store (\<lambda>d. d\<lparr>ucaBaseMacAddr := mac\<rparr>))
         | GET_BASE_MAC_ADDRESS \<Rightarrow>
             (case equip_fetch hw pNvramData k of (d, k') \<Rightarrow> put (p\<lparr>parm_strLen := 6\<rparr>) (ucaBaseMacAddr d) k')
         | SET_MAC_AMOUNT \<Rightarrow> store (\<lambda>d. d\<lparr>ulNumMacAddrs := of_int (parm_offset p)\<rparr>)
         | GET_MAC_AMOUNT \<Rightarrow>
             (case equip_fetch hw pNvramData k of (d, k') \<Rightarrow> Inr (p\<lparr>parm_result := sint (ulNumMacAddrs d)\<rparr>, k'))
         | GET_ALL_BOARD_ID_NAME \<Rightarrow>
             bindR (BpGetBoardIds s n) (\<lambda>(r, s'). Inr (p\<lparr>parm_string := s', parm_result := r\<rparr>, k))
         | GET_PCB_VERSION \<Rightarrow>
             bindR (kerSysGetPCBVersion (cur_bp k) (gpio k)) (\<lambda>v. Inr (p\<lparr>parm_result := uint v\<rparr>, k))
         | GET_BOARD_VERSION \<Rightarrow> put p (name16 (board_version_name (GetHarewareType (gpio k)))) k
         | SET_BOARD_ID \<Rightarrow> bindR (mem_rd s 0 16) (\<lambda>bid. store (\<lambda>d. d\<lparr>nv_szBoardId := bid\<rparr>))
         | GET_BOARD_ID \<Rightarrow>
             (case equip_fetch hw pNvramData k of (d, k') \<Rightarrow> put (p\<lparr>parm_strLen := 16\<rparr>) (nv_szBoardId d) k')
         | SET_SERIAL_NUMBER \<Rightarrow>
             bindR (mem_rd s 0 (if n < 32 then n else 32)) (\<lambda>sn.
               store (\<lambda>d. d\<lparr>szSerialNumber := overlay 0 sn (replicate 32 0)\<rparr>))
         | GET_SERIAL_NUMBER \<Rightarrow>
             (case equip_fetch hw pNvramData k of (d, k') \<Rightarrow> put (p\<lparr>parm_strLen := 32\<rparr>) (szSerialNumber d) k')
         | GET_CPU_REVISION_ID \<Rightarrow> Inr (p\<lparr>parm_result := uint (revID AND 0xFF)\<rparr>, k)
         | GET_BOARD_MANUFACTURER_NAME \<Rightarrow> put p (name16 (manufacturer_name (kerSysGetBoardManufacturer (gpio k)))) k
         | BUTT \<Rightarrow> Inr (p, k))"

definition ioctl_equipment_test ::
  "'s flash_hw \<Rightarrow> bool \<Rightarrow> BOARD_EQUIPMENT_TEST_ACTION BOARD_IOCTL_PARMS option \<Rightarrow> 's board_drv
     \<Rightarrow> (int \<times> BOARD_EQUIPMENT_TEST_ACTION BOARD_IOCTL_PARMS option \<times> 's board_drv) res" where
  "ioctl_equipment_test hw sig arg b =
     bindR (down_flash sig b) (\<lambda>b1.
     case arg of
       None \<Rightarrow> Inr (- EFAULT, None, up_flash b1)
     | Some p \<Rightarrow>
         bindR (get_nvram_start_addr (ker b1)) (\<lambda>pNvramData.
         bindR (equip_action hw (perf_RevID b1) pNvramData p (ker b1)) (\<lambda>(p', k').
           Inr (0, Some p', up_flash (b1\<lparr>ker := k'\<rparr>)))))"

end
