(* ===== verification/Buttons.thy ===== *)
theory Buttons
  imports Flash_Ioctl
begin

text \<open>
  The button timers of \<^verbatim>\<open>board.c\<close> and the work item that restores the factory settings. A timer is the
  number of ticks after which it runs; \<^verbatim>\<open>add_timer\<close> on a pending timer sets it anew. The static counters of the
  pollers are fields of the state, \<open>task_pids\<close> are the processes that exist, and \<open>telnetd_sighups\<close> counts the
  signals sent to the telnet server. The pollers are those of a build with \<^verbatim>\<open>WIRELESS\<close> and
  \<^verbatim>\<open>SUPPORT_ATHEROSWLAN\<close>, the one of the reset button that without \<^verbatim>\<open>CONFIG_WLAN_REVERSE_PRESS_RESET_KEY\<close>.
\<close>

datatype board_timer = Poll_restorebtn | Poll_diagnosebtn | Ethernet_port_led_on | Switch_wlan | Poll_timer

datatype lan_led = Lan_Off | Lan_On | Lan_Fail

record 's btn_state =
  drv :: "'s board_drv"
  timers :: "board_timer \<Rightarrow> nat option"
  s_iRestoreDefCfgBtnCnt :: int
  g_iRestoreFlag :: bool
  board_work :: nat
  g_sVoipServiceStatus :: int
  g_nEquipTestMode :: int
  g_nKeyPressed :: int
  g_nKeyWaitTimes :: int
  telnetd_pid :: int
  task_pids :: "int list"
  telnetd_sighups :: nat
  g_iLswLinkState :: u32
  s_iDiagnoseEthPortBtnCnt :: int
  lan_leds :: "lan_led list"
  s_ucWlanButtonCnt :: byte
  WPS_FLAG :: int
  g_sWlanFlag :: int
  g_wakeup_monitor :: bool
  hardware_type :: byte
  regIndex :: u32
  g_netdevice :: "nat option list"
  g_callbacks :: "nat option list"
  callbacks_run :: "(nat option \<times> nat option) list"
  s_iResetButtoncnt :: int
  gl_nIsRebootBtn :: bool

abbreviation (input) HZ :: nat where "HZ \<equiv> 200"
abbreviation (input) POLLCNT_1SEC :: nat where "POLLCNT_1SEC \<equiv> HZ"
abbreviation (input) EQUIP_RESET_KEY :: int where "EQUIP_RESET_KEY \<equiv> 2"
abbreviation (input) EQUIP_RESTART_KEY :: int where "EQUIP_RESTART_KEY \<equiv> 4"
abbreviation (input) EQUIP_WLAN_KEY :: int where "EQUIP_WLAN_KEY \<equiv> 8"
abbreviation (input) EQUIP_LANDIAG_KEY :: int where "EQUIP_LANDIAG_KEY \<equiv> 16"
abbreviation (input) RESTORE_DEFAULT_SETTING_TIME :: int where "RESTORE_DEFAULT_SETTING_TIME \<equiv> 5"

definition set_timer :: "board_timer \<Rightarrow> nat \<Rightarrow> 's btn_state \<Rightarrow> 's btn_state" where
  "set_timer t n b = b\<lparr>timers := (timers b)(t \<mapsto> n)\<rparr>"

definition notify_telnetd :: "'s btn_state \<Rightarrow> 's btn_state" where
  "notify_telnetd b =
     (if telnetd_pid b \<noteq> 0 \<and> telnetd_pid b \<in> set (task_pids b)
      then b\<lparr>telnetd_sighups := Suc (telnetd_sighups b)\<rparr> else b)"

definition kerSysWakeupMonitorTask :: "'s btn_state \<Rightarrow> 's btn_state" where
  "kerSysWakeupMonitorTask b = b\<lparr>g_wakeup_monitor := True\<rparr>"

text \<open>A key in the equipment test.\<close>

definition key_pressed :: "int \<Rightarrow> 's btn_state \<Rightarrow> 's btn_state" where
  "key_pressed key b =
     (notify_telnetd (b\<lparr>g_nEquipTestMode := g_nEquipTestMode b OR key, g_nKeyPressed := key\<rparr>))\<lparr>g_nKeyWaitTimes := 0\<rparr>"

text \<open>The restore button. \<^verbatim>\<open>queue_work\<close> ignores a work item that is already pending; the flag keeps it from
  being queued again.\<close>

definition poll_restore_default :: "'s btn_state \<Rightarrow> 's btn_state" where
  "poll_restore_default b =
     (if s_iFlashWriteFlg (drv b) then set_timer Poll_restorebtn POLLCNT_1SEC (b\<lparr>s_iRestoreDefCfgBtnCnt := 0\<rparr>)
      else
        let iRet = kerSysGetRestoreDefCfgBtnStatus (cur_bp (ker (drv b))) (gpio (ker (drv b)));
            b1 = (if iRet = 0
                  then if 1 \<le> g_nEquipTestMode b
                       then notify_telnetd (b\<lparr>g_nKeyPressed := EQUIP_RESET_KEY, g_nEquipTestMode := 0, g_nKeyWaitTimes := 0\<rparr>)
                       else let b' = b\<lparr>s_iRestoreDefCfgBtnCnt := s_iRestoreDefCfgBtnCnt b + 1\<rparr>
                            in if s_iRestoreDefCfgBtnCnt b' \<ge> RESTORE_DEFAULT_SETTING_TIME
                               then let b2 = b'\<lparr>g_sVoipServiceStatus := 0\<rparr>
                                    in if \<not> g_iRestoreFlag b2
                                       then b2\<lparr>g_iRestoreFlag := True, board_work := Suc (board_work b2)\<rparr>
                                       else b2
                               else b'
                  else b)
        in if iRet \<ge> 0
           then set_timer Poll_restorebtn POLLCNT_1SEC (if iRet > 0 then b1\<lparr>s_iRestoreDefCfgBtnCnt := 0\<rparr> else b1)
           else b1)"

text \<open>The diagnose button shows the link state of the four LAN ports for five seconds.\<close>

definition poll_ethernet_port_led_on :: "'s btn_state \<Rightarrow> 's btn_state" where
  "poll_ethernet_port_led_on b = set_timer Poll_diagnosebtn POLLCNT_1SEC (b\<lparr>lan_leds := replicate 4 Lan_Off\<rparr>)"

definition poll_diagnose :: "'s btn_state \<Rightarrow> 's btn_state" where
  "poll_diagnose b =
     (let iRet = kerSysGetDiagnoseEthPortBtnStatus (cur_bp (ker (drv b))) (gpio (ker (drv b)));
          b1 = (if iRet = 0
                then let b' = b\<lparr>s_iDiagnoseEthPortBtnCnt := s_iDiagnoseEthPortBtnCnt b + 1\<rparr>
                     in if s_iDiagnoseEthPortBtnCnt b' \<ge> 1
                        then if 1 \<le> g_nEquipTestMode b' then key_pressed EQUIP_LANDIAG_KEY b'
                             else set_timer Ethernet_port_led_on (5 * POLLCNT_1SEC)
                                    (b'\<lparr>lan_leds := map (\<lambda>i. if bit (g_iLswLinkState b') i then Lan_On else Lan_Fail) [0..<4]\<rparr>)
                        else b'
                else b)
      in if iRet \<ge> 0 then set_timer Poll_diagnosebtn POLLCNT_1SEC b1 else b1)"

text \<open>The callbacks of the Atheros driver. The arrays have a hundred entries; a null \<open>arg\<close> is \<open>None\<close>.\<close>

definition register_simple_config_callback :: "nat \<Rightarrow> nat option \<Rightarrow> 's btn_state \<Rightarrow> 's btn_state res" where
  "register_simple_config_callback callback arg b =
     (let i = (if regIndex b > 100 then 0 else regIndex b) in
      if arg \<noteq> None
      then if unat i < 100
           then Inr (b\<lparr>g_netdevice := (g_netdevice b)[unat i := arg], g_callbacks := (g_callbacks b)[unat i := Some callback], regIndex := i + 1\<rparr>)
           else Inl OutOfBounds
      else Inr (b\<lparr>regIndex := i + 1\<rparr>))"

definition unregister_simple_config_callback :: "'s btn_state \<Rightarrow> 's btn_state" where
  "unregister_simple_config_callback b = b\<lparr>regIndex := regIndex b - 1\<rparr>"

definition do_wps_pbc_notify_atheros :: "'s btn_state \<Rightarrow> 's btn_state res" where
  "do_wps_pbc_notify_atheros b =
     (if unat (regIndex b) \<le> 100
      then if None \<in> set (take (unat (regIndex b)) (g_callbacks b)) then Inl NullPointer
           else Inr (b\<lparr>callbacks_run := callbacks_run b @ zip (take (unat (regIndex b)) (g_callbacks b)) (take (unat (regIndex b)) (g_netdevice b))\<rparr>)
      else Inl OutOfBounds)"

text \<open>The WLAN key. Its counter is an unsigned char that counts quarter seconds.\<close>

definition poll_switch_wlan_key :: "'s btn_state \<Rightarrow> 's btn_state res" where
  "poll_switch_wlan_key b =
     (let iRet = kerSysGetWlanButtonStatus (cur_bp (ker (drv b))) (gpio (ker (drv b)));
          cnt = s_ucWlanButtonCnt b;
          toggle = kerSysWakeupMonitorTask (b\<lparr>g_sWlanFlag := (if g_sWlanFlag b = 0 then 1 else 0)\<rparr>)
      in bindR
           (if iRet = 0 then Inr (b\<lparr>s_ucWlanButtonCnt := cnt + 1\<rparr>)
            else if iRet > 0
            then bindR
                   (if uint cnt > 16
                    then if 1 \<le> g_nEquipTestMode b then Inr (key_pressed EQUIP_WLAN_KEY b)
                         else if hardware_type b = HG55VDFA then do_wps_pbc_notify_atheros b
                         else Inr (kerSysWakeupMonitorTask (b\<lparr>WPS_FLAG := 1\<rparr>))
                    else if uint cnt \<ge> 1
                    then Inr (if 1 \<le> g_nEquipTestMode b then key_pressed EQUIP_WLAN_KEY b else toggle)
                    else Inr b)
                   (\<lambda>b'. Inr (b'\<lparr>s_ucWlanButtonCnt := 0\<rparr>))
            else Inr b)
           (\<lambda>b1. Inr (if iRet \<ge> 0 then set_timer Switch_wlan (POLLCNT_1SEC div 4) b1 else b1)))"

text \<open>The reset button asks the user space for a reboot when it is released.\<close>

definition poll_reset_button :: "'s btn_state \<Rightarrow> 's btn_state" where
  "poll_reset_button b =
     (if s_iFlashWriteFlg (drv b) \<or> g_iRestoreFlag b then set_timer Poll_timer POLLCNT_1SEC (b\<lparr>s_iResetButtoncnt := 0\<rparr>)
      else
        let iRet = kerSysGetResetStatus (cur_bp (ker (drv b))) (gpio (ker (drv b)));
            b1 = (if iRet = 0 then b\<lparr>s_iResetButtoncnt := s_iResetButtoncnt b + 1\<rparr>
                  else if iRet > 0
                  then (if s_iResetButtoncnt b \<ge> 1
                        then if 1 \<le> g_nEquipTestMode b then key_pressed EQUIP_RESTART_KEY b
                             else kerSysWakeupMonitorTask (b\<lparr>gl_nIsRebootBtn := True\<rparr>)
                        else b)\<lparr>s_iResetButtoncnt := 0\<rparr>
                  else b)
        in if iRet \<ge> 0 then set_timer Poll_timer POLLCNT_1SEC b1 else b1)"

section \<open>Restoring the factory settings\<close>

definition c_lit :: "string \<Rightarrow> byte list" where
  "c_lit s = map of_char s @ [0]"

fun has_prefix :: "byte list \<Rightarrow> byte list \<Rightarrow> bool" where
  "has_prefix [] s = True"
| "has_prefix (x # xs) [] = False"
| "has_prefix (x # xs) (y # ys) = (x = y \<and> has_prefix xs ys)"

text \<open>\<^verbatim>\<open>strstr\<close> on terminated strings.\<close>

fun strstr :: "byte list \<Rightarrow> byte list \<Rightarrow> bool" where
  "strstr [] pat = has_prefix pat []"
| "strstr (c # s) pat = (has_prefix pat (c # s) \<or> strstr s pat)"

definition failure_tag :: "byte list" where
  "failure_tag = map of_char ''5aa5a55a''"

definition clear_failure_tag :: "'s kersys \<Rightarrow> 's kersys res" where
  "clear_failure_tag k =
     bindR (kerSysAvailGet (replicate 10 0) 10 0 k) (\<lambda>(iRet, cUpgradeFlags, k1).
     if iRet = -1 then Inr k1
     else
       bindR (c_string cUpgradeFlags) (\<lambda>s.
       if strstr s failure_tag \<and> s \<noteq> map of_char ''5aa5a55a0''
       then bindR (kerSysAvailSet (c_lit ''5aa5a55a0'') 10 0 k1) (\<lambda>(_, k2). Inr k2)
       else Inr k1))"

text \<open>The settings outside of the erased partitions: each entry is a string, its length and its offset in the
  \<^verbatim>\<open>avail\<close> partition; \<open>pcBuf\<close> is the zeroed buffer from the heap.\<close>

definition restore_entries :: "byte list \<Rightarrow> (byte list \<times> int \<times> int) list" where
  "restore_entries pcBuf =
     [(c_lit ''restore'', 8, 0 + 10), (c_lit ''resping'', 8, 0 + 10 + 8), (pcBuf, 3072, 8 * 1024),
      (c_lit ''HGReset'', 8, 8 * 1024 + 3072), (replicate 8 0, 8, 314), (replicate 8 0, 8, 314 + 8)]"

fun avail_sets :: "(byte list \<times> int \<times> int) list \<Rightarrow> 's kersys \<Rightarrow> 's kersys res" where
  "avail_sets [] k = Inr k"
| "avail_sets ((s, n, off) # r) k = bindR (kerSysAvailSet s n off k) (\<lambda>(_, k'). avail_sets r k')"

definition restore_flash :: "'s kersys \<Rightarrow> 's kersys res" where
  "restore_flash k =
     bindR (kerSysPersistentClear k) (\<lambda>(_, k2).
     bindR (kerSysPsiBackupClear k2) (\<lambda>(_, k3).
     bindR (kerSysScratchPadClearAll k3) (\<lambda>(_, k4).
     bindR (clear_failure_tag k4) (\<lambda>k5.
     case kmalloc k5 of
       (None, k6) \<Rightarrow> Inl NullPointer
     | (Some _, k6) \<Rightarrow>
         bindR (avail_sets [(replicate 16 0xFF, 16, 80), (c_lit ''resdeft'', 8, 264 + 2040 + 32 + 64)] k6) (\<lambda>k7.
         bindR (kerSysVariableSet (c_lit ''resetok'') 8 (264 + 8) k7) (\<lambda>(_, k8).
           avail_sets (restore_entries (replicate 3072 0)) k8))))))"

definition restore_do_tasklet :: "'s btn_state \<Rightarrow> 's btn_state res" where
  "restore_do_tasklet b =
     bindR (kerSysAvailSet (c_lit ''resdeft'') 8 2400 (ker (drv b))) (\<lambda>(_, k1).
     let d1 = dg_setScheduleState DG_DISABLE_SCHED_MON ((drv b)\<lparr>ker := k1\<rparr>) in
     bindR (restore_flash (ker d1)) (\<lambda>k2.
       Inr (kerSysWakeupMonitorTask (b\<lparr>drv := dg_setScheduleState DG_ENABLE_SCHED_MON (d1\<lparr>ker := k2\<rparr>),
              g_sVoipServiceStatus := 1, g_sWlanFlag := 2\<rparr>))))"

end
