(* ===== verification/Vsprintf_Correct.thy ===== *)
theory Vsprintf_Correct
  imports Vsprintf
begin

text \<open>
  What the kernel prints as a number, \<^verbatim>\<open>simple_strtoul\<close> reads back. \<open>sprintf_d\<close> is the decimal text of an integer.
\<close>

section \<open>Digits\<close>

function dec_digits :: "nat \<Rightarrow> byte list" where
  "dec_digits n = (if n < 10 then [of_nat (48 + n)] else dec_digits (n div 10) @ [of_nat (48 + n mod 10)])"
  by pat_completeness auto

termination dec_digits
  by (relation "measure id") auto

declare dec_digits.simps [simp del]

definition sprintf_d :: "int \<Rightarrow> byte list" where
  "sprintf_d x = (if x < 0 then 45 # dec_digits (nat (- x)) else dec_digits (nat x)) @ [0]"

lemma digits_16:
  "\<forall>d \<in> set [0..<16]. isxdigit (small_digits ! d) \<and> digit_value (small_digits ! d) = of_nat d
     \<and> isxdigit (large_digits ! d) \<and> digit_value (large_digits ! d) = of_nat d"
  by code_simp

lemma digits_10: "\<forall>d \<in> set [0..<10]. small_digits ! d = of_nat (48 + d) \<and> large_digits ! d = of_nat (48 + d)"
  by code_simp

lemma digit_read:
  assumes "d < b" "b \<le> 16" "digits = small_digits \<or> digits = large_digits"
  shows "isxdigit (digits ! d)" "digit_value (digits ! d) = of_nat d" "(of_nat d :: u32) < of_nat b"
proof -
  have "d \<in> set [0..<16]" using assms by simp
  thus "isxdigit (digits ! d)" "digit_value (digits ! d) = of_nat d" using digits_16 assms(3) by blast+
  show "(of_nat d :: u32) < of_nat b" using assms(1,2) by (simp add: word_less_nat_alt unat_of_nat)
qed

lemma strtoul_div_digits:
  assumes "2 \<le> b" "b \<le> 16" "digits = small_digits \<or> digits = large_digits"
  shows "strtoul_loop (rev (div_digits digits b n) @ cp) (of_nat b) acc
     = strtoul_loop cp (of_nat b) (acc * of_nat b ^ length (div_digits digits b n) + of_nat n)"
proof (induction n arbitrary: cp rule: less_induct)
  case (less n)
  show ?case
  proof (cases "n = 0")
    case False
    have d: "div_digits digits b n = digits ! (n mod b) # div_digits digits b (n div b)"
      using False assms(1) by (subst div_digits.simps) simp
    have "n div b < n" using False assms(1) by simp
    note IH = less.IH[OF this, of "digits ! (n mod b) # cp"]
    have "(of_nat n :: u32) = of_nat (n div b) * of_nat b + of_nat (n mod b)"
      by (metis div_mult_mod_eq of_nat_add of_nat_mult)
    moreover have "strtoul_loop (digits ! (n mod b) # cp) (of_nat b) a = strtoul_loop cp (of_nat b) (a * of_nat b + of_nat (n mod b))" for a
      using digit_read[of "n mod b" b digits] assms by simp
    ultimately show ?thesis using IH by (simp add: d algebra_simps del: strtoul_loop.simps(2))
  qed (simp add: div_digits.simps)
qed

lemma length_div_digits: "2 \<le> b \<Longrightarrow> n < b ^ k \<Longrightarrow> length (div_digits digits b n) \<le> k"
proof (induction k arbitrary: n)
  case (Suc k)
  hence "n div b < b ^ k" by (simp add: less_mult_imp_div_less mult.commute)
  thus ?case using Suc.IH[of "n div b"] Suc.prems by (subst div_digits.simps) simp
qed (simp add: div_digits.simps)

text \<open>The buffer of 66 characters in \<^verbatim>\<open>number\<close> is large enough for every base.\<close>

lemma number_buffer: "2 \<le> b \<Longrightarrow> length (div_digits digits b (unat (num :: 64 word))) \<le> 64"
proof -
  assume b: "2 \<le> b"
  have "unat num < 2 ^ 64" using unsigned_less[of num, where ?'a = nat] by simp
  also have "(2 :: nat) ^ 64 \<le> b ^ 64" using b by (intro power_mono) simp_all
  finally show ?thesis using length_div_digits[OF b] by blast
qed

lemma number_total: "\<exists>r. number num base sz precision type = Inr r"
proof (cases "base < 2 \<or> base > 36")
  case True
  thus ?thesis by (auto simp: number_def Let_def)
next
  case False
  hence "2 \<le> nat base" by auto
  hence "\<not> 66 < length (if n = 0 then [48] else div_digits digits (nat base) (unat n))" for n :: "64 word" and digits
    using number_buffer[of "nat base" digits n] by auto
  thus ?thesis using False unfolding number_def Let_def by (simp only: if_False split: prod.split) simp
qed

section \<open>Conversions of an integer\<close>

text \<open>Without a width and a precision the loops that fill the field print nothing.\<close>

lemma no_padding:
  assumes "length tmp \<le> 64" "s = -1 \<or> s = -2"
  shows "(let precision = (if int (length tmp) > -1 then int (length tmp) else -1);
          size3 = int32 (s - precision);
          (left, size4) = pad_loop 32 size3;
          (fill, size5) = pad_loop 32 size4;
          zeros = replicate (nat precision - length tmp) 48;
          (right, _) = pad_loop 32 size5
      in Inr (Some (left @ sign @ [] @ fill @ zeros @ rev tmp @ right))) = Inr (Some (sign @ rev tmp))"
  using assms by (auto simp: pad_loop_def int32_id Let_def)

lemma number_plain:
  assumes "2 \<le> base" "base \<le> 36" "type = 0 \<or> type = LARGE"
  shows "number num base (-1) (-1) type
     = Inr (Some (if num = 0 then [48] else rev (div_digits (if type = 0 then small_digits else large_digits) (nat base) (unat num))))"
proof -
  define d where "d = (if type = 0 then small_digits else large_digits)"
  define t where "t = (if num = 0 then [48] else div_digits d (nat base) (unat num))"
  have l: "length t \<le> 64" using number_buffer[of "nat base" d num] assms(1) by (auto simp: t_def)
  have ty: "(if type AND LARGE \<noteq> 0 then large_digits else small_digits) = d" "type AND LEFT = 0" "type AND ZEROPAD = 0" "type AND SIGN = 0"
    "type AND SPECIAL = 0" "type AND (ZEROPAD + LEFT) = 0" "type AND 17 = 0"
    using assms(3) by (auto simp: d_def)
  have "number num base (-1) (-1) type = Inr (Some ([] @ rev t))"
    unfolding number_def ty Let_def prod.case using assms(1,2) l no_padding[OF l, of "-1" "[]"]
    by (simp add: t_def[symmetric] Let_def ty)
  thus ?thesis by (simp add: t_def d_def)
qed

lemma number_signed:
  "number num 10 (-1) (-1) SIGN
     = Inr (Some (if num = 0 then [48] else if sint num < 0 then 45 # rev (div_digits small_digits 10 (unat (- num)))
                  else rev (div_digits small_digits 10 (unat num))))"
proof (cases "sint num < 0")
  case True
  have n: "- num \<noteq> 0" using True by auto
  have l: "length (div_digits small_digits 10 (unat (- num))) \<le> 64" by (rule number_buffer) simp
  show ?thesis using True n no_padding[OF l, of "-2" "[45]"] l by (simp add: number_def int32_id Let_def)
next
  case False
  let ?t = "if num = 0 then [48] else div_digits small_digits 10 (unat num)"
  have l: "length ?t \<le> 64" using number_buffer[of 10 small_digits num] by auto
  show ?thesis using False no_padding[OF l, of "-1" "[]"] l by (cases "num = 0") (simp_all add: number_def Let_def)
qed

lemma dec_digits_div: "0 < n \<Longrightarrow> dec_digits n = rev (div_digits small_digits 10 n)"
proof (induction n rule: less_induct)
  case (less n)
  have d: "small_digits ! (n mod 10) = of_nat (48 + n mod 10)" using digits_10 by (auto dest: bspec[of _ _ "n mod 10"])
  show ?case
  proof (cases "n < 10")
    case True
    thus ?thesis using less.prems d by (simp add: dec_digits.simps[of n] div_digits.simps[of _ 10 n] div_digits.simps[of _ _ 0])
  next
    case False
    thus ?thesis using less.IH[of "n div 10"] d
      by (simp add: dec_digits.simps[of n] div_digits.simps[of _ 10 n])
  qed
qed

lemma sprintf_conversion:
  assumes "c \<in> {100, 117, 120, 88, 111}"
  shows "sprintf [37, c] [VInt w] = bindR (print_integer c 0 0 (-1) (-1) [VInt w]) (\<lambda>(cs, _). Inr (cs @ [0]))"
  using assms by (auto simp: sprintf_def conversion_def get_width_def get_precision_def isdigit_def bindR_assoc case_prod_unfold)

lemma unat_of_int_64: "0 \<le> x \<Longrightarrow> x < 2 ^ 64 \<Longrightarrow> unat (word_of_int x :: 64 word) = nat x"
  by (simp add: unsigned_of_int take_bit_int_eq_self)

lemma sprintf_signed: "sprintf [37, 100] [VInt w] = Inr (sprintf_d (sint w))"
proof -
  define x where "x = sint w"
  define n :: "64 word" where "n = word_of_int x"
  have x: "- (2 ^ 31) \<le> x" "x < 2 ^ 31" using sint_ge[of w] sint_lt[of w] by (simp_all add: x_def)
  have s: "sint n = x" using x by (simp add: n_def sint_sbintrunc' signed_take_bit_int_eq_self)
  have z: "n = 0 \<longleftrightarrow> x = 0" using s by (auto simp: n_def)
  have u: "unat n = nat x" if "0 \<le> x" using that x unat_of_int_64[of x] by (simp add: n_def)
  have m: "unat (- n) = nat (- x)" if "x < 0" using that x unat_of_int_64[of "- x"] by (simp add: n_def)
  have "scast w = n" unfolding n_def x_def by (rule scast_eq)
  hence p: "print_integer 100 0 0 (-1) (-1) [VInt w]
      = Inr (if n = 0 then [48] else if sint n < 0 then 45 # rev (div_digits small_digits 10 (unat (- n)))
             else rev (div_digits small_digits 10 (unat n)), [])"
    by (simp add: print_integer_def get_number_def print_number_def number_signed)
  show ?thesis
    using p m u z unfolding s by (auto simp: sprintf_conversion sprintf_d_def x_def[symmetric] dec_digits_div dec_digits.simps[of 0])
qed

text \<open>Unsigned conversions: hexadecimal digits are not taken for a prefix.\<close>

lemma div_digits_hex:
  assumes "2 \<le> b" "b \<le> 16" "digits = small_digits \<or> digits = large_digits" "c \<in> set (div_digits digits b n)"
  shows "isxdigit c"
  using assms(4)
proof (induction n rule: less_induct)
  case (less n)
  have n: "n \<noteq> 0"
  proof
    assume "n = 0"
    thus False using less.prems by (simp add: div_digits.simps[of _ _ 0])
  qed
  hence "c = digits ! (n mod b) \<or> c \<in> set (div_digits digits b (n div b))"
    using less.prems assms(1) by (subst (asm) div_digits.simps) auto
  thus ?case using less.IH[of "n div b"] digit_read(1)[of "n mod b" b digits] assms(1-3) n by auto
qed

lemma hex_no_prefix: "isxdigit c \<or> c = 0 \<Longrightarrow> toupper c \<noteq> 88"
  by (auto simp: isxdigit_def isdigit_def toupper_def word_le_nat_alt word_less_nat_alt unat_sub_if_size word_unat_eq_iff)

lemma strtoul_no_prefix:
  assumes "t \<noteq> []" "\<forall>c \<in> set t. isxdigit c" "base \<noteq> 0"
  shows "simple_strtoul ((t @ [0]) @ rest) base = strtoul_loop (t @ 0 # rest) base 0"
proof (cases t)
  case (Cons x t')
  have "toupper (hd (t' @ 0 # rest)) \<noteq> 88" using assms(2) Cons by (intro hex_no_prefix) (cases t'; auto)
  moreover obtain y ys where "t' @ 0 # rest = y # ys" by (cases "t' @ 0 # rest") auto
  ultimately show ?thesis using assms(3) Cons by (auto simp: simple_strtoul_def)
qed (use assms(1) in simp)

lemma print_unsigned:
  assumes "(c, b) \<in> {(111, 8), (117, 10), (120, 16), (88, 16)}"
  shows "print_integer c 0 0 (-1) (-1) [VInt w]
     = Inr (if w = 0 then [48] else rev (div_digits (if c = 88 then large_digits else small_digits) b (unat w)), [])"
proof -
  have u: "unat (ucast w :: 64 word) = unat w" by (simp add: unsigned_ucast_eq take_bit_nat_eq_self order_less_le_trans[OF unsigned_less])
  hence z: "(ucast w :: 64 word) = 0 \<longleftrightarrow> w = 0" by (simp add: word_unat_eq_iff)
  from assms consider "c = 111" "b = 8" | "c = 117" "b = 10" | "c = 120" "b = 16" | "c = 88" "b = 16" by auto
  thus ?thesis
    by cases (simp_all add: print_integer_def get_number_def print_number_def number_plain u z)
qed

lemma sprintf_unsigned:
  assumes "(c, b) \<in> {(111, 8), (117, 10), (120, 16), (88, 16)}"
  shows "\<exists>bs. sprintf [37, c] [VInt w] = Inr bs \<and> simple_strtoul (bs @ rest) (of_nat b) = Inr w"
proof -
  define d where "d = (if c = 88 then large_digits else small_digits)"
  define t where "t = (if w = 0 then [48] else rev (div_digits d b (unat w)))"
  have b: "2 \<le> b" "b \<le> 16" "c \<in> {100, 117, 120, 88, 111}" "(of_nat b :: u32) \<noteq> 0" using assms by auto
  have d: "d = small_digits \<or> d = large_digits" by (simp add: d_def)
  have "sprintf [37, c] [VInt w] = Inr (t @ [0])"
    using print_unsigned[OF assms, of w] by (simp add: sprintf_conversion[OF b(3)] t_def d_def)
  moreover have "strtoul_loop (t @ 0 # rest) (of_nat b) 0 = Inr w"
  proof (cases "w = 0")
    case True
    have "(0 :: u32) < of_nat b" using b(4) by (simp add: word_gt_0)
    thus ?thesis using True by (simp add: t_def isxdigit_def isdigit_def digit_value_def)
  next
    case False
    thus ?thesis using strtoul_div_digits[OF b(1,2) d, of "unat w" "0 # rest" 0] by (simp add: t_def isxdigit_def isdigit_def)
  qed
  moreover have "simple_strtoul ((t @ [0]) @ rest) (of_nat b) = strtoul_loop (t @ 0 # rest) (of_nat b) 0"
  proof (rule strtoul_no_prefix)
    show "t \<noteq> []" using b(1) by (auto simp: t_def div_digits.simps[of d b "unat w"] unat_eq_zero)
    show "\<forall>c \<in> set t. isxdigit c" using div_digits_hex[OF b(1,2) d] by (auto simp: t_def isxdigit_def isdigit_def)
  qed (rule b(4))
  ultimately show ?thesis by metis
qed

end
