(* ===== verification/Flash_Parts.thy ===== *)
theory Flash_Parts
  imports Flash_Layout
begin

text \<open>
  The partitions together: in a board that has brought up its flash (\<open>board_ok\<close>) an operation on
  one partition changes no byte of another, and get returns what set has stored.
\<close>

definition board_ok :: "'s flash_device_info \<Rightarrow> ('s \<Rightarrow> bool) \<Rightarrow> nat list \<Rightarrow> 's kersys \<Rightarrow> bool" where
  "board_ok dev I sects k \<longleftrightarrow>
     sys_ok dev I k \<and> finfo_wf sects (fInfo k) \<and> heap_wf k \<and> (\<forall>n. kmalloc_ok k n)"

lemma board_ok_upd:
  assumes "board_ok dev I sects k" "I d" "kmalloc_calls k \<le> c"
  shows "board_ok dev I sects (k\<lparr>flash_dev := d, kmalloc_calls := c\<rparr>)"
  using assms by (auto simp: board_ok_def sys_ok_def heap_wf_def)

lemma board_ok_dev: "board_ok dev I sects k \<Longrightarrow> I d \<Longrightarrow> board_ok dev I sects (k\<lparr>flash_dev := d\<rparr>)"
  by (simp add: board_ok_def sys_ok_def heap_wf_def)

lemma board_okD:
  assumes "board_ok dev I sects k"
  shows "sys_ok dev I k" "finfo_wf sects (fInfo k)" "heap_wf k" "mem_available k"
  using assms by (auto simp: board_ok_def mem_available_def intro: exI[of _ 0])

text \<open>The bytes of a partition.\<close>

definition part_bytes :: "nat list \<Rightarrow> flash_part \<Rightarrow> byte list \<Rightarrow> byte list" where
  "part_bytes sects p c = slice (part_base sects p) (nat (part_length p)) c"

lemma all_parts_wf: "finfo_wf sects info \<Longrightarrow> p \<in> set (all_parts info) \<Longrightarrow> part_wf sects p \<and> 0 < part_length p"
  by (simp add: finfo_wf_def)

lemma parts_disjoint:
  assumes "finfo_wf sects info" "i < length (all_parts info)" "j < length (all_parts info)" "i \<noteq> j"
  shows "part_base sects (all_parts info ! i) + nat (part_length (all_parts info ! i)) \<le> part_base sects (all_parts info ! j)
       \<or> part_base sects (all_parts info ! j) + nat (part_length (all_parts info ! j)) \<le> part_base sects (all_parts info ! i)"
proof -
  have w: "part_wf sects (all_parts info ! i)" "part_wf sects (all_parts info ! j)"
    using all_parts_wf[OF assms(1)] assms(2,3) by simp_all
  have s: "sorted_wrt below (all_parts info)" using assms(1) by (simp add: finfo_wf_def)
  from assms(4) consider "i < j" | "j < i" by linarith
  thus ?thesis
  proof cases
    case 1 thus ?thesis using s assms(3) disjoint_bytes[OF w] by (simp add: sorted_wrt_iff_nth_less)
  next
    case 2 thus ?thesis using s assms(2) disjoint_bytes[OF w(2,1)] by (simp add: sorted_wrt_iff_nth_less)
  qed
qed

lemma part_bytes_overlay_other:
  assumes "finfo_wf sects info" "i < length (all_parts info)" "j < length (all_parts info)" "i \<noteq> j"
    and "pos + length xs \<le> nat (part_length (all_parts info ! i))" "length c = sum_list sects"
  shows "part_bytes sects (all_parts info ! j) (overlay (part_base sects (all_parts info ! i) + pos) xs c)
       = part_bytes sects (all_parts info ! j) c"
proof -
  have "part_base sects (all_parts info ! i) + nat (part_length (all_parts info ! i)) \<le> length c"
    "part_base sects (all_parts info ! j) + nat (part_length (all_parts info ! j)) \<le> length c"
    using part_end_le all_parts_wf[OF assms(1)] assms(2,3,6) by (metis nth_mem)+
  thus ?thesis unfolding part_bytes_def using parts_disjoint[OF assms(1-4)] assms(5)
    by (intro slice_overlay_disjoint) auto
qed

lemma part_bytes_overlay_same:
  assumes "part_wf sects p" "pos + length xs \<le> nat (part_length p)" "length c = sum_list sects"
  shows "part_bytes sects p (overlay (part_base sects p + pos) xs c) = overlay pos xs (part_bytes sects p c)"
proof (rule nth_equalityI)
  have le: "part_base sects p + nat (part_length p) \<le> length c" using part_end_le[OF assms(1)] assms(3) by simp
  show "length (part_bytes sects p (overlay (part_base sects p + pos) xs c)) = length (overlay pos xs (part_bytes sects p c))"
    using le assms(2) by (simp add: part_bytes_def)
  fix i assume "i < length (part_bytes sects p (overlay (part_base sects p + pos) xs c))"
  hence i: "i < nat (part_length p)" using le assms(2) by (simp add: part_bytes_def)
  show "part_bytes sects p (overlay (part_base sects p + pos) xs c) ! i = overlay pos xs (part_bytes sects p c) ! i"
    using le assms(2) i by (simp add: part_bytes_def nth_slice nth_overlay)
qed

lemma length_part_bytes: "part_wf sects p \<Longrightarrow> length c = sum_list sects \<Longrightarrow> length (part_bytes sects p c) = nat (part_length p)"
  using part_end_le[of sects p] by (simp add: part_bytes_def)

context flash_device begin

lemma board_content: "board_ok dev inv sects k \<Longrightarrow> length (content (flash_dev k)) = sum_list sects"
  using content_length by (simp add: board_ok_def sys_ok_def)

lemma part_set_ok:
  assumes "board_ok dev inv sects k" "p \<in> set (all_parts (fInfo k))" "int pos + int m \<le> part_length p" "m \<le> length string"
  obtains d c where "part_write p (int pos) (int m) string k = Inr (0, k\<lparr>flash_dev := d, kmalloc_calls := c\<rparr>)"
    "board_ok dev inv sects (k\<lparr>flash_dev := d, kmalloc_calls := c\<rparr>)"
    "content d = overlay (part_base sects p + pos) (take m string) (content (flash_dev k))"
proof -
  note b = board_okD[OF assms(1)]
  have w: "part_wf sects p" using all_parts_wf[OF b(2) assms(2)] by simp
  from part_write_ok[OF b(1) w b(4,3) assms(3,4)] obtain d c
    where "part_write p (int pos) (int m) string k = Inr (0, k\<lparr>flash_dev := d, kmalloc_calls := c\<rparr>)"
      "kmalloc_calls k \<le> c" "inv d" "content d = overlay (part_base sects p + pos) (take m string) (content (flash_dev k))"
    by auto
  thus ?thesis using that board_ok_upd[OF assms(1)] by blast
qed

lemma part_get_ok:
  assumes "board_ok dev inv sects k" "p \<in> set (all_parts (fInfo k))" "int pos + int m \<le> part_length p" "m \<le> length string"
  obtains d c where "part_read p (int pos) (int m) string k
      = Inr (0, overlay 0 (slice pos m (part_bytes sects p (content (flash_dev k)))) string, k\<lparr>flash_dev := d, kmalloc_calls := c\<rparr>)"
    "board_ok dev inv sects (k\<lparr>flash_dev := d, kmalloc_calls := c\<rparr>)" "content d = content (flash_dev k)"
proof -
  note b = board_okD[OF assms(1)]
  have w: "part_wf sects p" using all_parts_wf[OF b(2) assms(2)] by simp
  have "slice pos m (part_bytes sects p (content (flash_dev k))) = slice (part_base sects p + pos) m (content (flash_dev k))"
    using slice_slice[of pos m "nat (part_length p)" "part_base sects p" "content (flash_dev k)"] assms(3)
      part_end_le[OF w] board_content[OF assms(1)] by (simp add: part_bytes_def)
  with part_read_ok[OF b(1) w b(4,3) assms(3,4)] obtain d c
    where "part_read p (int pos) (int m) string k
      = Inr (0, overlay 0 (slice pos m (part_bytes sects p (content (flash_dev k)))) string, k\<lparr>flash_dev := d, kmalloc_calls := c\<rparr>)"
      "kmalloc_calls k \<le> c" "inv d" "content d = content (flash_dev k)"
    by auto
  thus ?thesis using that board_ok_upd[OF assms(1)] by blast
qed

end

end
