(* ===== verification/Image_Tag_Correct.thy ===== *)
theory Image_Tag_Correct
  imports Image_Tag Vsprintf_Correct Flash_Parts
begin

text \<open>
  The tag of an image: its numbers are read back as they were printed, its CRC holds after it has been
  stamped, and the code finds the two tags of the flash at \<open>tag1_start\<close> and \<open>tag2_start\<close>.
\<close>

section \<open>Numbers\<close>

lemma unat_ucast_byte: "unat (ucast (c :: byte) :: u32) = unat c"
proof -
  have "unat c < 2 ^ LENGTH(8)" by (rule unsigned_less)
  thus ?thesis by (simp add: unsigned_ucast_eq take_bit_nat_eq_self)
qed

lemma digit_value_10: "isxdigit c \<and> digit_value c < 10 \<longleftrightarrow> isdigit c"
proof -
  have "isdigit c \<Longrightarrow> digit_value c < 10"
    by (auto simp: digit_value_def isdigit_def word_le_nat_alt word_less_nat_alt unat_sub_if_size unat_ucast_byte)
  moreover have "\<not> digit_value c < 10" if "isxdigit c" "\<not> isdigit c"
  proof -
    have "65 \<le> toupper c" "toupper c \<le> 70"
      using that by (auto simp: isxdigit_def toupper_def word_le_nat_alt word_less_nat_alt unat_sub_if_size)
    hence "unat (ucast (toupper c) - 65 + 10 :: u32) = unat (toupper c) - 65 + 10"
      by (simp add: word_le_nat_alt unat_sub_if_size unat_word_ariths unat_ucast_byte)
    thus ?thesis using that(2) by (simp add: digit_value_def word_less_nat_alt)
  qed
  ultimately show ?thesis by (auto simp: isxdigit_def)
qed

lemma strtoul_10:
  "strtoul_loop (c # cp) 10 acc = (if isdigit c then strtoul_loop cp 10 (acc * 10 + digit_value c) else Inr acc)"
  using digit_value_10[of c] by simp

text \<open>A number ends at the first character that is not a digit.\<close>

lemma strtoul_reads: "(\<exists>c \<in> set cp. \<not> isdigit c) \<Longrightarrow> \<exists>w. strtoul_loop cp 10 acc = Inr w"
  by (induction cp arbitrary: acc) (auto simp: strtoul_10 simp del: strtoul_loop.simps(2))

lemma simple_strtoul_10: "simple_strtoul cp 10 = strtoul_loop cp 10 0"
  by (simp add: simple_strtoul_def)

lemma digit_char:
  assumes "d < 10" shows "isdigit (of_nat (48 + d))" "digit_value (of_nat (48 + d)) = of_nat d"
proof -
  have u: "unat (of_nat (48 + d) :: byte) = 48 + d" using assms by (simp add: unat_of_nat del: of_nat_add)
  thus i: "isdigit (of_nat (48 + d))" using assms by (simp add: isdigit_def word_le_nat_alt del: of_nat_add)
  have "ucast (of_nat (48 + d) :: byte) = (of_nat (48 + d) :: u32)"
    using assms u by (intro word_unat_eq_iff[THEN iffD2]) (simp add: unat_ucast_byte unat_of_nat del: of_nat_add)
  thus "digit_value (of_nat (48 + d)) = of_nat d" using i by (simp add: digit_value_def)
qed

lemma strtoul_digits:
  "strtoul_loop (dec_digits n @ cp) 10 acc = strtoul_loop cp 10 (acc * 10 ^ length (dec_digits n) + of_nat n)"
proof (induction n arbitrary: cp acc rule: dec_digits.induct)
  case (1 n)
  show ?case
  proof (cases "n < 10")
    case True
    thus ?thesis using digit_char[of n] by (simp add: dec_digits.simps[of n] strtoul_10 del: strtoul_loop.simps(2) of_nat_add)
  next
    case False
    have "(of_nat n :: u32) = of_nat (n div 10) * 10 + of_nat (n mod 10)"
      by (metis div_mult_mod_eq of_nat_add of_nat_mult of_nat_numeral)
    thus ?thesis using 1[OF False] digit_char[of "n mod 10"] False
      by (simp add: dec_digits.simps[of n] strtoul_10 algebra_simps del: strtoul_loop.simps(2) of_nat_add)
  qed
qed

lemma length_dec_digits: "n < 10 ^ m \<Longrightarrow> 0 < m \<Longrightarrow> length (dec_digits n) \<le> m"
proof (induction n arbitrary: m rule: dec_digits.induct)
  case (1 n)
  show ?case
  proof (cases "n < 10")
    case False
    then obtain l where l: "m = Suc l" "0 < l" using "1.prems" by (cases m) (auto, case_tac nat, auto)
    hence "n div 10 < 10 ^ l" using "1.prems" by (simp add: less_mult_imp_div_less mult.commute)
    thus ?thesis using 1(1)[OF False _ l(2)] l False by (simp add: dec_digits.simps[of n])
  qed (use 1 in \<open>simp add: dec_digits.simps[of n]\<close>)
qed

text \<open>The text that \<^verbatim>\<open>sprintf\<close> produces for an \<^verbatim>\<open>int\<close>.\<close>

lemma sprintf_int:
  assumes "- (2 ^ 31) \<le> x" "x < 2 ^ 31" shows "sprintf (map of_char ''%d'') [VInt (of_int x)] = Inr (sprintf_d x)"
  using sprintf_signed[of "of_int x"] int32_id[OF assms] by (simp add: int32_def)

lemma sprintf_strtoul: "0 \<le> x \<Longrightarrow> simple_strtoul (sprintf_d x @ cp) 10 = Inr (of_int x)"
  using strtoul_digits[of "nat x" "0 # cp" 0]
  by (simp add: sprintf_d_def simple_strtoul_10 strtoul_10 isdigit_def del: strtoul_loop.simps(2))

lemma length_sprintf: "0 \<le> x \<Longrightarrow> x < 2 ^ 31 \<Longrightarrow> length (sprintf_d x) \<le> 11"
  using length_dec_digits[of "nat x" 10] by (auto simp: sprintf_d_def nat_less_iff)


section \<open>Tags in the flash\<close>

text \<open>The tag at a byte offset: present when its CRC is right. A tag is readable when a character that
  is not a digit ends its numbers.\<close>

definition tag_valid :: "FILE_TAG \<Rightarrow> bool" where
  "tag_valid t \<longleftrightarrow> getCrc32 t 236 CRC32_INIT_VALUE = Inr (be32 (slice 236 4 t))"

definition tag_at :: "byte list \<Rightarrow> nat \<Rightarrow> FILE_TAG option" where
  "tag_at c off = (let t = slice off 256 c in if tag_valid t then Some t else None)"

definition tag_readable :: "FILE_TAG \<Rightarrow> bool" where
  "tag_readable t \<longleftrightarrow> (\<exists>c \<in> set (drop 138 t). \<not> isdigit c)"

definition tag1_start :: "nat list \<Rightarrow> nat" where
  "tag1_start sects = sector_start sects (sector_of sects 131072)"

definition tag2_start :: "nat list \<Rightarrow> nat" where
  "tag2_start sects = sector_start sects (sector_of sects (sum_list sects div 2))"

text \<open>Both tags have room and do not lie in the first block.\<close>

definition tags_fit :: "nat list \<Rightarrow> bool" where
  "tags_fit sects \<longleftrightarrow> 131072 < sum_list sects \<and> 0 < sector_of sects 131072
     \<and> 0 < sector_of sects (sum_list sects div 2)
     \<and> tag1_start sects + 256 \<le> sum_list sects \<and> tag2_start sects + 256 \<le> sum_list sects"

lemma tag_readable_fields:
  assumes "tag_readable t"
  shows "\<exists>w. simple_strtoul (tag_imageSequence t) 10 = Inr w" "\<exists>w. simple_strtoul (tag_rootfsLen t) 10 = Inr w"
    "\<exists>w. simple_strtoul (tag_kernelLen t) 10 = Inr w"
proof -
  have "\<exists>c \<in> set (drop n t). \<not> isdigit c" if "n \<le> 138" for n
    using assms that set_drop_subset_set_drop[of n 138 t] by (auto simp: tag_readable_def)
  thus "\<exists>w. simple_strtoul (tag_imageSequence t) 10 = Inr w" "\<exists>w. simple_strtoul (tag_rootfsLen t) 10 = Inr w"
    "\<exists>w. simple_strtoul (tag_kernelLen t) 10 = Inr w"
    by (simp_all add: simple_strtoul_10 tag_imageSequence_def tag_rootfsLen_def tag_kernelLen_def strtoul_reads)
qed

lemma getCrc32_ok: "n \<le> length bs \<Longrightarrow> \<exists>w. getCrc32 bs n c = Inr w"
  by (simp add: getCrc32_eq)

context mapped_flash begin

lemma getTag_ok:
  assumes "sys_ok dev inv k" "tags_fit sects" "i = 1 \<or> i = 2"
  shows "\<exists>d. getTagFromPartition i k
       = Inr (tag_at (content (flash_dev k)) (if i = 1 then tag1_start sects else tag2_start sects), k\<lparr>flash_dev := d\<rparr>)
     \<and> inv d \<and> content d = content (flash_dev k)"
proof -
  let ?o = "if i = 1 then 131072 else sum_list sects div 2"
  let ?b = "sector_of sects ?o" and ?s = "if i = 1 then tag1_start sects else tag2_start sects"
  have iv: "inv (flash_dev k)" "g_flash_info k = Some dev" using assms(1) by (simp_all add: sys_ok_def)
  have s: "?s = sector_start sects ?b" by (simp add: tag1_start_def tag2_start_def)
  have fit: "?o < sum_list sects" "0 < ?b" "?s + 256 \<le> sum_list sects" using assms(2) by (auto simp: tags_fit_def)
  have b: "?b < length sects" using sector_of_bounds[OF fit(1)] by simp
  have "flash_get_memptr (g_flash_info k) 0 (flash_dev k) = Inr base"
    using memptr[OF iv(1), of 0] sects_wf(1) iv(2) by (simp add: flash_get_memptr_def)
  moreover have "flash_get_blk (g_flash_info k) (base + of_nat ?o) (flash_dev k) = Inr (int ?b)"
    using get_blk[OF iv(1) fit(1)] iv(2) by (simp add: flash_get_blk_def)
  moreover have "flash_get_total_size (g_flash_info k) (flash_dev k) = int (sum_list sects)"
    using total_size[OF iv(1)] iv(2) by (simp add: flash_get_total_size_def)
  moreover obtain d where d: "flash_read_buf (g_flash_info k) (of_nat ?b) 0 256 (flash_dev k)
      = Inr (FLASH_API_OK, slice ?s 256 (content (flash_dev k)), d)" "inv d" "content d = content (flash_dev k)"
    using read_buf[OF iv(1) b, of 0 256] fit(3) iv(2) s by (auto simp: flash_read_buf_def)
  moreover have "length (slice ?s 256 (content (flash_dev k))) = 256" using fit(3) content_length[OF iv(1)] by simp
  moreover from this obtain w where "getCrc32 (slice ?s 256 (content (flash_dev k))) 236 CRC32_INIT_VALUE = Inr w"
    using getCrc32_ok[of 236 "slice ?s 256 (content (flash_dev k))"] by auto
  moreover have "(of_int (int (sum_list sects) div 2) :: u32) = of_nat (sum_list sects div 2)"
    by (metis of_int_of_nat_eq of_nat_numeral zdiv_int)
  ultimately show ?thesis using assms(3) fit(2)
    by (intro exI[of _ d]) (auto simp: getTagFromPartition_def tag_at_def tag_valid_def Let_def)
qed

end

section \<open>The steps of the upgrade\<close>

definition seq_in :: "FILE_TAG option \<Rightarrow> u32" where
  "seq_in t = (case t of None \<Rightarrow> 0 | Some t' \<Rightarrow> (case simple_strtoul (tag_imageSequence t') 10 of Inr w \<Rightarrow> w | Inl _ \<Rightarrow> 0))"

text \<open>The sequence number the next image gets.\<close>

definition next_seq :: "nat list \<Rightarrow> byte list \<Rightarrow> int" where
  "next_seq sects c =
     sint (max (seq_in (tag_at c (tag1_start sects))) (seq_in (tag_at c (tag2_start sects))) + 1)"

definition tags_readable :: "nat list \<Rightarrow> byte list \<Rightarrow> bool" where
  "tags_readable sects c \<longleftrightarrow>
     (\<forall>t. tag_at c (tag1_start sects) = Some t \<or> tag_at c (tag2_start sects) = Some t \<longrightarrow> tag_readable t)"

text \<open>The tag after number and CRC have been put in.\<close>

definition stamped :: "int \<Rightarrow> byte list \<Rightarrow> byte list" where
  "stamped q img =
     (let i1 = overlay 138 (sprintf_d q) img
      in overlay 236 (be32_bytes (case getCrc32 i1 236 CRC32_INIT_VALUE of Inr w \<Rightarrow> w | Inl _ \<Rightarrow> 0)) i1)"

lemma take_overlay: "\<lbrakk>n \<le> a; a \<le> length l\<rbrakk> \<Longrightarrow> take n (overlay a x l) = take n l"
  by (simp add: overlay_def min_def)

lemma slice_overlay_left: "\<lbrakk>m + n \<le> a; a \<le> length l\<rbrakk> \<Longrightarrow> take n (drop m (overlay a x l)) = take n (drop m l)"
  using take_overlay[of "m + n" a l x] by (simp add: take_drop add.commute)

lemma getCrc32_take:
  assumes "n \<le> length a" "n \<le> length b" "take n a = take n b"
  shows "getCrc32 a n c = getCrc32 b n c"
  using assms by (simp add: getCrc32_eq)

lemma stamped_ok:
  assumes "256 \<le> length img" "0 \<le> q" "q < 2 ^ 31"
  shows "length (stamped q img) = length img" "tag_valid (take 256 (stamped q img))"
    "simple_strtoul (tag_imageSequence (stamped q img)) 10 = Inr (of_int q)"
    "\<forall>i < length img. i < 138 \<or> 149 \<le> i \<and> i < 236 \<or> 240 \<le> i \<longrightarrow> stamped q img ! i = img ! i"
proof -
  let ?i1 = "overlay 138 (sprintf_d q) img"
  have l: "length (sprintf_d q) \<le> 11" using length_sprintf[OF assms(2,3)] .
  have l1: "length ?i1 = length img" using l assms(1) by simp
  obtain w where w: "getCrc32 ?i1 236 CRC32_INIT_VALUE = Inr w" using getCrc32_ok[of 236 ?i1] l1 assms(1) by auto
  have st: "stamped q img = overlay 236 (be32_bytes w) ?i1" by (simp add: stamped_def w)
  show len: "length (stamped q img) = length img" using st l1 assms(1) by simp
  have "take 236 (take 256 (stamped q img)) = take 236 ?i1" using l1 assms(1) take_overlay[of 236 236 ?i1] by (simp add: st min_def del: length_overlay)
  hence "getCrc32 (take 256 (stamped q img)) 236 CRC32_INIT_VALUE = Inr w"
    using getCrc32_take[of 236 "take 256 (stamped q img)" ?i1] w l1 len assms(1) by simp
  moreover have "slice 236 4 (take 256 (stamped q img)) = be32_bytes w"
    using l1 assms(1) by (simp add: st overlay_def slice_def)
  ultimately show "tag_valid (take 256 (stamped q img))" by (simp add: tag_valid_def)
  have "take 11 (drop 138 (stamped q img)) = take 11 (drop 138 ?i1)" unfolding st by (rule slice_overlay_left) (use l1 assms(1) in linarith)+
  hence "drop 138 (stamped q img) = sprintf_d q @ drop (length (sprintf_d q)) (drop 138 (stamped q img))"
  proof -
    have "take (length (sprintf_d q)) (drop 138 (stamped q img)) = take (length (sprintf_d q)) (take 11 (drop 138 (stamped q img)))"
      using l by (simp add: min_def)
    also have "\<dots> = take (length (sprintf_d q)) (take 11 (drop 138 ?i1))"
      using \<open>take 11 (drop 138 (stamped q img)) = take 11 (drop 138 ?i1)\<close> by simp
    also have "\<dots> = sprintf_d q" using l assms(1) by (simp add: overlay_def min_def)
    finally show ?thesis by (metis append_take_drop_id)
  qed
  thus "simple_strtoul (tag_imageSequence (stamped q img)) 10 = Inr (of_int q)"
    using sprintf_strtoul[OF assms(2)] by (metis tag_imageSequence_def)
  show "\<forall>i < length img. i < 138 \<or> 149 \<le> i \<and> i < 236 \<or> 240 \<le> i \<longrightarrow> stamped q img ! i = img ! i"
    using l assms(1) l1 by (auto simp: st nth_overlay)
qed

lemma bootline_scan_ok: "0 \<in> set (drop 2 bs) \<Longrightarrow> \<exists>r. bootline_scan bs i = Inr r"
  by (induction bs i rule: bootline_scan.induct) auto

lemma bootline_old_ok:
  "0 \<in> set (drop 2 bs) \<Longrightarrow> \<exists>r. bootline_old bs i = Inr r \<and> (\<forall>j. r = Some j \<longrightarrow> j + 2 < i + length bs)"
  by (induction bs i rule: bootline_old.induct) auto

context mapped_flash begin

lemma next_sequence_ok:
  assumes "sys_ok dev inv k" "tags_fit sects" "tags_readable sects (content (flash_dev k))"
  shows "\<exists>d. next_sequence k = Inr (next_seq sects (content (flash_dev k)), k\<lparr>flash_dev := d\<rparr>)
     \<and> inv d \<and> content d = content (flash_dev k)"
proof -
  let ?c = "content (flash_dev k)"
  let ?t1 = "tag_at ?c (tag1_start sects)" and ?t2 = "tag_at ?c (tag2_start sects)"
  obtain d1 where d1: "getTagFromPartition 1 k = Inr (?t1, k\<lparr>flash_dev := d1\<rparr>)" "inv d1" "content d1 = ?c"
    using getTag_ok[OF assms(1,2), of 1] by auto
  have s1: "sys_ok dev inv (k\<lparr>flash_dev := d1\<rparr>)" using assms(1) d1(2) by (rule sys_ok_dev)
  obtain d2 where d2: "getTagFromPartition 2 (k\<lparr>flash_dev := d1\<rparr>) = Inr (?t2, k\<lparr>flash_dev := d2\<rparr>)" "inv d2" "content d2 = ?c"
    using getTag_ok[OF s1 assms(2), of 2] d1(3) by auto
  have r: "\<exists>w. simple_strtoul (tag_imageSequence t) 10 = Inr w" if "?t1 = Some t \<or> ?t2 = Some t" for t
    using assms(3) that tag_readable_fields(1) by (auto simp: tags_readable_def)
  have e1: "(case ?t1 of None \<Rightarrow> Inr 0 | Some t \<Rightarrow> simple_strtoul (tag_imageSequence t) 10) = Inr (seq_in ?t1)"
    using r by (cases ?t1) (force simp: seq_in_def)+
  have e2: "(case ?t2 of None \<Rightarrow> Inr (seq_in ?t1)
       | Some t \<Rightarrow> bindR (simple_strtoul (tag_imageSequence t) 10) (\<lambda>w. Inr (if w > seq_in ?t1 then w else seq_in ?t1)))
     = Inr (max (seq_in ?t1) (seq_in ?t2))"
  proof (cases ?t2)
    case (Some t)
    then obtain w where "simple_strtoul (tag_imageSequence t) 10 = Inr w" using r by blast
    hence "seq_in ?t2 = w" using Some by (simp add: seq_in_def)
    thus ?thesis using Some \<open>simple_strtoul (tag_imageSequence t) 10 = Inr w\<close> by (auto simp: max_def)
  qed (simp add: seq_in_def max_def)
  show ?thesis using d1(1) d2 e1 e2 by (intro exI[of _ d2]) (simp add: next_sequence_def next_seq_def)
qed

lemma getBootImageTag_ok:
  assumes "sys_ok dev inv k" "tags_fit sects" "tags_readable sects (content (flash_dev k))"
    and "flash_nvram (fInfo k) = nvram_part" "0 \<in> set (drop 6 (slice 0x580 332 (content (flash_dev k))))"
    and "0x580 + 332 \<le> sum_list sects"
  shows "\<exists>t d. getBootImageTag hw k = Inr (t, k\<lparr>flash_dev := d\<rparr>) \<and> inv d \<and> content d = content (flash_dev k)
     \<and> (\<forall>t'. t = Some t' \<longrightarrow> tag_readable t')"
proof -
  let ?c = "content (flash_dev k)"
  let ?t1 = "tag_at ?c (tag1_start sects)" and ?t2 = "tag_at ?c (tag2_start sects)"
  obtain d1 where d1: "getTagFromPartition 1 k = Inr (?t1, k\<lparr>flash_dev := d1\<rparr>)" "inv d1" "content d1 = ?c"
    using getTag_ok[OF assms(1,2), of 1] by auto
  have s1: "sys_ok dev inv (k\<lparr>flash_dev := d1\<rparr>)" using assms(1) d1(2) by (rule sys_ok_dev)
  obtain d2 where d2: "getTagFromPartition 2 (k\<lparr>flash_dev := d1\<rparr>) = Inr (?t2, k\<lparr>flash_dev := d2\<rparr>)" "inv d2" "content d2 = ?c"
    using getTag_ok[OF s1 assms(2), of 2] d1(3) by auto
  have s2: "sys_ok dev inv (k\<lparr>flash_dev := d2\<rparr>)" using assms(1) d2(2) by (rule sys_ok_dev)
  have rd: "tag_readable t" if "?t1 = Some t \<or> ?t2 = Some t" for t using assms(3) that by (auto simp: tags_readable_def)
  have r: "\<exists>w. image_sequence (Some t) = Inr w" if "?t1 = Some t \<or> ?t2 = Some t" for t
    using tag_readable_fields(1)[OF rd[OF that]] by (auto simp: image_sequence_def)
  have "get_nvram_start_addr (k\<lparr>flash_dev := d2\<rparr>) = Inr (base + of_nat 0x580)"
    using s2 by (rule nvram_addr_ok) (simp add: assms(4))
  moreover have "hw_peek hw (base + of_nat 0x580) 332 d2 = (slice 0x580 332 ?c, d2)"
    using peek_hw[OF d2(2) assms(6)] d2(3) by simp
  moreover obtain b where "bootline_scan (drop 4 (slice 0x580 332 ?c)) 0 = Inr b"
    using bootline_scan_ok[of "drop 4 (slice 0x580 332 ?c)"] assms(5) by auto
  moreover have "\<exists>t i. (if ?t1 \<noteq> None \<and> ?t2 \<noteq> None then image_sequence ?t1 = Inr t \<and> image_sequence ?t2 = Inr i else True)"
    using r by fastforce
  ultimately have "\<exists>t i. boot_choice hw ?t1 ?t2 (k\<lparr>flash_dev := d2\<rparr>) = Inr (t, i, k\<lparr>flash_dev := d2\<rparr>) \<and> (t = ?t1 \<or> t = ?t2)"
    by (auto simp: boot_choice_def Let_def)
  thus ?thesis using d1(1) d2 rd by (auto simp: getBootImageTag_def)
qed

end

end
