(* ===== verification/Upgrade.thy ===== *)
theory Upgrade
  imports Image_Tag_Correct Board_Flash
begin

text \<open>
  The software upgrade. \<open>upgraded\<close> is the flash content the code promises: the numbered and sealed
  image, erased to the end of its last block, the boot line set to the latest image, and the upgrade
  flag of the variable partition; every other byte is as before.
\<close>

lemma overlay_commute:
  assumes "p + length xs \<le> length buf" "q + length ys \<le> length buf" "p + length xs \<le> q \<or> q + length ys \<le> p"
  shows "overlay p xs (overlay q ys buf) = overlay q ys (overlay p xs buf)"
  by (rule nth_equalityI) (use assms in \<open>auto simp: nth_overlay\<close>)

lemma overlay_prepend:
  assumes "p + length xs + length ys \<le> length buf"
  shows "overlay p xs (overlay (p + length xs) ys buf) = overlay p (xs @ ys) buf"
  using overlay_commute[of p xs buf "p + length xs" ys] overlay_append_adjacent[OF assms] assms by simp

definition padded_image :: "nat list \<Rightarrow> nat \<Rightarrow> nat \<Rightarrow> nat \<Rightarrow> byte list \<Rightarrow> byte list" where
  "padded_image sects a n m img = take m img @ replicate (span sects a n - m) 0xFF"

lemma length_padded_image: "m \<le> length img \<Longrightarrow> m \<le> span sects a n \<Longrightarrow> length (padded_image sects a n m img) = span sects a n"
  by (simp add: padded_image_def)

text \<open>The NVRAM after the boot line has been switched to the latest image.\<close>

definition boot_nvram :: "byte list \<Rightarrow> byte list" where
  "boot_nvram nv =
     (case bootline_old (drop 4 nv) 0 of
        Inr (Some i) \<Rightarrow> (case nvram_seal (nvram_of (nv[4 + i + 2 := BOOT_LATEST_IMAGE])) of Inr d \<Rightarrow> nvram_bytes d | Inl _ \<Rightarrow> nv)
      | _ \<Rightarrow> nv)"

lemma nvram_seal_ok:
  assumes "nvram_wf d"
  obtains d' where "nvram_seal d = Inr d'" "nvram_wf d'"
  using nvram_crc_ok[OF assms] assms that by (auto simp: nvram_seal_def nvram_wf_def)

lemma length_boot_nvram:
  assumes "length nv = 332" shows "length (boot_nvram nv) = 332"
proof -
  have "length (nvram_bytes d) = 332" if "nvram_seal (nvram_of (nv[i := v])) = Inr d" for i v d
    using nvram_seal_ok[OF nvram_of_wf, of "nv[i := v]"] that assms length_nvram_bytes by force
  thus ?thesis using assms by (simp add: boot_nvram_def split: sum.splits option.splits)
qed

context mapped_flash begin

lemma stamp_tag_ok:
  assumes "sys_ok dev inv k" "tags_fit sects" "tags_readable sects (content (flash_dev k))"
    and "256 \<le> length img" "0 \<le> next_seq sects (content (flash_dev k))"
  shows "\<exists>d. stamp_tag img k = Inr (stamped (next_seq sects (content (flash_dev k))) img, k\<lparr>flash_dev := d\<rparr>)
     \<and> inv d \<and> content d = content (flash_dev k)"
proof -
  let ?q = "next_seq sects (content (flash_dev k))"
  let ?i1 = "overlay 138 (sprintf_d ?q) img"
  have q: "?q < 2 ^ 31" unfolding next_seq_def using sint_lt[where ?'a = 32] by simp
  have l: "length (sprintf_d ?q) \<le> 11" using length_sprintf[OF assms(5) q] .
  have l1: "length ?i1 = length img" using l assms(4) by simp
  obtain w where w: "getCrc32 ?i1 236 CRC32_INIT_VALUE = Inr w" using getCrc32_ok[of 236 ?i1] l1 assms(4) by auto
  obtain d where d: "next_sequence k = Inr (?q, k\<lparr>flash_dev := d\<rparr>)" "inv d" "content d = content (flash_dev k)"
    using next_sequence_ok[OF assms(1-3)] by blast
  have "sprintf (map of_char ''%d'') [VInt (of_int ?q)] = Inr (sprintf_d ?q)" using assms(5) q by (intro sprintf_int) simp_all
  moreover have "mem_wr img 138 (sprintf_d ?q) = Inr ?i1" using l assms(4) by (simp add: mem_wr_def)
  moreover have "mem_wr ?i1 236 (be32_bytes w) = Inr (overlay 236 (be32_bytes w) ?i1)"
    using l1 assms(4) by (simp add: mem_wr_def del: length_overlay)
  ultimately show ?thesis using d w
    by (intro exI[of _ d]) (simp add: stamp_tag_def UpdateImageSequenceNumber_def stamped_def del: list.map)
qed

lemma write_image_ok:
  assumes "sys_ok dev inv k" "a \<noteq> 0" "a + Suc (Suc n) \<le> length sects"
    and "int (a + Suc (Suc n)) \<le> part_start_blk (flash_variable (fInfo k))"
    and "m = 256 + sz + sz mod 2" "m \<le> length img"
    and "span sects a (Suc n) < m" "m \<le> span sects a (Suc (Suc n))"
  shows "\<exists>d. write_image hw (base + of_nat (sector_start sects a) + 256) img (of_nat sz) k = Inr (0, k\<lparr>flash_dev := d\<rparr>) \<and> inv d
     \<and> content d = overlay (sector_start sects a) (padded_image sects a (Suc (Suc n)) m img) (content (flash_dev k))"
proof -
  let ?S = "sects ! a"
  have iv: "inv (flash_dev k)" "g_flash_info k = Some dev" using assms(1) by (simp_all add: sys_ok_def)
  have a: "a < length sects" and sa: "Suc a + Suc n \<le> length sects" using assms(3) by simp_all
  have S: "0 < ?S" "even ?S" using sects_wf(2)[OF nth_mem[OF a]] by simp_all
  have sp: "span sects a (Suc n) = ?S + span sects (Suc a) n" "span sects a (Suc (Suc n)) = ?S + span sects (Suc a) (Suc n)"
    using span_Suc[OF a] by simp_all
  have lt: "m < 2 ^ 31" using assms(8) span_end_le[of a sects "Suc (Suc n)"] sects_wf(4) by simp
  let ?z = "256 + sz - ?S"
  have zpos: "?S < 256 + sz"
  proof (rule ccontr)
    assume "\<not> ?S < 256 + sz"
    hence "256 + sz + sz mod 2 \<le> ?S" using S(2) by presburger
    thus False using assms(5,7) sp(1) by simp
  qed
  have zm: "?z + ?z mod 2 = m - ?S"
  proof -
    have "even ?z \<longleftrightarrow> even sz" using zpos S(2) by (simp add: even_diff_nat)
    hence "?z mod 2 = sz mod 2" by (simp only: mod2_eq_if)
    thus ?thesis using assms(5) zpos by simp
  qed
  have blk: "flash_get_blk (g_flash_info k) (base + of_nat (sector_start sects a)) (flash_dev k) = Inr (int a)"
    using blk_of_start[OF assms(1) a] .
  have ss: "sector_size_k (int a) k = Inr (int ?S)" using sector_size[OF iv(1) a] iv(2) by (simp add: sector_size_k_def flash_get_sector_size_def)
  have n1: "sector_start sects (Suc a) = sector_start sects a + ?S" using sector_start_Suc[OF a] .
  have "sint (of_nat ?z :: u32) = int ?z" using lt zm by (simp add: signed_of_nat signed_take_bit_int_eq_self del: of_nat_diff)
  moreover have "(256 + of_nat sz - of_int (int ?S) :: u32) = of_nat ?z" using zpos by (simp add: of_nat_diff)
  ultimately have size: "sint (256 + of_nat sz - of_int (int ?S) :: u32) = int ?z" by simp
  obtain d1 where d1: "kerSysBcmImageSet hw (base + of_nat (sector_start sects (Suc a))) (drop ?S img) (int ?z) k = Inr (0, k\<lparr>flash_dev := d1\<rparr>)"
    "inv d1" "content d1 = overlay (sector_start sects (Suc a)) (take (m - ?S) (drop ?S img) @ replicate (span sects (Suc a) (Suc n) - (m - ?S)) 0xFF)
       (content (flash_dev k))"
  proof -
    have "int (Suc a + Suc n) \<le> part_start_blk (flash_variable (fInfo k))" "0 < ?z" "m - ?S = ?z + ?z mod 2"
      "m - ?S \<le> length (drop ?S img)" "span sects (Suc a) n < m - ?S" "m - ?S \<le> span sects (Suc a) (Suc n)"
      "Suc a \<noteq> 0 \<or> ?z \<le> 131072"
      using assms(4,6-8) zpos zm sp by simp_all
    from image_set_ok[OF assms(1) sa this] show ?thesis using that by blast
  qed
  have s1: "sys_ok dev inv (k\<lparr>flash_dev := d1\<rparr>)" using assms(1) d1(2) by (rule sys_ok_dev)
  obtain d2 where d2: "kerSysBcmImageSet hw (base + of_nat (sector_start sects a)) img (int ?S) (k\<lparr>flash_dev := d1\<rparr>) = Inr (0, k\<lparr>flash_dev := d2\<rparr>)"
    "inv d2" "content d2 = overlay (sector_start sects a) (take ?S img) (content d1)"
    using image_set_ok[OF s1, of a 0 ?S ?S img] assms(2,3,4,6,7) S sp span_Suc[OF a, of 0] a by (auto simp: mod2_eq_if)
  have "content d2 = overlay (sector_start sects a) (padded_image sects a (Suc (Suc n)) m img) (content (flash_dev k))"
  proof -
    have l: "length (take ?S img) = ?S" "length (content (flash_dev k)) = sum_list sects"
      using assms(6,7) sp(1) content_length[OF iv(1)] by simp_all
    let ?rest = "take (m - ?S) (drop ?S img) @ replicate (span sects a (Suc (Suc n)) - m) 0xFF"
    have t: "take m img = take ?S img @ take (m - ?S) (drop ?S img)"
      using assms(7) sp(1) by (metis le_add_diff_inverse le_add1 less_imp_le_nat order.trans take_add)
    have e: "span sects (Suc a) (Suc n) - (m - ?S) = span sects a (Suc (Suc n)) - m" using sp assms(7) by simp
    have "length ?rest = span sects (Suc a) (Suc n)" using assms(6-8) sp by simp
    hence "sector_start sects a + length (take ?S img) + length ?rest \<le> length (content (flash_dev k))"
      using span_end_le[of a sects "Suc (Suc n)"] l sp(2) by linarith
    from overlay_prepend[OF this] show ?thesis unfolding d2(3) d1(3) n1 e padded_image_def l(1) t by simp
  qed
  thus ?thesis using blk ss size d1(1) d2(1,2) n1
    by (intro exI[of _ d2]) (simp add: write_image_def add.assoc)
qed

lemma boot_latest_ok:
  assumes "board_ok dev inv sects k" "flash_nvram (fInfo k) = nvram_part" "length nv = 332" "0 \<in> set (drop 6 nv)"
    and "slice 0x580 332 (content (flash_dev k)) = nv"
  obtains k' where "boot_latest nv k = Inr k'" "board_ok dev inv sects k'" "fInfo k' = fInfo k"
    "content (flash_dev k') = overlay 0x580 (boot_nvram nv) (content (flash_dev k))"
proof -
  have p: "nvram_part \<in> set (all_parts (fInfo k))" using assms(2) by (simp add: all_parts_def)
  have pw: "part_wf sects nvram_part" using all_parts_wf[OF board_okD(2)[OF assms(1)] p] by simp
  have base: "part_base sects nvram_part = 0x580" by (simp add: part_base_def nvram_part_def)
  obtain r where r: "bootline_old (drop 4 nv) 0 = Inr r" using bootline_old_ok[of "drop 4 nv" 0] assms(4) by auto
  show ?thesis
  proof (cases r)
    case None
    have "0x580 + 332 \<le> length (content (flash_dev k))"
      using part_end_le[OF pw] board_content[OF assms(1)] base by (simp add: nvram_part_def)
    hence "content (flash_dev k) = overlay 0x580 (boot_nvram nv) (content (flash_dev k))"
      using None r assms(5) overlay_slice[of "0x580" 332 "content (flash_dev k)"] by (simp add: boot_nvram_def)
    thus ?thesis using that[of k] None r assms(1) by (simp add: boot_latest_def)
  next
    case (Some i)
    obtain d' where d': "nvram_seal (nvram_of (nv[4 + i + 2 := BOOT_LATEST_IMAGE])) = Inr d'" "nvram_wf d'"
      using nvram_seal_ok[OF nvram_of_wf] assms(3) by (metis length_list_update)
    have b: "boot_nvram nv = nvram_bytes d'" using Some r d'(1) by (simp add: boot_nvram_def)
    have l: "length (nvram_bytes d') = 332" by (rule length_nvram_bytes[OF d'(2)])
    obtain d c where d: "part_write nvram_part (int 0) (int 332) (nvram_bytes d') k = Inr (0, k\<lparr>flash_dev := d, kmalloc_calls := c\<rparr>)"
      "board_ok dev inv sects (k\<lparr>flash_dev := d, kmalloc_calls := c\<rparr>)"
      "content d = overlay (part_base sects nvram_part + 0) (take 332 (nvram_bytes d')) (content (flash_dev k))"
      by (rule part_set_ok[OF assms(1) p, of 0 332 "nvram_bytes d'"]) (simp_all add: l nvram_part_def)
    show ?thesis by (rule that[of "k\<lparr>flash_dev := d, kmalloc_calls := c\<rparr>"]) (use d Some r d'(1) l base assms(2) b in \<open>simp_all
        add: boot_latest_def kerSysNvRamSet_def\<close>)
  qed
qed

lemma flag_ok:
  assumes "board_ok dev inv sects k" "264 \<le> part_length (flash_variable (fInfo k))"
  obtains k' where "kerSysVariableSet (upgrade_flag f) 8 256 k = Inr (0, k')"
    "board_ok dev inv sects k'" "fInfo k' = fInfo k"
    "content (flash_dev k') = overlay (part_base sects (flash_variable (fInfo k)) + 256) (upgrade_flag f) (content (flash_dev k))"
proof -
  have p: "flash_variable (fInfo k) \<in> set (all_parts (fInfo k))" by (simp add: all_parts_def)
  obtain d c where d: "part_write (flash_variable (fInfo k)) (int 256) (int 8) (upgrade_flag f) k = Inr (0, k\<lparr>flash_dev := d, kmalloc_calls := c\<rparr>)"
      "board_ok dev inv sects (k\<lparr>flash_dev := d, kmalloc_calls := c\<rparr>)"
      "content d = overlay (part_base sects (flash_variable (fInfo k)) + 256) (take 8 (upgrade_flag f)) (content (flash_dev k))"
    by (rule part_set_ok[OF assms(1) p, of 256 8 "upgrade_flag f"]) (use assms(2) in \<open>simp_all add: upgrade_flag_def\<close>)
  show ?thesis by (rule that[of "k\<lparr>flash_dev := d, kmalloc_calls := c\<rparr>"])
    (use d assms(2) in \<open>simp_all add: kerSysVariableSet_def upgrade_flag_def\<close>)
qed

end

section \<open>The whole upgrade\<close>

definition upgrade_ready :: "'s flash_device_info \<Rightarrow> ('s \<Rightarrow> bool) \<Rightarrow> nat list \<Rightarrow> byte list \<Rightarrow> 's kersys \<Rightarrow> bool" where
  "upgrade_ready dev I sects c k \<longleftrightarrow>
     board_ok dev I sects k \<and> flash_nvram (fInfo k) = nvram_part \<and> 264 \<le> part_length (flash_variable (fInfo k))
     \<and> tags_fit sects \<and> tags_readable sects c
     \<and> tag1_start sects + 256 \<le> part_base sects (flash_variable (fInfo k))
     \<and> tag2_start sects + 256 \<le> part_base sects (flash_variable (fInfo k))
     \<and> 0 \<in> set (take 254 (drop 6 (slice 0x580 332 c)))"

text \<open>The image of \<open>sz\<close> bytes behind its tag goes to \<open>n\<close> blocks from block \<open>a\<close> on, above the
  boot block and below the variable partition.\<close>

definition image_fits :: "nat list \<Rightarrow> flash_addr_info \<Rightarrow> nat \<Rightarrow> nat \<Rightarrow> nat \<Rightarrow> bool" where
  "image_fits sects info a n sz \<longleftrightarrow>
     0 < a \<and> 2 \<le> n \<and> int (a + n) \<le> part_start_blk (flash_variable info)
     \<and> span sects a (n - 1) < 256 + sz + sz mod 2 \<and> 256 + sz + sz mod 2 \<le> span sects a n
     \<and> sector_start sects a + 256 + sz + 65536 \<le> sum_list sects"

definition image_names :: "byte list \<Rightarrow> nat \<Rightarrow> nat \<Rightarrow> bool" where
  "image_names img off sz \<longleftrightarrow>
     simple_strtoul (tag_rootfsAddress img) 10 = Inr (0xBFC00000 + of_nat off + 256)
     \<and> (\<exists>ka. simple_strtoul (tag_kernelAddress img) 10 = Inr ka)
     \<and> (\<exists>rl kl. simple_strtoul (tag_rootfsLen img) 10 = Inr rl \<and> simple_strtoul (tag_kernelLen img) 10 = Inr kl
              \<and> unat (rl + kl) = sz)"

definition upgraded :: "nat list \<Rightarrow> flash_addr_info \<Rightarrow> nat \<Rightarrow> nat \<Rightarrow> nat \<Rightarrow> byte list \<Rightarrow> byte list \<Rightarrow> byte list" where
  "upgraded sects info a n sz img c =
     overlay (part_base sects (flash_variable info) + 256) (upgrade_flag 49)
       (overlay 0x580 (boot_nvram (slice 0x580 332 c))
         (overlay (sector_start sects a) (padded_image sects a n (256 + sz + sz mod 2) img) c))"

lemma tag_at_overlay:
  assumes "p + length xs \<le> length c" "off + 256 \<le> length c" "off + 256 \<le> p \<or> p + length xs \<le> off"
  shows "tag_at (overlay p xs c) off = tag_at c off"
  unfolding tag_at_def using slice_overlay_disjoint[OF assms] by simp

lemma overlay_redo:
  assumes "p + length xs \<le> length c" "length ys = length xs" "q + length zs \<le> length c" "r + length ws \<le> length c"
    and "p + length xs \<le> q \<or> q + length zs \<le> p" "p + length xs \<le> r \<or> r + length ws \<le> p"
  shows "overlay p ys (overlay q zs (overlay r ws (overlay p xs c))) = overlay p ys (overlay q zs (overlay r ws c))"
proof -
  have "overlay q zs (overlay r ws (overlay p xs c)) = overlay p xs (overlay q zs (overlay r ws c))"
    using overlay_commute[of r ws c p xs] overlay_commute[of q zs "overlay r ws c" p xs] assms by auto
  thus ?thesis using overlay_overlay_same[of p xs "overlay q zs (overlay r ws c)" ys] assms by simp
qed

lemma image_room:
  assumes "finfo_wf sects info" "flash_nvram info = nvram_part" "image_fits sects info a n sz" "sects \<noteq> []"
  shows "sector_start sects a + span sects a n \<le> part_base sects (flash_variable info)" "0x580 + 1024 \<le> sector_start sects a"
    "a + n \<le> length sects" "part_base sects (flash_variable info) + nat (part_length (flash_variable info)) \<le> sum_list sects"
    "0 \<le> part_length (flash_variable info)"
proof -
  have v: "part_wf sects (flash_variable info)" "part_wf sects nvram_part"
    using all_parts_wf[OF assms(1)] assms(2) by (simp_all add: all_parts_def)
  let ?b = "nat (part_start_blk (flash_variable info))"
  have "a + n \<le> ?b" using assms(3) by (auto simp: image_fits_def)
  hence "sector_start sects (a + n) \<le> sector_start sects ?b" by (rule sector_start_mono)
  thus "sector_start sects a + span sects a n \<le> part_base sects (flash_variable info)"
    by (simp add: part_base_def sector_start_span)
  have "0x580 + 1024 \<le> sector_start sects 1" using v(2) by (simp add: part_wf_def nvram_part_def)
  also have "\<dots> \<le> sector_start sects a" using assms(3) by (intro sector_start_mono) (simp add: image_fits_def)
  finally show "0x580 + 1024 \<le> sector_start sects a" .
  show "a + n \<le> length sects" using \<open>a + n \<le> ?b\<close> v(1) by (auto simp: part_wf_def)
  show "part_base sects (flash_variable info) + nat (part_length (flash_variable info)) \<le> sum_list sects"
    using part_end_le[OF v(1)] .
  show "0 \<le> part_length (flash_variable info)" using v(1) by (simp add: part_wf_def)
qed

context mapped_flash begin

lemma upgrade_prefix_ok:
  assumes "upgrade_ready dev inv sects (content (flash_dev k)) k"
  shows "\<exists>t d w. getBootImageTag hw k = Inr (t, k\<lparr>flash_dev := d\<rparr>) \<and> inv d \<and> content d = content (flash_dev k)
     \<and> get_nvram_start_addr (k\<lparr>flash_dev := d\<rparr>) = Inr (base + of_nat 0x580)
     \<and> hw_peek hw (base + of_nat 0x580) sizeof_NVRAM_DATA d = (slice 0x580 332 (content (flash_dev k)), d)
     \<and> (case t of None \<Rightarrow> Inr 0
            | Some t \<Rightarrow>
                bindR (simple_strtoul (tag_rootfsLen t) 10) (\<lambda>a.
                bindR (simple_strtoul (tag_kernelLen t) 10) (\<lambda>b. Inr (a + b)))) = Inr w"
proof -
  have r: "board_ok dev inv sects k" "flash_nvram (fInfo k) = nvram_part" "tags_fit sects" "tags_readable sects (content (flash_dev k))"
    "0 \<in> set (drop 6 (slice 0x580 332 (content (flash_dev k))))"
    using assms by (auto simp: upgrade_ready_def dest: in_set_takeD)
  note b = board_okD[OF r(1)]
  have "part_wf sects nvram_part" using all_parts_wf[OF b(2), of nvram_part] r(2) by (simp add: all_parts_def)
  hence room: "0x580 + 332 \<le> sum_list sects" using part_end_le[of sects nvram_part] by (simp add: part_base_def nvram_part_def)
  obtain t d where d: "getBootImageTag hw k = Inr (t, k\<lparr>flash_dev := d\<rparr>)" "inv d" "content d = content (flash_dev k)"
    "\<And>t'. t = Some t' \<Longrightarrow> tag_readable t'"
    using getBootImageTag_ok[OF b(1) r(3,4,2,5) room] by blast
  have s: "sys_ok dev inv (k\<lparr>flash_dev := d\<rparr>)" using b(1) d(2) by (rule sys_ok_dev)
  have "get_nvram_start_addr (k\<lparr>flash_dev := d\<rparr>) = Inr (base + of_nat 0x580)"
    using s by (rule nvram_addr_ok) (simp add: r(2))
  moreover have "hw_peek hw (base + of_nat 0x580) sizeof_NVRAM_DATA d = (slice 0x580 332 (content (flash_dev k)), d)"
    using peek_hw[OF d(2) room] d(3) by simp
  moreover have "\<exists>w. (case t of None \<Rightarrow> Inr 0
            | Some t \<Rightarrow>
                bindR (simple_strtoul (tag_rootfsLen t) 10) (\<lambda>a.
                bindR (simple_strtoul (tag_kernelLen t) 10) (\<lambda>b. Inr (a + b)))) = Inr w"
    using tag_readable_fields(2,3) d(4) by (cases t) fastforce+
  ultimately show ?thesis using d(1-3) by blast
qed

lemma available_size:
  assumes "inv (flash_dev k)" "g_flash_info k = Some dev"
    and "off + 256 + 65536 \<le> sum_list sects"
  shows "of_int (flash_get_total_size (g_flash_info k) (flash_dev k))
       - (0xBFC00000 + of_nat off + 256 + BOOT_OFFSET hw (flash_dev k) - base) - 65536
     = (of_nat (sum_list sects - off - 256 - 65536) :: u32)"
  using assms base_hw[OF assms(1)] total_size[OF assms(1)]
  by (simp add: BOOT_OFFSET_def flash_get_total_size_def of_nat_diff algebra_simps)

text \<open>The room for one image is an unsigned difference, which wraps for an image that starts near the end of the flash.\<close>

lemma available_room:
  assumes "inv (flash_dev k)" "g_flash_info k = Some dev"
  shows "of_int (flash_get_total_size (g_flash_info k) (flash_dev k))
       - (0xBFC00000 + of_nat off + 256 + BOOT_OFFSET hw (flash_dev k) - base) - 65536
     = (of_int (int (sum_list sects) - int (off + 256 + 65536)) :: u32)"
  using assms base_hw[OF assms(1)] total_size[OF assms(1)]
  by (simp add: BOOT_OFFSET_def flash_get_total_size_def algebra_simps)

lemma upgrade_start_ok:
  assumes "upgrade_ready dev inv sects (content (flash_dev k)) k" "image_fits sects (fInfo k) a n sz"
    and "0 < next_seq sects (content (flash_dev k))" "256 + sz + sz mod 2 \<le> length img"
  shows "\<exists>k3 d4 d5.
      (let c = content (flash_dev k); img' = stamped (next_seq sects c) img
       in fInfo k3 = fInfo k \<and> kerSysVariableSet (upgrade_flag 51) 8 256 k = Inr (0, k3)
        \<and> stamp_tag img k3 = Inr (img', k3\<lparr>flash_dev := d4\<rparr>)
        \<and> write_image hw (base + of_nat (sector_start sects a) + 256) img' (of_nat sz) (k3\<lparr>flash_dev := d4\<rparr>)
            = Inr (0, k3\<lparr>flash_dev := d5\<rparr>)
        \<and> board_ok dev inv sects (k3\<lparr>flash_dev := d5\<rparr>)
        \<and> content d5 = overlay (sector_start sects a) (padded_image sects a n (256 + sz + sz mod 2) img')
             (overlay (part_base sects (flash_variable (fInfo k)) + 256) (upgrade_flag 51) c))"
proof -
  let ?c = "content (flash_dev k)" and ?v = "part_base sects (flash_variable (fInfo k))"
  let ?q = "next_seq sects ?c" and ?m = "256 + sz + sz mod 2"
  let ?img = "stamped ?q img"
  have r: "board_ok dev inv sects k" "flash_nvram (fInfo k) = nvram_part" "264 \<le> part_length (flash_variable (fInfo k))"
    "tags_fit sects" "tags_readable sects ?c" "tag1_start sects + 256 \<le> ?v" "tag2_start sects + 256 \<le> ?v"
    using assms(1) by (auto simp: upgrade_ready_def)
  note room = image_room[OF board_okD(2)[OF r(1)] r(2) assms(2) sects_wf(1)]
  have len: "length ?c = sum_list sects" using board_content[OF r(1)] .
  have q: "?q < 2 ^ 31" unfolding next_seq_def using sint_lt[where ?'a = 32] by simp
  obtain k3 where k3: "kerSysVariableSet (upgrade_flag 51) 8 256 k = Inr (0, k3)"
    "board_ok dev inv sects k3" "content (flash_dev k3) = overlay (?v + 256) (upgrade_flag 51) ?c" "fInfo k3 = fInfo k"
    by (rule flag_ok[OF r(1,3)])
  have same: "tag_at (content (flash_dev k3)) (tag1_start sects) = tag_at ?c (tag1_start sects)"
    "tag_at (content (flash_dev k3)) (tag2_start sects) = tag_at ?c (tag2_start sects)"
    unfolding k3(3) using r(3,4,6,7) room(4) len by (intro tag_at_overlay; simp add: upgrade_flag_def tags_fit_def)+
  have "tags_readable sects (content (flash_dev k3))" "next_seq sects (content (flash_dev k3)) = ?q"
    using r(5) same by (simp_all add: tags_readable_def next_seq_def)
  then obtain d4 where k4: "stamp_tag img k3 = Inr (?img, k3\<lparr>flash_dev := d4\<rparr>)"
    "inv d4" "content d4 = content (flash_dev k3)"
    using stamp_tag_ok[OF board_okD(1)[OF k3(2)] r(4), of img] assms(3,4) by auto
  have b4: "board_ok dev inv sects (k3\<lparr>flash_dev := d4\<rparr>)"
    using board_ok_dev[OF k3(2) k4(2)] by simp
  obtain n' where n': "n = Suc (Suc n')" using assms(2) by (auto simp: image_fits_def numeral_2_eq_2 dest!: le_Suc_ex)
  have "a \<noteq> 0" "a + Suc (Suc n') \<le> length sects" 
    "int (a + Suc (Suc n')) \<le> part_start_blk (flash_variable (fInfo (k3\<lparr>flash_dev := d4\<rparr>)))"
    "?m = 256 + sz + sz mod 2" "?m \<le> length ?img" "span sects a (Suc n') < ?m" "?m \<le> span sects a (Suc (Suc n'))"
    using assms(2,3,4) room(3) n' stamped_ok(1)[of img ?q] q k3(4) by (auto simp: image_fits_def)
  from write_image_ok[OF board_okD(1)[OF b4] this] obtain d5
    where "write_image hw (base + of_nat (sector_start sects a) + 256) ?img (of_nat sz) (k3\<lparr>flash_dev := d4\<rparr>)
        = Inr (0, k3\<lparr>flash_dev := d5\<rparr>)" "inv d5"
      "content d5 = overlay (sector_start sects a) (padded_image sects a n ?m ?img) (content d4)"
    using n' by auto
  moreover from this(2) have "board_ok dev inv sects (k3\<lparr>flash_dev := d5\<rparr>)"
    using board_ok_dev[OF b4] by simp
  ultimately show ?thesis using k3(1,3,4) k4(1,3) by (auto simp: Let_def)
qed

lemma upgrade_ready_dev:
  assumes "upgrade_ready dev inv sects (content (flash_dev k)) k" "inv d" "content d = content (flash_dev k)"
  shows "upgrade_ready dev inv sects (content (flash_dev (k\<lparr>flash_dev := d\<rparr>))) (k\<lparr>flash_dev := d\<rparr>)"
  using assms board_ok_dev by (auto simp: upgrade_ready_def)

lemma upgrade_end_ok:
  assumes "upgrade_ready dev inv sects c k" "length c = sum_list sects" "image_fits sects (fInfo k) a n sz"
    and "256 + sz + sz mod 2 \<le> length img" "board_ok dev inv sects k5" "fInfo k5 = fInfo k"
    and "content (flash_dev k5) = overlay (sector_start sects a) (padded_image sects a n (256 + sz + sz mod 2) img)
             (overlay (part_base sects (flash_variable (fInfo k)) + 256) (upgrade_flag 51) c)"
  shows "\<exists>k6 k7. boot_latest (slice 0x580 332 c) k5 = Inr k6 \<and> kerSysVariableSet (upgrade_flag 49) 8 256 k6 = Inr (0, k7)
     \<and> board_ok dev inv sects k7 \<and> fInfo k7 = fInfo k \<and> content (flash_dev k7) = upgraded sects (fInfo k) a n sz img c"
proof -
  let ?v = "part_base sects (flash_variable (fInfo k))" and ?nv = "slice 0x580 332 c" and ?m = "256 + sz + sz mod 2"
  let ?pi = "padded_image sects a n ?m img"
  have r: "board_ok dev inv sects k" "flash_nvram (fInfo k) = nvram_part" "264 \<le> part_length (flash_variable (fInfo k))"
    "0 \<in> set (drop 6 ?nv)"
    using assms(1) by (auto simp: upgrade_ready_def dest: in_set_takeD)
  note room = image_room[OF board_okD(2)[OF r(1)] r(2) assms(3) sects_wf(1)]
  have lp: "length ?pi = span sects a n" using assms(3,4) by (intro length_padded_image) (auto simp: image_fits_def)
  have fl: "length (upgrade_flag f) = 8" for f by (simp add: upgrade_flag_def)
  have v: "?v + 256 + 8 \<le> sum_list sects" using room(4) r(3) by linarith
  have lnv: "length ?nv = 332" "length (boot_nvram ?nv) = 332" using assms(2) v room(1,2) by (auto intro!: length_boot_nvram)
  have nv5: "slice 0x580 332 (content (flash_dev k5)) = ?nv"
    unfolding assms(7) using assms(2) v room lp fl by (simp add: slice_overlay_disjoint)
  obtain k6 where k6: "boot_latest ?nv k5 = Inr k6" "board_ok dev inv sects k6" "fInfo k6 = fInfo k5"
    "content (flash_dev k6) = overlay 0x580 (boot_nvram ?nv) (content (flash_dev k5))"
    using boot_latest_ok[OF assms(5) _ lnv(1) r(4) nv5] r(2) assms(6) by metis
  obtain k7 where k7: "kerSysVariableSet (upgrade_flag 49) 8 256 k6 = Inr (0, k7)" "board_ok dev inv sects k7" "fInfo k7 = fInfo k6"
    "content (flash_dev k7) = overlay (?v + 256) (upgrade_flag 49) (content (flash_dev k6))"
    using flag_ok[OF k6(2), of 49] r(3) k6(3) assms(6) by metis
  have "content (flash_dev k7) = upgraded sects (fInfo k) a n sz img c"
    unfolding upgraded_def k7(4) k6(4) assms(7) using assms(2) v room lp fl lnv(2) by (intro overlay_redo) simp_all
  thus ?thesis using k6(1,3) k7(1-3) assms(6) by auto
qed

lemma upgrade_ok:
  assumes "upgrade_ready dev inv sects (content (flash_dev k)) k" "image_fits sects (fInfo k) a n sz"
    and "image_names img (sector_start sects a) sz" "256 + sz + sz mod 2 \<le> length img"
    and "0 < next_seq sects (content (flash_dev k))"
  shows "\<exists>k'. flashFsKernelImage hw img k = Inr (0, stamped (next_seq sects (content (flash_dev k))) img, k')
     \<and> board_ok dev inv sects k' \<and> fInfo k' = fInfo k
     \<and> content (flash_dev k')
         = upgraded sects (fInfo k) a n sz (stamped (next_seq sects (content (flash_dev k))) img) (content (flash_dev k))"
proof -
  let ?c = "content (flash_dev k)" and ?q = "next_seq sects (content (flash_dev k))"
  let ?img = "stamped ?q img" and ?cur = "\<lambda>t. case t of None \<Rightarrow> Inr 0
            | Some t \<Rightarrow>
                bindR (simple_strtoul (tag_rootfsLen t) 10) (\<lambda>a.
                bindR (simple_strtoul (tag_kernelLen t) 10) (\<lambda>b. Inr (a + b)))"
  have iv: "inv (flash_dev k)" "g_flash_info k = Some dev"
    using assms(1) by (simp_all add: upgrade_ready_def board_ok_def sys_ok_def)
  obtain ka rl kl where f: "simple_strtoul (tag_rootfsAddress img) 10 = Inr (0xBFC00000 + of_nat (sector_start sects a) + 256)"
    "simple_strtoul (tag_kernelAddress img) 10 = Inr ka" "simple_strtoul (tag_rootfsLen img) 10 = Inr rl"
    "simple_strtoul (tag_kernelLen img) 10 = Inr kl" "unat (rl + kl) = sz"
    using assms(3) by (auto simp: image_names_def)
  have sz: "rl + kl = of_nat sz" using f(5) by auto
  have mp: "flash_get_memptr (g_flash_info k) 0 (flash_dev k) = Inr base"
    using memptr[OF iv(1), of 0] sects_wf(1) iv(2) by (simp add: flash_get_memptr_def)
  obtain t d w where pre: "getBootImageTag hw k = Inr (t, k\<lparr>flash_dev := d\<rparr>)" "inv d" "content d = ?c"
    "get_nvram_start_addr (k\<lparr>flash_dev := d\<rparr>) = Inr (base + of_nat 0x580)"
    "hw_peek hw (base + of_nat 0x580) sizeof_NVRAM_DATA d = (slice 0x580 332 ?c, d)" "?cur t = Inr w"
    using upgrade_prefix_ok[OF assms(1)] by blast
  let ?k2 = "k\<lparr>flash_dev := d\<rparr>"
  have up: "upgrade_ready dev inv sects ?c ?k2" using upgrade_ready_dev[OF assms(1) pre(2,3)] pre(3) by simp
  have addr: "0xBFC00000 + of_nat (sector_start sects a) + 256 + BOOT_OFFSET hw (flash_dev k) = base + of_nat (sector_start sects a) + 256"
    using base_hw[OF iv(1)] by (simp add: BOOT_OFFSET_def)
  have fit: "sector_start sects a + 256 + sz + 65536 \<le> sum_list sects" using assms(2) by (simp add: image_fits_def)
  have lt: "sum_list sects < 2 ^ 32" using sects_wf(4) by simp
  have small: "\<not> of_nat sz > (of_nat (sum_list sects - sector_start sects a - 256 - 65536) :: u32)"
    using fit lt by (simp add: word_less_nat_alt unsigned_of_nat take_bit_nat_eq_self del: of_nat_diff)
  have "sector_start sects a + 256 + 65536 \<le> sum_list sects" using fit by linarith
  note av = available_size[OF iv this, unfolded addr]
  have big: "\<not> of_nat sz > of_int (flash_get_total_size (g_flash_info k) (flash_dev k))
      - (base + of_nat (sector_start sects a) + 256 - base) - (65536 :: u32)"
    unfolding av by (rule small)
  obtain k3 d4 d5 where st: "fInfo k3 = fInfo k" "kerSysVariableSet (upgrade_flag 51) 8 256 ?k2 = Inr (0, k3)"
    "stamp_tag img k3 = Inr (?img, k3\<lparr>flash_dev := d4\<rparr>)"
    "write_image hw (base + of_nat (sector_start sects a) + 256) ?img (of_nat sz) (k3\<lparr>flash_dev := d4\<rparr>) = Inr (0, k3\<lparr>flash_dev := d5\<rparr>)"
    "board_ok dev inv sects (k3\<lparr>flash_dev := d5\<rparr>)"
    "content d5 = overlay (sector_start sects a) (padded_image sects a n (256 + sz + sz mod 2) ?img)
             (overlay (part_base sects (flash_variable (fInfo k)) + 256) (upgrade_flag 51) ?c)"
    using upgrade_start_ok[of ?k2 a n sz img] up assms(2,4,5) pre(3) by (auto simp: Let_def)
  have li: "length ?img = length img"
    using assms(4,5) sint_lt[where ?'a = 32] by (intro stamped_ok(1)) (simp_all add: next_seq_def)
  obtain k6 k7 where "boot_latest (slice 0x580 332 ?c) (k3\<lparr>flash_dev := d5\<rparr>) = Inr k6" "kerSysVariableSet (upgrade_flag 49) 8 256 k6 = Inr (0, k7)"
    "board_ok dev inv sects k7" "fInfo k7 = fInfo k" "content (flash_dev k7) = upgraded sects (fInfo k) a n sz ?img ?c"
    using upgrade_end_ok[OF assms(1) content_length[OF iv(1)] assms(2), of ?img "k3\<lparr>flash_dev := d5\<rparr>"] assms(4) li st(1,5,6) by auto
  moreover obtain ra A where "ra = 0xBFC00000 + of_nat (sector_start sects a) + (256 :: u32)"
      "A = base + of_nat (sector_start sects a) + 256" by blast
  note e = this[symmetric]
  ultimately show ?thesis using f(2-4) mp pre(1,4,5,6) sz st(2,3) f(1)[unfolded e] addr[unfolded e] big[unfolded e] st(4)[unfolded e]
    by (intro exI[of _ k7]) (simp add: flashFsKernelImage_def Let_def)
qed

lemma upgrade_reject:
  assumes "upgrade_ready dev inv sects (content (flash_dev k)) k" "image_names img off sz"
    and "(int (sum_list sects) - int (off + 256 + 65536)) mod 2 ^ 32 < int sz"
  shows "\<exists>d. flashFsKernelImage hw img k = Inr (-1, img, k\<lparr>flash_dev := d\<rparr>) \<and> inv d \<and> content d = content (flash_dev k)"
proof -
  have iv: "inv (flash_dev k)" "g_flash_info k = Some dev"
    using assms(1) by (simp_all add: upgrade_ready_def board_ok_def sys_ok_def)
  obtain ra ka rl kl where f: "simple_strtoul (tag_rootfsAddress img) 10 = Inr ra" "ra = 0xBFC00000 + of_nat off + 256"
    "simple_strtoul (tag_kernelAddress img) 10 = Inr ka" "simple_strtoul (tag_rootfsLen img) 10 = Inr rl"
    "simple_strtoul (tag_kernelLen img) 10 = Inr kl" "unat (rl + kl) = sz"
    using assms(2) by (auto simp: image_names_def)
  have mp: "flash_get_memptr (g_flash_info k) 0 (flash_dev k) = Inr base"
    using memptr[OF iv(1), of 0] sects_wf(1) iv(2) by (simp add: flash_get_memptr_def)
  have "uint (of_int x :: u32) = x mod 2 ^ 32" for x by (simp add: unsigned_of_int take_bit_eq_mod)
  moreover have "uint (rl + kl) = int sz" unfolding f(6)[symmetric] by (rule uint_nat)
  ultimately have "uint (of_int (int (sum_list sects) - int (off + 256 + 65536)) :: u32) < uint (rl + kl)"
    using assms(3) by presburger
  hence big: "of_int (flash_get_total_size (g_flash_info k) (flash_dev k))
      - (ra + BOOT_OFFSET hw (flash_dev k) - base) - (65536 :: u32) < rl + kl"
    unfolding f(2) available_room[OF iv] word_less_def .
  from upgrade_prefix_ok[OF assms(1)] show ?thesis
  proof (elim exE conjE)
    fix t d w
    assume "getBootImageTag hw k = Inr (t, k\<lparr>flash_dev := d\<rparr>)" "inv d" "content d = content (flash_dev k)"
      "get_nvram_start_addr (k\<lparr>flash_dev := d\<rparr>) = Inr (base + of_nat 0x580)"
      "hw_peek hw (base + of_nat 0x580) sizeof_NVRAM_DATA d = (slice 0x580 332 (content (flash_dev k)), d)"
      "(case t of None \<Rightarrow> Inr 0
            | Some t \<Rightarrow>
                bindR (simple_strtoul (tag_rootfsLen t) 10) (\<lambda>a.
                bindR (simple_strtoul (tag_kernelLen t) 10) (\<lambda>b. Inr (a + b)))) = Inr w"
    thus ?thesis using f(1,3-5) mp big by (intro exI[of _ d]) (simp add: flashFsKernelImage_def Let_def)
  qed
qed

end

section \<open>Booting the new image\<close>

lemma bootline_scan_append: "0 \<in> set (drop 2 xs) \<Longrightarrow> bootline_scan (xs @ ys) i = bootline_scan xs i"
  by (induction xs i rule: bootline_scan.induct) auto

lemma bootline_old_append: "0 \<in> set (drop 2 xs) \<Longrightarrow> bootline_old (xs @ ys) i = bootline_old xs i"
  by (induction xs i rule: bootline_old.induct) auto

lemma scan_latest_none:
  "bootline_old bs i = Inr None \<Longrightarrow> \<exists>r. bootline_scan bs i = Inr r \<and> (\<forall>j. r = Some j \<longrightarrow> i \<le> j \<and> bs ! (j - i + 2) = 48 \<and> j - i + 2 < length bs)"
proof (induction bs i rule: bootline_old.induct)
  case (1 a b c r i)
  show ?case
  proof (cases "c = 0 \<or> a = 112 \<and> b = 61")
    case True thus ?thesis using 1(2) by (auto split: if_splits)
  next
    case False
    then obtain r' where "bootline_scan (b # c # r) (Suc i) = Inr r'"
      "\<forall>j. r' = Some j \<longrightarrow> Suc i \<le> j \<and> (b # c # r) ! (j - Suc i + 2) = 48 \<and> j - Suc i + 2 < length (b # c # r)"
      using 1 by auto
    thus ?thesis using False by (intro exI[of _ r']) (auto simp: Suc_diff_Suc Suc_le_eq nth_Cons')
  qed
qed simp_all

lemma scan_latest_some:
  "bootline_old bs i = Inr (Some j) \<Longrightarrow> i \<le> j \<and> j - i + 2 < length bs
     \<and> (\<exists>j'. bootline_scan (bs[j - i + 2 := 48]) i = Inr (Some j') \<and> i \<le> j' \<and> bs[j - i + 2 := 48] ! (j' - i + 2) = 48 \<and> j' - i + 2 < length bs)"
proof (induction bs i rule: bootline_old.induct)
  case (1 a b c r i)
  show ?case
  proof (cases "c = 0 \<or> a = 112 \<and> b = 61 \<and> c \<noteq> 48")
    case True thus ?thesis using 1(2) by (auto split: if_splits)
  next
    case False
    hence "Suc i \<le> j" "j - Suc i + 2 < length (b # c # r)" 
      and ih: "\<exists>j'. bootline_scan ((b # c # r)[j - Suc i + 2 := 48]) (Suc i) = Inr (Some j') \<and> Suc i \<le> j'
        \<and> (b # c # r)[j - Suc i + 2 := 48] ! (j' - Suc i + 2) = 48 \<and> j' - Suc i + 2 < length (b # c # r)"
      using 1 by auto
    obtain t where t: "j = Suc (i + t)" using \<open>Suc i \<le> j\<close> by (metis add_Suc less_eqE)
    have u: "(a # b # c # r)[j - i + 2 := 48] = a # b # c # r[t := 48]" "(b # c # r)[j - Suc i + 2 := 48] = b # c # r[t := 48]"
      by (simp_all add: t)
    show ?thesis
    proof (cases "a = 112 \<and> b = 61")
      case True
      thus ?thesis using False t \<open>j - Suc i + 2 < length (b # c # r)\<close> by (intro conjI exI[of _ i]) (auto simp: u)
    next
      case ab: False
      obtain j' where j': "bootline_scan (b # c # r[t := 48]) (Suc i) = Inr (Some j')" "Suc i \<le> j'"
        "(b # c # r[t := 48]) ! (j' - Suc i + 2) = 48" "j' - Suc i + 2 < length (b # c # r)"
        using ih unfolding u by blast
      obtain s where s: "j' = Suc (i + s)" using j'(2) by (metis add_Suc less_eqE)
      have "bootline_scan (a # b # c # r[t := 48]) i = Inr (Some j')" using ab False j'(1) by auto
      thus ?thesis using t s j'(3,4) \<open>j - Suc i + 2 < length (b # c # r)\<close> unfolding u
        by (intro conjI exI[of _ j']) auto
    qed
  qed
qed simp_all

end
