(* ===== verification/Upgrade_Boot.thy ===== *)
theory Upgrade_Boot
  imports Upgrade
begin

text \<open>
  After the upgrade the board boots the new image: the boot line asks for the latest image, and the
  number in the new tag is larger than the one in the other tag.
\<close>

lemma old_nonzero: "bootline_old bs i = Inr (Some j) \<Longrightarrow> bs ! (j - i + 2) \<noteq> 0 \<and> i \<le> j"
proof (induction bs i rule: bootline_old.induct)
  case (1 a b c r i)
  show ?case
  proof (cases "c = 0 \<or> a = 112 \<and> b = 61 \<and> c \<noteq> 48")
    case False
    hence "(b # c # r) ! (j - Suc i + 2) \<noteq> 0 \<and> Suc i \<le> j" using 1 by auto
    thus ?thesis by (auto simp: Suc_diff_Suc Suc_le_eq nth_Cons')
  qed (use 1(2) in \<open>auto split: if_splits\<close>)
qed simp_all

lemma nvram_bytes_bootline: "nvram_wf d \<Longrightarrow> slice 4 256 (nvram_bytes d) = szBootline d"
  by (simp add: nvram_bytes_def nvram_wf_def slice_def)

lemma boot_nvram_latest:
  assumes "length nv = 332" "0 \<in> set (take 254 (drop 6 nv))"
  shows "\<exists>r. bootline_scan (drop 4 (boot_nvram nv)) 0 = Inr r \<and> (\<forall>i. r = Some i \<longrightarrow> boot_nvram nv ! (4 + i + 2) = 48)"
proof -
  define xs ys where "xs = slice 4 256 nv" and "ys = drop 260 nv"
  have nv: "drop 4 nv = xs @ ys" unfolding xs_def ys_def slice_def using append_take_drop_id[of 256 "drop 4 nv"] by simp
  have lx: "length xs = 256" using assms(1) by (simp add: xs_def)
  have z: "0 \<in> set (drop 2 xs)" using assms(2) by (simp add: xs_def slice_def drop_take)
  obtain r where r: "bootline_old xs 0 = Inr r" using bootline_old_ok[OF z] by blast
  have old: "bootline_old (drop 4 nv) 0 = Inr r" using bootline_old_append[OF z] r nv by simp
  show ?thesis
  proof (cases r)
    case None
    obtain r' where "bootline_scan xs 0 = Inr r'" "\<forall>j. r' = Some j \<longrightarrow> xs ! (j + 2) = 48 \<and> j + 2 < length xs"
      using scan_latest_none[of xs 0] r None by auto
    moreover have "nv ! (4 + j + 2) = xs ! (j + 2)" if "j + 2 < length xs" for j
      using that assms(1) by (simp add: xs_def slice_def algebra_simps)
    ultimately show ?thesis using old None nv bootline_scan_append[OF z] by (auto simp: boot_nvram_def)
  next
    case (Some j)
    let ?xs = "xs[j + 2 := 48]"
    obtain j' where j': "j + 2 < length xs" "bootline_scan ?xs 0 = Inr (Some j')" "?xs ! (j' + 2) = 48" "j' + 2 < length xs"
      using scan_latest_some[of xs 0 j] r Some by auto
    let ?nv = "nv[4 + j + 2 := BOOT_LATEST_IMAGE]"
    obtain d where d: "nvram_crc (nvram_of ?nv) = Inr d" "nvram_wf (nvram_of ?nv)"
      using nvram_crc_ok[OF nvram_of_wf, of ?nv] nvram_of_wf[of ?nv] assms(1) by auto
    let ?b = "nvram_bytes ((nvram_of ?nv)\<lparr>ulCheckSum := d\<rparr>)"
    have b: "boot_nvram nv = ?b" using old Some d(1) by (simp add: boot_nvram_def nvram_seal_def)
    have "slice 4 256 ?nv = ?xs" using assms(1) j'(1) by (simp add: xs_def slice_def drop_update_swap take_update_swap algebra_simps)
    hence sl: "slice 4 256 ?b = ?xs" using nvram_bytes_bootline[of "(nvram_of ?nv)\<lparr>ulCheckSum := d\<rparr>"] d(2) by (simp add: nvram_wf_def nvram_of_def)
    hence dr: "drop 4 ?b = ?xs @ drop 256 (drop 4 ?b)" by (metis append_take_drop_id slice_def)
    have "0 \<in> set (drop 2 ?xs)"
    proof -
      have "xs ! (j + 2) \<noteq> 0" using old_nonzero[of xs 0 j] r Some by simp
      thus ?thesis using z j'(1) by (auto simp: in_set_conv_nth drop_update_swap nth_list_update split: if_splits)
    qed
    hence "bootline_scan (drop 4 ?b) 0 = Inr (Some j')" using bootline_scan_append j'(2) dr by metis
    moreover have "?b ! (4 + j' + 2) = 48"
    proof -
      have "slice 4 256 ?b ! (j' + 2) = ?b ! (4 + (j' + 2))"
        using j'(4) lx length_nvram_bytes[of "(nvram_of ?nv)\<lparr>ulCheckSum := d\<rparr>"] d(2) by (intro nth_slice) (simp_all add: nvram_wf_def)
      thus ?thesis using j'(3) sl by (simp add: add.assoc)
    qed
    ultimately show ?thesis using b by simp
  qed
qed

lemma seq_bound:
  fixes x :: u32
  assumes "0 < sint (m + 1)" "x \<le> m"
  shows "0 \<le> sint x \<and> sint x < sint (m + 1)"
proof -
  have "1 + m \<noteq> 0" using assms(1) by (auto simp: add.commute)
  hence "unat (m + 1) = Suc (unat m)" using unatSuc[of m] by (simp add: add.commute)
  hence u: "uint (m + 1) = uint m + 1" by (metis of_nat_Suc add.commute uint_nat)
  have s: "sint w = (if uint w < 2 ^ 31 then uint w else uint w - 2 ^ 32)" for w :: u32
  proof (cases "uint w < 2 ^ 31")
    case True
    moreover have "- (2 ^ 31) \<le> uint w" using uint_ge_0[of w] by (rule order_trans[rotated]) simp
    ultimately show ?thesis by (simp add: sint_uint signed_take_bit_int_eq_self)
  next
    case False
    have "uint w < 2 ^ 32" using uint_lt2p[of w] by simp
    hence "(uint w - 2147483648 + 4294967296) mod 4294967296 = uint w - 2147483648"
      unfolding mod_add_self2 using False by (intro mod_pos_pos_trivial) simp_all
    thus ?thesis using False by (simp add: sint_uint signed_take_bit_eq_take_bit_shift take_bit_eq_mod add.commute)
  qed
  have "uint x \<le> uint m" using assms(2) by (simp add: word_le_def)
  thus ?thesis using assms(1) s[of x] s[of "m + 1"] u uint_lt2p[of "m + 1"] uint_ge_0[of x] by (simp split: if_splits)
qed

lemma take_stamped:
  assumes "256 \<le> length img" "0 \<le> q" "q < 2 ^ 31"
  shows "take 256 (stamped q img) = stamped q (take 256 img)"
proof -
  have l: "length (sprintf_d q) \<le> 11" using length_sprintf[OF assms(2,3)] .
  have t: "take 256 (overlay p xs img) = overlay p xs (take 256 img)" if "p + length xs \<le> 256" "256 \<le> length img" for p xs and img :: "byte list"
    by (rule nth_equalityI) (use that in \<open>auto simp: nth_overlay\<close>)
  have "getCrc32 (overlay 138 (sprintf_d q) img) 236 CRC32_INIT_VALUE = getCrc32 (overlay 138 (sprintf_d q) (take 256 img)) 236 CRC32_INIT_VALUE"
    using l assms(1) by (intro getCrc32_take) (simp_all add: t[symmetric])
  thus ?thesis using l assms(1) by (simp add: stamped_def Let_def t)
qed

lemma image_sequence_readable:
  assumes "\<And>t'. t = Some t' \<Longrightarrow> tag_readable t'"
  shows "image_sequence t = Inr (case t of None \<Rightarrow> -1 | Some _ \<Rightarrow> sint (seq_in t))"
  using tag_readable_fields(1) assms by (cases t) (force simp: image_sequence_def seq_in_def)+

context mapped_flash begin

lemma boot_picks:
  assumes "sys_ok dev inv k" "tags_fit sects" "flash_nvram (fInfo k) = nvram_part" "0x580 + 332 \<le> sum_list sects"
    and "t1 = tag_at (content (flash_dev k)) (tag1_start sects)" "t2 = tag_at (content (flash_dev k)) (tag2_start sects)"
    and "image_sequence t1 = Inr s1" "image_sequence t2 = Inr s2" "t1 \<noteq> None \<longrightarrow> 0 \<le> s1" "t2 \<noteq> None \<longrightarrow> 0 \<le> s2"
    and "nv = slice 0x580 332 (content (flash_dev k))"
    and "bootline_scan (drop 4 nv) 0 = Inr r" "\<forall>i. r = Some i \<longrightarrow> nv ! (4 + i + 2) = 48"
  shows "\<exists>d. getBootImageTag hw k = Inr (if s2 > s1 then t2 else t1, k\<lparr>flash_dev := d\<rparr>) \<and> inv d \<and> content d = content (flash_dev k)"
proof -
  let ?c = "content (flash_dev k)"
  obtain d1 where d1: "getTagFromPartition 1 k = Inr (t1, k\<lparr>flash_dev := d1\<rparr>)" "inv d1" "content d1 = ?c"
    using getTag_ok[OF assms(1,2), of 1] assms(5) by auto
  have k1: "sys_ok dev inv (k\<lparr>flash_dev := d1\<rparr>)" using assms(1) d1(2) by (rule sys_ok_dev)
  obtain d2 where d2: "getTagFromPartition 2 (k\<lparr>flash_dev := d1\<rparr>) = Inr (t2, k\<lparr>flash_dev := d2\<rparr>)" "inv d2" "content d2 = ?c"
    using getTag_ok[OF k1 assms(2), of 2] assms(6) d1(3) by auto
  have k2: "sys_ok dev inv (k\<lparr>flash_dev := d2\<rparr>)" using assms(1) d2(2) by (rule sys_ok_dev)
  have "get_nvram_start_addr (k\<lparr>flash_dev := d2\<rparr>) = Inr (base + of_nat 0x580)"
    using k2 by (rule nvram_addr_ok) (simp add: assms(3))
  moreover have "hw_peek hw (base + of_nat 0x580) 332 d2 = (nv, d2)"
    using peek_hw[OF d2(2) assms(4)] d2(3) assms(11) by simp
  moreover have "(case r of None \<Rightarrow> BOOT_LATEST_IMAGE | Some i \<Rightarrow> nv ! (4 + i + 2)) = BOOT_LATEST_IMAGE"
    using assms(13) by (cases r) auto
  moreover have "t1 = None \<Longrightarrow> s1 = -1" "t2 = None \<Longrightarrow> s2 = -1" using assms(7,8) by (auto simp: image_sequence_def)
  ultimately have "\<exists>i. boot_choice hw t1 t2 (k\<lparr>flash_dev := d2\<rparr>) = Inr (if s2 > s1 then t2 else t1, i, k\<lparr>flash_dev := d2\<rparr>)"
    using assms(7-10,12) by (auto simp: boot_choice_def Let_def)
  thus ?thesis using d1(1) d2 by (auto simp: getBootImageTag_def)
qed

lemma upgraded_facts:
  assumes "upgrade_ready dev inv sects c k" "length c = sum_list sects" "image_fits sects (fInfo k) a n sz"
    and "256 + sz + sz mod 2 \<le> length img"
  shows "tag_at (upgraded sects (fInfo k) a n sz img c) (sector_start sects a)
      = (if tag_valid (take 256 img) then Some (take 256 img) else None)"
    "slice 0x580 332 (upgraded sects (fInfo k) a n sz img c) = boot_nvram (slice 0x580 332 c)"
    "length (slice 0x580 332 c) = 332" "0x580 + 332 \<le> sum_list sects"
proof -
  let ?v = "part_base sects (flash_variable (fInfo k))" and ?nv = "slice 0x580 332 c" and ?m = "256 + sz + sz mod 2"
  let ?pi = "padded_image sects a n ?m img"
  have r: "board_ok dev inv sects k" "flash_nvram (fInfo k) = nvram_part" "264 \<le> part_length (flash_variable (fInfo k))"
    using assms(1) by (auto simp: upgrade_ready_def)
  note room = image_room[OF board_okD(2)[OF r(1)] r(2) assms(3) sects_wf(1)]
  have m: "?m \<le> span sects a n" using assms(3) by (simp add: image_fits_def)
  have lp: "length ?pi = span sects a n" using assms(4) m by (rule length_padded_image)
  have fl: "length (upgrade_flag f) = 8" for f by (simp add: upgrade_flag_def)
  have v: "?v + 256 + 8 \<le> sum_list sects" using room(4) r(3) by linarith
  show ln: "length ?nv = 332" "0x580 + 332 \<le> sum_list sects" using assms(2) v room(1,2) by auto
  have lb: "length (boot_nvram ?nv) = 332" using ln(1) by (rule length_boot_nvram)
  show "slice 0x580 332 (upgraded sects (fInfo k) a n sz img c) = boot_nvram ?nv"
    unfolding upgraded_def using assms(2) v room lp fl lb slice_overlay_same[of "0x580" "boot_nvram ?nv"]
    by (simp add: slice_overlay_disjoint)
  have "slice (sector_start sects a) 256 (upgraded sects (fInfo k) a n sz img c) = slice (sector_start sects a) 256 (overlay (sector_start sects a) ?pi c)"
    unfolding upgraded_def using assms(2) v room lp fl lb m by (simp add: slice_overlay_disjoint)
  also have "\<dots> = slice 0 256 ?pi" using assms(2) room lp m v by (subst slice_overlay_inner) simp_all
  also have "\<dots> = take 256 img" using assms(4) by (simp add: padded_image_def slice_def min_def)
  finally show "tag_at (upgraded sects (fInfo k) a n sz img c) (sector_start sects a)
      = (if tag_valid (take 256 img) then Some (take 256 img) else None)" by (simp add: tag_at_def)
qed

lemma upgrade_boots:
  assumes "upgrade_ready dev inv sects (content (flash_dev k)) k" "image_fits sects (fInfo k) a n sz"
    and "image_names img (sector_start sects a) sz" "256 + sz + sz mod 2 \<le> length img"
    and "0 < next_seq sects (content (flash_dev k))"
    and "new = stamped (next_seq sects (content (flash_dev k))) img"
    and "c' = upgraded sects (fInfo k) a n sz new (content (flash_dev k))"
    and "sector_start sects a = tag1_start sects \<and> tag_at c' (tag2_start sects) \<in> {None, tag_at (content (flash_dev k)) (tag2_start sects)}
       \<or> sector_start sects a = tag2_start sects \<and> tag_at c' (tag1_start sects) \<in> {None, tag_at (content (flash_dev k)) (tag1_start sects)}"
  shows "\<exists>k1 k2. flashFsKernelImage hw img k = Inr (0, new, k1) \<and> kerSysImageTagGet hw k1 = Inr (Some (take 256 new), k2)"
proof -
  let ?c = "content (flash_dev k)" and ?q = "next_seq sects (content (flash_dev k))"
  let ?t1 = "tag_at c' (tag1_start sects)" and ?t2 = "tag_at c' (tag2_start sects)" and ?nt = "take 256 new"
  obtain k1 where k1: "flashFsKernelImage hw img k = Inr (0, new, k1)" "board_ok dev inv sects k1" "fInfo k1 = fInfo k" "content (flash_dev k1) = c'"
    using upgrade_ok[OF assms(1-5)] assms(6,7) by auto
  have r: "tags_fit sects" "tags_readable sects ?c" "flash_nvram (fInfo k) = nvram_part" "0 \<in> set (take 254 (drop 6 (slice 0x580 332 ?c)))"
    "board_ok dev inv sects k"
    using assms(1) by (auto simp: upgrade_ready_def)
  have q: "?q < 2 ^ 31" unfolding next_seq_def using sint_lt[where ?'a = 32] by simp
  have nl: "256 \<le> length img" "0 \<le> ?q" using assms(4,5) by simp_all
  have new: "length new = length img" "tag_valid ?nt" "seq_in (Some ?nt) = of_int ?q" 
    using stamped_ok(1,2)[OF nl q] stamped_ok(3)[of "take 256 img" ?q] take_stamped[OF nl q] nl q assms(6) by (simp_all add: seq_in_def)
  have sq: "sint (of_int ?q :: u32) = ?q" by (simp add: next_seq_def)
  have iseq: "image_sequence (Some ?nt) = Inr ?q"
    using stamped_ok(3)[of "take 256 img" ?q] take_stamped[OF nl q] nl q assms(6) sq by (simp add: image_sequence_def)
  note u = upgraded_facts[OF assms(1) board_content[OF r(5)] assms(2), of new, folded assms(7)]
  have nt: "tag_at c' (sector_start sects a) = Some ?nt" using u(1) new assms(4) by simp
  have old: "\<exists>s. image_sequence t = Inr s \<and> (t \<noteq> None \<longrightarrow> 0 \<le> s) \<and> s < ?q"
    if "t = None \<or> t = tag_at ?c (tag1_start sects) \<or> t = tag_at ?c (tag2_start sects)" for t
  proof -
    have "image_sequence t = Inr (case t of None \<Rightarrow> -1 | Some _ \<Rightarrow> sint (seq_in t))"
      using that r(2) by (intro image_sequence_readable) (auto simp: tags_readable_def)
    moreover have "seq_in t \<le> max (seq_in (tag_at ?c (tag1_start sects))) (seq_in (tag_at ?c (tag2_start sects)))" if "t \<noteq> None"
      using \<open>t = None \<or> _\<close> that by auto
    hence "t \<noteq> None \<Longrightarrow> 0 \<le> sint (seq_in t) \<and> sint (seq_in t) < ?q"
      using seq_bound[of _ "seq_in t"] assms(5) unfolding next_seq_def by blast
    ultimately show ?thesis using assms(5) by (cases t) auto
  qed
  obtain x where x: "bootline_scan (drop 4 (slice 0x580 332 c')) 0 = Inr x" "\<forall>i. x = Some i \<longrightarrow> slice 0x580 332 c' ! (4 + i + 2) = 48"
    using boot_nvram_latest[OF u(3) r(4)] u(2) new(1) assms(4) by metis
  note pick = boot_picks[OF board_okD(1)[OF k1(2)] r(1) _ _ refl refl _ _ _ _ refl, unfolded k1(3,4), OF r(3) u(4) _ _ _ _ x]
  from assms(8) show ?thesis
  proof
    assume a: "sector_start sects a = tag1_start sects \<and> ?t2 \<in> {None, tag_at ?c (tag2_start sects)}"
    hence "?t1 = Some ?nt" using nt by simp
    moreover obtain s where "image_sequence ?t2 = Inr s" "?t2 \<noteq> None \<longrightarrow> 0 \<le> s" "s < ?q" using old[of ?t2] a by blast
    ultimately show ?thesis using pick[of ?q s] iseq nl(2) k1(1) assms(4) new(1) by (auto simp: kerSysImageTagGet_def)
  next
    assume a: "sector_start sects a = tag2_start sects \<and> ?t1 \<in> {None, tag_at ?c (tag1_start sects)}"
    hence "?t2 = Some ?nt" using nt by simp
    moreover obtain s where "image_sequence ?t1 = Inr s" "?t1 \<noteq> None \<longrightarrow> 0 \<le> s" "s < ?q" using old[of ?t1] a by blast
    ultimately show ?thesis using pick[of s ?q] iseq nl(2) k1(1) assms(4) new(1) by (auto simp: kerSysImageTagGet_def)
  qed
qed

end

end

