(* ===== verification/Upgrade_Correct.thy ===== *)
theory Upgrade_Correct
  imports Upgrade_Boot
begin

text \<open>
  The properties of the software upgrade, and an upgrade of the simulated board for which they are
  instantiated.
\<close>

section \<open>An upgrade of the simulated board\<close>

text \<open>Images for offset 131072, with the root file system at 3217162496: one of 65536 bytes, and one that
  declares 8388608 bytes.\<close>

definition demo_tag :: "byte list \<Rightarrow> byte list" where
  "demo_tag len =
     replicate 94 0 @ [51, 50, 49, 55, 49, 54, 50, 52, 57, 54, 0, 0] @ len
     @ [51, 50, 49, 55, 49, 54, 50, 52, 57, 54, 0, 0] @ 48 # 0 # replicate 126 0"

definition demo_image :: "nat \<Rightarrow> byte list" where
  "demo_image n = demo_tag [54, 53, 53, 51, 54, 0, 0, 0, 0, 0] @ replicate n 1"

definition demo_large :: "byte list" where
  "demo_large = demo_tag [56, 51, 56, 56, 54, 48, 56, 0, 0, 0]"

lemma length_demo: "length len = 10 \<Longrightarrow> length (demo_tag len) = 256"
  by (simp add: demo_tag_def)

lemma demo_tag_names:
  assumes "length len = 10" "strtoul_loop (len @ [51, 50, 49, 55, 49, 54, 50, 52, 57, 54, 0, 0] @ 48 # 0 # replicate 126 0 @ r) 10 0 = Inr w"
  shows "image_names (demo_tag len @ r) 131072 (unat w)"
proof -
  have d: "drop 94 (demo_tag len) = [51, 50, 49, 55, 49, 54, 50, 52, 57, 54, 0, 0] @ len
     @ [51, 50, 49, 55, 49, 54, 50, 52, 57, 54, 0, 0] @ 48 # 0 # replicate 126 0" by (simp add: demo_tag_def)
  have "drop 106 (demo_tag len) = drop 12 (drop 94 (demo_tag len))" "drop 116 (demo_tag len) = drop 22 (drop 94 (demo_tag len))"
    "drop 128 (demo_tag len) = drop 34 (drop 94 (demo_tag len))" by simp_all
  thus ?thesis unfolding image_names_def tag_rootfsAddress_def tag_kernelAddress_def tag_rootfsLen_def tag_kernelLen_def
    using assms by (simp add: length_demo d simple_strtoul_10 strtoul_10 isdigit_def digit_value_def del: strtoul_loop.simps(2))
qed

lemma demo_names: "image_names (demo_image n) 131072 65536" "image_names demo_large 131072 8388608"
  using demo_tag_names[of "[54, 53, 53, 51, 54, 0, 0, 0, 0, 0]" "replicate n 1" 65536]
    demo_tag_names[of "[56, 51, 56, 56, 54, 48, 56, 0, 0, 0]" "[]" 8388608]
  by (simp_all add: demo_image_def demo_large_def strtoul_10 isdigit_def digit_value_def del: strtoul_loop.simps(2))

abbreviation "mx640_content \<equiv> flash_content (sim_cells mx640)"
abbreviation "mx640_fdev \<equiv> flash_cfi_dev (sim_ops mx640) mx640_ready"

lemma mx640_tags: "tag1_start mx640_sectors = 131072" "tag2_start mx640_sectors = 4194304" "tags_fit mx640_sectors"
  by (simp_all add: tag1_start_def tag2_start_def tags_fit_def mx640_sizes mx640_sector_of mx640_start)

lemma seq_in_blank: "seq_in (tag_at c off) = 0" if "slice off 256 c = replicate 256 0xFF"
proof -
  have "tag_imageSequence (replicate 256 0xFF) = 0xFF # replicate 117 0xFF"
    by (simp add: tag_imageSequence_def flip: replicate_Suc)
  thus ?thesis using that by (simp add: seq_in_def tag_at_def Let_def simple_strtoul_10 strtoul_10 isdigit_def del: strtoul_loop.simps(2))
qed

lemma mx640_variable:
  assumes "all_parts info = layout mx640_sectors 135 (hg556_lengths 0) @ [nvram_part]"
  shows "flash_variable info = \<lparr>part_start_blk = 130, part_number_blk = 1, part_length = 8192, part_blk_offset = 57344\<rparr>"
    "flash_nvram info = nvram_part"
proof -
  have l: "length (layout mx640_sectors 135 (hg556_lengths 0)) = 9" by (subst length_layout) (simp add: hg556_lengths_def)
  have "flash_variable info = all_parts info ! 4" by (simp add: all_parts_def)
  also have "\<dots> = layout mx640_sectors 135 (hg556_lengths 0) ! 4" unfolding assms nth_append l by simp
  also have "\<dots> = \<lparr>part_start_blk = 130, part_number_blk = 1, part_length = 8192, part_blk_offset = 57344\<rparr>"
    by (simp add: hg556_lengths_def mx640_start mx640_sector_of layout_part_def Let_def)
  finally show "flash_variable info = \<lparr>part_start_blk = 130, part_number_blk = 1, part_length = 8192, part_blk_offset = 57344\<rparr>" .
  have "flash_nvram info = all_parts info ! 9" by (simp add: all_parts_def)
  also have "\<dots> = nvram_part" unfolding assms nth_append l by simp
  finally show "flash_nvram info = nvram_part" .
qed

text \<open>The simulated board after its NVRAM has been written with zeros.\<close>

lemma mx640_upgradable:
  obtains k where "upgrade_ready mx640_fdev mx640_inv mx640_sectors (mx640_content (flash_dev k)) k"
    "flash_variable (fInfo k) = \<lparr>part_start_blk = 130, part_number_blk = 1, part_length = 8192, part_blk_offset = 57344\<rparr>"
    "mx640_content (flash_dev k) = overlay 0x580 (replicate 332 0) (replicate 8388608 0xFF)"
    "next_seq mx640_sectors (mx640_content (flash_dev k)) = 1"
proof -
  obtain k where k: "sys_ok mx640_fdev mx640_inv k" "finfo_wf mx640_sectors (fInfo k)"
    "mx640_content (flash_dev k) = replicate 8388608 0xFF"
    "kmalloc_ok k = (\<lambda>_. True)" "heap_live k = {}" "kmalloc_calls k = 0"
    "all_parts (fInfo k) = layout mx640_sectors 135 (hg556_lengths 0) @ [nvram_part]"
    by (rule mx640_booted)
  note v = mx640_variable[OF k(7)]
  have b: "board_ok mx640_fdev mx640_inv mx640_sectors k" using k by (simp add: board_ok_def heap_wf_def)
  have p: "nvram_part \<in> set (all_parts (fInfo k))" using k(7) by simp
  have base: "part_base mx640_sectors nvram_part = 0x580" by (simp add: part_base_def nvram_part_def)
  obtain d c where d: "board_ok mx640_fdev mx640_inv mx640_sectors (k\<lparr>flash_dev := d, kmalloc_calls := c\<rparr>)"
    "mx640_content d = overlay 0x580 (replicate 332 0) (replicate 8388608 0xFF)"
    by (rule flash_device.part_set_ok[OF mx640_device b p, of 0 332 "replicate 332 0"]) (use base k(3) in \<open>auto simp: nvram_part_def\<close>)
  let ?c = "overlay 0x580 (replicate 332 0) (replicate 8388608 0xFF) :: byte list"
  have bl: "slice off 256 ?c = replicate 256 0xFF" if "4096 \<le> off" "off \<le> 8388352" for off
    using that slice_overlay_disjoint[of "0x580" "replicate 332 0 :: byte list" "replicate 8388608 0xFF" off 256] by (simp add: slice_def min_def)
  have q: "next_seq mx640_sectors ?c = 1" by (simp add: next_seq_def seq_in_blank bl mx640_tags)
  have "tag_readable (replicate 256 0xFF)" by (simp add: tag_readable_def isdigit_def)
  hence "tags_readable mx640_sectors ?c"
    using bl by (auto simp: tags_readable_def tag_at_def mx640_tags Let_def split: if_splits)
  moreover have "slice 0x580 332 ?c = replicate 332 0"
    using slice_overlay_same[of "0x580" "replicate 332 0 :: byte list" "replicate 8388608 0xFF"] by simp
  ultimately have "upgrade_ready mx640_fdev mx640_inv mx640_sectors ?c (k\<lparr>flash_dev := d, kmalloc_calls := c\<rparr>)"
    using d(1) v mx640_tags by (simp add: upgrade_ready_def part_base_def mx640_start)
  thus ?thesis using that[of "k\<lparr>flash_dev := d, kmalloc_calls := c\<rparr>"] d(2) v(1) q by simp
qed

lemma mx640_image_fits:
  assumes "flash_variable info = \<lparr>part_start_blk = 130, part_number_blk = 1, part_length = 8192, part_blk_offset = 57344\<rparr>"
  shows "image_fits mx640_sectors info 9 2 65536"
proof -
  have "span mx640_sectors 9 1 = 65536" "span mx640_sectors 9 2 = 131072" "sector_start mx640_sectors 9 = 131072"
    using sector_start_span[of 9 1 mx640_sectors] sector_start_span[of 9 2 mx640_sectors] by (simp_all add: mx640_start)
  thus ?thesis using assms by (simp add: image_fits_def mx640_sizes)
qed

section \<open>Properties\<close>

text \<open>C2: an image whose tag names its own place above the boot block and below the variable partition
  is written by the upgrade with status 0. The flash then holds the image with its new number and CRC,
  erased bytes to the end of its last block, a boot line that asks for the latest image, and the upgrade
  flag 1; every other byte of the flash is as before.\<close>

theorem upgrade_installs_image:
  assumes "mapped_flash dev sects base I content hw"
    and "upgrade_ready dev I sects (content (flash_dev k)) k" "image_fits sects (fInfo k) a n sz"
    and "image_names img (sector_start sects a) sz" "256 + sz + sz mod 2 \<le> length img"
    and "0 < next_seq sects (content (flash_dev k))"
  shows "\<exists>k'. flashFsKernelImage hw img k = Inr (0, stamped (next_seq sects (content (flash_dev k))) img, k')
     \<and> board_ok dev I sects k' \<and> fInfo k' = fInfo k
     \<and> content (flash_dev k')
         = upgraded sects (fInfo k) a n sz (stamped (next_seq sects (content (flash_dev k))) img) (content (flash_dev k))"
  using mapped_flash.upgrade_ok[OF assms] .

theorem upgrade_installs_image_witness:
  "\<exists>k k'. flashFsKernelImage (cfi_hw (sim_ops mx640)) (demo_image 65536) k = Inr (0, stamped 1 (demo_image 65536), k')
     \<and> mx640_content (flash_dev k')
         = upgraded mx640_sectors (fInfo k) 9 2 65536 (stamped 1 (demo_image 65536)) (mx640_content (flash_dev k))"
proof -
  obtain k where k: "upgrade_ready mx640_fdev mx640_inv mx640_sectors (mx640_content (flash_dev k)) k"
    "flash_variable (fInfo k) = \<lparr>part_start_blk = 130, part_number_blk = 1, part_length = 8192, part_blk_offset = 57344\<rparr>"
    "next_seq mx640_sectors (mx640_content (flash_dev k)) = 1"
    by (rule mx640_upgradable)
  show ?thesis
    using upgrade_installs_image[OF mx640_mapped k(1) mx640_image_fits[OF k(2)], of "demo_image 65536"] k(3) demo_names(1)[of 65536]
    by (auto simp: mx640_start demo_image_def length_demo)
qed

text \<open>C3: after an upgrade that fills one of the two image slots and leaves the tag of the other slot as it
  was, or unreadable, the board boots the new image: the boot tag is the tag that the upgrade has put in
  front of the image. This holds whatever boot partition was configured before.\<close>

theorem upgrade_then_boot:
  assumes "mapped_flash dev sects base I content hw"
    and "upgrade_ready dev I sects (content (flash_dev k)) k" "image_fits sects (fInfo k) a n sz"
    and "image_names img (sector_start sects a) sz" "256 + sz + sz mod 2 \<le> length img"
    and "0 < next_seq sects (content (flash_dev k))"
    and "new = stamped (next_seq sects (content (flash_dev k))) img"
    and "c' = upgraded sects (fInfo k) a n sz new (content (flash_dev k))"
    and "sector_start sects a = tag1_start sects \<and> tag_at c' (tag2_start sects) \<in> {None, tag_at (content (flash_dev k)) (tag2_start sects)}
       \<or> sector_start sects a = tag2_start sects \<and> tag_at c' (tag1_start sects) \<in> {None, tag_at (content (flash_dev k)) (tag1_start sects)}"
  shows "\<exists>k1 k2. flashFsKernelImage hw img k = Inr (0, new, k1) \<and> kerSysImageTagGet hw k1 = Inr (Some (take 256 new), k2)"
  using mapped_flash.upgrade_boots[OF assms] .

theorem upgrade_then_boot_witness:
  "\<exists>k k1 k2. flashFsKernelImage (cfi_hw (sim_ops mx640)) (demo_image 65536) k = Inr (0, stamped 1 (demo_image 65536), k1)
     \<and> kerSysImageTagGet (cfi_hw (sim_ops mx640)) k1 = Inr (Some (take 256 (stamped 1 (demo_image 65536))), k2)"
proof -
  let ?new = "stamped 1 (demo_image 65536)"
  obtain k where k: "upgrade_ready mx640_fdev mx640_inv mx640_sectors (mx640_content (flash_dev k)) k"
    "flash_variable (fInfo k) = \<lparr>part_start_blk = 130, part_number_blk = 1, part_length = 8192, part_blk_offset = 57344\<rparr>"
    "mx640_content (flash_dev k) = overlay 0x580 (replicate 332 0) (replicate 8388608 0xFF)"
    "next_seq mx640_sectors (mx640_content (flash_dev k)) = 1"
    by (rule mx640_upgradable)
  let ?c = "mx640_content (flash_dev k)"
  have l: "length ?c = 8388608" "length (boot_nvram (slice 0x580 332 ?c)) = 332" "length ?new = 65792"
    using k(3) stamped_ok(1)[of "demo_image 65536" 1] by (auto intro: length_boot_nvram simp: demo_image_def length_demo)
  have sp: "span mx640_sectors 9 2 = 131072" using mx640_image_fits[OF k(2)] sector_start_span[of 9 2 mx640_sectors] by (simp add: mx640_start)
  have "tag_at (upgraded mx640_sectors (fInfo k) 9 2 65536 ?new ?c) 4194304 = tag_at ?c 4194304"
    unfolding upgraded_def using l sp k(2)
    by (simp add: tag_at_overlay upgrade_flag_def padded_image_def part_base_def mx640_start)
  thus ?thesis
    using upgrade_then_boot[OF mx640_mapped k(1) mx640_image_fits[OF k(2)], of "demo_image 65536" ?new] k(4) demo_names(1)[of 65536]
    by (auto simp: mx640_start mx640_tags demo_image_def length_demo)
qed

text \<open>C25: an image whose declared size is larger than the room for one image is refused with status -1; the image buffer
  and the flash are as before. Size and room are what the code computes with 32 bits: the size is the wrapped sum of the two
  lengths in the tag, and the room is the number of bytes from the place of the image, behind its tag, to the reserved last
  64 KB of the flash, modulo 2^32. For an image that starts at least 65792 bytes before the end of the flash nothing wraps.\<close>

theorem upgrade_refuses_large:
  assumes "mapped_flash dev sects base I content hw"
    and "upgrade_ready dev I sects (content (flash_dev k)) k" "image_names img off sz"
    and "(int (sum_list sects) - int (off + 256 + 65536)) mod 2 ^ 32 < int sz"
  shows "\<exists>d. flashFsKernelImage hw img k = Inr (-1, img, k\<lparr>flash_dev := d\<rparr>) \<and> I d \<and> content d = content (flash_dev k)"
  using mapped_flash.upgrade_reject[OF assms] .

theorem upgrade_refuses_large_witness:
  "\<exists>k d. flashFsKernelImage (cfi_hw (sim_ops mx640)) demo_large k = Inr (-1, demo_large, k\<lparr>flash_dev := d\<rparr>)
     \<and> mx640_content d = mx640_content (flash_dev k)"
proof -
  obtain k where k: "upgrade_ready mx640_fdev mx640_inv mx640_sectors (mx640_content (flash_dev k)) k"
    by (rule mx640_upgradable)
  show ?thesis using upgrade_refuses_large[OF mx640_mapped k demo_names(2)] by (auto simp: mx640_sizes)
qed

text \<open>C22: the number that the upgrade prints into a tag is the number that the boot choice reads from it: for every
  32 bit value w, \<open>sprintf("%d")\<close> produces at most twelve bytes from which \<open>simple_strtoul\<close> reads w back, whatever bytes
  follow. A value that is negative as an \<open>int\<close> is printed with a sign and read as 0.\<close>

theorem sequence_number_roundtrip:
  "\<exists>bs. sprintf (map of_char ''%d'') [VInt w] = Inr bs \<and> length bs \<le> 12
     \<and> simple_strtoul (bs @ rest) 10 = Inr (if 0 \<le> sint w then w else 0)"
proof -
  have s: "sint w < 2 ^ 31" "- (2 ^ 31) \<le> sint w" using sint_lt[of w] sint_ge[of w] by simp_all
  have p: "sprintf (map of_char ''%d'') [VInt w] = Inr (sprintf_d (sint w))" using sprintf_int[OF s(2,1)] by simp
  show ?thesis
  proof (cases "0 \<le> sint w")
    case True
    thus ?thesis using p sprintf_strtoul[OF True, of rest] length_sprintf[OF True s(1)] by simp
  next
    case False
    have "length (dec_digits (nat (- sint w))) \<le> 10" using s(2) by (intro length_dec_digits) (simp_all add: nat_less_iff)
    thus ?thesis using False p by (simp add: sprintf_d_def simple_strtoul_def isxdigit_def isdigit_def)
  qed
qed

text \<open>C23: numbers printed without a sign are read back in the base in which they are printed: octal with \<open>%o\<close>, decimal with
  \<open>%u\<close>, hexadecimal with \<open>%x\<close> and \<open>%X\<close>, for every 32 bit value and whatever bytes follow.\<close>

theorem printed_numbers_read_back:
  assumes "(c, b) \<in> {(CHR ''o'', 8), (CHR ''u'', 10), (CHR ''x'', 16), (CHR ''X'', 16)}"
  shows "\<exists>bs. sprintf (map of_char [CHR ''%'', c]) [VInt w] = Inr bs \<and> simple_strtoul (bs @ rest) (of_nat b) = Inr w"
proof -
  have "(of_char c, b) \<in> {(111, 8), (117, 10), (120, 16), (88 :: byte, 16)}" using assms by auto
  from sprintf_unsigned[OF this, of w rest] show ?thesis by simp
qed

theorem printed_numbers_read_back_witness:
  "\<exists>bs. sprintf (map of_char ''%x'') [VInt 0xBFC20000] = Inr bs \<and> simple_strtoul (bs @ [65]) 16 = Inr 0xBFC20000"
  using printed_numbers_read_back[of "CHR ''x''" 16 "0xBFC20000" "[65]"] by simp

text \<open>C31: an image that is written to the block where the variable partition starts, and that leaves room for
  the partition, makes the code free the block buffer twice.\<close>

theorem image_set_frees_twice:
  assumes "mapped_flash dev sects base I content hw"
    and "board_ok dev I sects k" "part_start_blk (flash_variable (fInfo k)) = int a" "a < length sects" "a \<noteq> 0"
    and "0 \<le> sz" "sz \<le> int (length string)" "sz \<le> int (sects ! a) - part_length (flash_variable (fInfo k))"
  shows "kerSysBcmImageSet hw (base + of_nat (sector_start sects a)) string sz k = Inl DoubleFree"
proof -
  note b = board_okD[OF assms(2)]
  have "part_wf sects (flash_variable (fInfo k))" using all_parts_wf[OF b(2)] by (simp add: all_parts_def)
  from mapped_flash.image_set_double_free[OF assms(1) b(1) this b(4,3) assms(3-)] show ?thesis .
qed

theorem image_set_frees_twice_witness:
  "\<exists>k. kerSysBcmImageSet (cfi_hw (sim_ops mx640)) (0xBFC00000 + of_nat (sector_start mx640_sectors 130)) [1, 2, 3, 4] 4 k = Inl DoubleFree"
proof -
  obtain k where k: "upgrade_ready mx640_fdev mx640_inv mx640_sectors (mx640_content (flash_dev k)) k"
    "flash_variable (fInfo k) = \<lparr>part_start_blk = 130, part_number_blk = 1, part_length = 8192, part_blk_offset = 57344\<rparr>"
    by (rule mx640_upgradable)
  have "board_ok mx640_fdev mx640_inv mx640_sectors k" using k(1) by (simp add: upgrade_ready_def)
  from image_set_frees_twice[OF mx640_mapped this, of 130 4 "[1, 2, 3, 4]"] k(2) show ?thesis
    by (auto simp: mx640_sizes) (auto simp: mx640_sectors_def nth_append)
qed

end
