(* ===== verification/Ioctl_Store.thy ===== *)
theory Ioctl_Store
  imports Flash_Ioctl Upgrade_Correct
begin

text \<open>
  The flash commands as operations on an abstract store: ten byte lists, one per partition. A write command
  updates one list, a read command returns a part of one, and the semaphore, the write flag and the monitor
  state are as before.
\<close>

definition store_of :: "nat list \<Rightarrow> ('s \<Rightarrow> byte list) \<Rightarrow> 's board_drv \<Rightarrow> byte list list" where
  "store_of sects content b =
     map (\<lambda>p. part_bytes sects p (content (flash_dev (ker b)))) (all_parts (fInfo (ker b)))"

text \<open>Partition, position and length that a command works on. The logs are always copied whole.\<close>

definition part_args :: "flash_addr_info \<Rightarrow> BOARD_IOCTL_ACTION BOARD_IOCTL_PARMS \<Rightarrow> (nat \<times> int \<times> int) option" where
  "part_args info p =
     (let off = parm_offset p; n = parm_strLen p in
      case parm_action p of
        PERSISTENT \<Rightarrow> Some (0, off, n)
      | PSI_BACKUP \<Rightarrow> Some (1, off, n)
      | FIX \<Rightarrow> Some (2, off, n)
      | AVAIL \<Rightarrow> Some (3, off, n)
      | VARIABLE \<Rightarrow> Some (4, off, n)
      | FIREWALL_LOG \<Rightarrow> Some (6, 0, part_length (flash_firewalllog info))
      | SYSTEM_LOG \<Rightarrow> Some (7, 0, part_length (flash_systemlog info))
      | WLAN_PARAM \<Rightarrow> Some (8, 0, n)
      | NVRAM \<Rightarrow> Some (9, off, n)
      | _ \<Rightarrow> None)"

definition io_valid :: "flash_addr_info \<Rightarrow> BOARD_IOCTL_ACTION BOARD_IOCTL_PARMS \<Rightarrow> bool" where
  "io_valid info p \<longleftrightarrow>
     (case part_args info p of
        None \<Rightarrow> False
      | Some (i, pos, m) \<Rightarrow>
          0 \<le> pos \<and> 0 \<le> m \<and> pos + m \<le> part_length (all_parts info ! i) \<and> m \<le> int (length (parm_string p))
          \<and> parm_strLen p \<le> part_length (all_parts info ! i))"

definition abs_write :: "flash_addr_info \<Rightarrow> BOARD_IOCTL_ACTION BOARD_IOCTL_PARMS \<Rightarrow> byte list list \<Rightarrow> byte list list" where
  "abs_write info p st =
     (case part_args info p of
        None \<Rightarrow> st
      | Some (i, pos, m) \<Rightarrow> st[i := overlay (nat pos) (take (nat m) (parm_string p)) (st ! i)])"

definition abs_read :: "flash_addr_info \<Rightarrow> BOARD_IOCTL_ACTION BOARD_IOCTL_PARMS \<Rightarrow> byte list list \<Rightarrow> byte list" where
  "abs_read info p st =
     (case part_args info p of None \<Rightarrow> [] | Some (i, pos, m) \<Rightarrow> slice (nat pos) (nat m) (st ! i))"

definition drv_ok :: "'s flash_device_info \<Rightarrow> ('s \<Rightarrow> bool) \<Rightarrow> nat list \<Rightarrow> 's board_drv \<Rightarrow> bool" where
  "drv_ok dev I sects b \<longleftrightarrow>
     board_ok dev I sects (ker b) \<and> flashInitialized (ker b) \<and> flash_nvram (fInfo (ker b)) = nvram_part
     \<and> flash_sem b = 1 \<and> \<not> s_iFlashWriteFlg b \<and> dg_ulState b = 1 \<and> dg_ulCount b = 0"

lemma part_args_lt: "part_args info p = Some (i, pos, m) \<Longrightarrow> i < length (all_parts info)"
  by (auto simp: part_args_def all_parts_def Let_def split: BOARD_IOCTL_ACTION.splits)

lemma nvram_part_length: "flash_nvram info = nvram_part \<Longrightarrow> part_length (flash_nvram info) = 1024"
  by (simp add: nvram_part_def)

lemmas part_set_defs = kerSysPersistentSet_def kerSysPsiBackupSet_def kerSysFixSet_def kerSysAvailSet_def
  kerSysVariableSet_def kerSysFirewalllogSet_def kerSysSystemLogSet_def kerSysWlanParamSet_def kerSysNvRamSet_def

lemmas part_get_defs = kerSysPersistentGet_def kerSysPsiBackupGet_def kerSysFixGet_def kerSysAvailGet_def
  kerSysVariableGet_def kerSysFirewalllogGet_def kerSysSystemLogGet_def kerSysWlanParamGet_def kerSysNvRamGet_def

lemma flash_set_eq:
  assumes "part_args (fInfo k) p = Some (i, pos, m)" "parm_strLen p \<le> part_length (all_parts (fInfo k) ! i)"
    and "flash_nvram (fInfo k) = nvram_part"
  shows "flash_set hw a p k
       = bindR (part_write (all_parts (fInfo k) ! i) pos m (parm_string p) k) (\<lambda>(r, k'). Inr (r, parm_string p, k'))"
  using assms nvram_part_length[OF assms(3)] unfolding flash_set_def part_args_def Let_def
  by (cases "parm_action p") (auto simp: all_parts_def part_set_defs Let_def)

lemma flash_get_eq:
  assumes "part_args (fInfo k) p = Some (i, pos, m)" "parm_strLen p \<le> part_length (all_parts (fInfo k) ! i)"
    and "flash_nvram (fInfo k) = nvram_part" "flashInitialized k"
  shows "flash_get hw p k
       = bindR (part_read (all_parts (fInfo k) ! i) pos m (parm_string p) k) (\<lambda>(r, s, k'). Inr (r, p\<lparr>parm_string := s\<rparr>, k'))"
  using assms nvram_part_length[OF assms(3)] unfolding flash_get_def part_args_def Let_def
  by (cases "parm_action p") (auto simp: all_parts_def part_get_defs Let_def)

lemma too_long_refused:
  assumes "part_args (fInfo k) p = Some (i, pos, m)" "part_length (all_parts (fInfo k) ! i) < parm_strLen p"
    and "flash_nvram (fInfo k) = nvram_part"
  shows "flash_set hw a p k = Inr (-1, parm_string p, k)"
  using assms nvram_part_length[OF assms(3)] unfolding flash_set_def part_args_def Let_def
  by (cases "parm_action p") (auto simp: all_parts_def part_set_defs Let_def)

lemma wait_idle_now: "\<not> busy 0 \<Longrightarrow> wait_idle busy 0 = Some 0"
  by (subst wait_idle.simps) simp

lemma monitor_balanced:
  assumes "dg_ulState b = 1" "dg_ulCount b = 0"
  shows "dg_setScheduleState 1 ((dg_setScheduleState 0 b)\<lparr>ker := k\<rparr>) = b\<lparr>ker := k\<rparr>"
  using assms by (simp add: dg_setScheduleState_def Let_def)

text \<open>A sequence of write commands, with the list of their results.\<close>

fun io_writes ::
  "'s flash_hw \<Rightarrow> BOARD_IOCTL_ACTION BOARD_IOCTL_PARMS list \<Rightarrow> 's board_drv \<Rightarrow> (int list \<times> 's board_drv) res" where
  "io_writes hw [] b = Inr ([], b)"
| "io_writes hw (p # ps) b =
     bindR (ioctl_flash_write hw False (\<lambda>_. False) (Some p) b) (\<lambda>(r, _, b1).
     bindR (io_writes hw ps b1) (\<lambda>(rs, b2). Inr (r # rs, b2)))"

context mapped_flash begin

lemma ioctl_write_ok:
  assumes "drv_ok dev inv sects b" "io_valid (fInfo (ker b)) p"
  shows "\<exists>b'. ioctl_flash_write hw sig later (Some p) b = Inr (0, Some (p\<lparr>parm_result := 0\<rparr>), b')
     \<and> drv_ok dev inv sects b' \<and> fInfo (ker b') = fInfo (ker b)
     \<and> store_of sects content b' = abs_write (fInfo (ker b)) p (store_of sects content b)"
proof -
  let ?k = "ker b" and ?ps = "all_parts (fInfo (ker b))" and ?c = "content (flash_dev (ker b))"
  have k: "board_ok dev inv sects ?k" "flash_nvram (fInfo ?k) = nvram_part" using assms(1) by (simp_all add: drv_ok_def)
  note b = board_okD[OF k(1)]
  obtain i pos m where a: "part_args (fInfo ?k) p = Some (i, pos, m)" "0 \<le> pos" "0 \<le> m" "pos + m \<le> part_length (?ps ! i)"
    "m \<le> int (length (parm_string p))" "parm_strLen p \<le> part_length (?ps ! i)"
    using assms(2) by (auto simp: io_valid_def split: option.splits)
  have i: "i < length ?ps" using part_args_lt[OF a(1)] .
  have pi: "?ps ! i \<in> set ?ps" using i by simp
  obtain d c where d: "part_write (?ps ! i) pos m (parm_string p) ?k = Inr (0, ?k\<lparr>flash_dev := d, kmalloc_calls := c\<rparr>)"
    "board_ok dev inv sects (?k\<lparr>flash_dev := d, kmalloc_calls := c\<rparr>)"
    "content d = overlay (part_base sects (?ps ! i) + nat pos) (take (nat m) (parm_string p)) ?c"
    by (rule part_set_ok[OF k(1) pi, of "nat pos" "nat m" "parm_string p"]) (use a in auto)
  let ?k' = "?k\<lparr>flash_dev := d, kmalloc_calls := c\<rparr>"
  have na: "get_nvram_start_addr ?k = Inr (base + of_nat 0x580)" by (rule nvram_addr_ok[OF b(1) k(2)])
  have run: "ioctl_flash_write hw sig later (Some p) b = Inr (0, Some (p\<lparr>parm_result := 0\<rparr>), b\<lparr>ker := ?k'\<rparr>)"
    using assms(1) na flash_set_eq[OF a(1,6) k(2)] d(1)
    by (simp add: ioctl_flash_write_def down_flash_def up_flash_def drv_ok_def wait_idle_now dg_setScheduleState_def Let_def)
  have ok: "drv_ok dev inv sects (b\<lparr>ker := ?k'\<rparr>)" using assms(1) d(2) by (simp add: drv_ok_def)
  have lx: "nat pos + length (take (nat m) (parm_string p)) \<le> nat (part_length (?ps ! i))" using a by simp
  have "store_of sects content (b\<lparr>ker := ?k'\<rparr>) = abs_write (fInfo ?k) p (store_of sects content b)"
  proof (rule nth_equalityI)
    fix j assume "j < length (store_of sects content (b\<lparr>ker := ?k'\<rparr>))"
    hence j: "j < length ?ps" by (simp add: store_of_def)
    show "store_of sects content (b\<lparr>ker := ?k'\<rparr>) ! j = abs_write (fInfo ?k) p (store_of sects content b) ! j"
      using part_bytes_overlay_other[OF b(2) i j _ lx board_content[OF k(1)]]
        part_bytes_overlay_same[OF _ lx board_content[OF k(1)]] all_parts_wf[OF b(2) pi] i j a(1) d(3)
      by (cases "j = i") (simp_all add: store_of_def abs_write_def)
  qed (simp add: store_of_def abs_write_def a(1))
  thus ?thesis using run ok by auto
qed

lemma ioctl_read_ok:
  assumes "drv_ok dev inv sects b" "io_valid (fInfo (ker b)) p"
  shows "\<exists>b'. ioctl_flash_read hw sig (Some p) b
       = Inr (0, Some (p\<lparr>parm_string := overlay 0 (abs_read (fInfo (ker b)) p (store_of sects content b)) (parm_string p), parm_result := 0\<rparr>), b')
     \<and> drv_ok dev inv sects b' \<and> fInfo (ker b') = fInfo (ker b) \<and> store_of sects content b' = store_of sects content b"
proof -
  let ?k = "ker b" and ?ps = "all_parts (fInfo (ker b))" and ?c = "content (flash_dev (ker b))"
  have k: "board_ok dev inv sects ?k" "flash_nvram (fInfo ?k) = nvram_part" "flashInitialized ?k" using assms(1) by (simp_all add: drv_ok_def)
  obtain i pos m where a: "part_args (fInfo ?k) p = Some (i, pos, m)" "0 \<le> pos" "0 \<le> m" "pos + m \<le> part_length (?ps ! i)"
    "m \<le> int (length (parm_string p))" "parm_strLen p \<le> part_length (?ps ! i)"
    using assms(2) by (auto simp: io_valid_def split: option.splits)
  have i: "i < length ?ps" using part_args_lt[OF a(1)] .
  have pi: "?ps ! i \<in> set ?ps" using i by simp
  obtain d c where d: "part_read (?ps ! i) pos m (parm_string p) ?k
      = Inr (0, overlay 0 (slice (nat pos) (nat m) (part_bytes sects (?ps ! i) ?c)) (parm_string p), ?k\<lparr>flash_dev := d, kmalloc_calls := c\<rparr>)"
    "board_ok dev inv sects (?k\<lparr>flash_dev := d, kmalloc_calls := c\<rparr>)" "content d = ?c"
    by (rule part_get_ok[OF k(1) pi, of "nat pos" "nat m" "parm_string p"]) (use a in auto)
  let ?b' = "b\<lparr>ker := ?k\<lparr>flash_dev := d, kmalloc_calls := c\<rparr>\<rparr>"
  have "ioctl_flash_read hw sig (Some p) b
      = Inr (0, Some (p\<lparr>parm_string := overlay 0 (abs_read (fInfo ?k) p (store_of sects content b)) (parm_string p), parm_result := 0\<rparr>), ?b')"
    using assms(1) flash_get_eq[OF a(1,6) k(2,3)] d(1) a(1) i
    by (simp add: ioctl_flash_read_def down_flash_def up_flash_def drv_ok_def abs_read_def store_of_def)
  moreover have "drv_ok dev inv sects ?b'" using assms(1) d(2) by (simp add: drv_ok_def)
  moreover have "store_of sects content ?b' = store_of sects content b" using d(3) by (simp add: store_of_def)
  ultimately show ?thesis by auto
qed

lemma io_writes_ok:
  assumes "drv_ok dev inv sects b" "\<And>p. p \<in> set ps \<Longrightarrow> io_valid (fInfo (ker b)) p"
  shows "\<exists>b'. io_writes hw ps b = Inr (replicate (length ps) 0, b') \<and> drv_ok dev inv sects b' \<and> fInfo (ker b') = fInfo (ker b)
     \<and> store_of sects content b' = fold (abs_write (fInfo (ker b))) ps (store_of sects content b)"
  using assms
proof (induction ps arbitrary: b)
  case (Cons p ps)
  obtain b1 where b1: "ioctl_flash_write hw False (\<lambda>_. False) (Some p) b = Inr (0, Some (p\<lparr>parm_result := 0\<rparr>), b1)"
    "drv_ok dev inv sects b1" "fInfo (ker b1) = fInfo (ker b)"
    "store_of sects content b1 = abs_write (fInfo (ker b)) p (store_of sects content b)"
    using ioctl_write_ok[OF Cons.prems(1), of p False "\<lambda>_. False"] Cons.prems(2) by auto
  thus ?case using Cons.IH[OF b1(2)] Cons.prems(2) by auto
qed simp

lemma ioctl_too_long:
  assumes "drv_ok dev inv sects b" "part_args (fInfo (ker b)) p = Some (i, pos, m)"
    and "part_length (all_parts (fInfo (ker b)) ! i) < parm_strLen p"
  shows "ioctl_flash_write hw sig later (Some p) b = Inr (-1, Some (p\<lparr>parm_result := -1\<rparr>), b)"
proof -
  have k: "board_ok dev inv sects (ker b)" "flash_nvram (fInfo (ker b)) = nvram_part" using assms(1) by (simp_all add: drv_ok_def)
  have "get_nvram_start_addr (ker b) = Inr (base + of_nat 0x580)" by (rule nvram_addr_ok[OF board_okD(1)[OF k(1)] k(2)])
  thus ?thesis using assms(1) too_long_refused[OF assms(2,3) k(2)]
    by (simp add: ioctl_flash_write_def down_flash_def up_flash_def drv_ok_def wait_idle_now dg_setScheduleState_def Let_def)
qed

end

lemma wait_idle_first:
  assumes "\<not> busy n" "\<And>i. j \<le> i \<Longrightarrow> i < n \<Longrightarrow> busy i" "j \<le> n" "n < 10"
  shows "wait_idle busy j = Some n"
  using assms
proof (induction "n - j" arbitrary: j)
  case 0 thus ?case by (subst wait_idle.simps) simp
next
  case (Suc x)
  hence "wait_idle busy (Suc j) = Some n" by simp
  thus ?case using Suc.hyps(2) Suc.prems(2)[of j] Suc.prems(4) by (subst wait_idle.simps) simp
qed

lemma wait_idle_never:
  assumes "\<And>i. j \<le> i \<Longrightarrow> i < 10 \<Longrightarrow> busy i" "j < 10"
  shows "wait_idle busy j = None"
  using assms
proof (induction "9 - j" arbitrary: j)
  case 0 thus ?case by (subst wait_idle.simps) simp
next
  case (Suc x)
  hence "wait_idle busy (Suc j) = None" by simp
  thus ?case using Suc.hyps(2) Suc.prems(1)[of j] by (subst wait_idle.simps) simp
qed

section \<open>Equipment test\<close>

text \<open>The change of the NVRAM that a setter asks for; \<open>None\<close> for a buffer that is too short and for the
  getters.\<close>

definition equip_change :: "BOARD_EQUIPMENT_TEST_ACTION BOARD_IOCTL_PARMS \<Rightarrow> (NVRAM_DATA \<Rightarrow> NVRAM_DATA) option" where
  "equip_change p =
     (let s = parm_string p; n = parm_strLen p in
      case parm_action p of
        SET_BASE_MAC_ADDRESS \<Rightarrow> if 6 \<le> length s then Some (\<lambda>d. d\<lparr>ucaBaseMacAddr := take 6 s\<rparr>) else None
      | SET_MAC_AMOUNT \<Rightarrow> Some (\<lambda>d. d\<lparr>ulNumMacAddrs := of_int (parm_offset p)\<rparr>)
      | SET_BOARD_ID \<Rightarrow> if 16 \<le> length s then Some (\<lambda>d. d\<lparr>nv_szBoardId := take 16 s\<rparr>) else None
      | SET_SERIAL_NUMBER \<Rightarrow>
          if 0 \<le> n \<and> min n 32 \<le> int (length s)
          then Some (\<lambda>d. d\<lparr>szSerialNumber := take (nat (min n 32)) s @ replicate (32 - nat (min n 32)) 0\<rparr>)
          else None
      | _ \<Rightarrow> None)"

definition nvram_in :: "('s \<Rightarrow> byte list) \<Rightarrow> 's board_drv \<Rightarrow> NVRAM_DATA" where
  "nvram_in content b = nvram_of (slice 0x580 332 (content (flash_dev (ker b))))"

lemma equip_change_wf: "equip_change p = Some f \<Longrightarrow> nvram_wf d \<Longrightarrow> nvram_wf (f d)"
  by (auto simp: equip_change_def nvram_wf_def Let_def split: BOARD_EQUIPMENT_TEST_ACTION.splits if_splits)

lemma equip_action_store:
  assumes "equip_change p = Some f"
  shows "equip_action hw revID a p k = bindR (equip_store hw a f k) (\<lambda>k'. Inr (p\<lparr>parm_result := 0\<rparr>, k'))"
proof -
  let ?s = "parm_string p" and ?n = "parm_strLen p"
  have mac: "mem_rd ?s 0 6 = Inr (take 6 ?s)" if "6 \<le> length ?s" using that mem_rd_ok[of 0 6 ?s] by (simp add: slice_def)
  have bid: "mem_rd ?s 0 16 = Inr (take 16 ?s)" if "16 \<le> length ?s" using that mem_rd_ok[of 0 16 ?s] by (simp add: slice_def)
  have sn: "mem_rd ?s 0 (if ?n < 32 then ?n else 32) = Inr (take (nat (min ?n 32)) ?s)"
      "overlay 0 (take (nat (min ?n 32)) ?s) (replicate 32 0) = take (nat (min ?n 32)) ?s @ replicate (32 - nat (min ?n 32)) 0"
    if "0 \<le> ?n" "min ?n 32 \<le> int (length ?s)"
  proof -
    have m: "(if ?n < 32 then ?n else 32) = int (nat (min ?n 32))" "nat (min ?n 32) \<le> length ?s" "nat (min ?n 32) \<le> 32" using that by auto
    show "mem_rd ?s 0 (if ?n < 32 then ?n else 32) = Inr (take (nat (min ?n 32)) ?s)"
      unfolding m(1) using mem_rd_ok[of 0 "nat (min ?n 32)" ?s] m(2) by (simp add: slice_def)
    show "overlay 0 (take (nat (min ?n 32)) ?s) (replicate 32 0) = take (nat (min ?n 32)) ?s @ replicate (32 - nat (min ?n 32)) 0"
      using m(2,3) by (simp only: overlay_def length_take min.absorb2 drop_replicate) simp
  qed
  show ?thesis using assms mac bid sn unfolding equip_action_def equip_change_def Let_def
    by (cases "parm_action p") (auto split: if_splits)
qed

context mapped_flash begin

lemma nvram_room: "board_ok dev inv sects k \<Longrightarrow> flash_nvram (fInfo k) = nvram_part \<Longrightarrow> 0x580 + 332 \<le> sum_list sects"
  using all_parts_wf[OF board_okD(2), of dev inv sects k nvram_part] part_end_le[of sects nvram_part]
  by (simp add: all_parts_def part_base_def nvram_part_def)

lemma equip_store_ok:
  assumes "board_ok dev inv sects k" "flash_nvram (fInfo k) = nvram_part" "nvram_wf (f (nvram_of (slice 0x580 332 (content (flash_dev k)))))"
  obtains k' d' where "equip_store hw (base + of_nat 0x580) f k = Inr k'" "board_ok dev inv sects k'" "fInfo k' = fInfo k"
    "flashInitialized k' = flashInitialized k"
    "nvram_seal (f (nvram_of (slice 0x580 332 (content (flash_dev k))))) = Inr d'" "nvram_wf d'"
    "content (flash_dev k') = overlay 0x580 (nvram_bytes d') (content (flash_dev k))"
proof -
  have room: "0x580 + 332 \<le> sum_list sects" using nvram_room[OF assms(1,2)] .
  have iv: "inv (flash_dev k)" using assms(1) by (simp add: board_ok_def sys_ok_def)
  have p: "nvram_part \<in> set (all_parts (fInfo k))" using assms(2) by (simp add: all_parts_def)
  obtain d' where d': "nvram_seal (f (nvram_of (slice 0x580 332 (content (flash_dev k))))) = Inr d'" "nvram_wf d'"
    using nvram_seal_ok[OF assms(3)] .
  have l: "length (nvram_bytes d') = 332" by (rule length_nvram_bytes[OF d'(2)])
  obtain d c where d: "part_write nvram_part (int 0) (int 332) (nvram_bytes d') k = Inr (0, k\<lparr>flash_dev := d, kmalloc_calls := c\<rparr>)"
    "board_ok dev inv sects (k\<lparr>flash_dev := d, kmalloc_calls := c\<rparr>)"
    "content d = overlay (part_base sects nvram_part + 0) (take 332 (nvram_bytes d')) (content (flash_dev k))"
    by (rule part_set_ok[OF assms(1) p, of 0 332 "nvram_bytes d'"]) (simp_all add: l nvram_part_def)
  have "hw_peek hw (base + of_nat 0x580) 332 (flash_dev k) = (slice 0x580 332 (content (flash_dev k)), flash_dev k)"
    by (rule peek_hw[OF iv room])
  hence "equip_store hw (base + of_nat 0x580) f k = Inr (k\<lparr>flash_dev := d, kmalloc_calls := c\<rparr>)"
    using d'(1) d(1) assms(2) by (simp add: equip_store_def kerSysNvRamSet_def)
  thus ?thesis using that[OF _ d(2) _ _ d'] d(3) l by (simp add: part_base_def nvram_part_def)
qed

lemma equip_set_ok:
  assumes "drv_ok dev inv sects b" "equip_change p = Some f"
  shows "\<exists>b'. ioctl_equipment_test hw sig (Some p) b = Inr (0, Some (p\<lparr>parm_result := 0\<rparr>), b') \<and> drv_ok dev inv sects b'
     \<and> Inr (nvram_in content b') = nvram_seal (f (nvram_in content b)) \<and> nvram_valid (nvram_in content b')
     \<and> content (flash_dev (ker b')) = overlay 0x580 (nvram_bytes (nvram_in content b')) (content (flash_dev (ker b)))"
proof -
  let ?k = "ker b" and ?nv = "slice 0x580 332 (content (flash_dev (ker b)))"
  have k: "board_ok dev inv sects ?k" "flash_nvram (fInfo ?k) = nvram_part" using assms(1) by (simp_all add: drv_ok_def)
  have l: "length ?nv = 332" using nvram_room[OF k] board_content[OF k(1)] by simp
  have wf: "nvram_wf (f (nvram_of ?nv))" using equip_change_wf[OF assms(2) nvram_of_wf[OF l]] .
  obtain k' d' where s: "equip_store hw (base + of_nat 0x580) f ?k = Inr k'" "board_ok dev inv sects k'" "fInfo k' = fInfo ?k"
    "flashInitialized k' = flashInitialized ?k" "nvram_seal (f (nvram_of ?nv)) = Inr d'" "nvram_wf d'"
    "content (flash_dev k') = overlay 0x580 (nvram_bytes d') (content (flash_dev ?k))"
    by (rule equip_store_ok[where f = f, OF k wf])
  have na: "get_nvram_start_addr ?k = Inr (base + of_nat 0x580)" by (rule nvram_addr_ok[OF board_okD(1)[OF k(1)] k(2)])
  let ?b' = "b\<lparr>ker := k'\<rparr>"
  have run: "ioctl_equipment_test hw sig (Some p) b = Inr (0, Some (p\<lparr>parm_result := 0\<rparr>), ?b')"
    using assms(1) na s(1) by (simp add: equip_action_store[OF assms(2)] ioctl_equipment_test_def down_flash_def up_flash_def drv_ok_def)
  have lb: "length (nvram_bytes d') = 332" by (rule length_nvram_bytes[OF s(6)])
  have "slice 0x580 332 (content (flash_dev k')) = nvram_bytes d'"
    using slice_overlay_same[of "0x580" "nvram_bytes d'" "content (flash_dev ?k)"] nvram_room[OF k] board_content[OF k(1)] lb s(7) by simp
  hence nv: "nvram_in content ?b' = d'" using nvram_of_bytes[OF s(6)] by (simp add: nvram_in_def)
  have "drv_ok dev inv sects ?b'" using assms(1) s(2-4) by (simp add: drv_ok_def)
  thus ?thesis using run nv s(5,7) nvram_seal_valid[OF s(5)] by (intro exI[of _ ?b']) (simp add: nvram_in_def)
qed

end

section \<open>Replacing the boot loader\<close>

definition cfe_patched :: "BOARD_PARAMETERS option \<Rightarrow> byte list \<Rightarrow> byte list" where
  "cfe_patched bp s =
     overlay 20 (be32_bytes (snd (BpGetCMTThread bp))) (overlay 16 (be32_bytes (snd (BpGetSdramSize bp))) s)"

context mapped_flash begin

lemma set_g_iReset_ok:
  assumes "board_ok dev inv sects k"
  shows "board_ok dev inv sects (set_g_iReset hw r k)" "content (flash_dev (set_g_iReset hw r k)) = content (flash_dev k)"
    "fInfo (set_g_iReset hw r k) = fInfo k" "cur_bp (set_g_iReset hw r k) = cur_bp k"
    "flashInitialized (set_g_iReset hw r k) = flashInitialized k"
  using assms reset_hw[of "flash_dev k" r] board_ok_dev[OF assms] by (simp_all add: set_g_iReset_def board_ok_def sys_ok_def)

lemma write_cfe_drops:
  assumes "board_ok dev inv sects k" "flash_nvram (fInfo k) = nvram_part" "of_int off = (0xBFC00000 :: u32)"
    and "0x580 + 332 \<le> sz" "sz \<le> 131072" "m = sz + sz mod 2" "m \<le> length s"
    and "span sects 0 n < m" "m \<le> span sects 0 (Suc n)" "int (Suc n) \<le> part_start_blk (flash_variable (fInfo k))"
    and "BpSetBoardId (slice (0x580 + 260) 72 s) (cur_bp k) = Inr (r, bp)" "r \<noteq> BP_SUCCESS"
    and "be32 (slice 0x580 4 s) \<noteq> NVRAM_DATA_ID"
  shows "\<exists>k'. write_cfe hw (base + of_nat 0x580) s (int sz) off k = Inr (0, cfe_patched (cur_bp k) s, k')
     \<and> board_ok dev inv sects k' \<and> fInfo k' = fInfo k \<and> flashInitialized k' = flashInitialized k
     \<and> slice 0x580 332 (content (flash_dev k')) = slice 0x580 332 s"
proof -
  let ?s2 = "cfe_patched (cur_bp k) s" and ?k0 = "set_g_iReset hw 0 k"
  have k0: "board_ok dev inv sects ?k0" "content (flash_dev ?k0) = content (flash_dev k)" "fInfo ?k0 = fInfo k"
    "cur_bp ?k0 = cur_bp k" "flashInitialized ?k0 = flashInitialized k" using set_g_iReset_ok[OF assms(1)] .
  have sys: "sys_ok dev inv ?k0" using board_okD(1)[OF k0(1)] .
  hence iv: "inv (flash_dev ?k0)" by (simp add: sys_ok_def)
  have l: "length ?s2 = length s" using assms(4,6,7) by (simp add: cfe_patched_def)
  have vw: "part_wf sects (flash_variable (fInfo k))" using all_parts_wf[OF board_okD(2)[OF assms(1)]] by (simp add: all_parts_def)
  hence ln: "0 + Suc n \<le> length sects" using assms(10) by (auto simp: part_wf_def)
  have room: "0x580 + 332 \<le> sum_list sects" using nvram_room[OF assms(1,2)] .
  have mw: "mem_wr s 16 (be32_bytes (snd (BpGetSdramSize (cur_bp k)))) = Inr (overlay 16 (be32_bytes (snd (BpGetSdramSize (cur_bp k)))) s)"
    "mem_wr (overlay 16 (be32_bytes (snd (BpGetSdramSize (cur_bp k)))) s) 20 (be32_bytes (snd (BpGetCMTThread (cur_bp k)))) = Inr ?s2"
    using assms(4,6,7) mem_wr_ok[of 16 "be32_bytes (snd (BpGetSdramSize (cur_bp k)))" s]
      mem_wr_ok[of 20 "be32_bytes (snd (BpGetCMTThread (cur_bp k)))" "overlay 16 (be32_bytes (snd (BpGetSdramSize (cur_bp k)))) s"]
    by (simp_all add: cfe_patched_def)
  have bo: "of_int off + BOOT_OFFSET hw (flash_dev ?k0) = base + of_nat (sector_start sects 0)"
    using assms(3) base_hw[OF iv] by (simp add: BOOT_OFFSET_def)
  have "\<exists>d. kerSysBcmImageSet hw (base + of_nat (sector_start sects 0)) ?s2 (int sz) ?k0 = Inr (0, ?k0\<lparr>flash_dev := d\<rparr>) \<and> inv d
     \<and> content d = overlay (sector_start sects 0) (take m ?s2 @ replicate (span sects 0 (Suc n) - m) 0xFF) (content (flash_dev ?k0))"
    using assms(4-10) k0(3) l by (intro image_set_ok[OF sys ln]) auto
  then obtain d where d: "kerSysBcmImageSet hw (base + of_nat (sector_start sects 0)) ?s2 (int sz) ?k0 = Inr (0, ?k0\<lparr>flash_dev := d\<rparr>)"
    "inv d" "content d = overlay 0 (take m ?s2 @ replicate (span sects 0 (Suc n) - m) 0xFF) (content (flash_dev k))"
    using k0(2) by auto
  have sl: "slice q j (content d) = slice q j s" if "24 \<le> q" "q + j \<le> sz" for q j
  proof -
    have "length (take m ?s2 @ replicate (span sects 0 (Suc n) - m) 0xFF) \<le> length (content (flash_dev k))"
      using span_end_le[of 0 sects "Suc n"] assms(7,9) board_content[OF assms(1)] l by simp
    hence "slice q j (content d) = slice q j (take m ?s2 @ replicate (span sects 0 (Suc n) - m) 0xFF)"
      using that assms(6,7) l unfolding d(3) by (subst slice_overlay_inner) simp_all
    also have "\<dots> = slice q j ?s2" using that assms(6,7) l by (simp add: slice_def min_def drop_take)
    also have "\<dots> = slice q j s" unfolding cfe_patched_def using that assms(4,6,7) by (simp add: slice_overlay_disjoint)
    finally show ?thesis .
  qed
  have pk: "hw_peek hw (base + of_nat 0x580 + 260) 72 d = (slice (0x580 + 260) 72 s, d)"
    "hw_peek hw (base + of_nat 0x580) 4 d = (slice 0x580 4 s, d)"
    using peek_hw[OF d(2), of "0x580 + 260" 72] peek_hw[OF d(2), of "0x580" 4] room sl[of "0x580 + 260" 72] sl[of "0x580" 4] assms(4)
    by (simp_all add: add.assoc)
  have p0: "hw_peek hw (base + of_nat 0x580) 332 (flash_dev ?k0) = (slice 0x580 332 (content (flash_dev k)), flash_dev ?k0)"
    using peek_hw[OF iv room] k0(2) by simp
  let ?k2 = "?k0\<lparr>flash_dev := d, cur_bp := bp\<rparr>"
  have rs: "restore_nvram hw (base + of_nat 0x580) x (?k0\<lparr>flash_dev := d\<rparr>) = Inr ?k2" for x
    using pk assms(11-13) k0(4) by (simp add: restore_nvram_def Let_def)
  have b2: "board_ok dev inv sects ?k2" using board_ok_dev[OF k0(1) d(2)] by (simp add: board_ok_def sys_ok_def heap_wf_def)
  note k3 = set_g_iReset_ok[OF b2, of 1]
  have "write_cfe hw (base + of_nat 0x580) s (int sz) off k = Inr (0, ?s2, set_g_iReset hw 1 ?k2)"
    using assms(4,5) p0 mw bo d(1) rs k0(4) by (simp add: write_cfe_def Let_def)
  thus ?thesis using k3 k0(3,5) sl[of "0x580" 332] assms(4) by auto
qed

end

end
