(* ===== verification/Ioctl_Correct.thy ===== *)
theory Ioctl_Correct
  imports Ioctl_Store
begin

text \<open>
  The properties of the flash and equipment test commands.
\<close>

section \<open>The simulated board\<close>

definition mx640_drv :: "sim_chip cfi_state kersys \<Rightarrow> sim_chip cfi_state board_drv" where
  "mx640_drv k = \<lparr>ker = k, flash_sem = 1, s_iFlashWriteFlg = False, dg_ulState = 1, dg_ulCount = 0, perf_RevID = 0\<rparr>"

lemma flash_layout_init:
  assumes "mapped_flash dev sects base I content hw"
    and "\<not> flashInitialized k" "hw_flash_init hw (flash_dev k) = Inr (r, Some dev, d)" "I d"
    and "flash_fits sects (GetHarewareType (gpio k))"
  shows "\<exists>k'. kerSysFlashInit hw k = Inr k' \<and> flashInitialized k'"
  using mapped_flash.flash_init_ok[OF assms] by blast

lemma mx640_drv_ok:
  obtains k where "drv_ok mx640_fdev mx640_inv mx640_sectors (mx640_drv k)"
    "all_parts (fInfo k) = layout mx640_sectors 135 (hg556_lengths 0) @ [nvram_part]"
    "map part_length (all_parts (fInfo k)) = [65536, 65536, 8192, 16384, 8192, 8192, 10240, 16384, 8192, 1024]"
proof -
  obtain k where k: "kerSysFlashInit (cfi_hw (sim_ops mx640)) mx640_power_on = Inr k"
    "sys_ok mx640_fdev mx640_inv k" "finfo_wf mx640_sectors (fInfo k)"
    "map part_length (all_parts (fInfo k)) = [65536, 65536, 8192, 16384, 8192, 8192, 10240, 16384, 8192, 1024]"
    "kmalloc_ok k = (\<lambda>_. True)" "heap_live k = {}" "kmalloc_calls k = 0"
    "all_parts (fInfo k) = layout mx640_sectors 135 (hg556_lengths 0) @ [nvram_part]"
    by (rule mx640_booted)
  have "\<not> flashInitialized mx640_power_on"
    "hw_flash_init (cfi_hw (sim_ops mx640)) (flash_dev mx640_power_on) = Inr (FLASH_API_OK, Some mx640_fdev, mx640_ready)"
    by (simp_all add: mx640_power_on_def mx640_hw_init)
  from flash_layout_init[OF mx640_mapped this mx640_ready_inv(1) mx640_fits] k(1) have i: "flashInitialized k" by simp
  show ?thesis
  proof (rule that[OF _ k(8,4)])
    show "drv_ok mx640_fdev mx640_inv mx640_sectors (mx640_drv k)"
    using k(2,3,5-7) i mx640_variable(2)[OF k(8)] by (simp add: drv_ok_def mx640_drv_def board_ok_def heap_wf_def)
  qed
qed

definition io_parm :: "'a \<Rightarrow> byte list \<Rightarrow> int \<Rightarrow> int \<Rightarrow> 'a BOARD_IOCTL_PARMS" where
  "io_parm act s n off =
     \<lparr>parm_string = s, parm_buf = None, parm_strLen = n, parm_offset = off, parm_action = act, parm_result = 0\<rparr>"

lemma wait_idle_iff: "wait_idle busy 0 = Some n \<longleftrightarrow> n < 10 \<and> \<not> busy n \<and> (\<forall>j < n. busy j)"
proof (cases "\<exists>i < 10. \<not> busy i")
  case True
  then obtain i0 where i0: "i0 < 10" "\<not> busy i0" by blast
  define i where "i = (LEAST i. \<not> busy i)"
  have i: "\<not> busy i" "i \<le> i0" unfolding i_def using i0(2) by (rule LeastI, rule Least_le)
  have b: "busy j" if "j < i" for j using that not_less_Least[of j "\<lambda>i. \<not> busy i"] unfolding i_def by blast
  have "wait_idle busy 0 = Some i" using i i0(1) b by (intro wait_idle_first) simp_all
  moreover have "n = i" if "\<not> busy n" "\<forall>j < n. busy j" using that i(1) b by (metis linorder_neqE_nat)
  ultimately show ?thesis using i i0(1) b by auto
next
  case False
  hence "wait_idle busy 0 = None" by (intro wait_idle_never) auto
  thus ?thesis using False by auto
qed

section \<open>Properties\<close>

text \<open>C5: after any sequence of write commands with lengths and positions within their partitions, all of
  which return 0, a read command returns what an abstract store of ten byte lists holds after the same updates. A
  write to one partition so never shows in another one, and semaphore, write flag and monitor state are as
  before.\<close>

theorem ioctl_store_refinement:
  assumes "mapped_flash dev sects base I content hw" "drv_ok dev I sects b"
    and "\<forall>p \<in> set (q # ps). io_valid (fInfo (ker b)) p"
  shows "\<exists>b1 b2. io_writes hw ps b = Inr (replicate (length ps) 0, b1) \<and> drv_ok dev I sects b1
     \<and> store_of sects content b1 = fold (abs_write (fInfo (ker b))) ps (store_of sects content b)
     \<and> ioctl_flash_read hw sig (Some q) b1
         = Inr (0, Some (q\<lparr>parm_string := overlay 0 (abs_read (fInfo (ker b)) q (store_of sects content b1)) (parm_string q),
                           parm_result := 0\<rparr>), b2)
     \<and> drv_ok dev I sects b2 \<and> store_of sects content b2 = store_of sects content b1"
proof -
  obtain b1 where b1: "io_writes hw ps b = Inr (replicate (length ps) 0, b1)" "drv_ok dev I sects b1" "fInfo (ker b1) = fInfo (ker b)"
    "store_of sects content b1 = fold (abs_write (fInfo (ker b))) ps (store_of sects content b)"
    using mapped_flash.io_writes_ok[OF assms(1,2), of ps] assms(3) by (meson list.set_intros(2))
  obtain b2 where b2: "ioctl_flash_read hw sig (Some q) b1
      = Inr (0, Some (q\<lparr>parm_string := overlay 0 (abs_read (fInfo (ker b1)) q (store_of sects content b1)) (parm_string q), parm_result := 0\<rparr>), b2)"
    "drv_ok dev I sects b2" "store_of sects content b2 = store_of sects content b1"
    using mapped_flash.ioctl_read_ok[OF assms(1) b1(2), of q sig] assms(3) b1(3) by (metis list.set_intros(1))
  show ?thesis using b1(1,2,4) b2[unfolded b1(3)] by blast
qed

theorem ioctl_store_refinement_witness:
  "\<exists>b b1 b2. io_writes (cfi_hw (sim_ops mx640)) [io_parm VARIABLE [1, 2, 3] 3 100, io_parm PERSISTENT [9] 1 101] b = Inr ([0, 0], b1)
     \<and> ioctl_flash_read (cfi_hw (sim_ops mx640)) False (Some (io_parm VARIABLE [0, 0] 2 101)) b1
         = Inr (0, Some (io_parm VARIABLE [2, 3] 2 101), b2)"
proof -
  obtain k where k: "drv_ok mx640_fdev mx640_inv mx640_sectors (mx640_drv k)"
    "map part_length (all_parts (fInfo k)) = [65536, 65536, 8192, 16384, 8192, 8192, 10240, 16384, 8192, 1024]"
    by (rule mx640_drv_ok)
  let ?ps = "[io_parm VARIABLE [1, 2, 3] 3 100, io_parm PERSISTENT [9] 1 101]" and ?q = "io_parm VARIABLE [0, 0] 2 101"
  let ?st = "store_of mx640_sectors mx640_content (mx640_drv k)"
  have len: "part_length (all_parts (fInfo k) ! 4) = 8192" "part_length (all_parts (fInfo k) ! 0) = 65536"
    using arg_cong[OF k(2), of "\<lambda>l. l ! 4"] arg_cong[OF k(2), of "\<lambda>l. l ! 0"] by (simp_all add: all_parts_def)
  have v: "\<forall>p \<in> set (?q # ?ps). io_valid (fInfo (ker (mx640_drv k))) p"
    using len by (simp add: io_valid_def part_args_def io_parm_def Let_def mx640_drv_def)
  have b: "board_ok mx640_fdev mx640_inv mx640_sectors k" using k(1) by (simp add: drv_ok_def mx640_drv_def)
  have "part_wf mx640_sectors (all_parts (fInfo k) ! 4)" using all_parts_wf[OF board_okD(2)[OF b]] by (simp add: all_parts_def)
  from length_part_bytes[OF this flash_device.board_content[OF mx640_device b]] len(1)
  have st: "length (?st ! 4) = 8192" "length ?st = 10" by (simp_all add: store_of_def mx640_drv_def all_parts_def)
  obtain b1 b2 where r: "io_writes (cfi_hw (sim_ops mx640)) ?ps (mx640_drv k) = Inr (replicate (length ?ps) 0, b1)"
    "store_of mx640_sectors mx640_content b1 = fold (abs_write (fInfo (ker (mx640_drv k)))) ?ps ?st"
    "ioctl_flash_read (cfi_hw (sim_ops mx640)) False (Some ?q) b1
         = Inr (0, Some (?q\<lparr>parm_string := overlay 0 (abs_read (fInfo (ker (mx640_drv k))) ?q (store_of mx640_sectors mx640_content b1)) (parm_string ?q),
                           parm_result := 0\<rparr>), b2)"
    using ioctl_store_refinement[OF mx640_mapped k(1) v, of False] by blast
  have "abs_read (fInfo (ker (mx640_drv k))) ?q (store_of mx640_sectors mx640_content b1) = [2, 3]"
    unfolding r(2) using st
    by (simp add: abs_read_def abs_write_def part_args_def io_parm_def Let_def slice_overlay_inner) (simp add: slice_def)
  hence "ioctl_flash_read (cfi_hw (sim_ops mx640)) False (Some ?q) b1 = Inr (0, Some (io_parm VARIABLE [2, 3] 2 101), b2)"
    unfolding r(3) by (simp add: io_parm_def overlay_def)
  moreover have "io_writes (cfi_hw (sim_ops mx640)) ?ps (mx640_drv k) = Inr ([0, 0], b1)" using r(1) by (simp del: io_writes.simps)
  ultimately show ?thesis by blast
qed

text \<open>C20: the wait for another writer ends after at most ten tests of the flag: it succeeds at the first of them that
  finds the flag clear, and gives up when there is none.\<close>

theorem write_wait_bounded:
  "wait_idle busy 0 = Some n \<longleftrightarrow> n < 10 \<and> \<not> busy n \<and> (\<forall>j < n. busy j)"
  by (rule wait_idle_iff)

theorem write_wait_bounded_witness: "wait_idle (\<lambda>i. i < 3) 0 = Some 3"
  using write_wait_bounded[of "\<lambda>i. i < 3" 3] by simp

text \<open>C24: a write command whose length exceeds its partition, or that finds the write flag set ten times, returns -1
  to the caller and in the parameter block, and leaves the driver and the flash as they were.\<close>

theorem ioctl_write_refused:
  assumes "mapped_flash dev sects base I content hw" "drv_ok dev I sects b"
    and "part_args (fInfo (ker b)) p = Some (i, pos, m)"
    and "part_length (all_parts (fInfo (ker b)) ! i) < parm_strLen p \<and> b' = b
       \<or> (\<forall>j \<in> {1..<10}. later j) \<and> b' = b\<lparr>s_iFlashWriteFlg := True\<rparr>"
  shows "ioctl_flash_write hw sig later (Some p) b' = Inr (-1, Some (p\<lparr>parm_result := -1\<rparr>), b')"
  using assms(4)
proof
  assume "part_length (all_parts (fInfo (ker b)) ! i) < parm_strLen p \<and> b' = b"
  thus ?thesis using mapped_flash.ioctl_too_long[OF assms(1-3)] by blast
next
  assume a: "(\<forall>j \<in> {1..<10}. later j) \<and> b' = b\<lparr>s_iFlashWriteFlg := True\<rparr>"
  have "wait_idle (\<lambda>i. 0 < i \<longrightarrow> later i) 0 = None" using a by (intro wait_idle_never) auto
  thus ?thesis using assms(2) a by (simp add: ioctl_flash_write_def down_flash_def up_flash_def drv_ok_def)
qed

theorem ioctl_write_refused_witness:
  "\<exists>b. ioctl_flash_write (cfi_hw (sim_ops mx640)) False (\<lambda>_. True) (Some (io_parm NVRAM [] 2000 0)) b
         = Inr (-1, Some ((io_parm NVRAM [] 2000 0)\<lparr>parm_result := -1\<rparr>), b)"
proof -
  obtain k where k: "drv_ok mx640_fdev mx640_inv mx640_sectors (mx640_drv k)"
    "map part_length (all_parts (fInfo k)) = [65536, 65536, 8192, 16384, 8192, 8192, 10240, 16384, 8192, 1024]"
    by (rule mx640_drv_ok)
  have len: "part_length (all_parts (fInfo k) ! 9) = 1024"
    using arg_cong[OF k(2), of "\<lambda>l. l ! 9"] by (simp add: all_parts_def)
  have "part_args (fInfo (ker (mx640_drv k))) (io_parm NVRAM [] 2000 0) = Some (9, 0, 2000)"
    by (simp add: part_args_def io_parm_def)
  from ioctl_write_refused[OF mx640_mapped k(1) this, of "mx640_drv k" "\<lambda>_. True" False] len show ?thesis
    by (auto simp: mx640_drv_def io_parm_def)
qed

text \<open>C14: each of the four setters of the equipment test stores exactly the asked change of the NVRAM structure: the
  NVRAM in flash is the old structure with the new field and a checksum that is valid, no byte outside of it changes, and
  the semaphore is free again.\<close>

theorem equipment_test_seals:
  assumes "mapped_flash dev sects base I content hw" "drv_ok dev I sects b" "equip_change p = Some f"
  shows "\<exists>b'. ioctl_equipment_test hw sig (Some p) b = Inr (0, Some (p\<lparr>parm_result := 0\<rparr>), b') \<and> drv_ok dev I sects b'
     \<and> Inr (nvram_in content b') = nvram_seal (f (nvram_in content b)) \<and> nvram_valid (nvram_in content b')
     \<and> content (flash_dev (ker b')) = overlay 0x580 (nvram_bytes (nvram_in content b')) (content (flash_dev (ker b)))"
  by (rule mapped_flash.equip_set_ok[OF assms])

theorem equipment_test_seals_witness:
  "\<exists>b b'. ioctl_equipment_test (cfi_hw (sim_ops mx640)) False (Some (io_parm SET_BASE_MAC_ADDRESS [0, 1, 2, 3, 4, 5] 6 0)) b
         = Inr (0, Some ((io_parm SET_BASE_MAC_ADDRESS [0, 1, 2, 3, 4, 5] 6 0)\<lparr>parm_result := 0\<rparr>), b')
     \<and> nvram_valid (nvram_in mx640_content b')"
proof -
  obtain k where k: "drv_ok mx640_fdev mx640_inv mx640_sectors (mx640_drv k)" by (rule mx640_drv_ok)
  have "equip_change (io_parm SET_BASE_MAC_ADDRESS [0, 1, 2, 3, 4, 5] 6 0) = Some (\<lambda>d. d\<lparr>ucaBaseMacAddr := [0, 1, 2, 3, 4, 5]\<rparr>)"
    by (simp add: equip_change_def io_parm_def)
  from equipment_test_seals[OF mx640_mapped k this, of False] show ?thesis by blast
qed

text \<open>C32: writing a boot loader image that holds no NVRAM structure and no known board id returns 0 and leaves the image's
  bytes in the place of the NVRAM: the saved settings are not put back.\<close>

theorem cfe_update_drops_nvram:
  assumes "mapped_flash dev sects base I content hw"
    and "board_ok dev I sects k" "flash_nvram (fInfo k) = nvram_part" "of_int off = (0xBFC00000 :: u32)"
    and "0x580 + 332 \<le> sz" "sz \<le> 131072" "m = sz + sz mod 2" "m \<le> length s"
    and "span sects 0 n < m" "m \<le> span sects 0 (Suc n)" "int (Suc n) \<le> part_start_blk (flash_variable (fInfo k))"
    and "BpSetBoardId (slice (0x580 + 260) 72 s) (cur_bp k) = Inr (r, bp)" "r \<noteq> BP_SUCCESS"
    and "be32 (slice 0x580 4 s) \<noteq> NVRAM_DATA_ID"
  shows "\<exists>k'. write_cfe hw (base + of_nat 0x580) s (int sz) off k = Inr (0, cfe_patched (cur_bp k) s, k')
     \<and> slice 0x580 332 (content (flash_dev k')) = slice 0x580 332 s"
  using mapped_flash.write_cfe_drops[OF assms] by blast

theorem cfe_update_drops_nvram_witness:
  "\<exists>k k' s. write_cfe (cfi_hw (sim_ops mx640)) (0xBFC00000 + of_nat 0x580) (replicate 65536 0) (int 65536) 0xBFC00000 k = Inr (0, s, k')
     \<and> slice 0x580 332 (mx640_content (flash_dev k')) = replicate 332 0"
proof -
  obtain k where k: "drv_ok mx640_fdev mx640_inv mx640_sectors (mx640_drv k)"
    "all_parts (fInfo k) = layout mx640_sectors 135 (hg556_lengths 0) @ [nvram_part]"
    by (rule mx640_drv_ok)
  have b: "board_ok mx640_fdev mx640_inv mx640_sectors k" using k(1) by (simp add: drv_ok_def mx640_drv_def)
  have sp: "span mx640_sectors 0 7 = 57344" "span mx640_sectors 0 (Suc 7) = 65536" by (simp_all add: mx640_sectors_def sum_list_replicate)
  have bid: "BpSetBoardId (slice (0x580 + 260) 72 (replicate 65536 0)) (cur_bp k) = Inr (BP_BOARD_ID_NOT_FOUND, cur_bp k)"
    by (intro BpSetBoardId_unknown) (auto simp: slice_def g_BoardParms_def g_boards c_str_char_array)
  have sl: "slice 0x580 332 (replicate 65536 (0 :: byte)) = replicate 332 0" by (simp add: slice_def)
  have "slice 0x580 4 (replicate 65536 (0 :: byte)) = [0, 0, 0, 0]" by (simp add: slice_def) code_simp
  hence be: "be32 (slice 0x580 4 (replicate 65536 0)) \<noteq> NVRAM_DATA_ID" by (simp add: be32_def)
  from cfe_update_drops_nvram[OF mx640_mapped b mx640_variable(2)[OF k(2)], of "0xBFC00000" 65536 65536 "replicate 65536 0" 7, OF _ _ _ _ _ _ _ _ bid _ be]
    sp mx640_variable(1)[OF k(2)] show ?thesis unfolding sl by auto
qed

end
