(* ===== verification/Buttons_Correct.thy ===== *)
theory Buttons_Correct
  imports Buttons Ioctl_Correct
begin

text \<open>
  What the buttons do over time, and what restoring the factory settings does to the partitions.
\<close>

section \<open>Runs in a row\<close>

definition trailing :: "('a \<Rightarrow> bool) \<Rightarrow> 'a list \<Rightarrow> nat" where
  "trailing P xs = length (takeWhile P (rev xs))"

lemma trailing_snoc [simp]: "trailing P (xs @ [x]) = (if P x then Suc (trailing P xs) else 0)" "trailing P [] = 0"
  by (simp_all add: trailing_def)

definition run_of :: "nat \<Rightarrow> ('a \<Rightarrow> bool) \<Rightarrow> 'a list \<Rightarrow> bool" where
  "run_of n P xs \<longleftrightarrow> (\<exists>i. i + n \<le> length xs \<and> (\<forall>j < n. P (xs ! (i + j))))"

lemma takeWhile_ge: "n \<le> length (takeWhile P ys) \<longleftrightarrow> n \<le> length ys \<and> (\<forall>j < n. P (ys ! j))"
proof (induction ys arbitrary: n)
  case (Cons y ys)
  show ?case
  proof (cases n)
    case (Suc m)
    have "(\<forall>j < Suc m. P ((y # ys) ! j)) \<longleftrightarrow> P y \<and> (\<forall>j < m. P (ys ! j))" by (simp add: All_less_Suc2)
    thus ?thesis using Cons.IH[of m] Suc by auto
  qed simp
qed auto

lemma trailing_ge: "n \<le> trailing P xs \<longleftrightarrow> n \<le> length xs \<and> (\<forall>j < n. P (xs ! (length xs - n + j)))"
proof -
  have "(\<forall>j < n. P (rev xs ! j)) \<longleftrightarrow> (\<forall>j < n. P (xs ! (length xs - n + j)))" if n: "n \<le> length xs"
  proof
    assume a: "\<forall>j < n. P (rev xs ! j)"
    show "\<forall>j < n. P (xs ! (length xs - n + j))"
    proof (intro allI impI)
      fix j assume "j < n"
      thus "P (xs ! (length xs - n + j))" using a[rule_format, of "n - Suc j"] n by (simp add: rev_nth Suc_diff_Suc)
    qed
  next
    assume a: "\<forall>j < n. P (xs ! (length xs - n + j))"
    show "\<forall>j < n. P (rev xs ! j)"
    proof (intro allI impI)
      fix j assume "j < n"
      thus "P (rev xs ! j)" using a[rule_format, of "n - Suc j"] n by (simp add: rev_nth)
    qed
  qed
  thus ?thesis by (auto simp: trailing_def takeWhile_ge)
qed

lemma run_of_snoc: "0 < n \<Longrightarrow> run_of n P (xs @ [x]) \<longleftrightarrow> run_of n P xs \<or> n \<le> trailing P (xs @ [x])"
proof
  assume n: "0 < n" and "run_of n P (xs @ [x])"
  then obtain i where i: "i + n \<le> Suc (length xs)" "\<forall>j < n. P ((xs @ [x]) ! (i + j))" by (auto simp: run_of_def)
  show "run_of n P xs \<or> n \<le> trailing P (xs @ [x])"
  proof (cases "i + n \<le> length xs")
    case True
    hence "run_of n P xs" unfolding run_of_def using i(2) by (intro exI[of _ i]) (auto simp: nth_append)
    thus ?thesis ..
  next
    case False
    hence "i = Suc (length xs) - n" using i(1) by simp
    thus ?thesis using i n unfolding trailing_ge by auto
  qed
next
  assume n: "0 < n" and a: "run_of n P xs \<or> n \<le> trailing P (xs @ [x])"
  from a show "run_of n P (xs @ [x])"
  proof
    assume "run_of n P xs"
    then obtain i where "i + n \<le> length xs" "\<forall>j < n. P (xs ! (i + j))" by (auto simp: run_of_def)
    thus ?thesis unfolding run_of_def by (intro exI[of _ i]) (auto simp: nth_append)
  next
    assume "n \<le> trailing P (xs @ [x])"
    hence "n \<le> length (xs @ [x]) \<and> (\<forall>j < n. P ((xs @ [x]) ! (length (xs @ [x]) - n + j)))" unfolding trailing_ge .
    thus ?thesis unfolding run_of_def by (metis le_add_diff_inverse2 order_refl)
  qed
qed

section \<open>The restore button\<close>

text \<open>What a poll sees: whether the flash is being written, and the pins.\<close>

definition observe :: "bool \<times> gpio_regs \<Rightarrow> 's btn_state \<Rightarrow> 's btn_state" where
  "observe ob b =
     b\<lparr>drv := (drv b)\<lparr>s_iFlashWriteFlg := fst ob, ker := (ker (drv b))\<lparr>gpio := snd ob\<rparr>\<rparr>\<rparr>"

fun restore_polls :: "(bool \<times> gpio_regs) list \<Rightarrow> 's btn_state \<Rightarrow> 's btn_state" where
  "restore_polls [] b = b"
| "restore_polls (ob # obs) b = restore_polls obs (poll_restore_default (observe ob b))"

definition held :: "BOARD_PARAMETERS option \<Rightarrow> bool \<times> gpio_regs \<Rightarrow> bool" where
  "held bp ob \<longleftrightarrow> \<not> fst ob \<and> kerSysGetRestoreDefCfgBtnStatus bp (snd ob) = 0"

lemma restore_polls_snoc: "restore_polls (obs @ [ob]) b = poll_restore_default (observe ob (restore_polls obs b))"
  by (induction obs arbitrary: b) auto

lemma poll_restore_step:
  assumes "g_nEquipTestMode b \<le> 0" "bp = cur_bp (ker (drv b))" "0 \<le> kerSysGetRestoreDefCfgBtnStatus bp (snd ob)"
    and "0 \<le> s_iRestoreDefCfgBtnCnt b"
  shows "s_iRestoreDefCfgBtnCnt (poll_restore_default (observe ob b)) = (if held bp ob then s_iRestoreDefCfgBtnCnt b + 1 else 0)"
    "g_iRestoreFlag (poll_restore_default (observe ob b)) \<longleftrightarrow> g_iRestoreFlag b \<or> held bp ob \<and> 5 \<le> s_iRestoreDefCfgBtnCnt b + 1"
    "board_work (poll_restore_default (observe ob b))
       = board_work b + (if \<not> g_iRestoreFlag b \<and> held bp ob \<and> 5 \<le> s_iRestoreDefCfgBtnCnt b + 1 then 1 else 0)"
    "timers (poll_restore_default (observe ob b)) Poll_restorebtn = Some 200"
    "cur_bp (ker (drv (poll_restore_default (observe ob b)))) = bp" "g_nEquipTestMode (poll_restore_default (observe ob b)) \<le> 0"
  using assms by (simp_all add: poll_restore_default_def observe_def held_def set_timer_def Let_def)

lemma restore_run:
  assumes "g_nEquipTestMode b \<le> 0" "s_iRestoreDefCfgBtnCnt b = 0" "\<not> g_iRestoreFlag b" "board_work b = 0"
    and "bp = cur_bp (ker (drv b))" "\<forall>ob \<in> set obs. 0 \<le> kerSysGetRestoreDefCfgBtnStatus bp (snd ob)"
  shows "s_iRestoreDefCfgBtnCnt (restore_polls obs b) = int (trailing (held bp) obs)
     \<and> (g_iRestoreFlag (restore_polls obs b) \<longleftrightarrow> run_of 5 (held bp) obs)
     \<and> board_work (restore_polls obs b) = (if run_of 5 (held bp) obs then 1 else 0)
     \<and> g_nEquipTestMode (restore_polls obs b) \<le> 0 \<and> cur_bp (ker (drv (restore_polls obs b))) = bp
     \<and> (obs \<noteq> [] \<longrightarrow> timers (restore_polls obs b) Poll_restorebtn = Some 200)"
  using assms
proof (induction obs rule: rev_induct)
  case Nil thus ?case by (simp add: run_of_def)
next
  case (snoc ob obs)
  let ?b = "restore_polls obs b"
  have ih: "s_iRestoreDefCfgBtnCnt ?b = int (trailing (held bp) obs)" "g_iRestoreFlag ?b \<longleftrightarrow> run_of 5 (held bp) obs"
    "board_work ?b = (if run_of 5 (held bp) obs then 1 else 0)" "g_nEquipTestMode ?b \<le> 0" "bp = cur_bp (ker (drv ?b))"
    using snoc by auto
  have o: "0 \<le> kerSysGetRestoreDefCfgBtnStatus bp (snd ob)" using snoc.prems(6) by simp
  have nn: "0 \<le> s_iRestoreDefCfgBtnCnt ?b" using ih(1) by simp
  note step = poll_restore_step[OF ih(4,5) o nn]
  have "run_of 5 (held bp) (obs @ [ob]) \<longleftrightarrow> run_of 5 (held bp) obs \<or> held bp ob \<and> 5 \<le> s_iRestoreDefCfgBtnCnt ?b + 1"
    using run_of_snoc[of 5 "held bp" obs ob] ih(1) by auto
  thus ?case unfolding restore_polls_snoc using step ih by (simp split: if_splits)
qed

section \<open>The WLAN key\<close>

fun wlan_polls :: "gpio_regs list \<Rightarrow> 's btn_state \<Rightarrow> 's btn_state res" where
  "wlan_polls [] b = Inr b"
| "wlan_polls (g # gs) b = bindR (poll_switch_wlan_key (observe (s_iFlashWriteFlg (drv b), g) b)) (wlan_polls gs)"

lemma wlan_held:
  assumes "kerSysGetWlanButtonStatus (cur_bp (ker (drv b))) g = 0"
  shows "\<exists>b'. wlan_polls (replicate n g @ gs) b = wlan_polls gs b' \<and> s_ucWlanButtonCnt b' = s_ucWlanButtonCnt b + of_nat n
     \<and> g_sWlanFlag b' = g_sWlanFlag b \<and> WPS_FLAG b' = WPS_FLAG b \<and> g_nEquipTestMode b' = g_nEquipTestMode b
     \<and> hardware_type b' = hardware_type b \<and> cur_bp (ker (drv b')) = cur_bp (ker (drv b))
     \<and> regIndex b' = regIndex b \<and> g_callbacks b' = g_callbacks b \<and> g_netdevice b' = g_netdevice b \<and> callbacks_run b' = callbacks_run b"
  using assms
proof (induction n arbitrary: b)
  case (Suc n)
  let ?b = "set_timer Switch_wlan (POLLCNT_1SEC div 4) ((observe (s_iFlashWriteFlg (drv b), g) b)\<lparr>s_ucWlanButtonCnt := s_ucWlanButtonCnt b + 1\<rparr>)"
  have "poll_switch_wlan_key (observe (s_iFlashWriteFlg (drv b), g) b) = Inr ?b"
    using Suc.prems by (simp add: poll_switch_wlan_key_def observe_def)
  moreover have "kerSysGetWlanButtonStatus (cur_bp (ker (drv ?b))) g = 0" using Suc.prems by (simp add: observe_def set_timer_def)
  note Suc.IH[OF this]
  ultimately show ?case by (auto simp: observe_def set_timer_def algebra_simps)
qed auto

text \<open>The registered callbacks, in order.\<close>

definition callbacks :: "'s btn_state \<Rightarrow> (nat option \<times> nat option) list" where
  "callbacks b = zip (take (unat (regIndex b)) (g_callbacks b)) (take (unat (regIndex b)) (g_netdevice b))"

lemma wlan_released:
  assumes "0 < kerSysGetWlanButtonStatus (cur_bp (ker (drv b))) r" "g_nEquipTestMode b \<le> 0"
    and "regIndex b \<le> 100" "None \<notin> set (take (unat (regIndex b)) (g_callbacks b))"
  shows "\<exists>b'. wlan_polls [r] b = Inr b' \<and> s_ucWlanButtonCnt b' = 0 \<and> timers b' Switch_wlan = Some 50
     \<and> WPS_FLAG b' = (if 16 < uint (s_ucWlanButtonCnt b) \<and> hardware_type b \<noteq> HG55VDFA then 1 else WPS_FLAG b)
     \<and> callbacks_run b' = callbacks_run b @ (if 16 < uint (s_ucWlanButtonCnt b) \<and> hardware_type b = HG55VDFA then callbacks b else [])
     \<and> g_sWlanFlag b' = (if 1 \<le> uint (s_ucWlanButtonCnt b) \<and> uint (s_ucWlanButtonCnt b) \<le> 16
                         then if g_sWlanFlag b = 0 then 1 else 0 else g_sWlanFlag b)"
proof -
  have "unat (regIndex b) \<le> 100" using assms(3) by (simp add: word_le_nat_alt)
  thus ?thesis using assms
    by (auto simp: poll_switch_wlan_key_def observe_def set_timer_def Let_def do_wps_pbc_notify_atheros_def kerSysWakeupMonitorTask_def callbacks_def)
qed

section \<open>Factory settings\<close>

definition parts_of :: "nat list \<Rightarrow> ('s \<Rightarrow> byte list) \<Rightarrow> 's kersys \<Rightarrow> byte list list" where
  "parts_of sects content k = map (\<lambda>p. part_bytes sects p (content (flash_dev k))) (all_parts (fInfo k))"

definition av_upd :: "(byte list \<times> int \<times> int) list \<Rightarrow> byte list \<Rightarrow> byte list" where
  "av_upd es a = fold (\<lambda>(s, n, off) a. overlay (nat off) (take (nat n) s) a) es a"

definition tag_cleared :: "byte list \<Rightarrow> byte list" where
  "tag_cleared a =
     (let s = takeWhile (\<lambda>c. c \<noteq> 0) (take 10 a)
      in if strstr s failure_tag \<and> s \<noteq> map of_char ''5aa5a55a0'' then overlay 0 (c_lit ''5aa5a55a0'') a else a)"

text \<open>The partitions after the restore, from those before.\<close>

definition restored :: "byte list list \<Rightarrow> byte list list" where
  "restored ps =
     ps[0 := replicate (length (ps ! 0)) 0, 1 := replicate (length (ps ! 1)) 0, 5 := replicate (length (ps ! 5)) 0,
        3 := av_upd (restore_entries (replicate 3072 0))
               (av_upd [(replicate 16 0xFF, 16, 80), (c_lit ''resdeft'', 8, 2400)]
                 (tag_cleared (overlay 2400 (c_lit ''resdeft'') (ps ! 3)))),
        4 := overlay 272 (c_lit ''resetok'') (ps ! 4)]"

definition av_valid :: "flash_addr_info \<Rightarrow> byte list \<times> int \<times> int \<Rightarrow> bool" where
  "av_valid info e \<longleftrightarrow>
     (case e of (s, n, off) \<Rightarrow> 0 \<le> n \<and> 0 \<le> off \<and> off + n \<le> part_length (flash_avail info) \<and> n \<le> int (length s))"

lemma all_parts_mem: "i < 10 \<Longrightarrow> all_parts info ! i \<in> set (all_parts info)"
  by (rule nth_mem) (simp add: all_parts_def)

lemma length_parts: "length (parts_of sects content k) = 10"
  by (simp add: parts_of_def all_parts_def)

context flash_device begin

lemma parts_upd:
  assumes "board_ok dev inv sects k" "i < 10" "pos + length xs \<le> nat (part_length (all_parts (fInfo k) ! i))"
    and "fInfo k' = fInfo k"
    and "content (flash_dev k') = overlay (part_base sects (all_parts (fInfo k) ! i) + pos) xs (content (flash_dev k))"
  shows "parts_of sects content k' = (parts_of sects content k)[i := overlay pos xs (parts_of sects content k ! i)]"
proof (rule nth_equalityI)
  note b = board_okD[OF assms(1)]
  have l: "length (all_parts (fInfo k)) = 10" by (simp add: all_parts_def)
  fix j assume "j < length (parts_of sects content k')"
  hence j: "j < length (all_parts (fInfo k))" using l by (simp add: length_parts)
  have i: "i < length (all_parts (fInfo k))" using l assms(2) by simp
  have "all_parts (fInfo k) ! i \<in> set (all_parts (fInfo k))" using i by simp
  thus "parts_of sects content k' ! j = (parts_of sects content k)[i := overlay pos xs (parts_of sects content k ! i)] ! j"
    using part_bytes_overlay_other[OF b(2) i j _ assms(3) board_content[OF assms(1)]]
      part_bytes_overlay_same[OF _ assms(3) board_content[OF assms(1)]] all_parts_wf[OF b(2)] i j assms(4,5)
    by (cases "j = i") (simp_all add: parts_of_def)
qed (simp add: length_parts)

lemma length_part:
  assumes "board_ok dev inv sects k" "i < 10"
  shows "length (parts_of sects content k ! i) = nat (part_length (all_parts (fInfo k) ! i))"
proof -
  have l: "i < length (all_parts (fInfo k))" using assms(2) by (simp add: all_parts_def)
  have "part_wf sects (all_parts (fInfo k) ! i)" using all_parts_wf[OF board_okD(2)[OF assms(1)] all_parts_mem[OF assms(2)]] by simp
  thus ?thesis using length_part_bytes[OF _ board_content[OF assms(1)]] l by (simp add: parts_of_def)
qed

lemma parts_set:
  assumes "board_ok dev inv sects k" "i < 10" "0 \<le> pos" "0 \<le> m" "pos + m \<le> part_length (all_parts (fInfo k) ! i)" "m \<le> int (length s)"
  obtains k' where "part_write (all_parts (fInfo k) ! i) pos m s k = Inr (0, k')" "board_ok dev inv sects k'" "fInfo k' = fInfo k"
    "parts_of sects content k' = (parts_of sects content k)[i := overlay (nat pos) (take (nat m) s) (parts_of sects content k ! i)]"
    "flashInitialized k' = flashInitialized k"
proof -
  have p: "all_parts (fInfo k) ! i \<in> set (all_parts (fInfo k))" using assms(2) by (rule all_parts_mem)
  obtain d c where d: "part_write (all_parts (fInfo k) ! i) pos m s k = Inr (0, k\<lparr>flash_dev := d, kmalloc_calls := c\<rparr>)"
    "board_ok dev inv sects (k\<lparr>flash_dev := d, kmalloc_calls := c\<rparr>)"
    "content d = overlay (part_base sects (all_parts (fInfo k) ! i) + nat pos) (take (nat m) s) (content (flash_dev k))"
    by (rule part_set_ok[OF assms(1) p, of "nat pos" "nat m" s]) (use assms in auto)
  have "nat pos + length (take (nat m) s) \<le> nat (part_length (all_parts (fInfo k) ! i))" using assms by simp
  from parts_upd[OF assms(1,2) this, of "k\<lparr>flash_dev := d, kmalloc_calls := c\<rparr>"] d(3) that[OF d(1,2)] show ?thesis by simp
qed

lemma parts_clear:
  assumes "board_ok dev inv sects k" "i < 10"
  obtains k' where "part_clear (all_parts (fInfo k) ! i) k = Inr (0, k')" "board_ok dev inv sects k'" "fInfo k' = fInfo k"
    "parts_of sects content k' = (parts_of sects content k)[i := replicate (length (parts_of sects content k ! i)) 0]"
    "flashInitialized k' = flashInitialized k"
proof -
  note b = board_okD[OF assms(1)]
  let ?p = "all_parts (fInfo k) ! i"
  have p: "?p \<in> set (all_parts (fInfo k))" using assms(2) by (rule all_parts_mem)
  note w = all_parts_wf[OF b(2) p]
  obtain d c where d: "part_clear ?p k = Inr (0, k\<lparr>flash_dev := d, kmalloc_calls := c\<rparr>)" "kmalloc_calls k \<le> c" "inv d"
    "content d = overlay (part_base sects ?p) (replicate (nat (part_length ?p)) 0) (content (flash_dev k))"
    using part_clear_ok[OF b(1) conjunct1[OF w] b(4,3) conjunct2[OF w]] by auto
  have ok: "board_ok dev inv sects (k\<lparr>flash_dev := d, kmalloc_calls := c\<rparr>)" using board_ok_upd[OF assms(1) d(3,2)] .
  have l: "length (parts_of sects content k ! i) = nat (part_length ?p)" using length_part[OF assms] .
  have "overlay 0 (replicate (nat (part_length ?p)) 0) (parts_of sects content k ! i) = replicate (nat (part_length ?p)) 0"
    using l by (simp add: overlay_def)
  with parts_upd[OF assms, of 0 "replicate (nat (part_length ?p)) 0" "k\<lparr>flash_dev := d, kmalloc_calls := c\<rparr>"] d(4) l that[OF d(1) ok]
  show ?thesis by simp
qed

lemma avail_sets_ok:
  assumes "board_ok dev inv sects k" "\<forall>e \<in> set es. av_valid (fInfo k) e"
  shows "\<exists>k'. avail_sets es k = Inr k' \<and> board_ok dev inv sects k' \<and> fInfo k' = fInfo k
     \<and> parts_of sects content k' = (parts_of sects content k)[3 := av_upd es (parts_of sects content k ! 3)]
     \<and> flashInitialized k' = flashInitialized k"
  using assms
proof (induction es arbitrary: k)
  case (Cons e es)
  obtain s n off where e: "e = (s, n, off)" by (cases e)
  have v: "0 \<le> off" "0 \<le> n" "off + n \<le> part_length (all_parts (fInfo k) ! 3)" "n \<le> int (length s)"
    using Cons.prems(2) e by (simp_all add: av_valid_def all_parts_def)
  obtain k1 where k1: "part_write (all_parts (fInfo k) ! 3) off n s k = Inr (0, k1)" "board_ok dev inv sects k1" "fInfo k1 = fInfo k"
    "parts_of sects content k1 = (parts_of sects content k)[3 := overlay (nat off) (take (nat n) s) (parts_of sects content k ! 3)]"
    "flashInitialized k1 = flashInitialized k"
    by (rule parts_set[OF Cons.prems(1) _ v]) simp_all
  have "kerSysAvailSet s n off k = Inr (0, k1)" using k1(1) v by (simp add: kerSysAvailSet_def all_parts_def)
  thus ?case using Cons.IH[OF k1(2)] Cons.prems(2) k1(3-5) e by (auto simp: av_upd_def length_parts)
qed (simp add: av_upd_def)

lemma clear_failure_tag_ok:
  assumes "board_ok dev inv sects k" "10 \<le> part_length (flash_avail (fInfo k))" "0 \<in> set (take 10 (parts_of sects content k ! 3))"
  shows "\<exists>k'. clear_failure_tag k = Inr k' \<and> board_ok dev inv sects k' \<and> fInfo k' = fInfo k
     \<and> parts_of sects content k' = (parts_of sects content k)[3 := tag_cleared (parts_of sects content k ! 3)]
     \<and> flashInitialized k' = flashInitialized k"
proof -
  let ?a = "parts_of sects content k ! 3" and ?s = "takeWhile (\<lambda>c. c \<noteq> 0) (take 10 (parts_of sects content k ! 3))"
  have p: "flash_avail (fInfo k) \<in> set (all_parts (fInfo k))" by (simp add: all_parts_def)
  have a3: "part_bytes sects (flash_avail (fInfo k)) (content (flash_dev k)) = ?a" by (simp add: parts_of_def all_parts_def)
  have l: "10 \<le> length ?a" using length_part[OF assms(1), of 3] assms(2) by (simp add: all_parts_def)
  obtain d c where d: "part_read (flash_avail (fInfo k)) (int 0) (int 10) (replicate 10 0) k
      = Inr (0, overlay 0 (slice 0 10 ?a) (replicate 10 0), k\<lparr>flash_dev := d, kmalloc_calls := c\<rparr>)"
    "board_ok dev inv sects (k\<lparr>flash_dev := d, kmalloc_calls := c\<rparr>)" "content d = content (flash_dev k)"
    by (rule part_get_ok[OF assms(1) p, of 0 10 "replicate 10 0", unfolded a3]) (use assms(2) in auto)
  let ?k1 = "k\<lparr>flash_dev := d, kmalloc_calls := c\<rparr>"
  have "overlay 0 (slice 0 10 ?a) (replicate 10 0) = take 10 ?a" using l by (simp add: overlay_def slice_def)
  hence get: "kerSysAvailGet (replicate 10 0) 10 0 k = Inr (0, take 10 ?a, ?k1)" using d(1) assms(2) by (simp add: kerSysAvailGet_def)
  have ps: "parts_of sects content ?k1 = parts_of sects content k" using d(3) by (simp add: parts_of_def)
  show ?thesis
  proof (cases "strstr ?s failure_tag \<and> ?s \<noteq> map of_char ''5aa5a55a0''")
    case True
    have v: "(0::int) \<le> 0" "(0::int) \<le> 10" "0 + 10 \<le> part_length (all_parts (fInfo ?k1) ! 3)" "10 \<le> int (length (c_lit ''5aa5a55a0''))"
      using assms(2) by (simp_all add: all_parts_def c_lit_def)
    obtain k' where k': "part_write (all_parts (fInfo ?k1) ! 3) 0 10 (c_lit ''5aa5a55a0'') ?k1 = Inr (0, k')" "board_ok dev inv sects k'" "fInfo k' = fInfo ?k1"
      "parts_of sects content k' = (parts_of sects content ?k1)[3 := overlay (nat 0) (take (nat 10) (c_lit ''5aa5a55a0'')) (parts_of sects content ?k1 ! 3)]"
      "flashInitialized k' = flashInitialized ?k1"
      by (rule parts_set[OF d(2) _ v]) simp_all
    have "kerSysAvailSet (c_lit ''5aa5a55a0'') 10 0 ?k1 = Inr (0, k')" using k'(1) assms(2) by (simp add: kerSysAvailSet_def all_parts_def)
    hence "clear_failure_tag k = Inr k'" using get True assms(3) by (simp add: clear_failure_tag_def c_string_def)
    thus ?thesis using k'(2-5) True unfolding ps by (auto simp: tag_cleared_def c_lit_def)
  next
    case False
    hence "clear_failure_tag k = Inr ?k1" using get assms(3) by (auto simp: clear_failure_tag_def c_string_def)
    thus ?thesis using d(2) ps False by (auto simp: tag_cleared_def)
  qed
qed

lemma kmalloc_board:
  assumes "board_ok dev inv sects k"
  shows "\<exists>n k'. kmalloc k = (Some n, k') \<and> board_ok dev inv sects k' \<and> fInfo k' = fInfo k
     \<and> parts_of sects content k' = parts_of sects content k \<and> flashInitialized k' = flashInitialized k"
  using assms by (auto simp: kmalloc_def board_ok_def sys_ok_def heap_wf_def parts_of_def Let_def)

lemma restore_flash_ok:
  assumes "board_ok dev inv sects k" "11272 \<le> part_length (flash_avail (fInfo k))" "280 \<le> part_length (flash_variable (fInfo k))"
    and "0 \<in> set (take 10 (parts_of sects content k ! 3))"
  shows "\<exists>k'. restore_flash k = Inr k' \<and> board_ok dev inv sects k' \<and> fInfo k' = fInfo k \<and> flashInitialized k' = flashInitialized k
     \<and> parts_of sects content k' = (let ps = parts_of sects content k in
          ps[0 := replicate (length (ps ! 0)) 0, 1 := replicate (length (ps ! 1)) 0, 5 := replicate (length (ps ! 5)) 0,
             3 := av_upd (restore_entries (replicate 3072 0))
                    (av_upd [(replicate 16 0xFF, 16, 80), (c_lit ''resdeft'', 8, 2400)] (tag_cleared (ps ! 3))),
             4 := overlay 272 (c_lit ''resetok'') (ps ! 4)])"
proof -
  let ?P = "parts_of sects content"
  have ap: "flash_persistent i = all_parts i ! 0" "flash_psi_backup i = all_parts i ! 1" "flash_scratch_pad i = all_parts i ! 5"
    "flash_variable i = all_parts i ! 4" for i by (simp_all add: all_parts_def)
  have lt: "(0::nat) < 10" "(1::nat) < 10" "(5::nat) < 10" by simp_all
  obtain k2 where k2: "part_clear (all_parts (fInfo k) ! 0) k = Inr (0, k2)" "board_ok dev inv sects k2" "fInfo k2 = fInfo k"
    "?P k2 = (?P k)[0 := replicate (length (?P k ! 0)) 0]" "flashInitialized k2 = flashInitialized k"
    by (rule parts_clear[OF assms(1) lt(1)])
  obtain k3 where k3: "part_clear (all_parts (fInfo k2) ! 1) k2 = Inr (0, k3)" "board_ok dev inv sects k3" "fInfo k3 = fInfo k2"
    "?P k3 = (?P k2)[1 := replicate (length (?P k2 ! 1)) 0]" "flashInitialized k3 = flashInitialized k2"
    by (rule parts_clear[OF k2(2) lt(2)])
  obtain k4 where k4: "part_clear (all_parts (fInfo k3) ! 5) k3 = Inr (0, k4)" "board_ok dev inv sects k4" "fInfo k4 = fInfo k3"
    "?P k4 = (?P k3)[5 := replicate (length (?P k3 ! 5)) 0]" "flashInitialized k4 = flashInitialized k3"
    by (rule parts_clear[OF k3(2) lt(3)])
  have i4: "fInfo k4 = fInfo k" and p34: "?P k4 ! 3 = ?P k ! 3" using k2 k3 k4 by simp_all
  obtain k5 where k5: "clear_failure_tag k4 = Inr k5" "board_ok dev inv sects k5" "fInfo k5 = fInfo k4"
    "?P k5 = (?P k4)[3 := tag_cleared (?P k4 ! 3)]" "flashInitialized k5 = flashInitialized k4"
    using clear_failure_tag_ok[OF k4(2)] assms(2,4) i4 p34 by auto
  obtain n k6 where k6: "kmalloc k5 = (Some n, k6)" "board_ok dev inv sects k6" "fInfo k6 = fInfo k5" "?P k6 = ?P k5"
    "flashInitialized k6 = flashInitialized k5" using kmalloc_board[OF k5(2)] by auto
  obtain k7 where k7: "avail_sets [(replicate 16 0xFF, 16, 80), (c_lit ''resdeft'', 8, 2400)] k6 = Inr k7" "board_ok dev inv sects k7"
    "fInfo k7 = fInfo k6" "?P k7 = (?P k6)[3 := av_upd [(replicate 16 0xFF, 16, 80), (c_lit ''resdeft'', 8, 2400)] (?P k6 ! 3)]"
    "flashInitialized k7 = flashInitialized k6"
    using avail_sets_ok[OF k6(2), of "[(replicate 16 0xFF, 16, 80), (c_lit ''resdeft'', 8, 2400)]"] assms(2) k6(3) k5(3) i4
    by (auto simp: av_valid_def c_lit_def)
  have i7: "fInfo k7 = fInfo k" using k7(3) k6(3) k5(3) i4 by simp
  have v: "(0::int) \<le> 272" "(0::int) \<le> 8" "272 + 8 \<le> part_length (all_parts (fInfo k7) ! 4)" "8 \<le> int (length (c_lit ''resetok''))"
    using assms(3) i7 by (simp_all add: all_parts_def c_lit_def)
  obtain k8 where k8: "part_write (all_parts (fInfo k7) ! 4) 272 8 (c_lit ''resetok'') k7 = Inr (0, k8)" "board_ok dev inv sects k8" "fInfo k8 = fInfo k7"
    "?P k8 = (?P k7)[4 := overlay (nat 272) (take (nat 8) (c_lit ''resetok'')) (?P k7 ! 4)]" "flashInitialized k8 = flashInitialized k7"
    by (rule parts_set[OF k7(2) _ v]) simp_all
  have vs: "kerSysVariableSet (c_lit ''resetok'') 8 272 k7 = Inr (0, k8)" using k8(1) v(3) by (simp add: kerSysVariableSet_def ap)
  obtain k9 where k9: "avail_sets (restore_entries (replicate 3072 0)) k8 = Inr k9" "board_ok dev inv sects k9" "fInfo k9 = fInfo k8"
    "?P k9 = (?P k8)[3 := av_upd (restore_entries (replicate 3072 0)) (?P k8 ! 3)]" "flashInitialized k9 = flashInitialized k8"
    using avail_sets_ok[OF k8(2), of "restore_entries (replicate 3072 0)"] assms(2) k8(3) i7
    by (auto simp: av_valid_def c_lit_def restore_entries_def)
  have "restore_flash k = Inr k9" using k2(1) k3(1) k4(1) k5(1) k6(1) k7(1) vs k9(1)
    by (simp add: restore_flash_def kerSysPersistentClear_def kerSysPsiBackupClear_def kerSysScratchPadClearAll_def ap)
  moreover have "?P k9 = (let ps = ?P k in
          ps[0 := replicate (length (ps ! 0)) 0, 1 := replicate (length (ps ! 1)) 0, 5 := replicate (length (ps ! 5)) 0,
             3 := av_upd (restore_entries (replicate 3072 0))
                    (av_upd [(replicate 16 0xFF, 16, 80), (c_lit ''resdeft'', 8, 2400)] (tag_cleared (ps ! 3))),
             4 := overlay 272 (c_lit ''resetok'') (ps ! 4)])"
    unfolding k9(4) k8(4) k7(4) k6(4) k5(4) k4(4) k3(4) k2(4)
    by (simp add: Let_def length_parts c_lit_def list_update_swap[of 4 3])
  ultimately show ?thesis using k9(2,3,5) k8(3,5) k7(3,5) k6(3,5) k5(3,5) k4(3,5) k3(3,5) k2(3,5) by auto
qed

lemma restore_do_tasklet_ok:
  assumes "drv_ok dev inv sects (drv b)" "11272 \<le> part_length (flash_avail (fInfo (ker (drv b))))"
    and "280 \<le> part_length (flash_variable (fInfo (ker (drv b))))"
    and "0 \<in> set (take 10 (parts_of sects content (ker (drv b)) ! 3))"
  shows "\<exists>b'. restore_do_tasklet b = Inr b' \<and> drv_ok dev inv sects (drv b') \<and> g_sWlanFlag b' = 2 \<and> g_wakeup_monitor b'
     \<and> parts_of sects content (ker (drv b')) = restored (parts_of sects content (ker (drv b)))"
proof -
  let ?k = "ker (drv b)" and ?P = "parts_of sects content"
  have ok: "board_ok dev inv sects ?k" using assms(1) by (simp add: drv_ok_def)
  have v: "(0::int) \<le> 2400" "(0::int) \<le> 8" "2400 + 8 \<le> part_length (all_parts (fInfo ?k) ! 3)" "8 \<le> int (length (c_lit ''resdeft''))"
    using assms(2) by (simp_all add: all_parts_def c_lit_def)
  obtain k1 where k1: "part_write (all_parts (fInfo ?k) ! 3) 2400 8 (c_lit ''resdeft'') ?k = Inr (0, k1)" "board_ok dev inv sects k1" "fInfo k1 = fInfo ?k"
    "?P k1 = (?P ?k)[3 := overlay (nat 2400) (take (nat 8) (c_lit ''resdeft'')) (?P ?k ! 3)]" "flashInitialized k1 = flashInitialized ?k"
    by (rule parts_set[OF ok _ v]) simp_all
  have set1: "kerSysAvailSet (c_lit ''resdeft'') 8 2400 ?k = Inr (0, k1)" using k1(1) assms(2) by (simp add: kerSysAvailSet_def all_parts_def)
  have p1: "?P k1 = (?P ?k)[3 := overlay 2400 (c_lit ''resdeft'') (?P ?k ! 3)]" using k1(4) by (simp add: c_lit_def)
  have l3: "2400 \<le> length (?P ?k ! 3)" using length_part[OF ok, of 3] assms(2) by (simp add: all_parts_def)
  have "take 10 (?P k1 ! 3) = take 10 (?P ?k ! 3)" using l3 unfolding p1 by (simp add: length_parts overlay_def)
  hence z: "0 \<in> set (take 10 (?P k1 ! 3))" using assms(4) by simp
  obtain k2 where k2: "restore_flash k1 = Inr k2" "board_ok dev inv sects k2" "fInfo k2 = fInfo k1" "flashInitialized k2 = flashInitialized k1"
    "?P k2 = (let ps = ?P k1 in
          ps[0 := replicate (length (ps ! 0)) 0, 1 := replicate (length (ps ! 1)) 0, 5 := replicate (length (ps ! 5)) 0,
             3 := av_upd (restore_entries (replicate 3072 0))
                    (av_upd [(replicate 16 0xFF, 16, 80), (c_lit ''resdeft'', 8, 2400)] (tag_cleared (ps ! 3))),
             4 := overlay 272 (c_lit ''resetok'') (ps ! 4)])"
    using restore_flash_ok[OF k1(2) _ _ z] assms(2,3) k1(3) by auto
  have r: "?P k2 = restored (?P ?k)" unfolding k2(5) p1 restored_def by (simp add: Let_def length_parts list_update_swap[of 3])
  show ?thesis using set1 k2(1-4) k1(3,5) r assms(1)
    by (simp add: restore_do_tasklet_def dg_setScheduleState_def kerSysWakeupMonitorTask_def Let_def drv_ok_def)
qed

end

end
