(* ===== verification/Button_Props.thy ===== *)
theory Button_Props
  imports Buttons_Correct
begin

text \<open>
  The properties of the buttons, with a board at rest for their witnesses.
\<close>

section \<open>A board at rest\<close>

definition pins :: "u32 \<Rightarrow> gpio_regs" where
  "pins v = \<lparr>GPIODir_high = 0, GPIODir = 0, GPIOio_high = v, GPIOio = v\<rparr>"

definition idle_drv :: "unit board_drv" where
  "idle_drv =
     \<lparr>ker = \<lparr>flash_dev = (), g_flash_info = None, fInfo = fInfo0, flashInitialized = False,
        cur_bp = Some g_huawei96358gw_HG556iso, gpio = pins 0, kmalloc_ok = (\<lambda>_. True), kmalloc_calls = 0, heap_live = {}\<rparr>,
      flash_sem = 1, s_iFlashWriteFlg = False, dg_ulState = 1, dg_ulCount = 0, perf_RevID = 0\<rparr>"

definition idle_btn :: "'s board_drv \<Rightarrow> 's btn_state" where
  "idle_btn d =
     \<lparr>drv = d, timers = (\<lambda>_. None), s_iRestoreDefCfgBtnCnt = 0, g_iRestoreFlag = False, board_work = 0,
      g_sVoipServiceStatus = 0, g_nEquipTestMode = 0, g_nKeyPressed = 0, g_nKeyWaitTimes = 0, telnetd_pid = 0, task_pids = [], telnetd_sighups = 0,
      g_iLswLinkState = 0, s_iDiagnoseEthPortBtnCnt = 0, lan_leds = replicate 4 Lan_Off, s_ucWlanButtonCnt = 0,
      WPS_FLAG = 0, g_sWlanFlag = 0, g_wakeup_monitor = False, hardware_type = 3, regIndex = 0,
      g_netdevice = replicate 100 None, g_callbacks = replicate 100 None, callbacks_run = [],
      s_iResetButtoncnt = 0, gl_nIsRebootBtn = False\<rparr>"

lemma hg556iso_buttons:
  "kerSysGetRestoreDefCfgBtnStatus (Some g_huawei96358gw_HG556iso) (pins 0) = 0"
  "0 < kerSysGetRestoreDefCfgBtnStatus (Some g_huawei96358gw_HG556iso) (pins (-1))"
  "kerSysGetWlanButtonStatus (Some g_huawei96358gw_HG556iso) (pins 0) = 0"
  "0 < kerSysGetWlanButtonStatus (Some g_huawei96358gw_HG556iso) (pins (-1))"
  by code_simp+

lemma restore_polls_drv:
  "obs \<noteq> [] \<Longrightarrow> drv (restore_polls obs b)
     = (drv b)\<lparr>s_iFlashWriteFlg := fst (last obs), ker := (ker (drv b))\<lparr>gpio := snd (last obs)\<rparr>\<rparr>"
proof (induction obs rule: rev_induct)
  case (snoc ob obs)
  have poll: "drv (poll_restore_default b) = drv b" for b :: "'a btn_state"
    by (simp add: poll_restore_default_def set_timer_def notify_telnetd_def Let_def)
  show ?case using snoc.IH by (cases "obs = []") (simp_all add: restore_polls_snoc poll observe_def)
qed simp

lemma run_of_all: "\<forall>x \<in> set xs. P x \<Longrightarrow> n \<le> length xs \<Longrightarrow> run_of n P xs"
  by (auto simp: run_of_def intro!: exI[of _ 0])

lemma mx640_restorable:
  obtains k where "drv_ok mx640_fdev mx640_inv mx640_sectors (mx640_drv k)" "cur_bp k = Some g_huawei96358gw_HG556iso"
    "part_length (flash_avail (fInfo k)) = 16384" "part_length (flash_variable (fInfo k)) = 8192"
    "0 \<in> set (take 10 (parts_of mx640_sectors mx640_content k ! 3))"
proof -
  obtain k0 where k0: "drv_ok mx640_fdev mx640_inv mx640_sectors (mx640_drv k0)"
    "map part_length (all_parts (fInfo k0)) = [65536, 65536, 8192, 16384, 8192, 8192, 10240, 16384, 8192, 1024]"
    by (rule mx640_drv_ok)
  have l: "part_length (all_parts (fInfo k0) ! 3) = 16384" "part_length (all_parts (fInfo k0) ! 4) = 8192"
    using k0(2) nth_map[of 3 "all_parts (fInfo k0)" part_length] nth_map[of 4 "all_parts (fInfo k0)" part_length] by (simp_all add: all_parts_def)
  have b: "board_ok mx640_fdev mx640_inv mx640_sectors k0"
    using k0(1) by (simp add: drv_ok_def mx640_drv_def board_ok_def sys_ok_def heap_wf_def)
  have i: "(3::nat) < 10" "(0::int) \<le> 0" "(0::int) \<le> 10" "0 + 10 \<le> part_length (all_parts (fInfo k0) ! 3)" "10 \<le> int (length (replicate 10 (0 :: byte)))"
    using l(1) by simp_all
  obtain k' where k': "part_write (all_parts (fInfo k0) ! 3) 0 10 (replicate 10 0) k0 = Inr (0, k')" "board_ok mx640_fdev mx640_inv mx640_sectors k'"
    "fInfo k' = fInfo k0" "parts_of mx640_sectors mx640_content k'
       = (parts_of mx640_sectors mx640_content k0)[3 := overlay (nat 0) (take (nat 10) (replicate 10 0)) (parts_of mx640_sectors mx640_content k0 ! 3)]"
    "flashInitialized k' = flashInitialized k0"
    by (rule flash_device.parts_set[OF mx640_device b i])
  have "10 \<le> length (parts_of mx640_sectors mx640_content k0 ! 3)"
    using flash_device.length_part[OF mx640_device b i(1)] l(1) by simp
  hence "0 \<in> set (take 10 (parts_of mx640_sectors mx640_content k' ! 3))"
    unfolding k'(4) by (simp add: length_parts overlay_def)
  thus ?thesis using that[of "k'\<lparr>cur_bp := Some g_huawei96358gw_HG556iso\<rparr>"] k'(2,3,5) k0(1) l
    by (auto simp: drv_ok_def mx640_drv_def all_parts_def board_ok_def sys_ok_def heap_wf_def parts_of_def)
qed

section \<open>Properties\<close>

text \<open>C9: the restore button is polled for ever, and the restore is queued, once, exactly when five polls in a row
  see the button held with no flash write in progress.\<close>

theorem restore_button_held:
  assumes "g_nEquipTestMode b \<le> 0" "s_iRestoreDefCfgBtnCnt b = 0" "\<not> g_iRestoreFlag b" "board_work b = 0"
    and "\<forall>ob \<in> set obs. 0 \<le> kerSysGetRestoreDefCfgBtnStatus (cur_bp (ker (drv b))) (snd ob)" "obs \<noteq> []"
  shows "board_work (restore_polls obs b)
       = (if \<exists>i. i + 5 \<le> length obs \<and> (\<forall>j < 5. held (cur_bp (ker (drv b))) (obs ! (i + j))) then 1 else 0)
     \<and> timers (restore_polls obs b) Poll_restorebtn = Some 200"
  using restore_run[OF assms(1-4) refl assms(5)] assms(6) by (simp add: run_of_def)

theorem restore_button_held_witness:
  "board_work (restore_polls (replicate 5 (False, pins 0)) (idle_btn idle_drv)) = 1
     \<and> timers (restore_polls (replicate 5 (False, pins 0)) (idle_btn idle_drv)) Poll_restorebtn = Some 200"
proof -
  have bp: "cur_bp (ker (drv (idle_btn idle_drv))) = Some g_huawei96358gw_HG556iso" by (simp add: idle_btn_def idle_drv_def)
  have h: "held (Some g_huawei96358gw_HG556iso) (False, pins 0)" by (simp add: held_def hg556iso_buttons)
  have "\<exists>i. i + 5 \<le> length (replicate 5 (False, pins 0)) \<and> (\<forall>j < 5. held (Some g_huawei96358gw_HG556iso) (replicate 5 (False, pins 0) ! (i + j)))"
    using h by (intro exI[of _ 0]) simp
  thus ?thesis using restore_button_held[of "idle_btn idle_drv" "replicate 5 (False, pins 0)", unfolded bp] hg556iso_buttons(1)
    by (simp add: idle_btn_def)
qed

text \<open>C27: what releasing the WLAN key does depends on the number of polls that saw it held modulo 256, the range of
  its counter: more than sixteen start the push button configuration, one to sixteen toggle the WLAN.\<close>

theorem wlan_key_hold:
  assumes "kerSysGetWlanButtonStatus (cur_bp (ker (drv b))) g = 0" "0 < kerSysGetWlanButtonStatus (cur_bp (ker (drv b))) r"
    and "g_nEquipTestMode b \<le> 0" "s_ucWlanButtonCnt b = 0"
    and "regIndex b \<le> 100" "None \<notin> set (take (unat (regIndex b)) (g_callbacks b))"
  shows "\<exists>b'. wlan_polls (replicate n g @ [r]) b = Inr b' \<and> s_ucWlanButtonCnt b' = 0 \<and> timers b' Switch_wlan = Some 50
     \<and> WPS_FLAG b' = (if 16 < n mod 256 \<and> hardware_type b \<noteq> HG55VDFA then 1 else WPS_FLAG b)
     \<and> callbacks_run b' = callbacks_run b @ (if 16 < n mod 256 \<and> hardware_type b = HG55VDFA then callbacks b else [])
     \<and> g_sWlanFlag b' = (if 1 \<le> n mod 256 \<and> n mod 256 \<le> 16 then if g_sWlanFlag b = 0 then 1 else 0 else g_sWlanFlag b)"
proof -
  obtain b1 where b1: "wlan_polls (replicate n g @ [r]) b = wlan_polls [r] b1" "s_ucWlanButtonCnt b1 = s_ucWlanButtonCnt b + of_nat n"
    "g_sWlanFlag b1 = g_sWlanFlag b" "WPS_FLAG b1 = WPS_FLAG b" "g_nEquipTestMode b1 = g_nEquipTestMode b"
    "hardware_type b1 = hardware_type b" "cur_bp (ker (drv b1)) = cur_bp (ker (drv b))"
    "regIndex b1 = regIndex b" "g_callbacks b1 = g_callbacks b" "g_netdevice b1 = g_netdevice b" "callbacks_run b1 = callbacks_run b"
    using wlan_held[OF assms(1)] by blast
  have cb: "callbacks b1 = callbacks b" using b1(8-10) by (simp add: callbacks_def)
  have u: "uint (s_ucWlanButtonCnt b1) = int (n mod 256)" using b1(2) assms(4) by (simp add: uint_nat unat_of_nat)
  have c: "(16 < int (n mod 256)) = (16 < n mod 256)" "(1 \<le> int (n mod 256)) = (1 \<le> n mod 256)" "(int (n mod 256) \<le> 16) = (n mod 256 \<le> 16)"
    by linarith+
  show ?thesis unfolding b1(1) by (rule wlan_released[of b1 r, unfolded b1(3-11) cb u c, OF assms(2,3,5,6)])
qed

theorem wlan_key_hold_witness:
  "\<exists>b1 b2. wlan_polls (replicate 17 (pins 0) @ [pins (-1)]) (idle_btn idle_drv) = Inr b1 \<and> WPS_FLAG b1 = 1 \<and> g_sWlanFlag b1 = 0
     \<and> wlan_polls (replicate 260 (pins 0) @ [pins (-1)]) (idle_btn idle_drv) = Inr b2 \<and> WPS_FLAG b2 = 0 \<and> g_sWlanFlag b2 = 1"
proof -
  have bp: "cur_bp (ker (drv (idle_btn idle_drv))) = Some g_huawei96358gw_HG556iso" by (simp add: idle_btn_def idle_drv_def)
  have s: "g_nEquipTestMode (idle_btn idle_drv) \<le> 0" "s_ucWlanButtonCnt (idle_btn idle_drv) = 0"
    "regIndex (idle_btn idle_drv) \<le> 100" "None \<notin> set (take (unat (regIndex (idle_btn idle_drv))) (g_callbacks (idle_btn idle_drv)))"
    by (simp_all add: idle_btn_def)
  note w = wlan_key_hold[where b = "idle_btn idle_drv", unfolded bp, OF hg556iso_buttons(3,4) s]
  show ?thesis using w[of 17] w[of 260] by (auto simp: idle_btn_def)
qed

text \<open>C8: holding the restore button for five polls restores the factory settings: the queued work item runs to its
  end, both configuration partitions and the scratch pad are zeroed, the settings in the other two partitions are set to
  their marks, and no other partition changes.\<close>

theorem button_restores_settings:
  assumes "flash_device dev sects base I content" "drv_ok dev I sects (drv b)" "bp = cur_bp (ker (drv b))"
    and "11272 \<le> part_length (flash_avail (fInfo (ker (drv b))))" "280 \<le> part_length (flash_variable (fInfo (ker (drv b))))"
    and "0 \<in> set (take 10 (parts_of sects content (ker (drv b)) ! 3))"
    and "g_nEquipTestMode b \<le> 0" "s_iRestoreDefCfgBtnCnt b = 0" "\<not> g_iRestoreFlag b" "board_work b = 0"
    and "\<forall>ob \<in> set obs. held bp ob" "5 \<le> length obs"
  shows "board_work (restore_polls obs b) = 1
     \<and> (\<exists>b'. restore_do_tasklet (restore_polls obs b) = Inr b' \<and> drv_ok dev I sects (drv b') \<and> g_wakeup_monitor b'
           \<and> parts_of sects content (ker (drv b')) = restored (parts_of sects content (ker (drv b))))"
proof -
  let ?b = "restore_polls obs b"
  have ne: "obs \<noteq> []" using assms(12) by auto
  note d = restore_polls_drv[OF ne, of b]
  have "\<not> fst (last obs)" using assms(11) ne by (simp add: held_def)
  hence ok: "drv_ok dev I sects (drv ?b)" using assms(2) unfolding d by (simp add: drv_ok_def board_ok_def sys_ok_def heap_wf_def)
  have same: "fInfo (ker (drv ?b)) = fInfo (ker (drv b))" "parts_of sects content (ker (drv ?b)) = parts_of sects content (ker (drv b))"
    unfolding d by (simp_all add: parts_of_def)
  have "board_work ?b = 1"
    using restore_run[OF assms(7-10,3), of obs] run_of_all[OF assms(11,12)] assms(11) by (simp add: held_def)
  thus ?thesis using flash_device.restore_do_tasklet_ok[OF assms(1) ok] assms(4-6) unfolding same by auto
qed

theorem button_restores_settings_witness:
  "\<exists>b b'. restore_do_tasklet (restore_polls (replicate 5 (False, pins 0)) b) = Inr b' \<and> g_wakeup_monitor b'
     \<and> parts_of mx640_sectors mx640_content (ker (drv b')) = restored (parts_of mx640_sectors mx640_content (ker (drv b)))"
proof -
  obtain k where k: "drv_ok mx640_fdev mx640_inv mx640_sectors (mx640_drv k)" "cur_bp k = Some g_huawei96358gw_HG556iso"
    "part_length (flash_avail (fInfo k)) = 16384" "part_length (flash_variable (fInfo k)) = 8192"
    "0 \<in> set (take 10 (parts_of mx640_sectors mx640_content k ! 3))"
    by (rule mx640_restorable)
  have ker: "drv (idle_btn (mx640_drv k)) = mx640_drv k" "ker (mx640_drv k) = k" by (simp_all add: idle_btn_def mx640_drv_def)
  have h: "\<forall>ob \<in> set (replicate 5 (False, pins 0)). held (Some g_huawei96358gw_HG556iso) ob" by (simp add: held_def hg556iso_buttons)
  have idle: "g_nEquipTestMode (idle_btn (mx640_drv k)) \<le> 0" "s_iRestoreDefCfgBtnCnt (idle_btn (mx640_drv k)) = 0"
    "\<not> g_iRestoreFlag (idle_btn (mx640_drv k))" "board_work (idle_btn (mx640_drv k)) = 0" by (simp_all add: idle_btn_def)
  from button_restores_settings[OF mx640_device, where b = "idle_btn (mx640_drv k)" and obs = "replicate 5 (False, pins 0)"
      and bp = "Some g_huawei96358gw_HG556iso", unfolded ker, OF k(1) k(2)[symmetric] _ _ k(5) idle h] k(3,4)
  show ?thesis by - (rule exI[of _ "idle_btn (mx640_drv k)"], auto simp: ker)
qed

end
