(* ===== verification/Mac_Pool.thy ===== *)
theory Mac_Pool
  imports Flash_Ioctl
begin

text \<open>
  The MAC addresses of the board (\<^verbatim>\<open>board.c\<close>). The pool has an entry for each address; address \<open>i\<close> is the base
  address of the NVRAM with \<open>i\<close> added to its last three bytes. \<open>ni_block\<close> is the number of bytes of the heap block
  that holds the pool: the entries follow 52 bytes of other fields, each with an identifier of four bytes, the
  flag \<^verbatim>\<open>chInUse\<close> and the three bytes \<^verbatim>\<open>chReserved\<close>, which no code reads or writes.
\<close>

section \<open>State\<close>

record MAC_ADDR_INFO =
  ulId :: u32
  chInUse :: byte
  mai_chReserved :: "byte list"

record NVRAM_INFO =
  ni_ulSdramSize :: u32
  ni_ulPsiSize :: u32
  ni_ulNumMacAddrs :: u32
  ni_ucaBaseMacAddr :: "byte list"
  ni_szSerialNumber :: "byte list"
  MacAddrs :: "MAC_ADDR_INFO list"
  ni_block :: nat

record mac_state =
  g_pNvramInfo :: "NVRAM_INFO option"
  g_iReservedMacBeUsedNum :: int

abbreviation (input) EADDRNOTAVAIL :: int where "EADDRNOTAVAIL \<equiv> 126"
abbreviation (input) EACCES :: int where "EACCES \<equiv> 13"
abbreviation (input) RESERVE_MAC_MASK :: u32 where "RESERVE_MAC_MASK \<equiv> 0xFF000000"
abbreviation (input) NO_RESERVE_MAC :: u32 where "NO_RESERVE_MAC \<equiv> 0xFFFFFFFF"
abbreviation (input) MAC_ADDRESS_ANY :: u32 where "MAC_ADDRESS_ANY \<equiv> 0xFFFFFFFF"
abbreviation (input) NVRAM_MAC_COUNT_MAX :: u32 where "NVRAM_MAC_COUNT_MAX \<equiv> 32"
abbreviation (input) sizeof_NVRAM_INFO :: nat where "sizeof_NVRAM_INFO \<equiv> 60"
abbreviation (input) sizeof_MAC_ADDR_INFO :: nat where "sizeof_MAC_ADDR_INFO \<equiv> 8"

text \<open>An access to \<^verbatim>\<open>ulId\<close> or \<^verbatim>\<open>chInUse\<close> of entry \<open>i\<close> touches its first five bytes; the entry as a whole has
  eight.\<close>

definition mai_get :: "NVRAM_INFO \<Rightarrow> nat \<Rightarrow> MAC_ADDR_INFO res" where
  "mai_get p i =
     (if 52 + sizeof_MAC_ADDR_INFO * i + 5 \<le> ni_block p \<and> i < length (MacAddrs p) then Inr (MacAddrs p ! i) else Inl OutOfBounds)"

definition mai_in_block :: "NVRAM_INFO \<Rightarrow> nat \<Rightarrow> bool" where
  "mai_in_block p i \<longleftrightarrow> 52 + sizeof_MAC_ADDR_INFO * (i + 1) \<le> ni_block p"

definition mai_set :: "nat \<Rightarrow> MAC_ADDR_INFO \<Rightarrow> NVRAM_INFO \<Rightarrow> NVRAM_INFO" where
  "mai_set i e p = p\<lparr>MacAddrs := (MacAddrs p)[i := e]\<rparr>"

section \<open>Taking and giving back\<close>

definition reserved_index :: "u32 \<Rightarrow> u32" where
  "reserved_index uid =
     (let reservedId = uid AND RESERVE_MAC_MASK in
      if reservedId = RESERVE_MAC_MASK then 0
      else let r = drop_bit 24 reservedId in if r \<noteq> 5 \<and> r \<noteq> 6 \<and> r \<noteq> 7 \<and> r \<noteq> 8 then NO_RESERVE_MAC else r)"

text \<open>The last three bytes of an address as a number, and back.\<close>

definition mac_low :: "byte list \<Rightarrow> u32" where
  "mac_low mac = drop_bit 8 (be32 (slice 3 3 mac @ [0]))"

definition mac_address :: "byte list \<Rightarrow> u32 \<Rightarrow> byte list" where
  "mac_address base i = take 3 base @ take 3 (be32_bytes (push_bit 8 (mac_low base + i)))"

datatype mac_found = Mac_Used nat | Mac_FreeNoId nat | Mac_FreeId nat | Mac_None

function mac_scan :: "NVRAM_INFO \<Rightarrow> u32 \<Rightarrow> u32 \<Rightarrow> nat \<Rightarrow> mac_found res" where
  "mac_scan p uid reservedId i =
     (if i < unat (ni_ulNumMacAddrs p)
      then case mai_get p i of
             Inl f \<Rightarrow> Inl f
           | Inr pMai \<Rightarrow>
               if uid = ulId pMai \<or> uid = MAC_ADDRESS_ANY then Inr (Mac_Used i)
               else if chInUse pMai = 0 \<and> (reservedId = NO_RESERVE_MAC \<or> of_nat i = reservedId)
               then Inr (if ulId pMai = 0 then Mac_FreeNoId i else Mac_FreeId i)
               else mac_scan p uid reservedId (Suc i)
      else Inr Mac_None)"
  by pat_completeness auto

termination mac_scan
  by (relation "measure (\<lambda>(p, _, _, i). unat (ni_ulNumMacAddrs p) - i)") auto

declare mac_scan.simps [simp del]

definition kerSysGetMacAddress :: "byte list \<Rightarrow> u32 \<Rightarrow> mac_state \<Rightarrow> (int \<times> byte list \<times> mac_state) res" where
  "kerSysGetMacAddress pucaMacAddr uid st =
     (case g_pNvramInfo st of
        None \<Rightarrow> Inl NullPointer
      | Some p \<Rightarrow>
          let reservedId = reserved_index uid;
              n = ni_ulNumMacAddrs p;
              give = (\<lambda>i e st'. bindR (mem_wr pucaMacAddr 0 (mac_address (ni_ucaBaseMacAddr p) (of_nat i))) (\<lambda>mac.
                       Inr (0, mac, st'\<lparr>g_pNvramInfo := Some (mai_set i e p)\<rparr>)));
              fresh = (\<lambda>e. e\<lparr>ulId := uid, chInUse := (if reservedId = NO_RESERVE_MAC then 1 else 0)\<rparr>)
          in bindR (mac_scan p uid reservedId 0) (\<lambda>f.
             case f of
               Mac_Used i \<Rightarrow> bindR (mai_get p i) (\<lambda>e. give i (e\<lparr>chInUse := 1\<rparr>) st)
             | Mac_FreeNoId i \<Rightarrow> bindR (mai_get p i) (\<lambda>e. give i (fresh e) st)
             | Mac_FreeId i \<Rightarrow> bindR (mai_get p i) (\<lambda>e. give i (fresh e) st)
             | Mac_None \<Rightarrow>
                 if n > n - 1
                 then if reservedId = 5 \<or> reservedId = 6 \<or> reservedId = 7 \<or> reservedId = 8
                      then let indexNode = sint (n - of_int (g_iReservedMacBeUsedNum st) - 1)
                           in if indexNode > 0
                              then bindR (mai_get p (nat indexNode)) (\<lambda>e.
                                     give (nat indexNode) (e\<lparr>ulId := uid, chInUse := 1\<rparr>)
                                       (st\<lparr>g_iReservedMacBeUsedNum := g_iReservedMacBeUsedNum st + 1\<rparr>))
                              else Inr (0, pucaMacAddr, st)
                      else Inr (- EADDRNOTAVAIL, pucaMacAddr, st)
                 else Inr (0, pucaMacAddr, st)))"

definition kerSysReleaseMacAddress :: "byte list \<Rightarrow> mac_state \<Rightarrow> (int \<times> mac_state) res" where
  "kerSysReleaseMacAddress pucaMacAddr st =
     (case g_pNvramInfo st of
        None \<Rightarrow> Inl NullPointer
      | Some p \<Rightarrow>
          let ulIdx = mac_low pucaMacAddr - mac_low (ni_ucaBaseMacAddr p) in
          if ulIdx < ni_ulNumMacAddrs p
          then bindR (mai_get p (unat ulIdx)) (\<lambda>pMai.
                 if chInUse pMai = 1
                 then Inr (0, st\<lparr>g_pNvramInfo := Some (mai_set (unat ulIdx) (pMai\<lparr>chInUse := 0\<rparr>) p)\<rparr>)
                 else Inr (- EINVAL, st))
          else Inr (- EINVAL, st))"

section \<open>Initialisation\<close>

text \<open>The size of the memory from the configuration register of its controller, less the area that survives a
  reset.\<close>

abbreviation (input) DG_RESERVED_SDRAM_SIZE :: u32 where "DG_RESERVED_SDRAM_SIZE \<equiv> 59104"

definition getMemorySize :: "u32 \<Rightarrow> u32" where
  "getMemorySize memCfg =
     push_bit 2
       (push_bit (if drop_bit 1 (memCfg AND 2) = 0 then 2 else 1)
         (push_bit (unat (drop_bit 6 (memCfg AND 0xC0)) + 11)
           (push_bit (unat (drop_bit 3 (memCfg AND 0x38)) + 8) 1)))
     - DG_RESERVED_SDRAM_SIZE"

definition reserve_id :: "nat \<Rightarrow> u32 option" where
  "reserve_id i = (if i = 0 then Some RESERVE_MAC_MASK else if 5 \<le> i \<and> i \<le> 8 then Some (RESERVE_MAC_MASK AND push_bit 24 (of_nat i)) else None)"

fun reserve_macs :: "nat list \<Rightarrow> byte list \<Rightarrow> mac_state \<Rightarrow> mac_state res" where
  "reserve_macs [] acMacAddr st = Inr st"
| "reserve_macs (i # is) acMacAddr st =
     (case reserve_id i of
        None \<Rightarrow> reserve_macs is acMacAddr st
      | Some reserveId \<Rightarrow> bindR (kerSysGetMacAddress acMacAddr reserveId st) (\<lambda>(_, mac, st'). reserve_macs is mac st'))"

definition InitNvramInfo :: "'s flash_hw \<Rightarrow> u32 \<Rightarrow> 's kersys \<Rightarrow> mac_state \<Rightarrow> ('s kersys \<times> mac_state) res" where
  "InitNvramInfo hw memCfg k st =
     bindR (get_nvram_start_addr k) (\<lambda>pNvramData.
     case equip_fetch hw pNvramData k of (nv, k0) \<Rightarrow>
     let n = ulNumMacAddrs nv in
     if 0 < n \<and> n \<le> NVRAM_MAC_COUNT_MAX
     then let ulNvramInfoSize = sizeof_NVRAM_INFO + (sizeof_MAC_ADDR_INFO - 1) * unat n in
          case kmalloc k0 of
            (None, k1) \<Rightarrow> Inr (k1, st\<lparr>g_pNvramInfo := None\<rparr>)
          | (Some _, k1) \<Rightarrow>
              let ulPsiSize = (case BpGetPsiSize (cur_bp k1) of (r, s) \<Rightarrow> if r = BP_SUCCESS then s else 64);
                  info = \<lparr>ni_ulSdramSize = getMemorySize memCfg, ni_ulPsiSize = ulPsiSize * 1024, ni_ulNumMacAddrs = n,
                          ni_ucaBaseMacAddr = ucaBaseMacAddr nv, ni_szSerialNumber = replicate 32 0,
                          MacAddrs = replicate (unat n) \<lparr>ulId = 0, chInUse = 0, mai_chReserved = replicate 3 0\<rparr>, ni_block = ulNvramInfoSize\<rparr>
              in bindR (reserve_macs [0..<unat n] (replicate 6 0) (st\<lparr>g_pNvramInfo := Some info\<rparr>)) (\<lambda>st'. Inr (k1, st'))
     else Inr (k0, st))"

section \<open>Commands\<close>

text \<open>\<open>ucaMacAddr\<close> is the array on the stack of \<^verbatim>\<open>board_ioctl\<close>.\<close>

definition ioctl_get_mac_address ::
  "byte list \<Rightarrow> 'a BOARD_IOCTL_PARMS option \<Rightarrow> mac_state \<Rightarrow> (int \<times> 'a BOARD_IOCTL_PARMS option \<times> mac_state) res" where
  "ioctl_get_mac_address ucaMacAddr arg st =
     (case arg of
        None \<Rightarrow> Inr (- EFAULT, None, st)
      | Some p \<Rightarrow>
          bindR (kerSysGetMacAddress ucaMacAddr (of_int (parm_offset p)) st) (\<lambda>(r, mac, st').
          bindR (if r = 0 then mem_wr (parm_string p) 0 mac else Inr (parm_string p)) (\<lambda>s.
            Inr (0, Some (p\<lparr>parm_string := s, parm_result := r\<rparr>), st'))))"

text \<open>A caller whose memory ends before the address gets \<^verbatim>\<open>EACCES\<close>.\<close>

definition ioctl_release_mac_address ::
  "'a BOARD_IOCTL_PARMS option \<Rightarrow> mac_state \<Rightarrow> (int \<times> 'a BOARD_IOCTL_PARMS option \<times> mac_state) res" where
  "ioctl_release_mac_address arg st =
     (case arg of
        None \<Rightarrow> Inr (- EFAULT, None, st)
      | Some p \<Rightarrow>
          if 6 \<le> length (parm_string p)
          then bindR (kerSysReleaseMacAddress (take 6 (parm_string p)) st) (\<lambda>(r, st').
                 Inr (0, Some (p\<lparr>parm_result := r\<rparr>), st'))
          else Inr (0, Some (p\<lparr>parm_result := - EACCES\<rparr>), st))"

end
