(* ===== verification/Mac_Correct.thy ===== *)
theory Mac_Correct
  imports Mac_Pool Board_Flash
begin

text \<open>
  The pool of MAC addresses hands each address to one user at a time.
\<close>

section \<open>Addresses\<close>

lemma take3_be32_bytes: "take 3 (be32_bytes (push_bit 8 x)) @ [0] = be32_bytes (push_bit 8 x)"
proof -
  have "(ucast (push_bit 8 x) :: byte) = 0" by (rule bit_word_eqI) (simp add: bit_simps)
  thus ?thesis by (simp add: be32_bytes_def)
qed

lemma mac_low_address: "length base = 6 \<Longrightarrow> mac_low (mac_address base i) = take_bit 24 (mac_low base + i)"
proof -
  assume l: "length base = 6"
  have "slice 3 3 (mac_address base i) = take 3 (be32_bytes (push_bit 8 (mac_low base + i)))"
    using l by (simp add: mac_address_def slice_def)
  moreover have "drop_bit 8 (push_bit 8 x) = take_bit 24 x" for x :: u32
    by (rule bit_word_eqI) (auto simp: bit_simps)
  ultimately show ?thesis by (simp add: mac_low_def[of "mac_address base i"] take3_be32_bytes)
qed

lemma mac_low_bound: "unat (mac_low m) < 2 ^ 24"
proof -
  have "drop_bit 8 x = take_bit 24 (drop_bit 8 x)" for x :: u32 by (rule bit_word_eqI) (auto simp: bit_simps dest: bit_imp_le_length)
  hence "unat (mac_low m) = take_bit 24 (unat (mac_low m))" unfolding mac_low_def by (metis unsigned_take_bit_eq)
  thus ?thesis by (metis take_bit_nat_less_exp)
qed

lemma length_mac_address: "length base = 6 \<Longrightarrow> length (mac_address base i) = 6"
  by (simp add: mac_address_def)

section \<open>The pool\<close>

text \<open>A pool whose identifiers and flags lie in its heap block and whose addresses differ in their last three bytes without a
  carry.\<close>

definition pool_ok :: "NVRAM_INFO \<Rightarrow> bool" where
  "pool_ok p \<longleftrightarrow>
     length (MacAddrs p) = unat (ni_ulNumMacAddrs p) \<and> 0 < ni_ulNumMacAddrs p \<and> length (ni_ucaBaseMacAddr p) = 6
     \<and> 49 + 8 * length (MacAddrs p) \<le> ni_block p \<and> unat (mac_low (ni_ucaBaseMacAddr p)) + length (MacAddrs p) \<le> 2 ^ 24"

definition addr_of :: "NVRAM_INFO \<Rightarrow> nat \<Rightarrow> byte list" where
  "addr_of p i = mac_address (ni_ucaBaseMacAddr p) (of_nat i)"

lemma mac_low_addr_of:
  assumes "pool_ok p" "i < length (MacAddrs p)"
  shows "mac_low (addr_of p i) = mac_low (ni_ucaBaseMacAddr p) + of_nat i"
proof -
  have s: "unat (mac_low (ni_ucaBaseMacAddr p)) + i < 2 ^ 24" using assms by (simp add: pool_ok_def)
  have "unat (of_nat i :: u32) = i" using s by (simp add: unat_of_nat)
  hence u: "unat (mac_low (ni_ucaBaseMacAddr p) + of_nat i) = unat (mac_low (ni_ucaBaseMacAddr p)) + i"
    using s by (subst unat_add_lem[THEN iffD1]) auto
  have "take_bit 24 (mac_low (ni_ucaBaseMacAddr p) + of_nat i) = mac_low (ni_ucaBaseMacAddr p) + of_nat i"
    by (rule word_unat_eq_iff[THEN iffD2]) (use s u in \<open>simp add: unsigned_take_bit_eq take_bit_nat_eq_self\<close>)
  thus ?thesis using assms(1) by (simp add: addr_of_def mac_low_address pool_ok_def)
qed

lemma release_index:
  assumes "pool_ok p" "i < length (MacAddrs p)" "mac_low m = mac_low (addr_of p i)"
  shows "mac_low m - mac_low (ni_ucaBaseMacAddr p) = of_nat i" "unat (of_nat i :: u32) = i" "(of_nat i :: u32) < ni_ulNumMacAddrs p"
proof -
  show "mac_low m - mac_low (ni_ucaBaseMacAddr p) = of_nat i" using mac_low_addr_of[OF assms(1,2)] assms(3) by simp
  show u: "unat (of_nat i :: u32) = i" using assms(1,2) by (simp add: pool_ok_def unat_of_nat)
  show "(of_nat i :: u32) < ni_ulNumMacAddrs p" using assms(1,2) u by (simp add: word_less_nat_alt pool_ok_def)
qed

lemma addr_of_inj:
  assumes "pool_ok p" "i < length (MacAddrs p)" "j < length (MacAddrs p)" "addr_of p i = addr_of p j"
  shows "i = j"
  using release_index[OF assms(1,2), of "addr_of p i"] release_index[OF assms(1,3), of "addr_of p i"] assms(4) by (metis)

lemma mai_get_ok: "pool_ok p \<Longrightarrow> i < length (MacAddrs p) \<Longrightarrow> mai_get p i = Inr (MacAddrs p ! i)"
  by (simp add: mai_get_def pool_ok_def)

lemma pool_ok_set: "pool_ok (mai_set i e p) = pool_ok p" "addr_of (mai_set i e p) = addr_of p"
  by (auto simp: pool_ok_def mai_set_def addr_of_def)

text \<open>An ordinary user is one without a reserved address.\<close>

definition ordinary :: "u32 \<Rightarrow> bool" where
  "ordinary uid \<longleftrightarrow> reserved_index uid = NO_RESERVE_MAC"

lemma ordinary_not_any: "ordinary uid \<Longrightarrow> uid \<noteq> MAC_ADDRESS_ANY"
  by (auto simp: ordinary_def reserved_index_def)

text \<open>An entry that a user cannot have.\<close>

definition taken :: "u32 \<Rightarrow> MAC_ADDR_INFO \<Rightarrow> bool" where
  "taken uid e \<longleftrightarrow> ulId e \<noteq> uid \<and> chInUse e \<noteq> 0"

lemma mac_scan_first:
  assumes "pool_ok p" "uid \<noteq> MAC_ADDRESS_ANY" "i \<le> j" "j < length (MacAddrs p)" "\<forall>l. i \<le> l \<and> l < j \<longrightarrow> taken uid (MacAddrs p ! l)"
    and "\<not> taken uid (MacAddrs p ! j)"
  shows "mac_scan p uid NO_RESERVE_MAC i
     = Inr (if ulId (MacAddrs p ! j) = uid then Mac_Used j else if ulId (MacAddrs p ! j) = 0 then Mac_FreeNoId j else Mac_FreeId j)"
  using assms(3-)
proof (induction "j - i" arbitrary: i)
  case 0
  hence "i = j" by simp
  thus ?case using assms(1,2) 0 mai_get_ok[OF assms(1)]
    by (subst mac_scan.simps) (auto simp: taken_def pool_ok_def)
next
  case (Suc d)
  hence "i < j" and t: "taken uid (MacAddrs p ! i)" by auto
  moreover have "mac_scan p uid NO_RESERVE_MAC (Suc i)
     = Inr (if ulId (MacAddrs p ! j) = uid then Mac_Used j else if ulId (MacAddrs p ! j) = 0 then Mac_FreeNoId j else Mac_FreeId j)"
    using Suc by (intro Suc.hyps(1)) auto
  ultimately show ?case using assms(1,2) mai_get_ok[OF assms(1), of i] Suc.prems(2)
    by (subst mac_scan.simps) (auto simp: taken_def pool_ok_def)
qed

lemma mac_scan_none:
  assumes "pool_ok p" "uid \<noteq> MAC_ADDRESS_ANY" "\<forall>l < length (MacAddrs p). taken uid (MacAddrs p ! l)"
  shows "mac_scan p uid NO_RESERVE_MAC i = Inr Mac_None"
proof (induction "length (MacAddrs p) - i" arbitrary: i)
  case 0 thus ?case using assms(1) by (subst mac_scan.simps) (simp add: pool_ok_def)
next
  case (Suc d)
  have "mac_scan p uid NO_RESERVE_MAC (Suc i) = Inr Mac_None" using Suc by simp
  moreover have "i < length (MacAddrs p)" using Suc by simp
  ultimately show ?case using assms mai_get_ok[OF assms(1), of i] by (subst mac_scan.simps) (auto simp: taken_def pool_ok_def)
qed


lemma get_first:
  assumes "g_pNvramInfo st = Some p" "pool_ok p" "ordinary uid" "length m = 6"
    and "j < length (MacAddrs p)" "\<forall>l < j. taken uid (MacAddrs p ! l)" "\<not> taken uid (MacAddrs p ! j)"
  shows "kerSysGetMacAddress m uid st
     = Inr (0, addr_of p j, st\<lparr>g_pNvramInfo := Some (mai_set j ((MacAddrs p ! j)\<lparr>ulId := uid, chInUse := 1\<rparr>) p)\<rparr>)"
proof -
  note s = mac_scan_first[OF assms(2) ordinary_not_any[OF assms(3)], of 0 j]
  have e: "(MacAddrs p ! j)\<lparr>chInUse := 1\<rparr> = (MacAddrs p ! j)\<lparr>ulId := uid, chInUse := 1\<rparr>" if "ulId (MacAddrs p ! j) = uid"
    using that by (cases "MacAddrs p ! j") simp
  have "length (addr_of p j) = 6" using assms(2) by (simp add: addr_of_def length_mac_address pool_ok_def)
  hence "mem_wr m 0 (addr_of p j) = Inr (addr_of p j)" using assms(4) by (auto simp: mem_wr_def overlay_def)
  thus ?thesis using s assms mai_get_ok[OF assms(2,5)]
    by (cases "ulId (MacAddrs p ! j) = uid") (simp_all add: e kerSysGetMacAddress_def ordinary_def addr_of_def Let_def)
qed

lemma get_full:
  assumes "g_pNvramInfo st = Some p" "pool_ok p" "ordinary uid" "\<forall>l < length (MacAddrs p). taken uid (MacAddrs p ! l)"
  shows "kerSysGetMacAddress m uid st = Inr (- EADDRNOTAVAIL, m, st)"
proof -
  have nz: "ni_ulNumMacAddrs p \<noteq> 0" using assms(2) by (auto simp: pool_ok_def)
  hence "0 < unat (ni_ulNumMacAddrs p)" by (simp add: unat_gt_0)
  hence "ni_ulNumMacAddrs p - 1 < ni_ulNumMacAddrs p" unfolding word_less_nat_alt unat_minus_one[OF nz] by simp
  thus ?thesis using mac_scan_none[OF assms(2) ordinary_not_any[OF assms(3)] assms(4)] assms(1,3)
    by (simp add: kerSysGetMacAddress_def ordinary_def Let_def)
qed

lemma get_cases:
  assumes "g_pNvramInfo st = Some p" "pool_ok p" "ordinary uid" "length m = 6"
  obtains (First) j where "j < length (MacAddrs p)" "\<forall>l < j. taken uid (MacAddrs p ! l)" "\<not> taken uid (MacAddrs p ! j)"
      "kerSysGetMacAddress m uid st = Inr (0, addr_of p j, st\<lparr>g_pNvramInfo := Some (mai_set j ((MacAddrs p ! j)\<lparr>ulId := uid, chInUse := 1\<rparr>) p)\<rparr>)"
    | (Full) "\<forall>l < length (MacAddrs p). taken uid (MacAddrs p ! l)" "kerSysGetMacAddress m uid st = Inr (- EADDRNOTAVAIL, m, st)"
proof (cases "\<exists>j < length (MacAddrs p). \<not> taken uid (MacAddrs p ! j)")
  case True
  define j where "j = (LEAST j. j < length (MacAddrs p) \<and> \<not> taken uid (MacAddrs p ! j))"
  have j: "j < length (MacAddrs p)" "\<not> taken uid (MacAddrs p ! j)" using True LeastI_ex[of "\<lambda>j. j < length (MacAddrs p) \<and> \<not> taken uid (MacAddrs p ! j)"] by (auto simp: j_def)
  have l: "\<forall>l < j. taken uid (MacAddrs p ! l)"
    using not_less_Least[of _ "\<lambda>j. j < length (MacAddrs p) \<and> \<not> taken uid (MacAddrs p ! j)", folded j_def] j(1) by fastforce
  show thesis using First[OF j(1) l j(2) get_first[OF assms j(1) l j(2)]] .
next
  case False
  thus thesis using Full get_full[OF assms(1-3)] by blast
qed


lemma release_cases:
  assumes "g_pNvramInfo st = Some p" "pool_ok p"
  obtains (Entry) i where "i < length (MacAddrs p)" "mac_low m = mac_low (addr_of p i)" "chInUse (MacAddrs p ! i) = 1"
      "kerSysReleaseMacAddress m st = Inr (0, st\<lparr>g_pNvramInfo := Some (mai_set i ((MacAddrs p ! i)\<lparr>chInUse := 0\<rparr>) p)\<rparr>)"
    | (Refused) "kerSysReleaseMacAddress m st = Inr (- EINVAL, st)"
proof -
  define x where "x = mac_low m - mac_low (ni_ucaBaseMacAddr p)"
  show thesis
  proof (cases "x < ni_ulNumMacAddrs p")
    case True
    hence i: "unat x < length (MacAddrs p)" using assms(2) by (simp add: pool_ok_def word_less_nat_alt)
    have "mac_low m = mac_low (addr_of p (unat x))" using mac_low_addr_of[OF assms(2) i] by (simp add: x_def)
    moreover have "kerSysReleaseMacAddress m st = (if chInUse (MacAddrs p ! unat x) = 1
        then Inr (0, st\<lparr>g_pNvramInfo := Some (mai_set (unat x) ((MacAddrs p ! unat x)\<lparr>chInUse := 0\<rparr>) p)\<rparr>) else Inr (- EINVAL, st))"
      using assms(1) True mai_get_ok[OF assms(2) i] by (simp add: kerSysReleaseMacAddress_def Let_def flip: x_def)
    ultimately show thesis using that i by (cases "chInUse (MacAddrs p ! unat x) = 1") auto
  next
    case False
    thus thesis using Refused assms(1) by (simp add: kerSysReleaseMacAddress_def Let_def flip: x_def)
  qed
qed


section \<open>Users\<close>

datatype mac_op = Take u32 | Give_Back "byte list"

fun mac_step :: "mac_op \<Rightarrow> mac_state \<Rightarrow> mac_state res" where
  "mac_step (Take uid) st = bindR (kerSysGetMacAddress (replicate 6 0) uid st) (\<lambda>(_, _, st'). Inr st')"
| "mac_step (Give_Back m) st = bindR (kerSysReleaseMacAddress m st) (\<lambda>(_, st'). Inr st')"

fun mac_steps :: "mac_op list \<Rightarrow> mac_state \<Rightarrow> mac_state res" where
  "mac_steps [] st = Inr st"
| "mac_steps (x # ops) st = bindR (mac_step x st) (mac_steps ops)"

definition pool_state :: "mac_state \<Rightarrow> bool" where
  "pool_state st \<longleftrightarrow> (case g_pNvramInfo st of None \<Rightarrow> False | Some p \<Rightarrow> pool_ok p)"

definition ordinary_op :: "mac_op \<Rightarrow> bool" where
  "ordinary_op x \<longleftrightarrow> (case x of Take uid \<Rightarrow> ordinary uid | Give_Back m \<Rightarrow> True)"

definition owned :: "byte list \<Rightarrow> u32 \<Rightarrow> mac_state \<Rightarrow> bool" where
  "owned a uid st \<longleftrightarrow> (\<exists>p j. g_pNvramInfo st = Some p \<and> pool_ok p \<and> j < length (MacAddrs p) \<and> addr_of p j = a
     \<and> ulId (MacAddrs p ! j) = uid \<and> chInUse (MacAddrs p ! j) = 1)"

lemma pool_stateE:
  assumes "pool_state st"
  obtains p where "g_pNvramInfo st = Some p" "pool_ok p"
  using assms by (auto simp: pool_state_def split: option.splits)

lemma owned_get:
  assumes "pool_state st" "ordinary uid" "length m = 6" "kerSysGetMacAddress m uid st = Inr (0, a, st')"
  shows "owned a uid st'"
proof -
  obtain p where p: "g_pNvramInfo st = Some p" "pool_ok p" using assms(1) by (rule pool_stateE)
  show ?thesis
  proof (cases rule: get_cases[OF p assms(2,3)])
    case (1 j)
    hence "a = addr_of p j" "st' = st\<lparr>g_pNvramInfo := Some (mai_set j ((MacAddrs p ! j)\<lparr>ulId := uid, chInUse := 1\<rparr>) p)\<rparr>" using assms(4) by simp_all
    moreover have "length (MacAddrs (mai_set j e p)) = length (MacAddrs p)" "MacAddrs (mai_set j e p) ! j = e" for e
      using 1(1) by (simp_all add: mai_set_def)
    ultimately show ?thesis using 1(1) p(2) by (auto simp: owned_def pool_ok_set)
  qed (use assms(4) in simp)
qed

lemma owned_step:
  assumes "owned a uid st" "ordinary_op x" "\<And>m. x = Give_Back m \<Longrightarrow> mac_low m \<noteq> mac_low a"
  shows "\<exists>st'. mac_step x st = Inr st' \<and> owned a uid st'"
proof -
  obtain p j where p: "g_pNvramInfo st = Some p" "pool_ok p" "j < length (MacAddrs p)" "addr_of p j = a"
    "ulId (MacAddrs p ! j) = uid \<and> chInUse (MacAddrs p ! j) = 1" using assms(1) by (auto simp: owned_def)
  have keep: "owned a uid (st\<lparr>g_pNvramInfo := Some (mai_set i e p)\<rparr>)" if "i \<noteq> j \<or> ulId e = uid \<and> chInUse e = 1" for i e
  proof -
    have "ulId (MacAddrs (mai_set i e p) ! j) = uid \<and> chInUse (MacAddrs (mai_set i e p) ! j) = 1" using that p(3,5) by (cases "i = j") (auto simp: mai_set_def)
    moreover have "length (MacAddrs (mai_set i e p)) = length (MacAddrs p)" by (simp add: mai_set_def)
    ultimately show ?thesis using p pool_ok_set[of i e p] by (auto simp: owned_def)
  qed
  show ?thesis
  proof (cases x)
    case (Take u)
    hence o: "ordinary u" using assms(2) by (simp add: ordinary_op_def)
    have l: "length (replicate 6 (0 :: byte)) = 6" by simp
    show ?thesis
    proof (cases rule: get_cases[OF p(1,2) o l])
      case (1 i)
      have "i \<noteq> j \<or> u = uid" using 1(3) p(5) by (auto simp: taken_def)
      thus ?thesis using keep[of i "(MacAddrs p ! i)\<lparr>ulId := u, chInUse := 1\<rparr>"] 1(4) Take by auto
    next
      case 2
      thus ?thesis using assms(1) Take by auto
    qed
  next
    case (Give_Back m)
    show ?thesis
    proof (cases rule: release_cases[OF p(1,2), of m])
      case (1 i)
      hence "i \<noteq> j" using assms(3)[OF Give_Back] p(4) by auto
      thus ?thesis using keep 1(4) Give_Back by auto
    next
      case 2
      thus ?thesis using assms(1) Give_Back by auto
    qed
  qed
qed

lemma owned_steps:
  assumes "owned a uid st" "\<forall>x \<in> set ops. ordinary_op x" "\<And>m. Give_Back m \<in> set ops \<Longrightarrow> mac_low m \<noteq> mac_low a" "mac_steps ops st = Inr st'"
  shows "owned a uid st'"
  using assms
proof (induction ops arbitrary: st)
  case (Cons x ops)
  obtain st1 where st1: "mac_step x st = Inr st1" "owned a uid st1" using owned_step[OF Cons.prems(1), of x] Cons.prems(2,3) by auto
  show ?case by (rule Cons.IH[OF st1(2)]) (use Cons.prems st1 in auto)
qed simp

lemma owned_excludes:
  assumes "owned a uid st" "ordinary u" "u \<noteq> uid" "length m = 6"
  shows "kerSysGetMacAddress m u st \<noteq> Inr (0, a, st')"
proof -
  obtain p j where p: "g_pNvramInfo st = Some p" "pool_ok p" "j < length (MacAddrs p)" "addr_of p j = a"
    "ulId (MacAddrs p ! j) = uid \<and> chInUse (MacAddrs p ! j) = 1" using assms(1) by (auto simp: owned_def)
  show ?thesis
  proof (cases rule: get_cases[OF p(1,2) assms(2,4)])
    case (1 i)
    have "i \<noteq> j" using 1(3) p(5) assms(3) by (auto simp: taken_def)
    thus ?thesis using addr_of_inj[OF p(2) 1(1) p(3)] 1(4) p(4) by auto
  qed simp
qed


section \<open>Initialisation\<close>

text \<open>A pool as the initialisation allocates it for \<open>n\<close> addresses; its entries from \<open>i\<close> on are not in use.\<close>

definition fresh_pool :: "nat \<Rightarrow> nat \<Rightarrow> NVRAM_INFO \<Rightarrow> bool" where
  "fresh_pool n i p \<longleftrightarrow>
     unat (ni_ulNumMacAddrs p) = n \<and> length (MacAddrs p) = n \<and> ni_block p = 60 + 7 * n \<and> length (ni_ucaBaseMacAddr p) = 6
     \<and> (\<forall>j. i \<le> j \<and> j < n \<longrightarrow> chInUse (MacAddrs p ! j) = 0)"

lemma fresh_get: "fresh_pool n i p \<Longrightarrow> j < n \<Longrightarrow> j \<le> 8 \<Longrightarrow> mai_get p j = Inr (MacAddrs p ! j)"
  by (auto simp: fresh_pool_def mai_get_def)

lemma fresh_set: "fresh_pool n i p \<Longrightarrow> j \<le> i \<Longrightarrow> fresh_pool n (Suc i) (mai_set j e p)"
  by (auto simp: fresh_pool_def mai_set_def)

text \<open>A request for reserved entry \<open>r\<close> stops there at the latest.\<close>

lemma scan_reserved:
  assumes "fresh_pool n r p" "r < n" "r \<le> 8" "i \<le> r"
  shows "\<exists>j. j \<le> r \<and> mac_scan p uid (of_nat r) i \<in> {Inr (Mac_Used j), Inr (Mac_FreeNoId j), Inr (Mac_FreeId j)}"
  using assms(4)
proof (induction "r - i" arbitrary: i)
  case 0
  hence "i = r" by simp
  moreover have "chInUse (MacAddrs p ! r) = 0" "unat (ni_ulNumMacAddrs p) = n" using assms(1,2) by (simp_all add: fresh_pool_def)
  ultimately show ?case using fresh_get[OF assms(1-3)] assms(2) by (subst mac_scan.simps) auto
next
  case (Suc d)
  have i: "i < r" "i < n" "i \<le> 8" using Suc assms(2,3) by auto
  have n: "unat (ni_ulNumMacAddrs p) = n" using assms(1) by (simp add: fresh_pool_def)
  obtain j where "j \<le> r" "mac_scan p uid (of_nat r) (Suc i) \<in> {Inr (Mac_Used j), Inr (Mac_FreeNoId j), Inr (Mac_FreeId j)}"
    using Suc.hyps(1)[of "Suc i"] Suc.hyps(2) i(1) by (metis Suc_diff_Suc Suc_leI nat.inject)
  thus ?case using fresh_get[OF assms(1) i(2,3)] i n by (subst mac_scan.simps) (auto intro: less_imp_le)
qed

lemma get_reserved:
  assumes "g_pNvramInfo st = Some p" "fresh_pool n r p" "r < n" "r \<le> 8" "reserved_index uid = of_nat r" "length m = 6"
  shows "\<exists>m' st' p'. kerSysGetMacAddress m uid st = Inr (0, m', st') \<and> length m' = 6 \<and> g_pNvramInfo st' = Some p' \<and> fresh_pool n (Suc r) p'"
proof -
  obtain j where j: "j \<le> r" "mac_scan p uid (of_nat r) 0 \<in> {Inr (Mac_Used j), Inr (Mac_FreeNoId j), Inr (Mac_FreeId j)}"
    using scan_reserved[OF assms(2-4), of 0] by auto
  have "length (ni_ucaBaseMacAddr p) = 6" using assms(2) by (simp add: fresh_pool_def)
  hence w: "mem_wr m 0 (mac_address (ni_ucaBaseMacAddr p) i) = Inr (mac_address (ni_ucaBaseMacAddr p) i)"
    "length (mac_address (ni_ucaBaseMacAddr p) i) = 6" for i
    using assms(6) length_mac_address[of "ni_ucaBaseMacAddr p" i] by (auto simp: mem_wr_def overlay_def)
  have g: "mai_get p j = Inr (MacAddrs p ! j)" using fresh_get[OF assms(2)] j(1) assms(3,4) by simp
  show ?thesis using j(2) g w fresh_set[OF assms(2) j(1)] assms(1,5)
    by (elim insertE) (simp_all add: kerSysGetMacAddress_def Let_def)
qed

lemma reserved_ids:
  assumes "reserve_id i = Some uid" shows "i \<le> 8" "reserved_index uid = of_nat i"
proof -
  have "i \<in> {0, 5, 6, 7, 8}" using assms by (auto simp: reserve_id_def split: if_splits)
  thus "i \<le> 8" "reserved_index uid = of_nat i" using assms by (auto simp: reserve_id_def reserved_index_def Let_def)
qed

lemma reserve_macs_ok:
  assumes "g_pNvramInfo st = Some p" "fresh_pool n a p" "length m = 6" "a \<le> n"
  shows "\<exists>st' p'. reserve_macs [a..<n] m st = Inr st' \<and> g_pNvramInfo st' = Some p' \<and> fresh_pool n n p'"
  using assms
proof (induction "n - a" arbitrary: a st p m)
  case (Suc d)
  hence a: "a < n" "[a..<n] = a # [Suc a..<n]" by (auto simp: upt_conv_Cons)
  show ?case
  proof (cases "reserve_id a")
    case None
    have "fresh_pool n (Suc a) p" using Suc.prems(2) by (simp add: fresh_pool_def)
    thus ?thesis using Suc.hyps(1)[of "Suc a" st p m] Suc.hyps(2) Suc.prems a None by simp
  next
    case (Some uid)
    obtain m' st1 p1 where g: "kerSysGetMacAddress m uid st = Inr (0, m', st1)" "length m' = 6" "g_pNvramInfo st1 = Some p1"
      "fresh_pool n (Suc a) p1"
      using get_reserved[OF Suc.prems(1,2) a(1) reserved_ids[OF Some] Suc.prems(3)] by blast
    show ?thesis using Suc.hyps(1)[of "Suc a" st1 p1 m'] Suc.hyps(2) a Some g by simp
  qed
qed auto

lemma init_pool:
  assumes "get_nvram_start_addr k = Inr a" "equip_fetch hw a k = (nv, k0)" "kmalloc k0 = (Some b, k1)"
    and "length (ucaBaseMacAddr nv) = 6" "0 < ulNumMacAddrs nv" "ulNumMacAddrs nv \<le> 32"
  shows "\<exists>st' p. InitNvramInfo hw memCfg k st = Inr (k1, st') \<and> g_pNvramInfo st' = Some p
     \<and> fresh_pool (unat (ulNumMacAddrs nv)) (unat (ulNumMacAddrs nv)) p"
proof -
  define info where "info = \<lparr>ni_ulSdramSize = getMemorySize memCfg,
     ni_ulPsiSize = (case BpGetPsiSize (cur_bp k1) of (r, s) \<Rightarrow> if r = BP_SUCCESS then s else 64) * 1024,
     ni_ulNumMacAddrs = ulNumMacAddrs nv, ni_ucaBaseMacAddr = ucaBaseMacAddr nv, ni_szSerialNumber = replicate 32 0,
     MacAddrs = replicate (unat (ulNumMacAddrs nv)) \<lparr>ulId = 0, chInUse = 0, mai_chReserved = replicate 3 0\<rparr>,
     ni_block = sizeof_NVRAM_INFO + (sizeof_MAC_ADDR_INFO - 1) * unat (ulNumMacAddrs nv)\<rparr>"
  have "fresh_pool (unat (ulNumMacAddrs nv)) 0 info" using assms(4) by (simp add: fresh_pool_def info_def)
  then obtain st' p where r: "reserve_macs [0..<unat (ulNumMacAddrs nv)] (replicate 6 0) (st\<lparr>g_pNvramInfo := Some info\<rparr>) = Inr st'"
      "g_pNvramInfo st' = Some p" "fresh_pool (unat (ulNumMacAddrs nv)) (unat (ulNumMacAddrs nv)) p"
    using reserve_macs_ok[of "st\<lparr>g_pNvramInfo := Some info\<rparr>" info "unat (ulNumMacAddrs nv)" 0 "replicate 6 0"] by auto
  have "InitNvramInfo hw memCfg k st
      = bindR (reserve_macs [0..<unat (ulNumMacAddrs nv)] (replicate 6 0) (st\<lparr>g_pNvramInfo := Some info\<rparr>)) (\<lambda>st'. Inr (k1, st'))"
    using assms by (simp add: InitNvramInfo_def Let_def info_def)
  thus ?thesis using r by simp
qed

section \<open>Properties\<close>

text \<open>A pool of ten addresses.\<close>

definition ten_macs :: mac_state where
  "ten_macs =
     \<lparr>g_pNvramInfo = Some \<lparr>ni_ulSdramSize = 0, ni_ulPsiSize = 0, ni_ulNumMacAddrs = 10, ni_ucaBaseMacAddr = [0, 0x10, 0x18, 0, 0xFF, 0xFE],
        ni_szSerialNumber = [], MacAddrs = replicate 10 \<lparr>ulId = 0, chInUse = 0, mai_chReserved = [0, 0, 0]\<rparr>, ni_block = 130\<rparr>, g_iReservedMacBeUsedNum = 0\<rparr>"

lemma ten_macs_pool: "pool_state ten_macs"
  by (simp add: pool_state_def ten_macs_def pool_ok_def mac_low_def be32_def slice_def)

lemmas mac_eval = kerSysGetMacAddress_def kerSysReleaseMacAddress_def mac_scan.simps mai_get_def mai_set_def mac_address_def mac_low_def
  reserved_index_def ten_macs_def mem_wr_def overlay_def slice_def be32_def be32_bytes_def Let_def

text \<open>C10: an address is given to one user at a time: when two users without reserved addresses get the same
  address, it has been released in between, whatever other requests and releases there were.\<close>

theorem mac_exclusive:
  assumes "pool_state st" "ordinary u1" "ordinary u2" "u1 \<noteq> u2" "\<forall>x \<in> set ops. ordinary_op x" "length m1 = 6" "length m2 = 6"
    and "kerSysGetMacAddress m1 u1 st = Inr (0, a, st1)" "mac_steps ops st1 = Inr st2"
    and "kerSysGetMacAddress m2 u2 st2 = Inr (0, a, st3)"
  shows "\<exists>m. Give_Back m \<in> set ops \<and> mac_low m = mac_low a"
proof (rule ccontr)
  assume "\<not> ?thesis"
  hence "owned a u1 st2" using owned_steps[OF owned_get[OF assms(1,2,6,8)] assms(5) _ assms(9)] by blast
  from owned_excludes[OF this assms(3) assms(4)[symmetric] assms(7)] assms(10) show False by blast
qed

theorem mac_exclusive_witness:
  "\<exists>st1 st2 st3. kerSysGetMacAddress (replicate 6 0) 1 ten_macs = Inr (0, [0, 0x10, 0x18, 0, 0xFF, 0xFE], st1)
     \<and> mac_steps [Take 2, Give_Back [0, 0x10, 0x18, 0, 0xFF, 0xFE]] st1 = Inr st2
     \<and> kerSysGetMacAddress (replicate 6 0) 3 st2 = Inr (0, [0, 0x10, 0x18, 0, 0xFF, 0xFE], st3)
     \<and> (\<exists>m. Give_Back m \<in> set [Take 2, Give_Back [0, 0x10, 0x18, 0, 0xFF, 0xFE]] \<and> mac_low m = mac_low [0, 0x10, 0x18, 0, 0xFF, 0xFE])"
proof -
  let ?a = "[0, 0x10, 0x18, 0, 0xFF, 0xFE] :: byte list"
  obtain st1 st2 st3 where st: "kerSysGetMacAddress (replicate 6 0) 1 ten_macs = Inr (0, ?a, st1)"
    "mac_steps [Take 2, Give_Back ?a] st1 = Inr st2" "kerSysGetMacAddress (replicate 6 0) 3 st2 = Inr (0, ?a, st3)"
  proof -
    have "\<exists>st1. kerSysGetMacAddress (replicate 6 0) 1 ten_macs = Inr (0, ?a, st1)
       \<and> (\<exists>st2. mac_steps [Take 2, Give_Back ?a] st1 = Inr st2 \<and> (\<exists>st3. kerSysGetMacAddress (replicate 6 0) 3 st2 = Inr (0, ?a, st3)))"
      by (simp add: mac_eval)
    thus thesis using that by blast
  qed
  have o: "ordinary 1" "ordinary 2" "ordinary 3" by (simp_all add: ordinary_def reserved_index_def)
  from mac_exclusive[OF ten_macs_pool o(1,3) _ _ _ _ st(1-3)] o show ?thesis using st by (auto simp: ordinary_op_def)
qed



text \<open>C35: \<open>InitNvramInfo\<close> accepts every number n of addresses from 1 to 32, and no other. It builds a pool of n entries in a
  heap block of 60 + 7 * n bytes. All entries lie in this block exactly for up to eight addresses, and their identifiers and
  flags, which the code accesses, exactly for up to eleven.\<close>

theorem mac_pool_bounds:
  assumes "get_nvram_start_addr k = Inr a" "equip_fetch hw a k = (nv, k0)" "kmalloc k0 = (Some b, k1)"
    and "length (ucaBaseMacAddr nv) = 6" "n = unat (ulNumMacAddrs nv)"
  shows "if 0 < n \<and> n \<le> 32
    then \<exists>st' p. InitNvramInfo hw memCfg k st = Inr (k1, st') \<and> g_pNvramInfo st' = Some p \<and> length (MacAddrs p) = n
           \<and> ((\<forall>i < n. mai_in_block p i) \<longleftrightarrow> n \<le> 8) \<and> ((\<forall>i < n. mai_get p i \<noteq> Inl OutOfBounds) \<longleftrightarrow> n \<le> 11)
    else InitNvramInfo hw memCfg k st = Inr (k0, st)"
proof (cases "0 < n \<and> n \<le> 32")
  case True
  hence "0 < ulNumMacAddrs nv" "ulNumMacAddrs nv \<le> 32" using assms(5) by (simp_all add: word_less_nat_alt word_le_nat_alt)
  then obtain st' p where i: "InitNvramInfo hw memCfg k st = Inr (k1, st')" "g_pNvramInfo st' = Some p" "fresh_pool n n p"
    using init_pool[OF assms(1-4)] unfolding assms(5) by blast
  have last: "(\<forall>i < n. Q i) \<longleftrightarrow> Q (n - 1)" if "\<And>i j. i \<le> j \<Longrightarrow> j < n \<Longrightarrow> Q j \<Longrightarrow> Q i" for Q
    using True that by (metis One_nat_def Suc_leI Suc_pred diff_less less_Suc_eq_le zero_less_one)
  have "(\<forall>i < n. mai_in_block p i) \<longleftrightarrow> mai_in_block p (n - 1)" by (rule last) (simp add: mai_in_block_def)
  also have "\<dots> \<longleftrightarrow> n \<le> 8" using i(3) True by (auto simp: mai_in_block_def fresh_pool_def)
  finally have w: "(\<forall>i < n. mai_in_block p i) \<longleftrightarrow> n \<le> 8" .
  have "(\<forall>i < n. mai_get p i \<noteq> Inl OutOfBounds) \<longleftrightarrow> mai_get p (n - 1) \<noteq> Inl OutOfBounds"
    by (rule last) (auto simp: mai_get_def split: if_splits)
  also have "\<dots> \<longleftrightarrow> n \<le> 11" using i(3) True by (auto simp: mai_get_def fresh_pool_def)
  finally show ?thesis using True i w by (auto simp: fresh_pool_def)
next
  case False
  hence "\<not> (0 < ulNumMacAddrs nv \<and> ulNumMacAddrs nv \<le> 32)" using assms(5) by (auto simp: word_less_nat_alt word_le_nat_alt)
  hence "InitNvramInfo hw memCfg k st = Inr (k0, st)" using assms(1,2) unfolding InitNvramInfo_def Let_def by (simp only: bindR_simps prod.case if_False)
  thus ?thesis by (subst if_not_P[OF False])
qed

text \<open>A board whose NVRAM holds twelve addresses; its memory is read through \<open>nvram_hw\<close>.\<close>

definition nvram_hw :: "u32 \<Rightarrow> unit flash_hw" where
  "nvram_hw n =
     \<lparr>hw_flash_init = (\<lambda>s. Inr (0, None, s)), hw_base = (\<lambda>_. 0),
      hw_peek = (\<lambda>_ _ s. (replicate 284 0 @ be32_bytes n @ replicate 44 0, s)), hw_set_reset = (\<lambda>_ s. s)\<rparr>"

definition nvram_board :: "unit kersys" where
  "nvram_board =
     \<lparr>flash_dev = (), g_flash_info = None, fInfo = fInfo0, flashInitialized = False, cur_bp = None,
      gpio = \<lparr>GPIODir_high = 0, GPIODir = 0, GPIOio_high = 0, GPIOio = 0\<rparr>, kmalloc_ok = (\<lambda>_. True), kmalloc_calls = 0, heap_live = {}\<rparr>"

lemma nvram_board_data:
  "case get_nvram_start_addr nvram_board of Inl _ \<Rightarrow> False
     | Inr a \<Rightarrow> (case fst (equip_fetch (nvram_hw 12) a nvram_board) of nv \<Rightarrow> length (ucaBaseMacAddr nv) = 6 \<and> ulNumMacAddrs nv = 12)"
  by code_simp

lemma nvram_board_fetch:
  obtains a nv where "get_nvram_start_addr nvram_board = Inr a" "equip_fetch (nvram_hw 12) a nvram_board = (nv, nvram_board)"
    "length (ucaBaseMacAddr nv) = 6" "ulNumMacAddrs nv = 12"
proof -
  have "snd (equip_fetch (nvram_hw 12) a nvram_board) = nvram_board" for a by (simp add: equip_fetch_def nvram_hw_def)
  thus thesis using nvram_board_data that by (auto split: sum.splits) (metis prod.collapse)
qed

theorem mac_pool_bounds_witness:
  "\<exists>st' p. InitNvramInfo (nvram_hw 12) 0 nvram_board \<lparr>g_pNvramInfo = None, g_iReservedMacBeUsedNum = 0\<rparr>
       = Inr (snd (kmalloc nvram_board), st') \<and> g_pNvramInfo st' = Some p \<and> length (MacAddrs p) = 12
     \<and> \<not> (\<forall>i < 12. mai_get p i \<noteq> Inl OutOfBounds)"
proof -
  obtain a nv where a: "get_nvram_start_addr nvram_board = Inr a" "equip_fetch (nvram_hw 12) a nvram_board = (nv, nvram_board)"
    "length (ucaBaseMacAddr nv) = 6" "ulNumMacAddrs nv = 12"
    by (rule nvram_board_fetch)
  have m: "kmalloc nvram_board = (Some 0, snd (kmalloc nvram_board))" by (simp add: kmalloc_def nvram_board_def Let_def)
  show ?thesis using mac_pool_bounds[OF a(1,2) m a(3) refl, of 0 "\<lparr>g_pNvramInfo = None, g_iReservedMacBeUsedNum = 0\<rparr>"] a(4)
    by (auto simp del: not_all)
qed

text \<open>The reservation of the first address does not last: the entry is marked as not in use, so that the first user
  gets it, and the request with the reserved identifier then fails.\<close>

lemma reserved_mac_given_away:
  "case reserve_macs [0..<10] (replicate 6 0) ten_macs of Inl _ \<Rightarrow> False | Inr st \<Rightarrow>
     (case kerSysGetMacAddress (replicate 6 0) 1 st of Inl _ \<Rightarrow> False | Inr (r, a, st1) \<Rightarrow>
        r = 0 \<and> a = [0, 0x10, 0x18, 0, 0xFF, 0xFE]
        \<and> (case kerSysGetMacAddress (replicate 6 0) RESERVE_MAC_MASK st1 of Inl _ \<Rightarrow> False | Inr (r, _, _) \<Rightarrow> r = - EADDRNOTAVAIL))"
  by code_simp

end
