(* ===== verification/Leds.thy ===== *)
theory Leds
  imports Flash_Store
begin

text \<open>
  The LED driver (\<^verbatim>\<open>bcm63xx_led.c\<close>) and the table of LEDs built by \<^verbatim>\<open>brcm_board_init\<close> (\<^verbatim>\<open>board.c\<close>), as compiled for
  the HG556. A name of an LED is an integer as in the C enumeration, so that names outside of the tables can be
  passed. The pointers of \<^verbatim>\<open>gpVirtLeds\<close> are positions in \<open>gLed\<close>. The handlers for LEDs driven by hardware belong to
  other drivers: \<open>hw_calls\<close> logs their calls. \<open>ser_stuck\<close> tells that the busy flag of the serial LEDs never clears.
\<close>

section \<open>State\<close>

datatype BOARD_LED_STATE =
    kLedStateOff | kLedStateOn | kLedStateFail | kLedStateBlinkOnce | kLedStateSlowFlickerOnce | kLedStateFastFlickerOnce
  | kLedStateVerySlowBlinkContiunes | kLedStateSlowBlinkContinues | kLedStateFastBlinkContinues
  | kLedStateVerySlowBlinkOnce | kLedStateSlowBlinkOnce | kLedStateSlowFlickerContinues | kLedStateFastFlickerContinues
  | kLedStateUnknow

abbreviation (input) kLedMessage :: int where "kLedMessage \<equiv> 0"
abbreviation (input) kLedAdsl :: int where "kLedAdsl \<equiv> 1"
abbreviation (input) kLedHspa :: int where "kLedHspa \<equiv> 2"
abbreviation (input) kLedPower :: int where "kLedPower \<equiv> 3"
abbreviation (input) kLedLan1 :: int where "kLedLan1 \<equiv> 4"
abbreviation (input) kLedLan2 :: int where "kLedLan2 \<equiv> 5"
abbreviation (input) kLedLan3 :: int where "kLedLan3 \<equiv> 6"
abbreviation (input) kLedLan4 :: int where "kLedLan4 \<equiv> 7"
abbreviation (input) kLedWireless :: int where "kLedWireless \<equiv> 8"
abbreviation (input) kLedVoip :: int where "kLedVoip \<equiv> 14"
abbreviation (input) kLedLine0 :: int where "kLedLine0 \<equiv> 16"
abbreviation (input) kLedLine1 :: int where "kLedLine1 \<equiv> 17"
abbreviation (input) kLedPSTN :: int where "kLedPSTN \<equiv> 18"
abbreviation (input) kLedEnd :: int where "kLedEnd \<equiv> 20"
abbreviation (input) MAX_VIRT_LEDS :: int where "MAX_VIRT_LEDS \<equiv> 15"
abbreviation (input) kFastBlinkCount :: int where "kFastBlinkCount \<equiv> 0"
abbreviation (input) kSlowBlinkCount :: int where "kSlowBlinkCount \<equiv> 1"
abbreviation (input) kVerySlowBlinkCount :: int where "kVerySlowBlinkCount \<equiv> 3"
abbreviation (input) kFlickerCount :: int where "kFlickerCount \<equiv> 8"
abbreviation (input) kPauseCount :: int where "kPauseCount \<equiv> 8"
abbreviation (input) k500ms :: int where "k500ms \<equiv> 4"

record LED_MAP_PAIR =
  lm_ledName :: int
  lm_ledInitState :: BOARD_LED_STATE
  lm_ledMask :: u32
  lm_ledActiveLow :: bool
  lm_ledSerial :: bool
  lm_ledMaskFail :: u32
  lm_ledActiveLowFail :: bool
  lm_ledSerialFail :: bool
  lm_ledlow32GPIO :: int

record LED_INFO =
  ledMask :: u32
  ledActiveLow :: bool
  ledSerial :: bool
  ledMaskFail :: u32
  ledActiveLowFail :: bool
  ledSerialFail :: bool
  ledLastState :: BOARD_LED_STATE
  ledState :: BOARD_LED_STATE
  savedLedState :: BOARD_LED_STATE
  blinkCountDown :: int
  FlickerCount :: int
  PauseCount :: int
  CycleStartCount :: int
  nextFlickerState :: BOARD_LED_STATE
  ledlow32GPIO :: int

record 's led_sys =
  led_ker :: "'s kersys"
  SerialLed :: u32
  ser_stuck :: bool
  LEDCtrl :: u32
  GPIOMode :: u32
  pcmcia_cntl1 :: u32
  gTimerOn :: bool
  gBlinkOnceTimerOn :: bool
  gLedCount :: nat
  gLed :: "LED_INFO list option"
  gpVirtLeds :: "nat option list"
  gLedHwFunc :: "nat option list"
  gLedHwFailFunc :: "nat option list"
  hw_calls :: "(nat \<times> int \<times> BOARD_LED_STATE) list"
  led_EquipTestMode :: int
  g_ledInitialized :: bool

section \<open>Pins\<close>

definition put_bits :: "bool \<Rightarrow> u32 \<Rightarrow> u32 \<Rightarrow> u32" where
  "put_bits level msk r = (if level then r OR msk else r AND NOT msk)"

definition set_gpio :: "(gpio_regs \<Rightarrow> gpio_regs) \<Rightarrow> 's led_sys \<Rightarrow> 's led_sys" where
  "set_gpio f s = s\<lparr>led_ker := (led_ker s)\<lparr>gpio := f (gpio (led_ker s))\<rparr>\<rparr>"

definition led_drive :: "u32 \<Rightarrow> bool \<Rightarrow> int \<Rightarrow> bool \<Rightarrow> 's led_sys \<Rightarrow> 's led_sys res" where
  "led_drive msk serial low32 level s =
     (if serial then if ser_stuck s then Inl Hang else Inr (s\<lparr>SerialLed := put_bits level msk (SerialLed s)\<rparr>)
      else if low32 = 0
      then Inr (set_gpio (\<lambda>g. g\<lparr>GPIODir := GPIODir g OR msk, GPIOio := put_bits level msk (GPIOio g)\<rparr>) s)
      else Inr (set_gpio (\<lambda>g. g\<lparr>GPIODir_high := GPIODir_high g OR msk, GPIOio_high := put_bits level msk (GPIOio_high g)\<rparr>) s))"

definition ledOn :: "LED_INFO \<Rightarrow> 's led_sys \<Rightarrow> (LED_INFO \<times> 's led_sys) res" where
  "ledOn p s =
     (if ledMask p \<noteq> 0
      then bindR (led_drive (ledMask p) (ledSerial p) (ledlow32GPIO p) (\<not> ledActiveLow p) s) (\<lambda>s'.
             Inr (p\<lparr>ledState := kLedStateOn, savedLedState := kLedStateOn\<rparr>, s'))
      else Inr (p, s))"

definition ledOff :: "LED_INFO \<Rightarrow> 's led_sys \<Rightarrow> (LED_INFO \<times> 's led_sys) res" where
  "ledOff p s =
     (if ledMask p \<noteq> 0
      then bindR (led_drive (ledMask p) (ledSerial p) (ledlow32GPIO p) (ledActiveLow p) s) (\<lambda>s'.
             Inr (p\<lparr>ledState := kLedStateOff, savedLedState := kLedStateOff\<rparr>, s'))
      else Inr (p, s))"

definition ledOnFail :: "LED_INFO \<Rightarrow> 's led_sys \<Rightarrow> (LED_INFO \<times> 's led_sys) res" where
  "ledOnFail p s =
     (if ledMaskFail p \<noteq> 0
      then bindR (led_drive (ledMaskFail p) (ledSerialFail p) (ledlow32GPIO p) (\<not> ledActiveLowFail p) s) (\<lambda>s'.
             Inr (p\<lparr>ledState := kLedStateFail, savedLedState := kLedStateFail\<rparr>, s'))
      else Inr (p, s))"

definition ledOffFail :: "LED_INFO \<Rightarrow> 's led_sys \<Rightarrow> (LED_INFO \<times> 's led_sys) res" where
  "ledOffFail p s =
     (if ledMaskFail p \<noteq> 0
      then bindR (led_drive (ledMaskFail p) (ledSerialFail p) (ledlow32GPIO p) (ledActiveLowFail p) s) (\<lambda>s'.
             Inr (p\<lparr>ledState := kLedStateOff, savedLedState := kLedStateOff\<rparr>, s'))
      else Inr (p, s))"

text \<open>The register that drives an LED.\<close>

definition led_reg :: "LED_INFO \<Rightarrow> 's led_sys \<Rightarrow> u32" where
  "led_reg p s =
     (if ledSerial p then SerialLed s
      else if ledlow32GPIO p = 0 then GPIOio (gpio (led_ker s)) else GPIOio_high (gpio (led_ker s)))"

definition ledToggle :: "LED_INFO \<Rightarrow> 's led_sys \<Rightarrow> (BOARD_LED_STATE \<times> 's led_sys) res" where
  "ledToggle p s =
     (let lit = led_reg p s AND ledMask p \<noteq> 0
      in bindR (led_drive (ledMask p) (ledSerial p) (ledlow32GPIO p) (\<not> lit) s) (\<lambda>s'.
           Inr (if lit = ledActiveLow p then kLedStateOn else kLedStateOff, s')))"

section \<open>Timers\<close>

definition blinkOnceTimerStart :: "'s led_sys \<Rightarrow> 's led_sys" where
  "blinkOnceTimerStart s = (if gBlinkOnceTimerOn s then s else s\<lparr>gBlinkOnceTimerOn := True\<rparr>)"

definition blinkOnceTimerExpire :: "'s led_sys \<Rightarrow> 's led_sys" where
  "blinkOnceTimerExpire s = s\<lparr>gBlinkOnceTimerOn := False\<rparr>"

definition ledTimerStart :: "'s led_sys \<Rightarrow> 's led_sys" where
  "ledTimerStart s = (if gTimerOn s then s else s\<lparr>gTimerOn := True\<rparr>)"

definition toggle_saved :: "LED_INFO \<Rightarrow> 's led_sys \<Rightarrow> (LED_INFO \<times> 's led_sys) res" where
  "toggle_saved p s = bindR (ledToggle p s) (\<lambda>(st, s'). Inr (p\<lparr>savedLedState := st\<rparr>, s'))"

definition led_flicker :: "LED_INFO \<Rightarrow> 's led_sys \<Rightarrow> (LED_INFO \<times> 's led_sys) res" where
  "led_flicker p s =
     (if CycleStartCount p > 0
      then let p1 = p\<lparr>CycleStartCount := CycleStartCount p - 1\<rparr>
           in if savedLedState p1 = kLedStateOn then toggle_saved p1 s else Inr (p1, s)
      else if FlickerCount p > 0
      then let p1 = p\<lparr>FlickerCount := FlickerCount p - 1, blinkCountDown := blinkCountDown p - 1\<rparr>
           in if blinkCountDown p = 0
              then toggle_saved (p1\<lparr>blinkCountDown := (if ledState p1 = kLedStateSlowFlickerOnce \<or> ledState p1 = kLedStateSlowFlickerContinues
                                                     then kSlowBlinkCount else kFastBlinkCount)\<rparr>) s
              else Inr (p1, s)
      else if PauseCount p > 0
      then let p1 = p\<lparr>PauseCount := PauseCount p - 1\<rparr>
           in bindR (if savedLedState p1 = kLedStateOn then toggle_saved p1 s else Inr (p1, s)) (\<lambda>(p2, s').
                Inr (if PauseCount p2 = 0 \<and> (nextFlickerState p2 = kLedStateSlowFlickerOnce \<or> nextFlickerState p2 = kLedStateFastFlickerOnce)
                     then p2\<lparr>blinkCountDown := (if nextFlickerState p2 = kLedStateSlowFlickerOnce then kSlowBlinkCount else kFastBlinkCount),
                             PauseCount := kPauseCount, FlickerCount := kFlickerCount, nextFlickerState := kLedStateOn\<rparr>
                     else p2, s'))
      else if ledState p = kLedStateSlowFlickerContinues
      then Inr (p\<lparr>blinkCountDown := kSlowBlinkCount, FlickerCount := kFlickerCount, PauseCount := kPauseCount,
                 CycleStartCount := kPauseCount - k500ms\<rparr>, s)
      else if ledState p = kLedStateFastFlickerContinues
      then Inr (p\<lparr>blinkCountDown := kFastBlinkCount, FlickerCount := kFlickerCount, PauseCount := kPauseCount,
                 CycleStartCount := kPauseCount - k500ms\<rparr>, s)
      else bindR (ledOn p s) (\<lambda>(p1, s'). Inr (p1\<lparr>PauseCount := 0, FlickerCount := 0\<rparr>, s')))"

definition led_blink :: "int \<Rightarrow> LED_INFO \<Rightarrow> 's led_sys \<Rightarrow> (LED_INFO \<times> 's led_sys) res" where
  "led_blink cnt p s =
     (if blinkCountDown p = 0
      then bindR (ledToggle p s) (\<lambda>(_, s'). Inr (p\<lparr>blinkCountDown := cnt\<rparr>, s'))
      else Inr (p\<lparr>blinkCountDown := blinkCountDown p - 1\<rparr>, s))"

definition led_blink_once :: "LED_INFO \<Rightarrow> 's led_sys \<Rightarrow> (LED_INFO \<times> 's led_sys) res" where
  "led_blink_once p s =
     (if FlickerCount p > 0
      then let p1 = p\<lparr>FlickerCount := FlickerCount p - 1, blinkCountDown := blinkCountDown p - 1\<rparr>
           in if blinkCountDown p = 0
              then toggle_saved (p1\<lparr>blinkCountDown := (if ledState p1 = kLedStateVerySlowBlinkOnce then kVerySlowBlinkCount else kSlowBlinkCount)\<rparr>) s
              else Inr (p1, s)
      else if FlickerCount p = 0
      then bindR (if savedLedState p = kLedStateOn then toggle_saved p s else Inr (p, s)) (\<lambda>(p1, s'). ledOn p1 s')
      else Inr (p, s))"

text \<open>The switch of \<^verbatim>\<open>ledTimerExpire\<close> for one LED.\<close>

definition led_tick :: "LED_INFO \<Rightarrow> 's led_sys \<Rightarrow> (LED_INFO \<times> 's led_sys) res" where
  "led_tick p s =
     (let again = (\<lambda>r. bindR r (\<lambda>(p', s'). Inr (p', ledTimerStart s')));
          still = Inr (p\<lparr>blinkCountDown := 0, PauseCount := 0, FlickerCount := 0\<rparr>, s)
      in case ledState p of
           kLedStateOn \<Rightarrow> still
         | kLedStateOff \<Rightarrow> still
         | kLedStateFail \<Rightarrow> still
         | kLedStateBlinkOnce \<Rightarrow>
             bindR (ledToggle p (blinkOnceTimerStart s)) (\<lambda>(_, s').
               let p1 = p\<lparr>blinkCountDown := 0, ledState := savedLedState p\<rparr>
               in Inr (p1, if ledState p1 = kLedStateSlowBlinkContinues \<or> ledState p1 = kLedStateFastBlinkContinues
                           then ledTimerStart s' else s'))
         | kLedStateSlowFlickerContinues \<Rightarrow> again (led_flicker p s)
         | kLedStateFastFlickerContinues \<Rightarrow> again (led_flicker p s)
         | kLedStateSlowFlickerOnce \<Rightarrow> again (led_flicker p s)
         | kLedStateFastFlickerOnce \<Rightarrow> again (led_flicker p s)
         | kLedStateVerySlowBlinkContiunes \<Rightarrow> again (led_blink kVerySlowBlinkCount p s)
         | kLedStateSlowBlinkContinues \<Rightarrow> again (led_blink kSlowBlinkCount p s)
         | kLedStateFastBlinkContinues \<Rightarrow> again (led_blink kFastBlinkCount p s)
         | kLedStateVerySlowBlinkOnce \<Rightarrow> again (led_blink_once p s)
         | kLedStateSlowBlinkOnce \<Rightarrow> again (led_blink_once p s)
         | kLedStateUnknow \<Rightarrow> Inr (p, s))"

text \<open>The loop over \<^verbatim>\<open>gLedCount\<close> entries from \<^verbatim>\<open>gLed\<close> on: a step beyond the allocated entries is an access
  outside of the block.\<close>

fun led_ticks :: "nat \<Rightarrow> LED_INFO list \<Rightarrow> 's led_sys \<Rightarrow> (LED_INFO list \<times> 's led_sys) res" where
  "led_ticks 0 ps s = Inr (ps, s)"
| "led_ticks (Suc n) [] s = Inl OutOfBounds"
| "led_ticks (Suc n) (p # ps) s =
     bindR (led_tick p s) (\<lambda>(p', s1). bindR (led_ticks n ps s1) (\<lambda>(ps', s2). Inr (p' # ps', s2)))"

definition ledTimerExpire :: "'s led_sys \<Rightarrow> 's led_sys res" where
  "ledTimerExpire s =
     (let s0 = s\<lparr>gTimerOn := False\<rparr> in
      if gLedCount s0 = 0 then Inr s0
      else case gLed s0 of
             None \<Rightarrow> Inl NullPointer
           | Some leds \<Rightarrow>
               bindR (led_ticks (gLedCount s0) leds s0) (\<lambda>(leds', s1). Inr (s1\<lparr>gLed := Some leds'\<rparr>)))"

section \<open>Setting an LED\<close>

definition led_at :: "int \<Rightarrow> 'a list \<Rightarrow> 'a res" where
  "led_at ledName xs = (if 0 \<le> ledName \<and> ledName < int (length xs) then Inr (xs ! nat ledName) else Inl OutOfBounds)"

definition call_hw :: "nat \<Rightarrow> int \<Rightarrow> BOARD_LED_STATE \<Rightarrow> 's led_sys \<Rightarrow> 's led_sys" where
  "call_hw f ledName st s = s\<lparr>hw_calls := hw_calls s @ [(f, ledName, st)]\<rparr>"

definition with_led :: "nat \<Rightarrow> (LED_INFO \<Rightarrow> 's led_sys \<Rightarrow> (LED_INFO \<times> 's led_sys) res) \<Rightarrow> 's led_sys \<Rightarrow> 's led_sys res" where
  "with_led i f s =
     (case gLed s of
        None \<Rightarrow> Inl NullPointer
      | Some leds \<Rightarrow>
          if i < length leds then bindR (f (leds ! i) s) (\<lambda>(p, s'). Inr (s'\<lparr>gLed := Some (leds[i := p])\<rparr>)) else Inl OutOfBounds)"

text \<open>The complementary LED is switched off by its pin or by its handler.\<close>

definition off_fail :: "int \<Rightarrow> LED_INFO \<Rightarrow> 's led_sys \<Rightarrow> (LED_INFO \<times> 's led_sys) res" where
  "off_fail ledName p s =
     (if ledMaskFail p \<noteq> 0 then ledOffFail p s
      else bindR (led_at ledName (gLedHwFailFunc s)) (\<lambda>g.
             Inr (p, case g of Some f \<Rightarrow> call_hw f ledName kLedStateOff s | None \<Rightarrow> s)))"

definition off_normal :: "int \<Rightarrow> LED_INFO \<Rightarrow> 's led_sys \<Rightarrow> (LED_INFO \<times> 's led_sys) res" where
  "off_normal ledName p s =
     (if ledMask p \<noteq> 0 then ledOff p s
      else bindR (led_at ledName (gLedHwFunc s)) (\<lambda>g.
             Inr (p, case g of Some f \<Rightarrow> call_hw f ledName kLedStateOff s | None \<Rightarrow> s)))"

definition start_flicker :: "BOARD_LED_STATE \<Rightarrow> int \<Rightarrow> int \<Rightarrow> LED_INFO \<Rightarrow> 's led_sys \<Rightarrow> LED_INFO \<times> 's led_sys" where
  "start_flicker st cnt cyc p s =
     (if led_EquipTestMode s = 1 then (p\<lparr>FlickerCount := 0, PauseCount := 0\<rparr>, s)
      else if FlickerCount p \<noteq> 0 \<or> PauseCount p \<noteq> 0 then (p\<lparr>nextFlickerState := st\<rparr>, s)
      else (p\<lparr>blinkCountDown := cnt, FlickerCount := kFlickerCount, PauseCount := kPauseCount, CycleStartCount := cyc,
              ledState := st, nextFlickerState := kLedStateOn\<rparr>, ledTimerStart s))"

definition start_blink :: "BOARD_LED_STATE \<Rightarrow> int \<Rightarrow> LED_INFO \<Rightarrow> 's led_sys \<Rightarrow> LED_INFO \<times> 's led_sys" where
  "start_blink st cnt p s =
     (p\<lparr>blinkCountDown := cnt, ledState := st, savedLedState := st, FlickerCount := 0, PauseCount := 0\<rparr>, ledTimerStart s)"

definition start_blink_once :: "BOARD_LED_STATE \<Rightarrow> int \<Rightarrow> LED_INFO \<Rightarrow> 's led_sys \<Rightarrow> LED_INFO \<times> 's led_sys" where
  "start_blink_once st cnt p s =
     (if led_EquipTestMode s = 0
      then if FlickerCount p \<noteq> 0 then (p\<lparr>ledState := st\<rparr>, s)
           else (p\<lparr>ledState := st, blinkCountDown := cnt, FlickerCount := kFlickerCount\<rparr>, ledTimerStart s)
      else (p\<lparr>FlickerCount := 0, PauseCount := 0\<rparr>, s))"

text \<open>The switch of \<^verbatim>\<open>boardLedCtrl\<close> for an LED with a pin.\<close>

definition led_set :: "int \<Rightarrow> BOARD_LED_STATE \<Rightarrow> LED_INFO \<Rightarrow> 's led_sys \<Rightarrow> (LED_INFO \<times> 's led_sys) res" where
  "led_set ledName st p s =
     (case st of
        kLedStateOn \<Rightarrow>
          bindR (off_fail ledName p s) (\<lambda>(p1, s1). bindR (ledOn p1 s1) (\<lambda>(p2, s2). Inr (p2\<lparr>nextFlickerState := kLedStateOn\<rparr>, s2)))
      | kLedStateOff \<Rightarrow>
          bindR (off_fail ledName p s) (\<lambda>(p1, s1). bindR (ledOff p1 s1) (\<lambda>(p2, s2). Inr (p2\<lparr>nextFlickerState := kLedStateOff\<rparr>, s2)))
      | kLedStateFail \<Rightarrow>
          bindR (off_normal ledName p s) (\<lambda>(p1, s1). bindR (ledOnFail p1 s1) (\<lambda>(p2, s2). Inr (p2\<lparr>nextFlickerState := kLedStateFail\<rparr>, s2)))
      | kLedStateBlinkOnce \<Rightarrow>
          if savedLedState p = kLedStateSlowBlinkContinues \<or> savedLedState p = kLedStateFastBlinkContinues
             \<or> blinkCountDown p \<noteq> 0 \<or> gBlinkOnceTimerOn s
          then Inr (p, s)
          else bindR (ledToggle p s) (\<lambda>(_, s1). Inr (p\<lparr>blinkCountDown := 1, ledState := kLedStateBlinkOnce\<rparr>, ledTimerStart s1))
      | kLedStateSlowFlickerContinues \<Rightarrow> Inr (start_flicker st kSlowBlinkCount (kPauseCount - k500ms) p s)
      | kLedStateSlowFlickerOnce \<Rightarrow> Inr (start_flicker st kSlowBlinkCount (kPauseCount - k500ms) p s)
      | kLedStateFastFlickerContinues \<Rightarrow> Inr (start_flicker st kFastBlinkCount kPauseCount p s)
      | kLedStateFastFlickerOnce \<Rightarrow> Inr (start_flicker st kFastBlinkCount kPauseCount p s)
      | kLedStateVerySlowBlinkContiunes \<Rightarrow> Inr (start_blink st kVerySlowBlinkCount p s)
      | kLedStateSlowBlinkContinues \<Rightarrow> Inr (start_blink st kSlowBlinkCount p s)
      | kLedStateFastBlinkContinues \<Rightarrow> Inr (start_blink st kFastBlinkCount p s)
      | kLedStateVerySlowBlinkOnce \<Rightarrow> Inr (start_blink_once st kVerySlowBlinkCount p s)
      | kLedStateSlowBlinkOnce \<Rightarrow> Inr (start_blink_once st kSlowBlinkCount p s)
      | kLedStateUnknow \<Rightarrow> Inr (p, s))"

definition boardLedCtrl :: "int \<Rightarrow> BOARD_LED_STATE \<Rightarrow> 's led_sys \<Rightarrow> 's led_sys res" where
  "boardLedCtrl ledName st s =
     bindR (if ledName < MAX_VIRT_LEDS then led_at ledName (gpVirtLeds s) else Inr None) (\<lambda>ledInfoPtr.
     let on_led = (\<lambda>f s. case ledInfoPtr of Some i \<Rightarrow> with_led i f s | None \<Rightarrow> Inr s)
     in bindR (if st \<noteq> kLedStateFail then led_at ledName (gLedHwFunc s) else Inr None) (\<lambda>hw.
        case hw of
          Some f \<Rightarrow>
            bindR (led_at ledName (gLedHwFailFunc s)) (\<lambda>hwf.
            bindR (case hwf of Some g \<Rightarrow> Inr (call_hw g ledName kLedStateOff s) | None \<Rightarrow> on_led ledOffFail s) (\<lambda>s1.
              Inr (call_hw f ledName st s1)))
        | None \<Rightarrow>
            bindR (if st = kLedStateFail then led_at ledName (gLedHwFailFunc s) else Inr None) (\<lambda>hwf.
            case hwf of
              Some g \<Rightarrow>
                bindR (led_at ledName (gLedHwFunc s)) (\<lambda>hwn.
                bindR (case hwn of Some f \<Rightarrow> Inr (call_hw f ledName kLedStateOff s) | None \<Rightarrow> on_led ledOff s) (\<lambda>s1.
                  Inr (call_hw g ledName st s1)))
            | None \<Rightarrow>
                on_led (\<lambda>p. led_set ledName (if st = kLedStateFail \<and> ledMaskFail p = 0 then kLedStateSlowBlinkContinues else st) p) s)))"

definition kerSysLedCtrl :: "int \<Rightarrow> BOARD_LED_STATE \<Rightarrow> 's led_sys \<Rightarrow> 's led_sys res" where
  "kerSysLedCtrl ledName st s = (if g_ledInitialized s then boardLedCtrl ledName st s else Inr s)"

definition kerSysLedRegisterHwHandler :: "int \<Rightarrow> nat option \<Rightarrow> int \<Rightarrow> 's led_sys \<Rightarrow> 's led_sys res" where
  "kerSysLedRegisterHwHandler ledName ledHwFunc ledFailType s =
     (if ledName < MAX_VIRT_LEDS
      then if 0 \<le> ledName
           then Inr (if ledFailType = 1 then s\<lparr>gLedHwFailFunc := (gLedHwFailFunc s)[nat ledName := ledHwFunc]\<rparr>
                     else s\<lparr>gLedHwFunc := (gLedHwFunc s)[nat ledName := ledHwFunc]\<rparr>)
           else Inl OutOfBounds
      else Inr s)"

text \<open>\<open>None\<close> is the answer 0xFF.\<close>

definition kerSysGetLedState :: "int \<Rightarrow> 's led_sys \<Rightarrow> BOARD_LED_STATE option res" where
  "kerSysGetLedState ledName s =
     (if ledName < MAX_VIRT_LEDS
      then bindR (led_at ledName (gpVirtLeds s)) (\<lambda>v.
             case v of
               None \<Rightarrow> Inr None
             | Some i \<Rightarrow>
                 (case gLed s of
                    None \<Rightarrow> Inl NullPointer
                  | Some leds \<Rightarrow> if i < length leds then Inr (Some (ledState (leds ! i))) else Inl OutOfBounds))
      else Inr None)"

section \<open>Initialisation\<close>

definition LED_INFO0 :: LED_INFO where
  "LED_INFO0 =
     \<lparr>ledMask = 0, ledActiveLow = False, ledSerial = False, ledMaskFail = 0, ledActiveLowFail = False, ledSerialFail = False,
      ledLastState = kLedStateOff, ledState = kLedStateOff, savedLedState = kLedStateOff, blinkCountDown = 0, FlickerCount = 0,
      PauseCount = 0, CycleStartCount = 0, nextFlickerState = kLedStateOff, ledlow32GPIO = 0\<rparr>"

definition initLedInfo :: "LED_MAP_PAIR \<Rightarrow> LED_INFO \<Rightarrow> 's led_sys \<Rightarrow> (bool \<times> LED_INFO \<times> 's led_sys) res" where
  "initLedInfo m p0 s =
     (let p = p0\<lparr>ledState := lm_ledInitState m, savedLedState := lm_ledInitState m, ledLastState := kLedStateUnknow,
                 ledMask := lm_ledMask m, ledActiveLow := lm_ledActiveLow m, ledSerial := lm_ledSerial m,
                 ledMaskFail := lm_ledMaskFail m, ledActiveLowFail := lm_ledActiveLowFail m, ledSerialFail := lm_ledSerialFail m,
                 ledlow32GPIO := lm_ledlow32GPIO m\<rparr>;
          done = (\<lambda>r. bindR r (\<lambda>(p', s'). Inr (False, p', s')))
      in case ledState p of
           kLedStateOn \<Rightarrow> done (ledOn (p\<lparr>blinkCountDown := 0, nextFlickerState := kLedStateOn\<rparr>) s)
         | kLedStateOff \<Rightarrow> done (ledOff (p\<lparr>blinkCountDown := 0, nextFlickerState := kLedStateOff, CycleStartCount := 0\<rparr>) s)
         | kLedStateFail \<Rightarrow> done (ledOnFail (p\<lparr>blinkCountDown := 0, nextFlickerState := kLedStateFail\<rparr>) s)
         | kLedStateBlinkOnce \<Rightarrow> Inr (True, p\<lparr>blinkCountDown := 1\<rparr>, s)
         | kLedStateSlowFlickerOnce \<Rightarrow>
             Inr (False, p\<lparr>blinkCountDown := kSlowBlinkCount, FlickerCount := 0, PauseCount := 0, CycleStartCount := kPauseCount\<rparr>, s)
         | kLedStateFastFlickerOnce \<Rightarrow>
             Inr (False, p\<lparr>blinkCountDown := kFastBlinkCount, FlickerCount := 0, PauseCount := 0, CycleStartCount := kPauseCount\<rparr>, s)
         | kLedStateVerySlowBlinkContiunes \<Rightarrow>
             Inr (True, p\<lparr>blinkCountDown := kVerySlowBlinkCount, FlickerCount := 0, PauseCount := 0\<rparr>, s)
         | kLedStateSlowBlinkContinues \<Rightarrow>
             Inr (True, p\<lparr>blinkCountDown := kSlowBlinkCount, FlickerCount := 0, PauseCount := 0\<rparr>, s)
         | kLedStateFastBlinkContinues \<Rightarrow> Inr (True, p\<lparr>blinkCountDown := kFastBlinkCount\<rparr>, s)
         | _ \<Rightarrow> Inr (False, p, s))"

text \<open>Two entries share an LED when one of their masks is the same; the register of the mask is not compared.\<close>

definition led_shared :: "u32 \<Rightarrow> u32 \<Rightarrow> u32 \<Rightarrow> u32 \<Rightarrow> bool" where
  "led_shared m1 f1 m2 f2 \<longleftrightarrow> (m1 \<noteq> 0 \<and> m1 = m2) \<or> (f1 \<noteq> 0 \<and> f1 = f2)"

definition already_used :: "LED_MAP_PAIR list \<Rightarrow> LED_MAP_PAIR \<Rightarrow> bool" where
  "already_used seen p1 =
     list_ex (\<lambda>p2. led_shared (lm_ledMask p1) (lm_ledMaskFail p1) (lm_ledMask p2) (lm_ledMaskFail p2)) seen"

fun count_leds :: "LED_MAP_PAIR list \<Rightarrow> LED_MAP_PAIR list \<Rightarrow> nat" where
  "count_leds seen [] = 0"
| "count_leds seen (p1 # ps) = (if already_used seen p1 then 0 else 1) + count_leds (seen @ [p1]) ps"

definition complete_led :: "LED_MAP_PAIR \<Rightarrow> LED_INFO \<Rightarrow> LED_INFO" where
  "complete_led m p =
     (let p1 = (if lm_ledMask m \<noteq> 0
                then p\<lparr>ledMask := lm_ledMask m, ledActiveLow := lm_ledActiveLow m, ledSerial := lm_ledSerial m\<rparr> else p)
      in if lm_ledMaskFail m \<noteq> 0
         then p1\<lparr>ledMaskFail := lm_ledMaskFail m, ledActiveLowFail := lm_ledActiveLowFail m, ledSerialFail := lm_ledSerialFail m\<rparr> else p1)"

fun find_led :: "LED_MAP_PAIR \<Rightarrow> LED_INFO list \<Rightarrow> nat option" where
  "find_led m [] = None"
| "find_led m (p # ps) =
     (if led_shared (ledMask p) (ledMaskFail p) (lm_ledMask m) (lm_ledMaskFail m) then Some 0
      else map_option Suc (find_led m ps))"

definition set_virt :: "int \<Rightarrow> nat \<Rightarrow> nat option list \<Rightarrow> nat option list res" where
  "set_virt ledName i v = (if 0 \<le> ledName \<and> ledName < int (length v) then Inr (v[nat ledName := Some i]) else Inl OutOfBounds)"

fun init_leds ::
  "LED_MAP_PAIR list \<Rightarrow> LED_MAP_PAIR list \<Rightarrow> LED_INFO list \<Rightarrow> nat option list \<Rightarrow> bool \<Rightarrow> 's led_sys
     \<Rightarrow> (LED_INFO list \<times> nat option list \<times> bool \<times> 's led_sys) res" where
  "init_leds seen [] leds virt needTimer s = Inr (leds, virt, needTimer, s)"
| "init_leds seen (p1 # ps) leds virt needTimer s =
     (if lm_ledName p1 > MAX_VIRT_LEDS then init_leds (seen @ [p1]) ps leds virt needTimer s
      else if \<not> already_used seen p1
      then if gLedCount s \<le> length leds then Inl OutOfBounds
           else bindR (initLedInfo p1 LED_INFO0 s) (\<lambda>(needTimer', p, s').
                bindR (set_virt (lm_ledName p1) (length leds) virt) (\<lambda>virt'.
                  init_leds (seen @ [p1]) ps (leds @ [p]) virt' needTimer' s'))
      else case find_led p1 leds of
             None \<Rightarrow> init_leds (seen @ [p1]) ps leds virt needTimer s
           | Some j \<Rightarrow>
               bindR (set_virt (lm_ledName p1) j virt) (\<lambda>virt'.
                 init_leds (seen @ [p1]) ps (leds[j := complete_led p1 (leds ! j)]) virt' needTimer s))"

definition alloc_leds :: "LED_MAP_PAIR list \<Rightarrow> 's led_sys \<Rightarrow> 's led_sys res" where
  "alloc_leds ps s =
     (case kmalloc (led_ker s) of
        (None, k) \<Rightarrow> Inr (s\<lparr>led_ker := k, gLed := None\<rparr>)
      | (Some _, k) \<Rightarrow>
          bindR (init_leds [] ps [] (gpVirtLeds s) False (s\<lparr>led_ker := k\<rparr>)) (\<lambda>(leds, virt, needTimer, s6).
            let s7 = s6\<lparr>gLed := Some (leds @ replicate (gLedCount s - length leds) LED_INFO0), gpVirtLeds := virt\<rparr>
            in Inr (if needTimer then ledTimerStart s7 else s7)))"

definition boardLedInit :: "LED_MAP_PAIR list \<Rightarrow> 's led_sys \<Rightarrow> 's led_sys res" where
  "boardLedInit cLedMapping s =
     (let bp = cur_bp (led_ker s);
          s1 = s\<lparr>LEDCtrl := (LEDCtrl s AND NOT 0xF00) OR 0x300\<rparr>;
          s2 = (if BpIsSupportLedGpioMode bp = BP_SUCCESS
                then (set_gpio (\<lambda>g. g\<lparr>GPIODir := GPIODir g OR 0xF\<rparr>) s1)\<lparr>GPIOMode := GPIOMode s1 OR 0x800\<rparr> else s1);
          s3 = (if BpIsSupportSerialGpioMode bp = BP_SUCCESS
                then (set_gpio (\<lambda>g. g\<lparr>GPIODir := GPIODir g OR 0xC0\<rparr>) s2)\<lparr>GPIOMode := GPIOMode s2 OR 0x400\<rparr> else s2);
          s4 = s3\<lparr>pcmcia_cntl1 := pcmcia_cntl1 s3 AND NOT 0x2000, gpVirtLeds := replicate 15 None, gLedHwFunc := replicate 15 None,
                  gLedHwFailFunc := replicate 15 None\<rparr>;
          ps = takeWhile (\<lambda>p. lm_ledName p \<noteq> kLedEnd) cLedMapping;
          s5 = s4\<lparr>gLedCount := count_leds [] ps\<rparr>
      in if length ps = length cLedMapping then Inl OutOfBounds
         else alloc_leds ps s5)"

text \<open>The table of \<^verbatim>\<open>brcm_board_init\<close>: the pins of the LEDs of the HG556 from the board parameters. An LED without a
  pin has no entry.\<close>

definition bpLedInfo ::
  "(int \<times> (BOARD_PARAMETERS option \<Rightarrow> int \<times> u16) option \<times> (BOARD_PARAMETERS option \<Rightarrow> int \<times> u16) option) list" where
  "bpLedInfo =
     [(kLedMessage, Some BpGetMessageLedGpio, None), (kLedAdsl, Some BpGetAdslLedGpio, Some BpGetAdslFailLedGpio),
      (kLedHspa, Some BpGetHspaLedGpio, Some BpGetHspaFailLedGpio),
      (kLedPower, Some BpGetBootloaderPowerOnLedGpio, Some BpGetBootloaderStopLedGpio),
      (kLedLan1, Some BpGetLan1LinkUpLedGpio, Some BpGetLan1LinkDownLedGpio),
      (kLedLan2, Some BpGetLan2LinkUpLedGpio, Some BpGetLan2LinkDownLedGpio),
      (kLedLan3, Some BpGetLan3LinkUpLedGpio, Some BpGetLan3LinkDownLedGpio),
      (kLedLan4, Some BpGetLan4LinkUpLedGpio, Some BpGetLan4LinkDownLedGpio),
      (kLedWireless, None, Some BpGetWirelessFailLedGpio)]"

definition LED_MAP_END :: LED_MAP_PAIR where
  "LED_MAP_END =
     \<lparr>lm_ledName = kLedEnd, lm_ledInitState = kLedStateOff, lm_ledMask = 0, lm_ledActiveLow = False, lm_ledSerial = False,
      lm_ledMaskFail = 0, lm_ledActiveLowFail = False, lm_ledSerialFail = False, lm_ledlow32GPIO = 0\<rparr>"

definition map_normal :: "int \<Rightarrow> u16 \<Rightarrow> LED_MAP_PAIR \<Rightarrow> LED_MAP_PAIR" where
  "map_normal ledName gp m =
     (let m1 = m\<lparr>lm_ledName := ledName, lm_ledActiveLow := gp AND BP_ACTIVE_LOW \<noteq> 0, lm_ledSerial := gp AND BP_GPIO_SERIAL \<noteq> 0\<rparr>
      in if gp AND 0x3F \<ge> 32 then m1\<lparr>lm_ledMask := GPIO_NUM_TO_MASK_HIGH (uint gp), lm_ledlow32GPIO := 1\<rparr>
         else m1\<lparr>lm_ledMask := GPIO_NUM_TO_MASK (uint gp)\<rparr>)"

definition map_fail :: "int \<Rightarrow> u16 \<Rightarrow> LED_MAP_PAIR \<Rightarrow> LED_MAP_PAIR" where
  "map_fail ledName gp m =
     (let m1 = m\<lparr>lm_ledName := ledName, lm_ledActiveLowFail := gp AND BP_ACTIVE_LOW \<noteq> 0, lm_ledSerialFail := gp AND BP_GPIO_SERIAL \<noteq> 0\<rparr>
      in if gp AND 0x3F \<ge> 32 then m1\<lparr>lm_ledMaskFail := GPIO_NUM_TO_MASK_HIGH (uint gp), lm_ledlow32GPIO := 1\<rparr>
         else m1\<lparr>lm_ledMaskFail := GPIO_NUM_TO_MASK (uint gp)\<rparr>)"

definition led_entry ::
  "BOARD_PARAMETERS option \<Rightarrow> int \<times> (BOARD_PARAMETERS option \<Rightarrow> int \<times> u16) option \<times> (BOARD_PARAMETERS option \<Rightarrow> int \<times> u16) option
     \<Rightarrow> LED_MAP_PAIR" where
  "led_entry bp info =
     (case info of (ledName, bpFunc, bpFuncFail) \<Rightarrow>
      let m1 = (case bpFunc of
                  Some f \<Rightarrow> (case f bp of (r, gp) \<Rightarrow> if r = BP_SUCCESS then map_normal ledName gp LED_MAP_END else LED_MAP_END)
                | None \<Rightarrow> LED_MAP_END)
      in case bpFuncFail of
           Some f \<Rightarrow> (case f bp of (r, gp) \<Rightarrow> if r = BP_SUCCESS then map_fail ledName gp m1 else m1)
         | None \<Rightarrow> m1)"

definition led_table :: "BOARD_PARAMETERS option \<Rightarrow> LED_MAP_PAIR list" where
  "led_table bp =
     (let es = filter (\<lambda>m. lm_ledName m \<noteq> kLedEnd) (map (led_entry bp) bpLedInfo)
      in es @ replicate (14 - length es) LED_MAP_END @ [LED_MAP_END\<lparr>lm_ledName := kLedMessage\<rparr>])"

text \<open>The LED part of \<^verbatim>\<open>brcm_board_init\<close>.\<close>

fun led_ctrls :: "(int \<times> BOARD_LED_STATE) list \<Rightarrow> 's led_sys \<Rightarrow> 's led_sys res" where
  "led_ctrls [] s = Inr s"
| "led_ctrls ((ledName, st) # r) s = bindR (kerSysLedCtrl ledName st s) (led_ctrls r)"

definition board_init_leds :: "'s led_sys \<Rightarrow> 's led_sys res" where
  "board_init_leds s =
     bindR (boardLedInit (led_table (cur_bp (led_ker s))) s) (\<lambda>s1.
       led_ctrls [(kLedVoip, kLedStateOff), (kLedLine0, kLedStateOff), (kLedLine1, kLedStateOff), (kLedPSTN, kLedStateOn),
                  (kLedPower, kLedStateOn)] (s1\<lparr>g_ledInitialized := True\<rparr>))"

end
