(* ===== verification/Led_Correct.thy ===== *)
theory Led_Correct
  imports Leds Board_Flash
begin

text \<open>
  What the LEDs show over time. The pins of different LEDs are disjoint, so that each LED can be followed on its own.
\<close>

section \<open>Pins\<close>

definition plain_led :: "LED_INFO \<Rightarrow> bool" where
  "plain_led p \<longleftrightarrow> \<not> ledSerial p \<and> \<not> ledSerialFail p"

definition led_pins :: "LED_INFO \<Rightarrow> u32" where
  "led_pins p = ledMask p OR ledMaskFail p"

definition led_bank :: "LED_INFO \<Rightarrow> bool" where
  "led_bank p \<longleftrightarrow> ledlow32GPIO p = 0"

definition apart :: "LED_INFO \<Rightarrow> LED_INFO \<Rightarrow> bool" where
  "apart p q \<longleftrightarrow> led_bank p \<noteq> led_bank q \<or> led_pins p AND led_pins q = 0"

definition lit :: "LED_INFO \<Rightarrow> 's led_sys \<Rightarrow> bool" where
  "lit p s \<longleftrightarrow> led_reg p s AND ledMask p \<noteq> 0"

text \<open>The wiring of an LED does not change, only its state and its counters.\<close>

definition wired :: "LED_INFO \<Rightarrow> LED_INFO \<Rightarrow> bool" where
  "wired p q \<longleftrightarrow> ledMask p = ledMask q \<and> ledMaskFail p = ledMaskFail q \<and> ledSerial p = ledSerial q \<and> ledSerialFail p = ledSerialFail q
     \<and> ledActiveLow p = ledActiveLow q \<and> ledActiveLowFail p = ledActiveLowFail q \<and> ledlow32GPIO p = ledlow32GPIO q"

lemma wired_refl [simp]: "wired p p" by (simp add: wired_def)

lemma wired_cong:
  assumes "wired p q"
  shows "plain_led p = plain_led q" "led_pins p = led_pins q" "apart p r = apart q r" "lit p s = lit q s" "ledMask p = ledMask q"
    "ledActiveLow p = ledActiveLow q"
  using assms by (simp_all add: wired_def plain_led_def led_pins_def apart_def led_bank_def lit_def led_reg_def)

text \<open>What an operation on LED \<open>p\<close> leaves alone.\<close>

definition keeps :: "LED_INFO \<Rightarrow> 's led_sys \<Rightarrow> 's led_sys \<Rightarrow> bool" where
  "keeps p s s' \<longleftrightarrow> (\<forall>q. plain_led q \<and> apart q p \<longrightarrow> lit q s' = lit q s) \<and> (gTimerOn s \<longrightarrow> gTimerOn s')
     \<and> gLed s' = gLed s \<and> gLedCount s' = gLedCount s \<and> gpVirtLeds s' = gpVirtLeds s \<and> gLedHwFunc s' = gLedHwFunc s
     \<and> gLedHwFailFunc s' = gLedHwFailFunc s \<and> led_EquipTestMode s' = led_EquipTestMode s"

lemma keeps_refl [simp]: "keeps p s s"
  by (simp add: keeps_def)

lemma keeps_trans: "keeps p s s1 \<Longrightarrow> keeps p s1 s2 \<Longrightarrow> keeps p s s2"
  by (auto simp: keeps_def)

lemma keeps_wired: "wired p q \<Longrightarrow> keeps p s s' = keeps q s s'"
  by (simp add: keeps_def apart_def wired_def led_bank_def led_pins_def)

lemma keeps_timer [simp]: "keeps p s (ledTimerStart s)" "keeps p s (blinkOnceTimerStart s)"
  by (auto simp: keeps_def ledTimerStart_def blinkOnceTimerStart_def lit_def led_reg_def)

lemma put_bits_other: "m1 AND m2 = 0 \<Longrightarrow> put_bits l m1 r AND m2 = r AND m2"
proof -
  assume a: "m1 AND m2 = 0"
  have b: "\<not> (bit m1 n \<and> bit m2 n)" for n using a bit_and_iff[of m1 m2 n] by simp
  show ?thesis using b by (intro bit_word_eqI) (auto simp: put_bits_def bit_simps)
qed

lemma put_bits_same: "put_bits l m r AND m = (if l then m else 0)"
  by (rule bit_word_eqI) (auto simp: put_bits_def bit_simps)

lemma sub_pins:
  assumes "led_pins q AND led_pins p = 0" "m = ledMask p \<or> m = ledMaskFail p"
  shows "m AND ledMask q = 0"
proof (rule bit_word_eqI)
  fix n
  have "\<not> (bit (led_pins q) n \<and> bit (led_pins p) n)" using assms(1) bit_and_iff[of "led_pins q" "led_pins p" n] by simp
  thus "bit (m AND ledMask q) n = bit 0 n" using assms(2) by (auto simp: led_pins_def bit_simps)
qed

lemma drive_keeps:
  assumes "m = ledMask p \<or> m = ledMaskFail p"
  shows "\<exists>s'. led_drive m False (ledlow32GPIO p) l s = Inr s' \<and> keeps p s s'"
proof -
  have "put_bits l m r AND ledMask q = r AND ledMask q" if "led_pins q AND led_pins p = 0" for q r
    using put_bits_other[OF sub_pins[OF that assms]] .
  thus ?thesis
    by (cases "ledlow32GPIO p = 0") (auto simp: led_drive_def keeps_def lit_def led_reg_def set_gpio_def plain_led_def apart_def led_bank_def)
qed

lemma drive_lit:
  assumes "led_drive (ledMask p) False (ledlow32GPIO p) l s = Inr s'" "plain_led p" "ledMask p \<noteq> 0"
  shows "lit p s' = l"
  using assms by (auto simp: led_drive_def lit_def led_reg_def set_gpio_def plain_led_def put_bits_same split: if_splits)

section \<open>One LED\<close>

lemma ledOn_ok:
  assumes "plain_led p" "ledMask p \<noteq> 0"
  shows "\<exists>s'. ledOn p s = Inr (p\<lparr>ledState := kLedStateOn, savedLedState := kLedStateOn\<rparr>, s') \<and> keeps p s s' \<and> lit p s' = (\<not> ledActiveLow p)"
proof -
  obtain s' where s': "led_drive (ledMask p) False (ledlow32GPIO p) (\<not> ledActiveLow p) s = Inr s'" "keeps p s s'"
    using drive_keeps[of "ledMask p" p] by blast
  thus ?thesis using drive_lit[OF s'(1) assms] assms by (auto simp: ledOn_def plain_led_def)
qed

lemma ledToggle_ok:
  assumes "plain_led p"
  shows "\<exists>st s'. ledToggle p s = Inr (st, s') \<and> keeps p s s' \<and> (ledMask p \<noteq> 0 \<longrightarrow> lit p s' = (\<not> lit p s))"
proof -
  obtain s' where s': "led_drive (ledMask p) False (ledlow32GPIO p) (\<not> lit p s) s = Inr s'" "keeps p s s'"
    using drive_keeps[of "ledMask p" p] by blast
  thus ?thesis using drive_lit[OF s'(1) assms] assms by (auto simp: ledToggle_def plain_led_def lit_def Let_def)
qed

text \<open>An operation on an LED succeeds, keeps the wiring and touches nothing else.\<close>

definition tame :: "LED_INFO \<Rightarrow> 's led_sys \<Rightarrow> (LED_INFO \<times> 's led_sys) res \<Rightarrow> bool" where
  "tame p s r \<longleftrightarrow> (\<exists>p' s'. r = Inr (p', s') \<and> wired p' p \<and> keeps p s s')"

lemma tame_Inr: "wired p' p \<Longrightarrow> keeps p s s' \<Longrightarrow> tame p s (Inr (p', s'))"
  by (auto simp: tame_def)

lemma tame_bind:
  assumes "tame p s r" "\<And>p1 s1. wired p1 p \<Longrightarrow> keeps p s s1 \<Longrightarrow> tame p1 s1 (f p1 s1)"
  shows "tame p s (bindR r (\<lambda>(p1, s1). f p1 s1))"
proof -
  obtain p1 s1 where r: "r = Inr (p1, s1)" "wired p1 p" "keeps p s s1" using assms(1) by (auto simp: tame_def)
  obtain p2 s2 where q: "f p1 s1 = Inr (p2, s2)" "wired p2 p1" "keeps p1 s1 s2" using assms(2)[OF r(2,3)] by (auto simp: tame_def)
  have "wired p2 p" using r(2) q(2) by (simp add: wired_def)
  moreover have "keeps p s s2" using keeps_trans[OF r(3)] keeps_wired[OF r(2)] q(3) by blast
  ultimately show ?thesis using r(1) q(1) by (simp add: tame_def)
qed

lemma ledOn_tame: "plain_led p \<Longrightarrow> tame p s (ledOn p s)"
  using ledOn_ok[of p s] by (cases "ledMask p = 0") (auto simp: tame_def wired_def ledOn_def)

lemma toggle_tame:
  assumes "plain_led p" "\<And>st. wired (f st) p" "\<And>st s1. keeps p s1 (g st s1)"
  shows "tame p s (bindR (ledToggle p s) (\<lambda>(st, s'). Inr (f st, g st s')))"
proof -
  obtain st s' where "ledToggle p s = Inr (st, s')" "keeps p s s'" using ledToggle_ok[OF assms(1), of s] by blast
  thus ?thesis using assms(2)[of st] keeps_trans[OF _ assms(3)] by (auto simp: tame_def)
qed

lemma toggle_saved_tame: "plain_led p \<Longrightarrow> wired p q \<Longrightarrow> tame q s (toggle_saved p s)"
proof -
  assume a: "plain_led p" "wired p q"
  have "tame p s (toggle_saved p s)"
    unfolding toggle_saved_def by (rule toggle_tame[OF a(1), where g = "\<lambda>_ s. s"]) (simp_all add: wired_def)
  then obtain p' s' where "toggle_saved p s = Inr (p', s')" "wired p' p" "keeps p s s'" by (auto simp: tame_def)
  thus ?thesis using keeps_wired[OF a(2)] a(2) by (auto simp: tame_def wired_def)
qed


lemma tame_if: "(b \<Longrightarrow> tame p s x) \<Longrightarrow> (\<not> b \<Longrightarrow> tame p s y) \<Longrightarrow> tame p s (if b then x else y)"
  by simp

lemma plain_upd [simp]:
  "plain_led (p\<lparr>CycleStartCount := a\<rparr>) = plain_led p" "plain_led (p\<lparr>FlickerCount := a\<rparr>) = plain_led p"
  "plain_led (p\<lparr>PauseCount := a\<rparr>) = plain_led p" "plain_led (p\<lparr>blinkCountDown := a\<rparr>) = plain_led p"
  "plain_led (p\<lparr>savedLedState := st\<rparr>) = plain_led p" "plain_led (p\<lparr>ledState := st\<rparr>) = plain_led p"
  "plain_led (p\<lparr>nextFlickerState := st\<rparr>) = plain_led p"
  by (simp_all add: plain_led_def)

lemma wired_upd [simp]:
  "wired (p\<lparr>CycleStartCount := a\<rparr>) q = wired p q" "wired (p\<lparr>FlickerCount := a\<rparr>) q = wired p q"
  "wired (p\<lparr>PauseCount := a\<rparr>) q = wired p q" "wired (p\<lparr>blinkCountDown := a\<rparr>) q = wired p q"
  "wired (p\<lparr>savedLedState := st\<rparr>) q = wired p q" "wired (p\<lparr>ledState := st\<rparr>) q = wired p q"
  "wired (p\<lparr>nextFlickerState := st\<rparr>) q = wired p q"
  by (simp_all add: wired_def)

lemmas tame_intros = tame_if toggle_saved_tame tame_Inr keeps_refl keeps_timer

lemma led_flicker_tame:
  assumes "plain_led p"
  shows "tame p s (led_flicker p s)"
  unfolding led_flicker_def Let_def
  by (intro tame_if toggle_saved_tame tame_bind ledOn_tame tame_Inr) (simp_all add: assms)

lemma led_blink_tame:
  assumes "plain_led p"
  shows "tame p s (led_blink c p s)"
  unfolding led_blink_def Let_def
  by (intro tame_if toggle_tame[where g = "\<lambda>_ s. s"] tame_Inr) (simp_all add: assms)

lemma led_blink_once_tame:
  assumes "plain_led p"
  shows "tame p s (led_blink_once p s)"
proof -
  have on: "tame p1 s1 (ledOn p1 s1)" if "wired p1 p" for p1 and s1 :: "'a led_sys" using ledOn_tame wired_cong(1)[OF that] assms by blast
  show ?thesis unfolding led_blink_once_def Let_def
    by (intro tame_if toggle_saved_tame tame_bind on tame_Inr) (simp_all add: assms)
qed

definition blinking :: "BOARD_LED_STATE \<Rightarrow> bool" where
  "blinking st \<longleftrightarrow> st \<notin> {kLedStateOn, kLedStateOff, kLedStateFail, kLedStateBlinkOnce, kLedStateUnknow}"

lemma again_tame:
  assumes "tame p s r"
  shows "\<exists>p' s'. bindR r (\<lambda>(p', s'). Inr (p', ledTimerStart s')) = Inr (p', s') \<and> wired p' p \<and> keeps p s s' \<and> gTimerOn s'"
  using assms keeps_trans[OF _ keeps_timer(1)] by (fastforce simp: tame_def ledTimerStart_def)

lemma led_tick_ok:
  assumes "plain_led p"
  shows "\<exists>p' s'. led_tick p s = Inr (p', s') \<and> wired p' p \<and> keeps p s s' \<and> (blinking (ledState p) \<longrightarrow> gTimerOn s')"
proof (cases "blinking (ledState p)")
  case True
  thus ?thesis using again_tame[OF led_flicker_tame[OF assms]] again_tame[OF led_blink_tame[OF assms]] again_tame[OF led_blink_once_tame[OF assms]]
    by (cases "ledState p") (simp_all add: led_tick_def blinking_def)
next
  case False
  obtain st s1 where t: "ledToggle p (blinkOnceTimerStart s) = Inr (st, s1)" "keeps p (blinkOnceTimerStart s) s1"
    using ledToggle_ok[OF assms] by blast
  have k: "keeps p s s1" "keeps p s (ledTimerStart s1)" using keeps_trans[OF keeps_timer(2) t(2)] keeps_trans[OF _ keeps_timer(1)] by blast+
  show ?thesis using False t(1) k by (cases "ledState p") (auto simp: led_tick_def blinking_def Let_def)
qed


section \<open>All LEDs\<close>

definition same_env :: "'s led_sys \<Rightarrow> 's led_sys \<Rightarrow> bool" where
  "same_env s s' \<longleftrightarrow> (gTimerOn s \<longrightarrow> gTimerOn s') \<and> gLed s' = gLed s \<and> gLedCount s' = gLedCount s \<and> gpVirtLeds s' = gpVirtLeds s
     \<and> gLedHwFunc s' = gLedHwFunc s \<and> gLedHwFailFunc s' = gLedHwFailFunc s \<and> led_EquipTestMode s' = led_EquipTestMode s"

lemma keeps_env: "keeps p s s' \<Longrightarrow> same_env s s'"
  by (auto simp: keeps_def same_env_def)

lemma same_env_trans: "same_env s s1 \<Longrightarrow> same_env s1 s2 \<Longrightarrow> same_env s s2"
  by (auto simp: same_env_def)

lemma led_ticks_append:
  "led_ticks (length xs + n) (xs @ ys) s
     = bindR (led_ticks (length xs) xs s) (\<lambda>(xs', s1). bindR (led_ticks n ys s1) (\<lambda>(ys', s2). Inr (xs' @ ys', s2)))"
proof (induction xs arbitrary: s)
  case Nil
  show ?case by (cases "led_ticks n ys s") auto
next
  case (Cons x xs)
  show ?case by (simp add: Cons.IH bindR_assoc case_prod_unfold)
qed

lemma led_ticks_other:
  assumes "plain_led p" "\<forall>q \<in> set xs. plain_led q \<and> apart p q"
  shows "\<exists>xs' s'. led_ticks (length xs) xs s = Inr (xs', s') \<and> list_all2 wired xs' xs \<and> lit p s' = lit p s \<and> same_env s s'"
  using assms(2)
proof (induction xs arbitrary: s)
  case Nil
  show ?case by (simp add: same_env_def)
next
  case (Cons x xs)
  obtain x' s1 where x: "led_tick x s = Inr (x', s1)" "wired x' x" "keeps x s s1" using led_tick_ok[of x s] Cons.prems by auto
  obtain xs' s2 where xs: "led_ticks (length xs) xs s1 = Inr (xs', s2)" "list_all2 wired xs' xs" "lit p s2 = lit p s1" "same_env s1 s2"
    using Cons.IH[of s1] Cons.prems by auto
  have "lit p s1 = lit p s" using x(3) assms(1) Cons.prems by (auto simp: keeps_def)
  thus ?case using x xs same_env_trans[OF keeps_env[OF x(3)] xs(4)] by auto
qed

definition leds_ok :: "LED_INFO list \<Rightarrow> bool" where
  "leds_ok leds \<longleftrightarrow> (\<forall>p \<in> set leds. plain_led p) \<and> (\<forall>i < length leds. \<forall>j < length leds. i \<noteq> j \<longrightarrow> apart (leds ! i) (leds ! j))"

lemma leds_ok_wired:
  assumes "list_all2 wired ls' ls" "leds_ok ls"
  shows "leds_ok ls'"
proof -
  have l: "length ls' = length ls" using assms(1) by (rule list_all2_lengthD)
  have w: "wired (ls' ! i) (ls ! i)" if "i < length ls" for i using list_all2_nthD2[OF assms(1) that] .
  have "apart (ls' ! i) (ls' ! j) = apart (ls ! i) (ls ! j)" if "i < length ls" "j < length ls" for i j
    using w[OF that(1)] w[OF that(2)] by (simp add: apart_def wired_def led_bank_def led_pins_def)
  moreover have "plain_led (ls' ! i) = plain_led (ls ! i)" if "i < length ls" for i using wired_cong(1)[OF w[OF that]] .
  ultimately show ?thesis using assms(2) l by (simp add: leds_ok_def all_set_conv_all_nth)
qed

text \<open>An expiry of the timer, as LED \<open>i\<close> sees it.\<close>

lemma expire_at:
  fixes s :: "'s led_sys"
  assumes "gLed s = Some leds" "gLedCount s = length leds" "leds_ok leds" "i < length leds"
  obtains leds' sa sb s' where "ledTimerExpire s = Inr s'" "gLed s' = Some leds'" "list_all2 wired leds' leds" "same_env (s\<lparr>gLed := Some leds', gTimerOn := False\<rparr>) s'"
    "led_tick (leds ! i) (sa :: 's led_sys) = Inr (leds' ! i, sb)" "lit (leds ! i) sa = lit (leds ! i) s" "lit (leds ! i) s' = lit (leds ! i) sb"
    "gTimerOn sb \<longrightarrow> gTimerOn s'" "led_EquipTestMode sa = led_EquipTestMode s"
proof -
  let ?s0 = "s\<lparr>gTimerOn := False\<rparr>" and ?p = "leds ! i"
  define xs ys where "xs = take i leds" and "ys = drop (Suc i) leds"
  have leds: "leds = xs @ ?p # ys" using assms(4) by (simp add: xs_def ys_def id_take_nth_drop)
  have lx: "length xs = i" using assms(4) by (simp add: xs_def)
  have p: "plain_led ?p" using assms(3,4) by (simp add: leds_ok_def)
  have ap: "plain_led q \<and> apart ?p q" if q: "q \<in> set xs \<or> q \<in> set ys" for q
  proof -
    have "\<exists>j < length leds. j \<noteq> i \<and> q = leds ! j"
    proof (cases "q \<in> set xs")
      case True
      then obtain j where "j < i" "q = leds ! j" using assms(4) by (auto simp: xs_def in_set_conv_nth)
      thus ?thesis using assms(4) by (intro exI[of _ j]) simp
    next
      case False
      then obtain j where "j < length leds - Suc i" "q = leds ! (Suc i + j)" using q assms(4) by (auto simp: ys_def in_set_conv_nth)
      thus ?thesis by (intro exI[of _ "Suc i + j"]) simp
    qed
    thus ?thesis using assms(3,4) by (auto simp: leds_ok_def)
  qed
  obtain xs' s1 where x: "led_ticks (length xs) xs ?s0 = Inr (xs', s1)" "list_all2 wired xs' xs" "lit ?p s1 = lit ?p ?s0" "same_env ?s0 s1"
    using led_ticks_other[OF p, of xs ?s0] ap by blast
  obtain p' s2 where t: "led_tick ?p s1 = Inr (p', s2)" "wired p' ?p" "keeps ?p s1 s2" using led_tick_ok[OF p, of s1] by blast
  obtain ys' s3 where y: "led_ticks (length ys) ys s2 = Inr (ys', s3)" "list_all2 wired ys' ys" "lit ?p s3 = lit ?p s2" "same_env s2 s3"
    using led_ticks_other[OF p, of ys s2] ap by blast
  have "length leds = length xs + Suc (length ys)" by (subst leds) simp
  hence all: "led_ticks (length leds) leds ?s0 = Inr (xs' @ p' # ys', s3)"
    using led_ticks_append[of xs "Suc (length ys)" "?p # ys" ?s0] x(1) t(1) y(1) leds by simp
  have lit: "lit ?p ?s0 = lit ?p s" "lit ?p (s3\<lparr>gLed := g\<rparr>) = lit ?p s3" for g by (simp_all add: lit_def led_reg_def)
  have len: "length xs' = i" using list_all2_lengthD[OF x(2)] lx by simp
  note env = same_env_trans[OF same_env_trans[OF x(4) keeps_env[OF t(3)]] y(4)]
  show ?thesis
  proof (rule that[where s' = "s3\<lparr>gLed := Some (xs' @ p' # ys')\<rparr>" and leds' = "xs' @ p' # ys'" and sa = s1 and sb = s2])
    show "ledTimerExpire s = Inr (s3\<lparr>gLed := Some (xs' @ p' # ys')\<rparr>)"
      using all assms(1,2,4) by (auto simp: ledTimerExpire_def Let_def)
    show "list_all2 wired (xs' @ p' # ys') leds" by (subst leds) (simp add: list_all2_appendI x(2) y(2) t(2))
    show "led_tick ?p s1 = Inr ((xs' @ p' # ys') ! i, s2)" using t(1) len by (simp add: nth_append)
  qed (use x(3,4) y(3,4) env lit in \<open>auto simp: same_env_def\<close>)
qed


fun expires :: "nat \<Rightarrow> 's led_sys \<Rightarrow> 's led_sys res" where
  "expires 0 s = Inr s"
| "expires (Suc n) s = bindR (expires n s) ledTimerExpire"

text \<open>The states that blink for ever, with the number of expiries between two changes less one.\<close>

definition blink_count :: "BOARD_LED_STATE \<Rightarrow> nat option" where
  "blink_count st =
     (case st of kLedStateVerySlowBlinkContiunes \<Rightarrow> Some 3 | kLedStateSlowBlinkContinues \<Rightarrow> Some 1 | kLedStateFastBlinkContinues \<Rightarrow> Some 0
      | _ \<Rightarrow> None)"

lemma lit_timer [simp]: "lit p (ledTimerStart s) = lit p s"
  by (simp add: lit_def led_reg_def ledTimerStart_def)

lemma lit_upd [simp]: "lit (p\<lparr>blinkCountDown := a\<rparr>) s = lit p s"
  by (simp add: lit_def led_reg_def)

lemma led_tick_blink:
  assumes "plain_led p" "ledMask p \<noteq> 0" "blink_count (ledState p) = Some c" "led_tick p s = Inr (p', s')"
  shows "p' = p\<lparr>blinkCountDown := (if blinkCountDown p = 0 then int c else blinkCountDown p - 1)\<rparr>"
    "lit p s' = (lit p s \<noteq> (blinkCountDown p = 0))" "gTimerOn s'"
proof -
  have t: "led_tick p s = bindR (led_blink (int c) p s) (\<lambda>(p', s'). Inr (p', ledTimerStart s'))"
    using assms(3) by (cases "ledState p") (auto simp: led_tick_def blink_count_def Let_def)
  obtain st s1 where g: "ledToggle p s = Inr (st, s1)" "lit p s1 = (\<not> lit p s)" using ledToggle_ok[OF assms(1), of s] assms(2) by blast
  show "p' = p\<lparr>blinkCountDown := (if blinkCountDown p = 0 then int c else blinkCountDown p - 1)\<rparr>"
    "lit p s' = (lit p s \<noteq> (blinkCountDown p = 0))" "gTimerOn s'"
    using assms(4) g unfolding t by (auto simp: led_blink_def ledTimerStart_def[of s1] ledTimerStart_def[of s] lit_def led_reg_def split: if_splits)
qed

text \<open>One LED followed through the expiries: what each tick of it establishes holds after any number of them.\<close>

lemma run_led:
  fixes s :: "'s led_sys"
  assumes "gLed s = Some leds" "gLedCount s = length leds" "leds_ok leds" "i < length leds" "Q 0 (leds ! i) (lit (leds ! i) s)" "n \<le> N"
    and step: "\<And>m p p' sa (sb :: 's led_sys). m < N \<Longrightarrow> wired p (leds ! i) \<Longrightarrow> plain_led p \<Longrightarrow> Q m p (lit p sa) \<Longrightarrow> led_tick p sa = Inr (p', sb)
      \<Longrightarrow> Q (Suc m) p' (lit p sb) \<and> gTimerOn sb"
  shows "\<exists>s' leds'. expires n s = Inr s' \<and> gLed s' = Some leds' \<and> gLedCount s' = length leds' \<and> leds_ok leds' \<and> length leds' = length leds
     \<and> wired (leds' ! i) (leds ! i) \<and> gpVirtLeds s' = gpVirtLeds s \<and> Q n (leds' ! i) (lit (leds ! i) s') \<and> (0 < n \<longrightarrow> gTimerOn s')"
  using assms(6)
proof (induction n)
  case 0
  show ?case using assms by simp
next
  case (Suc n)
  then obtain s1 ls where h: "expires n s = Inr s1" "gLed s1 = Some ls" "gLedCount s1 = length ls" "leds_ok ls" "length ls = length leds"
    "wired (ls ! i) (leds ! i)" "gpVirtLeds s1 = gpVirtLeds s" "Q n (ls ! i) (lit (leds ! i) s1)" by auto
  have i: "i < length ls" using h(5) assms(4) by simp
  obtain ls' s' and sa sb :: "'s led_sys" where e: "ledTimerExpire s1 = Inr s'" "gLed s' = Some ls'" "list_all2 wired ls' ls"
    "same_env (s1\<lparr>gLed := Some ls', gTimerOn := False\<rparr>) s'" "led_tick (ls ! i) sa = Inr (ls' ! i, sb)"
    "lit (ls ! i) sa = lit (ls ! i) s1" "lit (ls ! i) s' = lit (ls ! i) sb" "gTimerOn sb \<longrightarrow> gTimerOn s'"
    "led_EquipTestMode sa = led_EquipTestMode s1"
    by (rule expire_at[OF h(2-4) i])
  have p: "plain_led (ls ! i)" using h(4) i by (simp add: leds_ok_def)
  have l: "lit (ls ! i) t = lit (leds ! i) t" for t :: "'s led_sys" using wired_cong(4)[OF h(6)] .
  have q: "Q (Suc n) (ls' ! i) (lit (leds ! i) s') \<and> gTimerOn sb" using step[OF _ h(6) p _ e(5), of n] h(8) e(6,7) Suc.prems by (simp add: l)
  have "wired (ls' ! i) (leds ! i)" using list_all2_nthD2[OF e(3) i] h(6) by (simp add: wired_def)
  moreover have "gLedCount s' = length ls'" "gpVirtLeds s' = gpVirtLeds s"
    using e(4) h(3,7) list_all2_lengthD[OF e(3)] by (simp_all add: same_env_def)
  ultimately show ?case
    using h(1,5) e(1,2,8) leds_ok_wired[OF e(3) h(4)] list_all2_lengthD[OF e(3)] q by auto
qed

definition blink_at :: "BOARD_LED_STATE \<Rightarrow> nat \<Rightarrow> bool \<Rightarrow> nat \<Rightarrow> LED_INFO \<Rightarrow> bool \<Rightarrow> bool" where
  "blink_at st c l0 n p l \<longleftrightarrow> ledState p = st \<and> blinkCountDown p = int (c - n mod Suc c) \<and> l = (l0 \<noteq> odd (n div Suc c))"

lemma blink_step:
  assumes "plain_led p" "ledMask p \<noteq> 0" "blink_count st = Some c" "blink_at st c l0 n p (lit p sa)" "led_tick p sa = Inr (p', sb)"
  shows "blink_at st c l0 (Suc n) p' (lit p sb) \<and> gTimerOn sb"
proof -
  define r where "r = n mod Suc c"
  have r: "r \<le> c" "Suc n mod Suc c = (if r = c then 0 else Suc r)" using mod_less_divisor[of "Suc c" n] by (auto simp: r_def mod_Suc)
  have h: "ledState p = st" "blinkCountDown p = int (c - r)" "lit p sa = (l0 \<noteq> odd (n div Suc c))"
    using assms(4) by (simp_all add: blink_at_def r_def)
  have b: "blink_count (ledState p) = Some c" using h(1) assms(3) by simp
  note t = led_tick_blink[OF assms(1,2) b assms(5)]
  have "odd (Suc n div Suc c) = (odd (n div Suc c) \<noteq> (r = c))" using r by (simp add: div_Suc)
  moreover have "(blinkCountDown p = 0) = (r = c)" using h(2) r(1) by auto
  ultimately have "lit p sb = (l0 \<noteq> odd (Suc n div Suc c))" using t(2) h(3) by argo
  moreover have "blinkCountDown p' = int (c - Suc n mod Suc c)" using t(1) h(2) r(1) unfolding r(2) by auto
  ultimately show ?thesis using t(1,3) h(1) by (auto simp: blink_at_def)
qed

text \<open>A flicker that ends: every expiry uses up one count, then the LED is on.\<close>

definition flicker_once :: "BOARD_LED_STATE \<Rightarrow> bool" where
  "flicker_once st \<longleftrightarrow> st = kLedStateSlowFlickerOnce \<or> st = kLedStateFastFlickerOnce"

definition flicker_left :: "LED_INFO \<Rightarrow> nat \<Rightarrow> bool" where
  "flicker_left p k \<longleftrightarrow> 0 \<le> CycleStartCount p \<and> 0 \<le> FlickerCount p \<and> 0 \<le> PauseCount p
     \<and> CycleStartCount p + FlickerCount p + PauseCount p = int k \<and> nextFlickerState p = kLedStateOn"

lemma led_flicker_step:
  assumes "plain_led p" "flicker_once (ledState p)" "flicker_left p (Suc k)" "led_flicker p s = Inr (p', s')"
  shows "ledState p' = ledState p \<and> flicker_left p' k"
proof -
  consider "CycleStartCount p > 0" | "CycleStartCount p = 0" "FlickerCount p > 0" | "CycleStartCount p = 0" "FlickerCount p = 0" "PauseCount p > 0"
    using assms(3) by (auto simp: flicker_left_def) linarith
  thus ?thesis
  proof cases
    case 1
    thus ?thesis using assms by (auto simp: led_flicker_def Let_def flicker_left_def toggle_saved_def split: if_splits)
  next
    case 2
    thus ?thesis using assms by (auto simp: led_flicker_def Let_def flicker_left_def toggle_saved_def split: if_splits)
  next
    case 3
    thus ?thesis using assms
      by (auto simp: led_flicker_def Let_def flicker_left_def toggle_saved_def flicker_once_def split: if_splits)
  qed
qed


definition flicker_at :: "BOARD_LED_STATE \<Rightarrow> nat \<Rightarrow> bool \<Rightarrow> nat \<Rightarrow> LED_INFO \<Rightarrow> bool \<Rightarrow> bool" where
  "flicker_at st k low n p l \<longleftrightarrow>
     (if n \<le> k then ledState p = st \<and> flicker_left p (k - n) else ledState p = kLedStateOn \<and> l = (\<not> low))"

lemma flicker_step:
  assumes "plain_led p" "ledMask p \<noteq> 0" "flicker_once st" "n < Suc k" "flicker_at st k (ledActiveLow p) n p (lit p sa)"
    and "led_tick p sa = Inr (p', sb)"
  shows "flicker_at st k (ledActiveLow p) (Suc n) p' (lit p sb) \<and> gTimerOn sb"
proof -
  have h: "ledState p = st" "flicker_left p (k - n)" using assms(4,5) by (auto simp: flicker_at_def)
  have t: "led_tick p sa = bindR (led_flicker p sa) (\<lambda>(p', s'). Inr (p', ledTimerStart s'))"
    using assms(3) h(1) by (auto simp: led_tick_def flicker_once_def Let_def)
  then obtain s1 where f: "led_flicker p sa = Inr (p', s1)" "sb = ledTimerStart s1" using assms(6)
    by (cases "led_flicker p sa") auto
  show ?thesis
  proof (cases "n = k")
    case True
    have z: "led_flicker p sa = bindR (ledOn p sa) (\<lambda>(p1, s'). Inr (p1\<lparr>PauseCount := 0, FlickerCount := 0\<rparr>, s'))"
      using h assms(3) True by (auto simp: led_flicker_def flicker_left_def flicker_once_def)
    show ?thesis using ledOn_ok[OF assms(1,2), of sa] f True unfolding z by (auto simp: flicker_at_def ledTimerStart_def lit_def led_reg_def)
  next
    case False
    hence k: "flicker_left p (Suc (k - Suc n))" using h(2) assms(4) by (simp add: Suc_diff_Suc)
    show ?thesis using led_flicker_step[OF assms(1) _ k f(1)] h(1) assms(3,4) False f(2) by (auto simp: flicker_at_def ledTimerStart_def)
  qed
qed


section \<open>The control operation\<close>

text \<open>LED name \<open>name\<close> is the entry \<open>i\<close> of the table, and no hardware handler has taken it over.\<close>

definition led_ready :: "int \<Rightarrow> nat \<Rightarrow> LED_INFO list \<Rightarrow> 's led_sys \<Rightarrow> bool" where
  "led_ready name i leds s \<longleftrightarrow> 0 \<le> name \<and> name < MAX_VIRT_LEDS \<and> int (length (gpVirtLeds s)) = MAX_VIRT_LEDS \<and> int (length (gLedHwFunc s)) = MAX_VIRT_LEDS
     \<and> gpVirtLeds s ! nat name = Some i \<and> gLedHwFunc s ! nat name = None \<and> gLed s = Some leds \<and> gLedCount s = length leds
     \<and> leds_ok leds \<and> i < length leds \<and> ledMask (leds ! i) \<noteq> 0"

lemma boardLedCtrl_ready:
  assumes "led_ready name i leds s" "st \<noteq> kLedStateFail"
  shows "boardLedCtrl name st s = bindR (led_set name st (leds ! i) s) (\<lambda>(p, s'). Inr (s'\<lparr>gLed := Some (leds[i := p])\<rparr>))"
  using assms by (auto simp: led_ready_def boardLedCtrl_def led_at_def with_led_def Let_def)

lemma leds_ok_update:
  assumes "leds_ok leds" "wired p (leds ! i)"
  shows "leds_ok (leds[i := p])"
proof (rule leds_ok_wired[OF _ assms(1)])
  show "list_all2 wired (leds[i := p]) leds" using assms(2)
    by (auto simp: list_all2_conv_all_nth) (metis nth_list_update_eq nth_list_update_neq wired_refl)
qed

lemma led_state_ready:
  assumes "led_ready name i leds s" "gpVirtLeds s' = gpVirtLeds s" "gLed s' = Some ls" "length ls = length leds"
  shows "kerSysGetLedState name s' = Inr (Some (ledState (ls ! i)))"
  using assms by (auto simp: kerSysGetLedState_def led_ready_def led_at_def)

lemma ctrl_run:
  fixes s :: "'s led_sys"
  assumes "led_ready name i leds s" "wired p (leds ! i)" "s1 = (ledTimerStart s)\<lparr>gLed := Some (leds[i := p])\<rparr>"
    and "Q 0 p (lit p s)" "n \<le> N"
    and step: "\<And>m q q' sa (sb :: 's led_sys). m < N \<Longrightarrow> wired q p \<Longrightarrow> plain_led q \<Longrightarrow> Q m q (lit q sa) \<Longrightarrow> led_tick q sa = Inr (q', sb)
      \<Longrightarrow> Q (Suc m) q' (lit q sb) \<and> gTimerOn sb"
  shows "\<exists>s' q. expires n s1 = Inr s' \<and> gTimerOn s' \<and> kerSysGetLedState name s' = Inr (Some (ledState q)) \<and> Q n q (lit (leds ! i) s')"
proof -
  note r = assms(1)[unfolded led_ready_def]
  have s1: "gLed s1 = Some (leds[i := p])" "gLedCount s1 = length (leds[i := p])" "leds_ok (leds[i := p])" "i < length (leds[i := p])"
    "gTimerOn s1" "lit p s1 = lit p s" "gpVirtLeds s1 = gpVirtLeds s" and p: "leds[i := p] ! i = p"
    using r leds_ok_update[OF _ assms(2)] by (auto simp: assms(3) ledTimerStart_def lit_def led_reg_def)
  have "\<exists>s' ls. expires n s1 = Inr s' \<and> gLed s' = Some ls \<and> gLedCount s' = length ls \<and> leds_ok ls \<and> length ls = length (leds[i := p])
     \<and> wired (ls ! i) (leds[i := p] ! i) \<and> gpVirtLeds s' = gpVirtLeds s1 \<and> Q n (ls ! i) (lit (leds[i := p] ! i) s') \<and> (0 < n \<longrightarrow> gTimerOn s')"
    by (rule run_led[where Q = Q, OF s1(1-4) _ assms(5)]) (use assms(4) s1(6) step in \<open>simp_all add: p\<close>)
  then obtain s' ls where x: "expires n s1 = Inr s'" "gLed s' = Some ls" "length ls = length leds" "gpVirtLeds s' = gpVirtLeds s"
    "Q n (ls ! i) (lit p s')" "0 < n \<longrightarrow> gTimerOn s'" unfolding s1(7) p by auto
  have "lit p s' = lit (leds ! i) s'" using wired_cong(4)[OF assms(2)] .
  moreover have "gTimerOn s'" using x(1,6) s1(5) by (cases n) auto
  ultimately show ?thesis
    using x(1,5) led_state_ready[OF assms(1) x(4,2,3)] by (intro exI[of _ s'] exI[of _ "ls ! i"]) simp
qed

end
