(* ===== verification/Led_Tables.thy ===== *)
theory Led_Tables
  imports Led_Correct
begin

text \<open>
  The tables of the LED driver in every run: which names of LEDs lead to an index inside them.
\<close>

section \<open>Names of LEDs\<close>

type_synonym led_env = "LED_INFO list option \<times> nat \<times> nat option list \<times> nat option list \<times> nat option list"

definition led_env :: "'s led_sys \<Rightarrow> led_env" where
  "led_env s = (gLed s, gLedCount s, gpVirtLeds s, gLedHwFunc s, gLedHwFailFunc s)"

text \<open>An operation leaves the tables alone and does not read outside of them.\<close>

definition in_tables :: "'s led_sys \<Rightarrow> ('a \<times> 's led_sys) res \<Rightarrow> bool" where
  "in_tables s r \<longleftrightarrow> r \<noteq> Inl OutOfBounds \<and> (\<forall>x s'. r = Inr (x, s') \<longrightarrow> led_env s' = led_env s)"

lemma in_tables_Inr: "led_env s' = led_env s \<Longrightarrow> in_tables s (Inr (x, s'))"
  by (simp add: in_tables_def)

lemma in_tables_bind:
  assumes "in_tables s r" "\<And>x s1. led_env s1 = led_env s \<Longrightarrow> in_tables s1 (f x s1)"
  shows "in_tables s (bindR r (\<lambda>(x, s1). f x s1))"
proof (cases r)
  case (Inl e)
  thus ?thesis using assms(1) by (simp add: in_tables_def)
next
  case (Inr y)
  obtain x s1 where y: "y = (x, s1)" by (cases y)
  have e: "led_env s1 = led_env s" using assms(1) Inr y unfolding in_tables_def by blast
  show ?thesis using assms(2)[OF e, of x] unfolding Inr y in_tables_def by (simp add: e)
qed

lemma led_env_simps [simp]:
  "led_env (set_gpio f s) = led_env s" "led_env (ledTimerStart s) = led_env s" "led_env (blinkOnceTimerStart s) = led_env s"
  "led_env (call_hw g n st s) = led_env s" "led_env (s\<lparr>SerialLed := r\<rparr>) = led_env s" "led_env (s\<lparr>gTimerOn := b\<rparr>) = led_env s"
  by (simp_all add: led_env_def set_gpio_def ledTimerStart_def blinkOnceTimerStart_def call_hw_def)

lemma drive_tables: "led_drive m b l v s \<noteq> Inl OutOfBounds" "led_drive m b l v s = Inr s' \<Longrightarrow> led_env s' = led_env s"
  by (auto simp: led_drive_def split: if_splits)

lemma in_tables_if: "(b \<Longrightarrow> in_tables s x) \<Longrightarrow> (\<not> b \<Longrightarrow> in_tables s y) \<Longrightarrow> in_tables s (if b then x else y)"
  by simp

lemma led_ops_tables:
  "in_tables s (ledOn p s)" "in_tables s (ledOff p s)" "in_tables s (ledOnFail p s)" "in_tables s (ledOffFail p s)" "in_tables s (ledToggle p s)"
proof -
  have d: "in_tables s (bindR (led_drive m b l v s) (\<lambda>s'. Inr (f s', s')))" for m b l v and f :: "'a led_sys \<Rightarrow> 'b"
    using drive_tables[of m b l v s] by (cases "led_drive m b l v s") (simp_all add: in_tables_def)
  have n: "in_tables s (Inr (p, s))" by (simp add: in_tables_def)
  show "in_tables s (ledOn p s)" "in_tables s (ledOff p s)" "in_tables s (ledOnFail p s)" "in_tables s (ledOffFail p s)" "in_tables s (ledToggle p s)"
    unfolding ledOn_def ledOff_def ledOnFail_def ledOffFail_def ledToggle_def Let_def by (intro in_tables_if d n)+
qed

lemma toggle_saved_tables: "in_tables s (toggle_saved p s)"
  unfolding toggle_saved_def by (rule in_tables_bind[OF led_ops_tables(5)]) (simp add: in_tables_def)

lemmas tables_intros = in_tables_if toggle_saved_tables led_ops_tables in_tables_bind in_tables_Inr refl led_env_simps

lemma led_flicker_tables: "in_tables s (led_flicker p s)"
  unfolding led_flicker_def Let_def by (intro tables_intros)

lemma led_blink_tables: "in_tables s (led_blink c p s)" "in_tables s (led_blink_once p s)"
  unfolding led_blink_def led_blink_once_def Let_def by (intro tables_intros)+

lemma led_tick_tables: "in_tables s (led_tick p s)"
proof -
  have again: "in_tables s r \<Longrightarrow> in_tables s (bindR r (\<lambda>(p', s'). Inr (p', ledTimerStart s')))" for r :: "(LED_INFO \<times> 'a led_sys) res"
    by (rule in_tables_bind) (simp_all add: in_tables_def)
  have once: "in_tables s (bindR (ledToggle p (blinkOnceTimerStart s)) (\<lambda>(x, s'). Inr (p', if b then ledTimerStart s' else s')))" for p' :: LED_INFO and b
    using led_ops_tables(5)[where s = "blinkOnceTimerStart s" and p = p]
    by (cases "ledToggle p (blinkOnceTimerStart s)") (auto simp: in_tables_def)
  have still: "in_tables s (Inr (p', s))" for p' :: LED_INFO by (simp add: in_tables_def)
  show ?thesis
    unfolding led_tick_def Let_def using again[OF led_flicker_tables] again[OF led_blink_tables(1)] again[OF led_blink_tables(2)] once still
    by (cases "ledState p") (simp_all only: BOARD_LED_STATE.case)
qed

lemma led_ticks_tables: "n \<le> length ps \<Longrightarrow> in_tables s (led_ticks n ps s)"
proof (induction ps arbitrary: n s)
  case (Cons p ps)
  show ?case
  proof (cases n)
    case (Suc m)
    hence "in_tables s1 (led_ticks m ps s1)" for s1 :: "'a led_sys" using Cons by simp
    thus ?thesis unfolding Suc led_ticks.simps by (intro tables_intros led_tick_tables)
  qed (simp add: in_tables_def)
qed (simp add: in_tables_def)

lemma led_ticks_length: "led_ticks n ps s = Inr (ps', s') \<Longrightarrow> length ps' = length ps"
  by (induction n ps s arbitrary: ps' s' rule: led_ticks.induct) auto

text \<open>The tables: one slot for each name, \<^verbatim>\<open>gLedCount\<close> is the number of entries of \<^verbatim>\<open>gLed\<close>, and the slots in use
  name one of them.\<close>

definition led_tables :: "led_env \<Rightarrow> bool" where
  "led_tables t \<longleftrightarrow>
     (case t of (gl, cnt, v, hw, hwf) \<Rightarrow> length v = 15 \<and> length hw = 15 \<and> length hwf = 15
        \<and> (\<forall>leds. gl = Some leds \<longrightarrow> cnt = length leds)
        \<and> (\<forall>i. Some i \<in> set v \<longrightarrow> (\<exists>leds. gl = Some leds \<and> i < length leds)))"

definition led_name :: "int \<Rightarrow> bool" where
  "led_name name \<longleftrightarrow> 0 \<le> name \<and> name < 15"

lemma led_at_tables:
  assumes "led_tables (led_env s)" "led_name name"
  shows "led_at name (gpVirtLeds s) = Inr (gpVirtLeds s ! nat name)" "led_at name (gLedHwFunc s) = Inr (gLedHwFunc s ! nat name)"
    "led_at name (gLedHwFailFunc s) = Inr (gLedHwFailFunc s ! nat name)"
  using assms by (auto simp: led_tables_def led_env_def led_name_def led_at_def)

lemma led_set_tables:
  assumes "led_tables (led_env s)" "led_name name"
  shows "in_tables s (led_set name st p s)"
proof -
  have hw: "in_tables s (Inr (p, case g of Some f \<Rightarrow> call_hw f name kLedStateOff s | None \<Rightarrow> s))" for g
    by (cases g) (simp_all add: in_tables_def)
  have off: "in_tables s (off_fail name p s)" "in_tables s (off_normal name p s)"
    unfolding off_fail_def off_normal_def led_at_tables[OF assms] bindR_simps by (intro tables_intros hw)+
  have flick: "in_tables s (Inr (start_flicker t c k p s))" "in_tables s (Inr (start_blink t c p s))" "in_tables s (Inr (start_blink_once t c p s))" for t c k
    by (simp_all add: in_tables_def start_flicker_def start_blink_def start_blink_once_def)
  have then_: "in_tables s r \<Longrightarrow> (\<And>q s1. in_tables s1 (f q s1)) \<Longrightarrow>
      in_tables s (bindR r (\<lambda>(p1, s1). bindR (f p1 s1) (\<lambda>(p2, s2). Inr (p2\<lparr>nextFlickerState := n\<rparr>, s2))))"
    for r :: "(LED_INFO \<times> 'a led_sys) res" and f :: "LED_INFO \<Rightarrow> 'a led_sys \<Rightarrow> (LED_INFO \<times> 'a led_sys) res" and n
    by (intro in_tables_bind[of s r] in_tables_bind in_tables_Inr refl)
  have once: "in_tables s (bindR (ledToggle p s) (\<lambda>(_, s1). Inr (q, ledTimerStart s1)))" "in_tables s (Inr (p, s))" for q :: LED_INFO
    by (rule in_tables_bind[OF led_ops_tables(5)]) (simp_all add: in_tables_def)
  show ?thesis
    unfolding led_set_def by (cases st; simp only: BOARD_LED_STATE.case; intro in_tables_if then_ off flick once led_ops_tables)
qed

lemma with_led_tables:
  assumes "led_tables (led_env s)" "Some i \<in> set (gpVirtLeds s)" "\<And>p. in_tables s (f p s)"
  shows "with_led i f s \<noteq> Inl OutOfBounds" "with_led i f s = Inr s' \<Longrightarrow> led_tables (led_env s')"
proof -
  obtain leds where l: "gLed s = Some leds" "i < length leds" using assms(1,2) by (auto simp: led_tables_def led_env_def)
  have w: "with_led i f s = bindR (f (leds ! i) s) (\<lambda>(p, s'). Inr (s'\<lparr>gLed := Some (leds[i := p])\<rparr>))" using l by (simp add: with_led_def)
  show "with_led i f s \<noteq> Inl OutOfBounds" 
    using assms(3)[of "leds ! i"] unfolding w in_tables_def by (cases "f (leds ! i) s") (simp_all add: case_prod_beta)
  { assume "with_led i f s = Inr s'"
    then obtain p s1 where f: "f (leds ! i) s = Inr (p, s1)" "s' = s1\<lparr>gLed := Some (leds[i := p])\<rparr>" unfolding w by (auto simp: bindR_Inr_iff)
    have "led_env s1 = led_env s" using assms(3)[of "leds ! i"] f(1) unfolding in_tables_def by blast
    thus "led_tables (led_env s')" using assms(1) l f(2) by (auto simp: led_tables_def led_env_def) }
qed


definition table_safe :: "'s led_sys res \<Rightarrow> bool" where
  "table_safe r \<longleftrightarrow> r \<noteq> Inl OutOfBounds \<and> (\<forall>s'. r = Inr s' \<longrightarrow> led_tables (led_env s'))"

lemma table_safe_hw: "table_safe r \<Longrightarrow> table_safe (bindR r (\<lambda>s1. Inr (call_hw f name st s1)))"
  by (cases r) (simp_all add: table_safe_def)

lemma boardLedCtrl_tables:
  assumes "led_tables (led_env s)" "led_name name"
  shows "table_safe (boardLedCtrl name st s)"
proof -
  have n: "name < MAX_VIRT_LEDS" "nat name < length (gpVirtLeds s)" using assms by (auto simp: led_name_def led_tables_def led_env_def)
  have on: "table_safe (case gpVirtLeds s ! nat name of Some i \<Rightarrow> with_led i f s | None \<Rightarrow> Inr s)" if "\<And>p. in_tables s (f p s)" for f
    using with_led_tables[where f = f, OF assms(1) _ that] assms(1) nth_mem[OF n(2)] by (cases "gpVirtLeds s ! nat name") (auto simp: table_safe_def)
  have hw: "table_safe (Inr (call_hw f name t s))" for f t using assms(1) by (simp add: table_safe_def)
  have if_: "(if b then Inr x else Inr y) = Inr (if b then x else y)" for b and x y :: "nat option" by simp
  have sw: "table_safe (case g of Some h \<Rightarrow> Inr (call_hw h name kLedStateOff s) | None \<Rightarrow>
      (case gpVirtLeds s ! nat name of Some i \<Rightarrow> with_led i f s | None \<Rightarrow> Inr s))" if "\<And>p. in_tables s (f p s)" for f and g :: "nat option"
    using on[where f = f, OF that] hw by (cases g) simp_all
  show ?thesis
    unfolding boardLedCtrl_def led_at_tables[OF assms] if_P[OF n(1)] bindR_simps Let_def if_
    using table_safe_hw[OF sw[of ledOffFail "gLedHwFailFunc s ! nat name", OF led_ops_tables(4)]]
      table_safe_hw[OF sw[of ledOff "gLedHwFunc s ! nat name", OF led_ops_tables(2)]]
      on[of "\<lambda>p. led_set name (if st = kLedStateFail \<and> ledMaskFail p = 0 then kLedStateSlowBlinkContinues else st) p",
         OF led_set_tables[OF assms]]
    by (cases "gLedHwFunc s ! nat name"; cases "gLedHwFailFunc s ! nat name"; cases "st = kLedStateFail") simp_all
qed

lemma boardLedCtrl_outside:
  assumes "led_tables (led_env s)" "\<not> led_name name"
  shows "boardLedCtrl name st s = Inl OutOfBounds"
  using assms by (auto simp: boardLedCtrl_def led_at_def led_tables_def led_env_def led_name_def Let_def)

lemma ledTimerExpire_tables:
  assumes "led_tables (led_env s)"
  shows "table_safe (ledTimerExpire s)"
proof (cases "gLed s")
  case None
  thus ?thesis using assms by (simp add: ledTimerExpire_def Let_def table_safe_def)
next
  case (Some leds)
  have c: "gLedCount s = length leds" using assms Some by (simp add: led_tables_def led_env_def)
  note t = led_ticks_tables[where s = "s\<lparr>gTimerOn := False\<rparr>" and ps = leds and n = "length leds", OF order_refl]
  show ?thesis
  proof (cases "led_ticks (length leds) leds (s\<lparr>gTimerOn := False\<rparr>)")
    case (Inl e)
    thus ?thesis using t assms Some c unfolding ledTimerExpire_def Let_def table_safe_def in_tables_def by simp
  next
    case (Inr y)
    obtain ls s1 where y: "y = (ls, s1)" by (cases y)
    have "led_env s1 = led_env s" "length ls = length leds" using t led_ticks_length Inr y unfolding in_tables_def by auto
    thus ?thesis using Inr y Some assms c by (auto simp: ledTimerExpire_def Let_def table_safe_def led_tables_def led_env_def)
  qed
qed

lemma register_tables:
  assumes "led_tables (led_env s)" "kerSysLedRegisterHwHandler name f k s = Inr s'"
  shows "led_tables (led_env s')"
  using assms by (auto simp: kerSysLedRegisterHwHandler_def led_tables_def led_env_def split: if_splits)


lemma initLedInfo_env:
  assumes "initLedInfo m p0 s = Inr (b, p', s')"
  shows "led_env s' = led_env s"
proof -
  have ops: "led_env s' = led_env s" if "ledOn q s = Inr (p', s') \<or> ledOff q s = Inr (p', s') \<or> ledOnFail q s = Inr (p', s')" for q
    using that led_ops_tables(1-3)[of s q] unfolding in_tables_def by blast
  show ?thesis using assms ops by (cases "lm_ledInitState m") (auto simp: initLedInfo_def Let_def)
qed

lemma find_led_less: "find_led m leds = Some j \<Longrightarrow> j < length leds"
  by (induction m leds arbitrary: j rule: find_led.induct) (auto split: if_splits)

lemma set_virt_slots:
  assumes "set_virt name j v = Inr v'" "\<forall>i. Some i \<in> set v \<longrightarrow> i < n" "j < n'" "n \<le> n'"
  shows "length v' = length v" "\<forall>i. Some i \<in> set v' \<longrightarrow> i < n'"
  using assms set_update_subset_insert[of v "nat name" "Some j"] by (fastforce simp: set_virt_def split: if_splits)+

lemma init_leds_tables:
  assumes "init_leds seen ps leds virt nt s = Inr (leds', virt', nt', s')" "\<forall>i. Some i \<in> set virt \<longrightarrow> i < length leds"
    "length leds \<le> gLedCount s"
  shows "length virt' = length virt \<and> (\<forall>i. Some i \<in> set virt' \<longrightarrow> i < length leds') \<and> led_env s' = led_env s
    \<and> length leds' \<le> gLedCount s"
  using assms
proof (induction seen ps leds virt nt s rule: init_leds.induct)
  case (2 seen p1 ps leds virt nt s)
  consider (skip) "lm_ledName p1 > MAX_VIRT_LEDS" | (new) "\<not> lm_ledName p1 > MAX_VIRT_LEDS" "\<not> already_used seen p1"
    | (gone) "\<not> lm_ledName p1 > MAX_VIRT_LEDS" "already_used seen p1" "find_led p1 leds = None"
    | (old) j where "\<not> lm_ledName p1 > MAX_VIRT_LEDS" "already_used seen p1" "find_led p1 leds = Some j" by fastforce
  thus ?case
  proof cases
    case skip
    thus ?thesis using 2 by simp
  next
    case new
    obtain b p s1 v where i: "initLedInfo p1 LED_INFO0 s = Inr (b, p, s1)" "set_virt (lm_ledName p1) (length leds) virt = Inr v"
      "init_leds (seen @ [p1]) ps (leds @ [p]) v b s1 = Inr (leds', virt', nt', s')" and n: "\<not> gLedCount s \<le> length leds"
      using "2.prems"(1) new by (auto split: if_splits)
    have c: "gLedCount s1 = gLedCount s" using initLedInfo_env[OF i(1)] by (simp add: led_env_def)
    note v = set_virt_slots[OF i(2) "2.prems"(2), of "length (leds @ [p])"]
    show ?thesis using "2.IH"(2)[OF new n i(1) refl refl i(2,3)] v initLedInfo_env[OF i(1)] n c by simp
  next
    case gone
    thus ?thesis using 2 by simp
  next
    case (old j)
    obtain v where i: "set_virt (lm_ledName p1) j virt = Inr v"
      "init_leds (seen @ [p1]) ps (leds[j := complete_led p1 (leds ! j)]) v nt s = Inr (leds', virt', nt', s')"
      using "2.prems"(1) old by auto
    note v = set_virt_slots[OF i(1) "2.prems"(2) find_led_less[OF old(3)]]
    show ?thesis using "2.IH"(4)[OF _ _ old(3) i] old(1,2) v "2.prems"(3) by simp
  qed
qed simp


lemma alloc_leds_tables:
  assumes "alloc_leds ps s = Inr s'" "led_tables (None, gLedCount s, gpVirtLeds s, gLedHwFunc s, gLedHwFailFunc s)"
  shows "led_tables (led_env s')"
proof -
  obtain r k where k: "kmalloc (led_ker s) = (r, k)" by (cases "kmalloc (led_ker s)")
  have none: "\<forall>i. Some i \<in> set (gpVirtLeds s) \<longrightarrow> i < length ([] :: LED_INFO list)" using assms(2) by (auto simp: led_tables_def)
  show ?thesis
  proof (cases r)
    case None
    thus ?thesis using assms k by (auto simp: alloc_leds_def led_env_def)
  next
    case (Some a)
    then obtain leds virt nt s6 where l: "init_leds [] ps [] (gpVirtLeds s) False (s\<lparr>led_ker := k\<rparr>) = Inr (leds, virt, nt, s6)"
      "led_env s' = (Some (leds @ replicate (gLedCount s - length leds) LED_INFO0), gLedCount s6, virt, gLedHwFunc s6, gLedHwFailFunc s6)"
      using assms(1) k by (auto simp: alloc_leds_def Let_def led_env_def ledTimerStart_def split: if_splits)
    show ?thesis using init_leds_tables[OF l(1) none] assms(2) unfolding l(2) by (auto simp: led_tables_def led_env_def)
  qed
qed

lemma boardLedInit_tables:
  assumes "boardLedInit tbl s = Inr s'"
  shows "led_tables (led_env s')"
proof -
  have other: "r = Inr x" if "(if b then Inl e else r) = Inr x" for b e r and x :: "'a led_sys" using that by (simp split: if_splits)
  show ?thesis by (rule alloc_leds_tables[OF other[OF assms[unfolded boardLedInit_def Let_def]]]) (simp add: led_tables_def)
qed

text \<open>The initialisation fills no more entries than it has counted.\<close>

lemma initLedInfo_bounds: "initLedInfo m p0 s \<noteq> Inl OutOfBounds"
proof -
  have d: "bindR r (\<lambda>(p', s'). Inr (False, p', s')) \<noteq> Inl OutOfBounds" if "in_tables s r" for r :: "(LED_INFO \<times> 'a led_sys) res"
    using that by (cases r) (auto simp: in_tables_def)
  show ?thesis unfolding initLedInfo_def Let_def by (simp add: d[OF led_ops_tables(1)] d[OF led_ops_tables(2)] d[OF led_ops_tables(3)] split: BOARD_LED_STATE.split)
qed

lemma init_leds_bounds:
  assumes "\<forall>p \<in> set ps. 0 \<le> lm_ledName p \<and> lm_ledName p \<noteq> 15" "length virt = 15"
    "length leds + count_leds seen ps \<le> gLedCount s"
  shows "init_leds seen ps leds virt nt s \<noteq> Inl OutOfBounds"
  using assms
proof (induction seen ps leds virt nt s rule: init_leds.induct)
  case (2 seen p1 ps leds virt nt s)
  consider (skip) "lm_ledName p1 > MAX_VIRT_LEDS" | (new) "\<not> lm_ledName p1 > MAX_VIRT_LEDS" "\<not> already_used seen p1"
    | (gone) "\<not> lm_ledName p1 > MAX_VIRT_LEDS" "already_used seen p1" "find_led p1 leds = None"
    | (old) j where "\<not> lm_ledName p1 > MAX_VIRT_LEDS" "already_used seen p1" "find_led p1 leds = Some j" by fastforce
  thus ?case
  proof cases
    case skip
    thus ?thesis using 2 by (simp split: if_splits)
  next
    case new
    have v: "set_virt (lm_ledName p1) k virt = Inr (virt[nat (lm_ledName p1) := Some k])" for k
      using new(1) "2.prems"(1,2) by (auto simp: set_virt_def)
    have n: "\<not> gLedCount s \<le> length leds" using "2.prems"(3) new(2) by simp
    show ?thesis
    proof (cases "initLedInfo p1 LED_INFO0 s")
      case (Inl e)
      thus ?thesis using new n initLedInfo_bounds[of p1 LED_INFO0 s] by simp
    next
      case (Inr y)
      then obtain b p s1 where i: "initLedInfo p1 LED_INFO0 s = Inr (b, p, s1)" by (cases y) auto
      have "gLedCount s1 = gLedCount s" using initLedInfo_env[OF i] by (simp add: led_env_def)
      thus ?thesis using "2.IH"(2)[OF new n i refl refl v] "2.prems" new n i v by simp
    qed
  next
    case gone
    thus ?thesis using 2 by simp
  next
    case (old j)
    have v: "set_virt (lm_ledName p1) j virt = Inr (virt[nat (lm_ledName p1) := Some j])"
      using old(1) "2.prems"(1,2) by (auto simp: set_virt_def)
    show ?thesis using "2.IH"(4)[OF _ _ old(3) v] old v "2.prems" by simp
  qed
qed simp

lemma boardLedInit_bounds:
  assumes "\<exists>p \<in> set tbl. lm_ledName p = kLedEnd" "\<forall>p \<in> set tbl. 0 \<le> lm_ledName p \<and> lm_ledName p \<noteq> 15"
  shows "boardLedInit tbl s \<noteq> Inl OutOfBounds"
proof -
  define ps where "ps = takeWhile (\<lambda>p. lm_ledName p \<noteq> kLedEnd) tbl"
  have l: "length ps \<noteq> length tbl"
  proof
    assume "length ps = length tbl"
    hence "ps = tbl" unfolding ps_def by (metis takeWhile_eq_take take_all order_refl)
    thus False using assms(1) set_takeWhileD[of _ "\<lambda>p. lm_ledName p \<noteq> kLedEnd" tbl] unfolding ps_def by metis
  qed
  have n: "\<forall>p \<in> set ps. 0 \<le> lm_ledName p \<and> lm_ledName p \<noteq> 15" using assms(2) by (auto simp: ps_def dest: set_takeWhileD)
  have a: "alloc_leds ps s5 \<noteq> Inl OutOfBounds" if "gpVirtLeds s5 = replicate 15 None" "gLedCount s5 = count_leds [] ps" for s5 :: "'a led_sys"
  proof -
    obtain r k where k: "kmalloc (led_ker s5) = (r, k)" by (cases "kmalloc (led_ker s5)")
    have "init_leds [] ps [] (gpVirtLeds s5) False (s5\<lparr>led_ker := k\<rparr>) \<noteq> Inl OutOfBounds"
      by (rule init_leds_bounds[OF n]) (simp_all add: that)
    thus ?thesis using k
      by (cases "init_leds [] ps [] (gpVirtLeds s5) False (s5\<lparr>led_ker := k\<rparr>)") (auto simp: alloc_leds_def Let_def split: option.splits)
  qed
  show ?thesis unfolding boardLedInit_def Let_def ps_def[symmetric] if_not_P[OF l] by (rule a) simp_all
qed

section \<open>Every run of the driver\<close>

inductive led_reach :: "LED_MAP_PAIR list \<Rightarrow> 's led_sys \<Rightarrow> bool" for tbl where
  init: "boardLedInit tbl s0 = Inr s \<Longrightarrow> led_reach tbl s"
| ctrl: "led_reach tbl s \<Longrightarrow> boardLedCtrl name st s = Inr s' \<Longrightarrow> led_reach tbl s'"
| expire: "led_reach tbl s \<Longrightarrow> ledTimerExpire s = Inr s' \<Longrightarrow> led_reach tbl s'"
| once: "led_reach tbl s \<Longrightarrow> led_reach tbl (blinkOnceTimerExpire s)"
| register: "led_reach tbl s \<Longrightarrow> kerSysLedRegisterHwHandler name f k s = Inr s' \<Longrightarrow> led_reach tbl s'"

lemma led_reach_tables: "led_reach tbl s \<Longrightarrow> led_tables (led_env s)"
proof (induction rule: led_reach.induct)
  case (init s0 s)
  thus ?case by (rule boardLedInit_tables)
next
  case (ctrl s name st s')
  thus ?case using boardLedCtrl_tables[of s name st] boardLedCtrl_outside[of s name st] by (cases "led_name name") (auto simp: table_safe_def)
next
  case (expire s s')
  thus ?case using ledTimerExpire_tables[of s] by (simp add: table_safe_def)
next
  case (once s)
  thus ?case by (simp add: blinkOnceTimerExpire_def led_env_def)
next
  case (register s name f k s')
  thus ?case using register_tables by blast
qed

end
