(* ===== verification/Led_Props.thy ===== *)
theory Led_Props
  imports Led_Tables
begin

text \<open>
  The LEDs after their initialisation, the eight LEDs of the HG556, and the properties of the LED driver.
\<close>

section \<open>The LEDs after the initialisation\<close>

definition off_led :: "LED_MAP_PAIR \<Rightarrow> LED_INFO" where
  "off_led m =
     \<lparr>ledMask = lm_ledMask m, ledActiveLow = lm_ledActiveLow m, ledSerial = lm_ledSerial m, ledMaskFail = lm_ledMaskFail m,
      ledActiveLowFail = lm_ledActiveLowFail m, ledSerialFail = lm_ledSerialFail m, ledLastState = kLedStateUnknow, ledState = kLedStateOff,
      savedLedState = kLedStateOff, blinkCountDown = 0, FlickerCount = 0, PauseCount = 0, CycleStartCount = 0,
      nextFlickerState = kLedStateOff, ledlow32GPIO = lm_ledlow32GPIO m\<rparr>"

definition plain_entry :: "LED_MAP_PAIR \<Rightarrow> bool" where
  "plain_entry m \<longleftrightarrow> led_name (lm_ledName m) \<and> lm_ledInitState m = kLedStateOff \<and> \<not> lm_ledSerial m \<and> \<not> lm_ledSerialFail m \<and> lm_ledMask m \<noteq> 0"

text \<open>A table whose LEDs have different names and share no pin.\<close>

definition table_ok :: "LED_MAP_PAIR list \<Rightarrow> bool" where
  "table_ok ps \<longleftrightarrow> (\<forall>p \<in> set ps. plain_entry p) \<and> distinct (map lm_ledName ps)
     \<and> sorted_wrt (\<lambda>p q. led_pins (off_led p) AND led_pins (off_led q) = 0) ps"

definition kept :: "'s led_sys \<Rightarrow> 's led_sys \<Rightarrow> bool" where
  "kept s s' \<longleftrightarrow> led_env s' = led_env s \<and> gLedCount s' = gLedCount s \<and> led_EquipTestMode s' = led_EquipTestMode s"

lemma initLedInfo_off:
  assumes "plain_entry m"
  shows "\<exists>s'. initLedInfo m LED_INFO0 s = Inr (False, off_led m, s') \<and> kept s s'"
proof -
  have "\<exists>s'. led_drive k False l v s = Inr s' \<and> kept s s'" for k l v
    by (auto simp: led_drive_def kept_def led_env_def set_gpio_def)
  then obtain s' where s': "led_drive (lm_ledMask m) False (lm_ledlow32GPIO m) (lm_ledActiveLow m) s = Inr s'" "kept s s'" by blast
  show ?thesis using assms s' by (simp add: plain_entry_def initLedInfo_def Let_def ledOff_def off_led_def LED_INFO0_def)
qed

fun slots :: "nat \<Rightarrow> LED_MAP_PAIR list \<Rightarrow> nat option list \<Rightarrow> nat option list" where
  "slots n [] v = v"
| "slots n (p # ps) v = slots (Suc n) ps (v[nat (lm_ledName p) := Some n])"

lemma slots_length [simp]: "length (slots n ps v) = length v"
  by (induction ps arbitrary: n v) auto

lemma slots_other: "\<forall>p \<in> set ps. nat (lm_ledName p) \<noteq> k \<Longrightarrow> slots n ps v ! k = v ! k"
  by (induction ps arbitrary: n v) auto

lemma slots_at:
  assumes "\<forall>p \<in> set ps. led_name (lm_ledName p)" "distinct (map lm_ledName ps)" "length v = 15" "i < length ps"
  shows "slots n ps v ! nat (lm_ledName (ps ! i)) = Some (n + i)"
  using assms
proof (induction ps arbitrary: n v i)
  case (Cons p ps)
  show ?case
  proof (cases i)
    case 0
    have "slots (Suc n) ps (v[nat (lm_ledName p) := Some n]) ! nat (lm_ledName p) = v[nat (lm_ledName p) := Some n] ! nat (lm_ledName p)"
    proof (intro slots_other ballI)
      fix q
      assume q: "q \<in> set ps"
      have "lm_ledName q \<noteq> lm_ledName p" using Cons.prems(2) imageI[OF q, of lm_ledName] by (metis distinct.simps(2) list.simps(9) set_map)
      moreover have "0 \<le> lm_ledName q" "0 \<le> lm_ledName p" using Cons.prems(1) q by (auto simp: led_name_def)
      ultimately show "nat (lm_ledName q) \<noteq> nat (lm_ledName p)" by simp
    qed
    moreover have "nat (lm_ledName p) < length v" using Cons.prems(1,3) by (auto simp: led_name_def)
    ultimately show ?thesis using 0 by simp
  next
    case (Suc j)
    thus ?thesis using Cons.IH[of "v[nat (lm_ledName p) := Some n]" j "Suc n"] Cons.prems by simp
  qed
qed simp

lemma disjoint_not_shared:
  assumes "plain_entry p" "plain_entry q" "led_pins (off_led p) AND led_pins (off_led q) = 0"
  shows "\<not> led_shared (lm_ledMask q) (lm_ledMaskFail q) (lm_ledMask p) (lm_ledMaskFail p)"
proof -
  have no: "\<not> (bit (lm_ledMask p OR lm_ledMaskFail p) n \<and> bit (lm_ledMask q OR lm_ledMaskFail q) n)" for n
    using assms(3) bit_and_iff[of "led_pins (off_led p)" "led_pins (off_led q)" n] by (simp add: led_pins_def off_led_def)
  have "m = 0" if "m = lm_ledMask p \<or> m = lm_ledMaskFail p" "m = lm_ledMask q \<or> m = lm_ledMaskFail q" for m
  proof (rule bit_word_eqI)
    fix n
    show "bit m n = bit 0 n" using that no[of n] by (auto simp: bit_or_iff)
  qed
  thus ?thesis unfolding led_shared_def by metis
qed


lemma already_used_off:
  "sorted_wrt (\<lambda>p q. led_pins (off_led p) AND led_pins (off_led q) = 0) (seen @ p # ps) \<Longrightarrow> \<forall>q \<in> set (seen @ p # ps). plain_entry q
    \<Longrightarrow> \<not> already_used seen p"
  using disjoint_not_shared by (auto simp: already_used_def list_ex_iff sorted_wrt_append)

lemma init_leds_off:
  assumes "sorted_wrt (\<lambda>p q. led_pins (off_led p) AND led_pins (off_led q) = 0) (seen @ ps)" "\<forall>q \<in> set (seen @ ps). plain_entry q" "length virt = 15"
    "length leds + length ps \<le> gLedCount s"
  shows "\<exists>nt' s'. init_leds seen ps leds virt nt s = Inr (leds @ map off_led ps, slots (length leds) ps virt, nt', s') \<and> kept s s'"
  using assms
proof (induction ps arbitrary: seen leds virt nt s)
  case (Cons p ps)
  have e: "plain_entry p" "led_name (lm_ledName p)" using Cons.prems(2) by (simp_all add: plain_entry_def)
  obtain s1 where i: "initLedInfo p LED_INFO0 s = Inr (False, off_led p, s1)" "kept s s1" using initLedInfo_off[OF e(1), of s] by blast
  have v: "set_virt (lm_ledName p) (length leds) virt = Inr (virt[nat (lm_ledName p) := Some (length leds)])"
    using e(2) Cons.prems(3) by (simp add: set_virt_def led_name_def)
  obtain nt' s' where r: "init_leds (seen @ [p]) ps (leds @ [off_led p]) (virt[nat (lm_ledName p) := Some (length leds)]) False s1
      = Inr ((leds @ [off_led p]) @ map off_led ps, slots (Suc (length leds)) ps (virt[nat (lm_ledName p) := Some (length leds)]), nt', s')" "kept s1 s'"
    using Cons.IH[of "seen @ [p]" "virt[nat (lm_ledName p) := Some (length leds)]" "leds @ [off_led p]" s1 False] Cons.prems i(2)
    by (auto simp: kept_def)
  have "\<not> lm_ledName p > MAX_VIRT_LEDS" using e(2) by (simp add: led_name_def)
  thus ?case using already_used_off[OF Cons.prems(1,2)] Cons.prems(4) i v r by (auto simp: kept_def)
qed (simp add: kept_def)

lemma count_leds_off:
  assumes "sorted_wrt (\<lambda>p q. led_pins (off_led p) AND led_pins (off_led q) = 0) (seen @ ps)" "\<forall>q \<in> set (seen @ ps). plain_entry q"
  shows "count_leds seen ps = length ps"
  using assms
proof (induction ps arbitrary: seen)
  case (Cons p ps)
  thus ?case using already_used_off[OF Cons.prems] Cons.IH[of "seen @ [p]"] by simp
qed simp


lemma leds_ok_off:
  assumes "table_ok ps"
  shows "leds_ok (map off_led ps)"
proof -
  have "led_pins (off_led (ps ! i)) AND led_pins (off_led (ps ! j)) = 0" if "i < j" "j < length ps" for i j
    using assms that by (simp add: table_ok_def sorted_wrt_iff_nth_less)
  hence "apart (off_led (ps ! i)) (off_led (ps ! j))" if "i < length ps" "j < length ps" "i \<noteq> j" for i j
    using that linorder_neqE_nat[OF that(3)] and.commute[of "led_pins (off_led (ps ! i))"] by (metis apart_def)
  thus ?thesis using assms by (auto simp: leds_ok_def table_ok_def plain_entry_def plain_led_def off_led_def)
qed

lemma alloc_leds_ready:
  assumes "table_ok ps" "gpVirtLeds s = replicate 15 None" "gLedHwFunc s = replicate 15 None" "gLedCount s = length ps"
    and "kmalloc (led_ker s) = (Some a, k)"
  shows "\<exists>s'. alloc_leds ps s = Inr s' \<and> led_EquipTestMode s' = led_EquipTestMode s
     \<and> (\<forall>i < length ps. led_ready (lm_ledName (ps ! i)) i (map off_led ps) s')"
proof -
  have ps: "sorted_wrt (\<lambda>p q. led_pins (off_led p) AND led_pins (off_led q) = 0) ([] @ ps)" "\<forall>q \<in> set ([] @ ps). plain_entry q"
    "\<forall>p \<in> set ps. led_name (lm_ledName p)" "distinct (map lm_ledName ps)" using assms(1) by (simp_all add: table_ok_def plain_entry_def)
  obtain nt s6 where i: "init_leds [] ps [] (gpVirtLeds s) False (s\<lparr>led_ker := k\<rparr>) = Inr (map off_led ps, slots 0 ps (replicate 15 None), nt, s6)"
    "kept (s\<lparr>led_ker := k\<rparr>) s6" using init_leds_off[OF ps(1,2), of "replicate 15 None" "[]" "s\<lparr>led_ker := k\<rparr>" False] assms(2,4) by auto
  define s7 where "s7 = s6\<lparr>gLed := Some (map off_led ps), gpVirtLeds := slots 0 ps (replicate 15 None)\<rparr>"
  define s' where "s' = (if nt then ledTimerStart s7 else s7)"
  have a: "alloc_leds ps s = Inr s'" using i(1) assms(4,5) by (simp add: alloc_leds_def s'_def s7_def)
  have f: "gLed s' = Some (map off_led ps)" "gpVirtLeds s' = slots 0 ps (replicate 15 None)" "gLedHwFunc s' = replicate 15 None"
    "gLedCount s' = length ps" "led_EquipTestMode s' = led_EquipTestMode s"
    using i(2) assms(3,4) by (auto simp: s'_def s7_def kept_def led_env_def ledTimerStart_def)
  have "led_ready (lm_ledName (ps ! j)) j (map off_led ps) s'" if "j < length ps" for j
  proof -
    have e: "plain_entry (ps ! j)" using ps(2) that by simp
    have "nat (lm_ledName (ps ! j)) < 15" using e by (auto simp: plain_entry_def led_name_def)
    thus ?thesis using f leds_ok_off[OF assms(1)] e that slots_at[OF ps(3,4), of "replicate 15 None" j 0]
      by (simp add: led_ready_def plain_entry_def led_name_def off_led_def)
  qed
  thus ?thesis using a f(5) by blast
qed

lemma boardLedInit_ready:
  assumes "takeWhile (\<lambda>p. lm_ledName p \<noteq> kLedEnd) tbl = ps" "length ps \<noteq> length tbl" "table_ok ps" "\<forall>n. kmalloc_ok (led_ker s) n"
  shows "\<exists>s'. boardLedInit tbl s = Inr s' \<and> led_EquipTestMode s' = led_EquipTestMode s
     \<and> (\<forall>i < length ps. led_ready (lm_ledName (ps ! i)) i (map off_led ps) s')"
proof -
  have "\<exists>s5. boardLedInit tbl s = alloc_leds ps s5 \<and> gpVirtLeds s5 = replicate 15 None \<and> gLedHwFunc s5 = replicate 15 None
      \<and> gLedCount s5 = count_leds [] ps \<and> kmalloc_ok (led_ker s5) = kmalloc_ok (led_ker s) \<and> led_EquipTestMode s5 = led_EquipTestMode s"
    unfolding boardLedInit_def Let_def assms(1) if_not_P[OF assms(2)] by (rule exI, rule conjI, rule refl) (simp add: set_gpio_def)
  then obtain s5 where b: "boardLedInit tbl s = alloc_leds ps s5" and s5: "gpVirtLeds s5 = replicate 15 None" "gLedHwFunc s5 = replicate 15 None"
    "gLedCount s5 = count_leds [] ps" "kmalloc_ok (led_ker s5) = kmalloc_ok (led_ker s)" "led_EquipTestMode s5 = led_EquipTestMode s" by blast
  have c: "gLedCount s5 = length ps" using s5(3) count_leds_off[of "[]" ps] assms(3) by (simp add: table_ok_def)
  obtain a k where "kmalloc (led_ker s5) = (Some a, k)" using assms(4) s5(4) by (simp add: kmalloc_def Let_def)
  from alloc_leds_ready[OF assms(3) s5(1,2) c this] show ?thesis unfolding b s5(5) .
qed


section \<open>The LEDs of the HG556\<close>

definition dark_board :: "unit led_sys" where
  "dark_board =
     \<lparr>led_ker = \<lparr>flash_dev = (), g_flash_info = None, fInfo = fInfo0, flashInitialized = False,
        cur_bp = Some g_huawei96358gw_HG556iso, gpio = \<lparr>GPIODir_high = 0, GPIODir = 0, GPIOio_high = 0, GPIOio = 0\<rparr>,
        kmalloc_ok = (\<lambda>_. True), kmalloc_calls = 0, heap_live = {}\<rparr>,
      SerialLed = 0, ser_stuck = False, LEDCtrl = 0, GPIOMode = 0, pcmcia_cntl1 = 0, gTimerOn = False, gBlinkOnceTimerOn = False,
      gLedCount = 0, gLed = None, gpVirtLeds = [], gLedHwFunc = [], gLedHwFailFunc = [], hw_calls = [], led_EquipTestMode = 0,
      g_ledInitialized = False\<rparr>"

definition hg556_led :: "int \<Rightarrow> u32 \<Rightarrow> u32 \<Rightarrow> LED_MAP_PAIR" where
  "hg556_led n m f =
     \<lparr>lm_ledName = n, lm_ledInitState = kLedStateOff, lm_ledMask = m, lm_ledActiveLow = True, lm_ledSerial = False,
      lm_ledMaskFail = f, lm_ledActiveLowFail = f \<noteq> 0, lm_ledSerialFail = False, lm_ledlow32GPIO = 0\<rparr>"

definition hg556_leds :: "LED_MAP_PAIR list" where
  "hg556_leds =
     [hg556_led kLedMessage 0x1000 0, hg556_led kLedAdsl 4 0, hg556_led kLedHspa 0x8000 0, hg556_led kLedPower 8 0,
      hg556_led kLedLan1 1 0x2000, hg556_led kLedLan2 2 0x400000, hg556_led kLedLan3 0x800000 0x4000000,
      hg556_led kLedLan4 0x8000000 0x10000000]"

lemma hg556_table:
  "takeWhile (\<lambda>p. lm_ledName p \<noteq> kLedEnd) (led_table (Some g_huawei96358gw_HG556iso)) = hg556_leds"
  "length (led_table (Some g_huawei96358gw_HG556iso)) = 15"
  by code_simp+

lemma hg556_leds_ok: "table_ok hg556_leds" "length hg556_leds = 8" "lm_ledName (hg556_leds ! 1) = kLedAdsl"
  by (simp_all add: hg556_leds_def table_ok_def plain_entry_def hg556_led_def led_name_def led_pins_def off_led_def)

lemma hg556_ready:
  "\<exists>s. boardLedInit (led_table (Some g_huawei96358gw_HG556iso)) dark_board = Inr s \<and> led_EquipTestMode s = 0
     \<and> led_ready kLedAdsl 1 (map off_led hg556_leds) s"
proof -
  have "length hg556_leds \<noteq> length (led_table (Some g_huawei96358gw_HG556iso))" by (simp add: hg556_leds_ok(2) hg556_table(2))
  then obtain s where s: "boardLedInit (led_table (Some g_huawei96358gw_HG556iso)) dark_board = Inr s"
    "led_EquipTestMode s = led_EquipTestMode dark_board" "\<forall>i < length hg556_leds. led_ready (lm_ledName (hg556_leds ! i)) i (map off_led hg556_leds) s"
    using boardLedInit_ready[OF hg556_table(1) _ hg556_leds_ok(1), of dark_board] by (auto simp: dark_board_def)
  have "led_ready (lm_ledName (hg556_leds ! 1)) 1 (map off_led hg556_leds) s" using s(3) by (rule allE[of _ 1]) (simp add: hg556_leds_ok(2))
  thus ?thesis using s(1,2) unfolding hg556_leds_ok(3) by (simp add: dark_board_def)
qed




text \<open>C12: A single flicker ends. The LED keeps the flicker state for 20 expiries (24 for the fast one) and is on after the next one.\<close>

theorem flicker_once_ends:
  assumes "led_ready name i leds s" "FlickerCount (leds ! i) = 0" "PauseCount (leds ! i) = 0" "led_EquipTestMode s \<noteq> 1"
    and "st = kLedStateSlowFlickerOnce \<and> k = 20 \<or> st = kLedStateFastFlickerOnce \<and> k = 24" "n \<le> Suc k"
  shows "\<exists>s1 s'. boardLedCtrl name st s = Inr s1 \<and> expires n s1 = Inr s' \<and> gTimerOn s'
     \<and> kerSysGetLedState name s' = Inr (Some (if n \<le> k then st else kLedStateOn))
     \<and> (n = Suc k \<longrightarrow> lit (leds ! i) s' = (\<not> ledActiveLow (leds ! i)))"
proof -
  obtain p where p: "start_flicker st (if k = 20 then kSlowBlinkCount else kFastBlinkCount) (if k = 20 then kPauseCount - k500ms else kPauseCount)
      (leds ! i) s = (p, ledTimerStart s)" "flicker_left p k" "ledState p = st" "wired p (leds ! i)"
    using assms(2-5) by (auto simp: start_flicker_def flicker_left_def wired_def)
  define s1 where "s1 = (ledTimerStart s)\<lparr>gLed := Some (leds[i := p])\<rparr>"
  have o: "flicker_once st" using assms(5) by (auto simp: flicker_once_def)
  have b: "boardLedCtrl name st s = Inr s1"
    using boardLedCtrl_ready[OF assms(1), of st] assms(5) p(1) by (auto simp: led_set_def s1_def)
  have low: "ledActiveLow q = ledActiveLow (leds ! i)" if "wired q p" for q using wired_cong(6)[OF that] wired_cong(6)[OF p(4)] by simp
  have q: "flicker_at st k (ledActiveLow (leds ! i)) 0 p (lit p s)" using p(2,3) by (simp add: flicker_at_def)
  have m: "ledMask q \<noteq> 0" if "wired q p" for q
    using assms(1) wired_cong(5)[OF that] wired_cong(5)[OF p(4)] by (simp add: led_ready_def)
  have st: "flicker_at st k (ledActiveLow (leds ! i)) (Suc m') q' (lit r sb) \<and> gTimerOn sb"
    if "m' < Suc k" "wired r p" "plain_led r" "flicker_at st k (ledActiveLow (leds ! i)) m' r (lit r sa)" "led_tick r sa = Inr (q', sb)"
    for m' r q' sa and sb :: "'a led_sys"
    using flicker_step[OF that(3) m[OF that(2)] o that(1) _ that(5)] that(4) low[OF that(2)] by simp
  have "\<exists>s' q. expires n s1 = Inr s' \<and> gTimerOn s' \<and> kerSysGetLedState name s' = Inr (Some (ledState q))
      \<and> flicker_at st k (ledActiveLow (leds ! i)) n q (lit (leds ! i) s')"
    by (rule ctrl_run[OF assms(1) p(4) s1_def, where Q = "flicker_at st k (ledActiveLow (leds ! i))", OF q assms(6)]) (rule st)
  thus ?thesis using b assms(6) by (auto simp: flicker_at_def)
qed

theorem flicker_once_ends_witness:
  "\<exists>s s1 s'. boardLedInit (led_table (Some g_huawei96358gw_HG556iso)) dark_board = Inr s
     \<and> boardLedCtrl kLedAdsl kLedStateSlowFlickerOnce s = Inr s1 \<and> expires 21 s1 = Inr s'
     \<and> kerSysGetLedState kLedAdsl s' = Inr (Some kLedStateOn) \<and> \<not> lit (off_led (hg556_leds ! 1)) s'"
proof -
  obtain s where s: "boardLedInit (led_table (Some g_huawei96358gw_HG556iso)) dark_board = Inr s" "led_EquipTestMode s = 0"
    "led_ready kLedAdsl 1 (map off_led hg556_leds) s" using hg556_ready by blast
  have "ledActiveLow (off_led (hg556_leds ! 1))" by (simp add: off_led_def hg556_leds_def hg556_led_def)
  moreover have "FlickerCount (map off_led hg556_leds ! 1) = 0" "PauseCount (map off_led hg556_leds ! 1) = 0"
    using hg556_leds_ok(2) by (simp_all add: off_led_def)
  ultimately show ?thesis
    using flicker_once_ends[OF s(3), of kLedStateSlowFlickerOnce 20 21] s(1,2) hg556_leds_ok(2) by fastforce
qed


text \<open>C19: In every run of the LED driver, \<open>boardLedCtrl\<close> indexes its tables outside of their bounds exactly for the names
  from 15 on (and negative ones). The block of LEDs has \<open>gLedCount\<close> entries, so that the loop of the timer stays inside of it, and
  the initialisation does not write beyond it for a table that ends with \<open>kLedEnd\<close> and has no negative name and no LED 15.\<close>

theorem led_name_bounds:
  assumes "led_reach tbl s"
  shows "(boardLedCtrl name st s = Inl OutOfBounds \<longleftrightarrow> name < 0 \<or> 15 \<le> name) \<and> ledTimerExpire s \<noteq> Inl OutOfBounds
    \<and> (\<forall>leds. gLed s = Some leds \<longrightarrow> length leds = gLedCount s)
    \<and> ((\<exists>p \<in> set tbl. lm_ledName p = kLedEnd) \<and> (\<forall>p \<in> set tbl. 0 \<le> lm_ledName p \<and> lm_ledName p \<noteq> 15)
        \<longrightarrow> boardLedInit tbl s0 \<noteq> Inl OutOfBounds)"
proof -
  note t = led_reach_tables[OF assms]
  have "boardLedCtrl name st s = Inl OutOfBounds \<longleftrightarrow> \<not> led_name name"
    using boardLedCtrl_tables[OF t, of name st] boardLedCtrl_outside[OF t, of name st] by (auto simp: table_safe_def)
  thus ?thesis using ledTimerExpire_tables[OF t] t boardLedInit_bounds[of tbl s0]
    by (auto simp: table_safe_def led_name_def led_tables_def led_env_def)
qed

theorem led_name_bounds_witness:
  "\<exists>s :: unit led_sys. led_reach (led_table (Some g_huawei96358gw_HG556iso)) s \<and> gLedCount s = 8
     \<and> boardLedCtrl kLedLine0 kLedStateOff s = Inl OutOfBounds \<and> boardLedCtrl kLedVoip kLedStateOff s \<noteq> Inl OutOfBounds
     \<and> ledTimerExpire s \<noteq> Inl OutOfBounds"
proof -
  obtain s where s: "boardLedInit (led_table (Some g_huawei96358gw_HG556iso)) dark_board = Inr s" "led_ready kLedAdsl 1 (map off_led hg556_leds) s"
    using hg556_ready by blast
  have "boardLedCtrl n kLedStateOff s = Inl OutOfBounds \<longleftrightarrow> n < 0 \<or> 15 \<le> n" "ledTimerExpire s \<noteq> Inl OutOfBounds" for n
    using led_name_bounds[OF led_reach.init[OF s(1)], of n kLedStateOff] by blast+
  thus ?thesis using led_reach.init[OF s(1)] s(2) hg556_leds_ok(2) by (intro exI[of _ s]) (simp add: led_ready_def)
qed

end
