(* ===== verification/Spec2Isabelle.thy ===== *)
theory Spec2Isabelle
  imports Prelude Crc32 Bring_Up Scratch_Pad_Correct Button_Props Mac_Correct Led_Props
begin

text \<open>
  \<^bold>\<open>The board support of the Huawei EchoLife HG556a\<close>

  The program is the firmware source of a DSL gateway with a Broadcom 6358. This development covers the part of it that
  owns the persistent state and the front panel of the board: the flash chip, what is stored in it, the firmware upgrade,
  the board parameters, pins, buttons, LEDs and MAC addresses. Paths below are relative to \<^verbatim>\<open>src\<close>; \<^verbatim>\<open>board.c\<close>,
  \<^verbatim>\<open>bcm63xx_flash.c\<close> and \<^verbatim>\<open>bcm63xx_led.c\<close> are those of \<^verbatim>\<open>bcmdrivers/opensource/char/board/bcm963xx/impl1\<close>.
  The code is taken as it is compiled for the HG556 (\<^verbatim>\<open>CONFIG_BCM96358\<close>, \<^verbatim>\<open>WIRELESS\<close>).

  \<^bold>\<open>Parts and theories\<close>

  \<^item> \<open>Prelude\<close>: machine widths and the wrap-around of a signed sum, the type \<open>res\<close> of calls that may fault, byte buffers whose accesses are checked, sector
    arithmetic and big-endian encodings. A \<open>fault\<close> is what a call does instead of returning: an access outside of an object,
    a null pointer, a second \<^verbatim>\<open>kfree\<close>, a semaphore that is never released, a loop that never ends, a reset of the board.
  \<^item> \<open>Crc32\<close>: the table of \<^verbatim>\<open>bcmTag.h\<close> and \<^verbatim>\<open>getCrc32\<close>. The table driven code is the bitwise reflected CRC and
    detects every burst of four bytes.
  \<^item> \<open>Flash_Api\<close>: \<^verbatim>\<open>flash_api.c\<close> and the contract of a flash device, the locale \<open>flash_device\<close>: reads, erases, writes and
    sector queries act on a flat list of bytes. \<open>Nor_Chip\<close> is the contract of a chip with the AMD command set
    (\<open>nor_chip\<close>), which is hardware and so a parameter. \<open>Cfi_Flash\<close> and \<open>Cfi_Init\<close> are \<^verbatim>\<open>cfiflash.c\<close>; \<open>Cfi_Correct\<close>
    proves that the driver gives the contract of a device on every chip (\<open>cfi_board\<close>, a sublocale of \<open>flash_device\<close>), and
    \<open>Cfi_Init_Correct\<close> what the detection establishes whatever the chip answers: bases and total size are 32 bit sums, exact
    below 2 GB. \<open>Sim_Chip\<close> is a simulated chip and
    \<open>Bring_Up\<close> interprets the locales on it, as an 8 MB bottom boot part, with the model of the driver.
  \<^item> \<open>Board_Parms\<close>, \<open>Board_Parms_Correct\<close>: \<^verbatim>\<open>boardparms.c\<close>, the table of boards and its access functions. \<open>Gpio\<close>: the pins,
    the readers of the version straps and \<^verbatim>\<open>SetGpio\<close>.
  \<^item> \<open>Flash_Store\<close>: the allocation with retries and the read and write of a partition in \<^verbatim>\<open>bcm63xx_flash.c\<close>. \<open>Nvram\<close>: the NVRAM
    block, its checksum and the bytes it occupies. \<open>Flash_Layout\<close>: \<^verbatim>\<open>kerSysFlashInit\<close> and the locale \<open>mapped_flash\<close> of a device that is also mapped into
    memory. \<open>Board_Flash\<close> shows that a CFI board is one, and boots the simulated board. \<open>Flash_Parts\<close>: an operation on one
    partition changes no other partition.
  \<^item> \<open>Scratch_Pad\<close>, \<open>Scratch_Pad_Scan\<close>, \<open>Scratch_Pad_Map\<close>, \<open>Scratch_Pad_Correct\<close>: the scratch pad, from the scans over its
    bytes to the map from names to data that \<^verbatim>\<open>kerSysScratchPadGet\<close> and \<^verbatim>\<open>kerSysScratchPadSet\<close> implement.
  \<^item> \<open>Vsprintf\<close>, \<open>Vsprintf_Correct\<close>: \<^verbatim>\<open>simple_strtoul\<close>, \<^verbatim>\<open>number\<close>, \<^verbatim>\<open>vsnprintf\<close> and \<^verbatim>\<open>sprintf\<close> of
    \<^verbatim>\<open>kernel/linux/lib/vsprintf.c\<close>, which print and read the numbers in an image tag. What is printed without a width is
    read back in the same base.
  \<^item> \<open>Image_Set\<close>, \<open>Image_Tag\<close>, \<open>Image_Tag_Correct\<close>, \<open>Upgrade\<close>, \<open>Upgrade_Boot\<close>, \<open>Upgrade_Correct\<close>: \<^verbatim>\<open>kerSysBcmImageSet\<close>, the
    image tags and \<^verbatim>\<open>flashFsKernelImage\<close> of \<^verbatim>\<open>board.c\<close>. An upgrade writes the sealed image and nothing else, and the board
    then boots it.
  \<^item> \<open>Flash_Ioctl\<close>, \<open>Ioctl_Store\<close>, \<open>Ioctl_Correct\<close>: the commands of \<^verbatim>\<open>board_ioctl\<close> that read and write the flash and those of
    the equipment test. The write and read commands refine updates and lookups of a store of ten byte lists.
  \<^item> \<open>Buttons\<close>, \<open>Buttons_Correct\<close>, \<open>Button_Props\<close>: the pollers of the four buttons and the restoring of the factory settings.
  \<^item> \<open>Mac_Pool\<close>, \<open>Mac_Correct\<close>: the pool of MAC addresses and the heap block that holds it.
  \<^item> \<open>Leds\<close>, \<open>Led_Correct\<close>, \<open>Led_Tables\<close>, \<open>Led_Props\<close>: the LED driver and the table of LEDs of \<^verbatim>\<open>brcm_board_init\<close>. Each LED is
    followed through any number of timer expiries on its own, since the pins of different LEDs are disjoint, and the loop of the timer stays in
    the block of LEDs.

  \<^bold>\<open>State and operations\<close>

  A component has a record with the fields of its static variables and structures, and one definition for each function of
  the source with the name of that function; a part of a long function has a definition of its own, and the map of the
  manifest gives its lines. The driver of the chip (\<open>cfi_state\<close>) is inside the record of the flash layer (\<open>kersys\<close>), which
  is inside those of the ioctl (\<open>board_drv\<close>), the buttons (\<open>btn_state\<close>) and the LEDs (\<open>led_sys\<close>). Allocation is an oracle in
  \<open>kersys\<close>: \<open>kmalloc_ok n\<close> tells whether call \<open>n\<close> succeeds, and the live blocks are tracked. Timers are the number of
  ticks they are set to, with 200 ticks in a second as \<^verbatim>\<open>asm-mips/mach-generic/param.h\<close> defines. Interrupts and
  other processes appear where the code reads what they change: the write flag before each poll, the flag at each test of a
  wait, a signal at the semaphore, the level of each pin.

  \<^bold>\<open>Bounds and fuel\<close>

  Loops of the source are structural recursion or functions with a termination proof where they end on every input. The two
  polling loops of the chip driver are \<^const>\<open>while_option\<close>, and their end is proved from the contract of the chip, which says
  that an operation completes. Fuel is used twice. \<open>image_loop\<close> gets one more than the number of bytes, and each block takes
  at least one. \<open>sp_replace\<close> gets the length in use, and each token takes at least its header; with damaged token
  lengths the scan may not end, which is the fault \<open>Hang\<close>. The theorems on the two say that the result is reached.
  \<^verbatim>\<open>vsnprintf\<close> recurses on its format, which every conversion shortens; the 66 characters of \<^verbatim>\<open>number\<close> suffice for every base.
  Variables are kept at their width where a sum can leave it: registers, addresses, sizes and lengths of an image, the sector
  table, the count of the WLAN key. The count of the restore button is an unbounded integer: the \<^verbatim>\<open>int\<close> of the source would
  have to be counted up for decades to wrap.
  The retries of the source (1000 allocations, ten tests of the write flag, the retries of a word) are
  modelled with their numbers.

  \<^bold>\<open>Not modelled\<close>

  \<^item> The other commands of \<^verbatim>\<open>board_ioctl\<close> (\<^verbatim>\<open>board.c\<close> from line 3174 on, without those for MAC addresses and the equipment
    test), the extended MAC addresses, the file operations and the SES button: copies between user memory, the wait queue
    and interrupt lines, and variables that other drivers read.
  \<^item> \<^verbatim>\<open>dyinggasp.c\<close> but for \<^verbatim>\<open>dg_setScheduleState\<close>, and the power loss handlers of \<^verbatim>\<open>board.c\<close>: stacks and registers of
    the running kernel. Of the recorder, the calls from the scheduler, the trap handler and the network code are commented
    out.
  \<^item> \<^verbatim>\<open>fault_detect\<close>: the supervision of the data card works on the registers of the USB host and on a state that is set
    outside of the board driver.
  \<^item> \<^verbatim>\<open>spiflash.c\<close>: the call of the SPI driver in \<^verbatim>\<open>flash_init\<close> is commented out.
  \<^item> The directory \<^verbatim>\<open>bcm96358\<close> beside \<^verbatim>\<open>impl1\<close>, a later edition of the same three files. The LED and flash files agree but for an
    empty line. In its \<^verbatim>\<open>board.c\<close> the WLAN key always sets \<^verbatim>\<open>WPS_FLAG\<close>, the restore clears one more field, and the WLAN status
    command can set the flag.
  \<^item> The rest of the Linux kernel, the network, DSL, voice and USB drivers, the camera drivers, the user programs and the build scripts:
    third-party code, hardware access, or programs that reach this part through the ioctl only.
\<close>

end
